(* ===== verification/MPC_Prelude.thy ===== *)
theory MPC_Prelude
  imports Main "HOL-Library.Word" "HOL-Library.Char_ord" "HOL-Library.List_Lexorder"
    "HOL-Library.Sublist" "HOL-Library.Multiset"
begin

text \<open>
  Shared ground of the development: Go's conventions that every component uses.

  \<^item> Go values: byte strings are \<open>string\<close>, a \<open>map[string]string\<close> that is only looked up and
    written is a partial function (\<open>strmap\<close>), one that is ranged over is an association list
    in the order in which the \<open>range\<close> statement visits it (\<open>gomap\<close>). A nil map is \<open>None\<close>
    where the code distinguishes it.
  \<^item> Go errors (\<open>goerror\<close>): values, with the wrapping that \<open>%w\<close> builds, so that
    \<open>errors.Is\<close> and the API error predicates see through a wrapped error as they do in Go.
  \<^item> Go effects (\<open>go\<close>): a state transformer that may panic. Sequencing is \<open>bnd\<close>.
  \<^item> The weakest-precondition calculus on it (\<open>wp\<close>: does not panic and establishes the
    postcondition; \<open>wlp\<close>: establishes it unless it panics).
\<close>

named_theorems go_defs \<open>definitions of the effect combinators\<close>
named_theorems wp \<open>weakest-precondition equations\<close>
named_theorems emits \<open>rules for the events a command adds to the history\<close>
named_theorems ok \<open>rules for commands that return and only add permitted events\<close>

section \<open>Values\<close>

type_synonym strmap = "string \<rightharpoonup> string"

type_synonym gomap = "(string \<times> string) list"

text \<open>\<open>m[k]\<close> on a Go map of strings: the zero value for an absent key; a nil map reads as empty.\<close>

definition lk :: "gomap \<Rightarrow> string \<Rightarrow> string" where
  "lk m k = (case map_of m k of None \<Rightarrow> [] | Some v \<Rightarrow> v)"

definition mget :: "strmap option \<Rightarrow> string \<Rightarrow> string" where
  "mget m k = (case m of None \<Rightarrow> [] | Some f \<Rightarrow> (case f k of None \<Rightarrow> [] | Some v \<Rightarrow> v))"

text \<open>\<open>delete(m, k)\<close>: a no-op on a nil map.\<close>

definition mdel :: "strmap option \<Rightarrow> string \<Rightarrow> strmap option" where
  "mdel m k = map_option (\<lambda>f. f(k := None)) m"

text \<open>\<open>m[k] = v\<close>: assigning to a nil map panics; \<open>None\<close> is the panic.\<close>

definition mset_at :: "strmap option \<Rightarrow> string \<Rightarrow> string \<Rightarrow> strmap option option" where
  "mset_at m k v = (case m of None \<Rightarrow> None | Some f \<Rightarrow> Some (Some (f(k \<mapsto> v))))"

lemma mget_Some [simp]: "mget (Some f) k = (case f k of None \<Rightarrow> [] | Some v \<Rightarrow> v)"
  by (simp add: mget_def)

lemma mget_None [simp]: "mget None k = []"
  by (simp add: mget_def)

lemma mget_mdel [simp]: "mget (mdel m k) k' = (if k' = k then [] else mget m k')"
  by (cases m) (auto simp: mdel_def)

lemma mdel_None [simp]: "mdel None k = None"
  by (simp add: mdel_def)

lemma mdel_Some [simp]: "mdel (Some f) k = Some (f(k := None))"
  by (simp add: mdel_def)

lemma mdel_eq_None [simp]: "(mdel m k = None) = (m = None)"
  by (simp add: mdel_def)

lemma mset_at_simps [simp]:
  "mset_at None k v = None"
  "mset_at (Some f) k v = Some (Some (f(k \<mapsto> v)))"
  by (simp_all add: mset_at_def)

lemma find_Some_in: "find P xs = Some x \<Longrightarrow> P x \<and> x \<in> set xs"
  by (induction xs) (auto split: if_splits)

section \<open>Machine integers\<close>

text \<open>Go's \<open>int\<close> and \<open>int64\<close> (both 64 bits wide on the supported targets) and \<open>int32\<close>
  wrap around in two's complement.\<close>

definition i64 :: "int \<Rightarrow> int" where
  "i64 x = sint (word_of_int x :: 64 word)"

definition fits :: "nat \<Rightarrow> int \<Rightarrow> bool" where
  "fits w x \<longleftrightarrow> - (2 ^ (w - 1)) \<le> x \<and> x < 2 ^ (w - 1)"

lemma i64_id: "fits 64 x \<Longrightarrow> i64 x = x"
  by (simp add: i64_def fits_def sint_sbintrunc' signed_take_bit_int_eq_self)

lemma fits_i64: "fits 64 (i64 x)"
  unfolding i64_def fits_def
  using sint_greater_eq [of "word_of_int x :: 64 word"] sint_less [of "word_of_int x :: 64 word"]
  by simp

section \<open>Errors\<close>

text \<open>The reasons of an API status error that the code asks about
  (\<open>IsNotFound\<close>, \<open>IsAlreadyExists\<close>, \<open>IsConflict\<close>, \<open>IsInternalError\<close>).\<close>

datatype api_reason = NotFound | AlreadyExists | Conflict | InternalError | OtherReason

text \<open>
  \<open>ErrNew s\<close> is \<open>errors.New(s)\<close> (or \<open>fmt.Errorf\<close> without a wrapped error);
  \<open>ErrWrap p e s\<close> is \<open>fmt.Errorf\<close> with \<open>%w\<close> for \<open>e\<close>, \<open>p\<close> the text before it and
  \<open>s\<close> the text after; \<open>ErrAPI\<close> is a status error of the API server; \<open>ErrNum\<close> is a
  \<open>strconv.NumError\<close>; \<open>ErrAllHostsFailed\<close> is the sentinel of the host pool; \<open>ErrExt\<close> is
  any other error produced outside this repository.
\<close>

datatype goerror =
    ErrNew string
  | ErrWrap string goerror string
  | ErrAPI api_reason string
  | ErrNum string string string
  | ErrAllHostsFailed
  | ErrExt string

text \<open>\<open>strconv.Quote\<close> on printable text: the quotation mark and the backslash are escaped.\<close>

definition Quote :: "string \<Rightarrow> string" where
  "Quote s = CHR 0x22 # concat (map (\<lambda>c. if c = CHR 0x22 \<or> c = CHR 0x5C then [CHR 0x5C, c] else [c]) s)
     @ [CHR 0x22]"

text \<open>\<open>err.Error()\<close>\<close>

fun Error :: "goerror \<Rightarrow> string" where
  "Error (ErrNew s) = s"
| "Error (ErrWrap p e s) = p @ Error e @ s"
| "Error (ErrAPI r s) = s"
| "Error (ErrNum f n why) = ''strconv.'' @ f @ '': parsing '' @ Quote n @ '': '' @ why"
| "Error ErrAllHostsFailed = ''all available hosts for the platform have failed''"
| "Error (ErrExt s) = s"

text \<open>\<open>errors.As\<close> for a status error: the first one along the chain of wrapped errors.\<close>

fun reason_of :: "goerror \<Rightarrow> api_reason option" where
  "reason_of (ErrWrap p e s) = reason_of e"
| "reason_of (ErrAPI r s) = Some r"
| "reason_of _ = None"

definition IsNotFound :: "goerror \<Rightarrow> bool" where
  "IsNotFound e \<longleftrightarrow> reason_of e = Some NotFound"

definition IsAlreadyExists :: "goerror \<Rightarrow> bool" where
  "IsAlreadyExists e \<longleftrightarrow> reason_of e = Some AlreadyExists"

definition IsConflict :: "goerror \<Rightarrow> bool" where
  "IsConflict e \<longleftrightarrow> reason_of e = Some Conflict"

definition IsInternalError :: "goerror \<Rightarrow> bool" where
  "IsInternalError e \<longleftrightarrow> reason_of e = Some InternalError"

text \<open>\<open>errors.Is(err, ErrAllHostsFailed)\<close>\<close>

fun IsAllHostsFailed :: "goerror \<Rightarrow> bool" where
  "IsAllHostsFailed (ErrWrap p e s) = IsAllHostsFailed e"
| "IsAllHostsFailed ErrAllHostsFailed = True"
| "IsAllHostsFailed _ = False"

section \<open>Effects\<close>

text \<open>A Go command: from a state to its result and the next state; \<open>None\<close> is a panic.\<close>

type_synonym ('w, 'a) go = "'w \<Rightarrow> ('a \<times> 'w) option"

definition ret :: "'a \<Rightarrow> ('w, 'a) go" where
  [go_defs]: "ret x = (\<lambda>w. Some (x, w))"

definition panic :: "('w, 'a) go" where
  [go_defs]: "panic = (\<lambda>w. None)"

definition bnd :: "('w, 'a) go \<Rightarrow> ('a \<Rightarrow> ('w, 'b) go) \<Rightarrow> ('w, 'b) go" where
  [go_defs]: "bnd m f = (\<lambda>w. case m w of None \<Rightarrow> None | Some (x, w') \<Rightarrow> f x w')"

text \<open>Continue with the value of a partial step, or panic.\<close>

definition must :: "'a option \<Rightarrow> ('a \<Rightarrow> ('w, 'b) go) \<Rightarrow> ('w, 'b) go" where
  [go_defs]: "must x f = (case x of None \<Rightarrow> panic | Some v \<Rightarrow> f v)"

definition modify :: "('w \<Rightarrow> 'w) \<Rightarrow> ('w, unit) go" where
  [go_defs]: "modify f = (\<lambda>w. Some ((), f w))"

definition reads :: "('w \<Rightarrow> 'a) \<Rightarrow> ('w, 'a) go" where
  [go_defs]: "reads f = (\<lambda>w. Some (f w, w))"

text \<open>\<open>for _, x := range xs\<close> with a body that carries a value from one round to the next.\<close>

fun foreach :: "('x \<Rightarrow> 'a \<Rightarrow> ('w, 'a) go) \<Rightarrow> 'x list \<Rightarrow> 'a \<Rightarrow> ('w, 'a) go" where
  "foreach f [] a = ret a"
| "foreach f (x # xs) a = bnd (f x a) (foreach f xs)"

lemma bnd_ret [simp]: "bnd (ret x) f = f x"
  by (simp add: go_defs)

lemma bnd_ret_right [simp]: "bnd m ret = m"
  by (auto simp: go_defs fun_eq_iff split: option.splits)

lemma bnd_assoc: "bnd (bnd m f) g = bnd m (\<lambda>x. bnd (f x) g)"
  by (auto simp: go_defs fun_eq_iff split: option.splits)

lemma bnd_panic [simp]: "bnd panic f = panic"
  by (simp add: go_defs)

section \<open>Weakest preconditions\<close>

definition wp :: "('w, 'a) go \<Rightarrow> ('a \<Rightarrow> 'w \<Rightarrow> bool) \<Rightarrow> 'w \<Rightarrow> bool" where
  "wp m Q w \<longleftrightarrow> (case m w of None \<Rightarrow> False | Some (x, w') \<Rightarrow> Q x w')"

definition wlp :: "('w, 'a) go \<Rightarrow> ('a \<Rightarrow> 'w \<Rightarrow> bool) \<Rightarrow> 'w \<Rightarrow> bool" where
  "wlp m Q w \<longleftrightarrow> (case m w of None \<Rightarrow> True | Some (x, w') \<Rightarrow> Q x w')"

lemma wp_ret [wp]: "wp (ret x) Q = Q x"
  by (simp add: wp_def go_defs fun_eq_iff)

lemma wp_panic [wp]: "wp panic Q w = False"
  by (simp add: wp_def go_defs)

lemma wp_bnd [wp]: "wp (bnd m f) Q = wp m (\<lambda>x. wp (f x) Q)"
  by (auto simp: wp_def go_defs fun_eq_iff split: option.splits prod.splits)

lemma wp_modify [wp]: "wp (modify f) Q w = Q () (f w)"
  by (simp add: wp_def go_defs)

lemma wp_reads [wp]: "wp (reads f) Q w = Q (f w) w"
  by (simp add: wp_def go_defs)

lemma wp_must [wp]: "wp (must x f) Q w = (case x of None \<Rightarrow> False | Some v \<Rightarrow> wp (f v) Q w)"
  by (auto simp: must_def wp split: option.splits)

lemma wp_if [wp]: "wp (if b then m else n) Q w = (if b then wp m Q w else wp n Q w)"
  by simp

lemma wlp_ret [wp]: "wlp (ret x) Q = Q x"
  by (simp add: wlp_def go_defs fun_eq_iff)

lemma wlp_panic [wp]: "wlp panic Q w = True"
  by (simp add: wlp_def go_defs)

lemma wlp_bnd [wp]: "wlp (bnd m f) Q = wlp m (\<lambda>x. wlp (f x) Q)"
  by (auto simp: wlp_def go_defs fun_eq_iff split: option.splits prod.splits)

lemma wlp_modify [wp]: "wlp (modify f) Q w = Q () (f w)"
  by (simp add: wlp_def go_defs)

lemma wlp_reads [wp]: "wlp (reads f) Q w = Q (f w) w"
  by (simp add: wlp_def go_defs)

lemma wlp_must [wp]: "wlp (must x f) Q w = (case x of None \<Rightarrow> True | Some v \<Rightarrow> wlp (f v) Q w)"
  by (auto simp: must_def wp split: option.splits)

lemma wlp_if [wp]: "wlp (if b then m else n) Q w = (if b then wlp m Q w else wlp n Q w)"
  by simp

text \<open>Consequence, conjunction, and the reading of a triple on a run.\<close>

lemma wp_mono: "wp m Q w \<Longrightarrow> (\<And>x w'. Q x w' \<Longrightarrow> R x w') \<Longrightarrow> wp m R w"
  by (auto simp: wp_def split: option.splits)

lemma wlp_mono: "wlp m Q w \<Longrightarrow> (\<And>x w'. Q x w' \<Longrightarrow> R x w') \<Longrightarrow> wlp m R w"
  by (auto simp: wlp_def split: option.splits)

lemma wp_conj: "wp m Q w \<Longrightarrow> wlp m R w \<Longrightarrow> wp m (\<lambda>x w'. Q x w' \<and> R x w') w"
  by (auto simp: wp_def wlp_def split: option.splits)

lemma wlp_conj: "wlp m Q w \<Longrightarrow> wlp m R w \<Longrightarrow> wlp m (\<lambda>x w'. Q x w' \<and> R x w') w"
  by (auto simp: wlp_def split: option.splits)

lemma wp_imp_wlp: "wp m Q w \<Longrightarrow> wlp m Q w"
  by (auto simp: wp_def wlp_def split: option.splits)

lemma wlp_true [simp]: "wlp m (\<lambda>_ _. True) w"
  by (auto simp: wlp_def split: option.splits)

lemma wlpD: "wlp m Q w \<Longrightarrow> m w = Some (x, w') \<Longrightarrow> Q x w'"
  by (simp add: wlp_def)

lemma wlpI: "(\<And>x w'. m w = Some (x, w') \<Longrightarrow> Q x w') \<Longrightarrow> wlp m Q w"
  by (auto simp: wlp_def split: option.splits)

lemma wp_iff_Some: "wp m Q w \<longleftrightarrow> (\<exists>x w'. m w = Some (x, w') \<and> Q x w')"
  by (auto simp: wp_def split: option.splits)

text \<open>Loop rule: an invariant over the elements still to visit.\<close>

lemma wp_foreach:
  assumes "I xs a w"
    and "\<And>x ys b v. I (x # ys) b v \<Longrightarrow> wp (f x b) (\<lambda>b' v'. I ys b' v') v"
  shows "wp (foreach f xs a) (\<lambda>b v. I [] b v) w"
  using assms(1)
proof (induction xs arbitrary: a w)
  case Nil
  then show ?case by (simp add: wp)
next
  case (Cons x xs)
  from Cons.prems have "wp (f x a) (\<lambda>b v. I xs b v) w"
    by (rule assms(2))
  then show ?case
    by (simp add: wp) (erule wp_mono, erule Cons.IH)
qed

lemma wlp_foreach:
  assumes "I xs a w"
    and "\<And>x ys b v. I (x # ys) b v \<Longrightarrow> wlp (f x b) (\<lambda>b' v'. I ys b' v') v"
  shows "wlp (foreach f xs a) (\<lambda>b v. I [] b v) w"
  using assms(1)
proof (induction xs arbitrary: a w)
  case Nil
  then show ?case by (simp add: wp)
next
  case (Cons x xs)
  from Cons.prems have "wlp (f x a) (\<lambda>b v. I xs b v) w"
    by (rule assms(2))
  then show ?case
    by (simp add: wp) (erule wlp_mono, erule Cons.IH)
qed

end
