(* ===== verification/Go_Strings.thy ===== *)
theory Go_Strings
  imports MPC_Prelude
begin

text \<open>
  The functions of Go's packages \<open>strings\<close> and \<open>strconv\<close> that the controller calls, on byte
  strings: \<open>Split\<close>, \<open>Join\<close>, \<open>ReplaceAll\<close>, \<open>TrimSpace\<close>, \<open>Index\<close>, \<open>LastIndex\<close>,
  \<open>ToLower\<close>, \<open>Atoi\<close>, \<open>ParseInt\<close>, \<open>Itoa\<close>, and the laws the components use: splitting and
  joining are inverse to each other, trimming is idempotent, printing and parsing an integer
  round-trips. \<open>HasPrefix(s, p)\<close> is \<open>prefix p s\<close> and \<open>Contains(s, t)\<close> is \<open>sublist t s\<close> of
  the library.
\<close>

section \<open>Split, Join, ReplaceAll\<close>

text \<open>\<open>strings.Split(s, sep)\<close> for a separator of one byte.\<close>

fun Split :: "char \<Rightarrow> string \<Rightarrow> string list" where
  "Split c [] = [[]]"
| "Split c (x # xs) =
     (if x = c then [] # Split c xs
      else (case Split c xs of [] \<Rightarrow> [[x]] | y # ys \<Rightarrow> (x # y) # ys))"

text \<open>\<open>strings.Join(elems, sep)\<close>\<close>

fun Join :: "string \<Rightarrow> string list \<Rightarrow> string" where
  "Join sep [] = []"
| "Join sep [x] = x"
| "Join sep (x # y # ys) = x @ sep @ Join sep (y # ys)"

text \<open>\<open>strings.ReplaceAll(s, old, new)\<close> for \<open>old\<close> and \<open>new\<close> of one byte.\<close>

definition ReplaceAll :: "char \<Rightarrow> char \<Rightarrow> string \<Rightarrow> string" where
  "ReplaceAll a b s = map (\<lambda>x. if x = a then b else x) s"

lemma Split_not_Nil [simp]: "Split c s \<noteq> []"
  by (cases s) (auto split: list.split)

lemma Split_no_sep: "p \<in> set (Split c s) \<Longrightarrow> c \<notin> set p"
  by (induction s arbitrary: p) (fastforce split: if_splits list.splits)+

lemma Split_absent: "c \<notin> set s \<Longrightarrow> Split c s = [s]"
  by (induction s) auto

lemma Split_append_sep: "c \<notin> set p \<Longrightarrow> Split c (p @ c # s) = p # Split c s"
  by (induction p) auto

lemma Split_snoc: "c \<notin> set b \<Longrightarrow> Split c (m @ c # b) = Split c m @ [b]"
proof (induction m)
  case Nil
  then show ?case by (simp add: Split_absent)
next
  case (Cons x m)
  then show ?case by (cases "Split c m") auto
qed

lemma Join_Cons: "xs \<noteq> [] \<Longrightarrow> Join sep (x # xs) = x @ sep @ Join sep xs"
  by (cases xs) simp_all

lemma Join_Split: "Join [c] (Split c s) = s"
proof (induction s)
  case Nil
  show ?case by simp
next
  case (Cons x s)
  obtain y ys where eq: "Split c s = y # ys" by (cases "Split c s") auto
  show ?case
  proof (cases "x = c")
    case True
    with Cons.IH show ?thesis by (simp add: Join_Cons)
  next
    case False
    with Cons.IH eq show ?thesis by (cases ys) simp_all
  qed
qed

lemma Split_Join:
  assumes "xs \<noteq> []" and "\<And>x. x \<in> set xs \<Longrightarrow> c \<notin> set x"
  shows "Split c (Join [c] xs) = xs"
  using assms
proof (induction xs)
  case Nil
  then show ?case by simp
next
  case (Cons x xs)
  show ?case
  proof (cases xs)
    case Nil
    with Cons.prems show ?thesis by (simp add: Split_absent)
  next
    case (Cons y ys)
    with Cons.IH Cons.prems show ?thesis by (simp add: Split_append_sep)
  qed
qed

text \<open>Joining is injective on lists whose members do not hold the separator.\<close>

lemma Join_inj:
  assumes "Join [c] xs = Join [c] ys" and "xs \<noteq> []" and "ys \<noteq> []"
    and "\<And>x. x \<in> set xs \<Longrightarrow> c \<notin> set x" and "\<And>y. y \<in> set ys \<Longrightarrow> c \<notin> set y"
  shows "xs = ys"
proof -
  have "xs = Split c (Join [c] xs)" using assms(2,4) by (simp add: Split_Join)
  also have "\<dots> = Split c (Join [c] ys)" by (simp only: assms(1))
  also have "\<dots> = ys" using assms(3,5) by (simp add: Split_Join)
  finally show ?thesis .
qed

lemma ReplaceAll_absent: "a \<noteq> b \<Longrightarrow> a \<notin> set (ReplaceAll a b s)"
  by (auto simp: ReplaceAll_def)

lemma ReplaceAll_id: "a \<notin> set s \<Longrightarrow> ReplaceAll a b s = s"
  by (auto simp: ReplaceAll_def intro!: map_idI)

lemma ReplaceAll_idem [simp]: "ReplaceAll a b (ReplaceAll a b s) = ReplaceAll a b s"
  by (simp add: ReplaceAll_def o_def)

lemma length_ReplaceAll [simp]: "length (ReplaceAll a b s) = length s"
  by (simp add: ReplaceAll_def)

text \<open>A value between single quotation marks, as the error messages print it.\<close>

definition sq :: "string \<Rightarrow> string" where
  "sq s = CHR 0x27 # s @ [CHR 0x27]"

section \<open>Index, LastIndex and slices\<close>

text \<open>\<open>strings.Index\<close> and \<open>strings.LastIndex\<close> for a one-byte needle; -1 if absent.\<close>

fun Index :: "string \<Rightarrow> char \<Rightarrow> int" where
  "Index [] c = -1"
| "Index (x # xs) c =
     (if x = c then 0 else let i = Index xs c in if i = -1 then -1 else i + 1)"

definition LastIndex :: "string \<Rightarrow> char \<Rightarrow> int" where
  "LastIndex s c = (let i = Index (rev s) c in if i = -1 then -1 else int (length s) - 1 - i)"

text \<open>\<open>s[a:]\<close> and \<open>s[a:b]\<close>, for indices in range.\<close>

definition slice_from :: "string \<Rightarrow> int \<Rightarrow> string" where
  "slice_from s a = drop (nat a) s"

definition slice :: "string \<Rightarrow> int \<Rightarrow> int \<Rightarrow> string" where
  "slice s a b = take (nat (b - a)) (drop (nat a) s)"

lemma Index_bounds: "-1 \<le> Index s c \<and> Index s c < int (length s)"
  by (induction s) (auto simp: Let_def)

lemma Index_absent: "(Index s c = -1) = (c \<notin> set s)"
proof (induction s)
  case (Cons x s)
  have "Index s c + 1 \<noteq> -1" using Index_bounds [of s c] by simp
  with Cons show ?case by (auto simp: Let_def)
qed simp

lemma Index_first: "c \<notin> set p \<Longrightarrow> Index (p @ c # s) c = int (length p)"
  by (induction p) auto

lemma LastIndex_last: "c \<notin> set s \<Longrightarrow> LastIndex (p @ c # s) c = int (length p)"
  by (simp add: LastIndex_def Index_first Let_def)

lemma LastIndex_absent: "(LastIndex s c = -1) = (c \<notin> set s)"
  using Index_bounds [of "rev s" c] by (auto simp: LastIndex_def Let_def Index_absent)

section \<open>TrimSpace\<close>

text \<open>The UTF-8 encodings of the code points that \<open>unicode.IsSpace\<close> accepts.\<close>

definition space_runes :: "string list" where
  "space_runes =
     [[CHR 0x09], [CHR 0x0A], [CHR 0x0B], [CHR 0x0C], [CHR 0x0D], [CHR 0x20],
      [CHR 0xC2, CHR 0x85], [CHR 0xC2, CHR 0xA0], [CHR 0xE1, CHR 0x9A, CHR 0x80],
      [CHR 0xE2, CHR 0x80, CHR 0x80], [CHR 0xE2, CHR 0x80, CHR 0x81], [CHR 0xE2, CHR 0x80, CHR 0x82],
      [CHR 0xE2, CHR 0x80, CHR 0x83], [CHR 0xE2, CHR 0x80, CHR 0x84], [CHR 0xE2, CHR 0x80, CHR 0x85],
      [CHR 0xE2, CHR 0x80, CHR 0x86], [CHR 0xE2, CHR 0x80, CHR 0x87], [CHR 0xE2, CHR 0x80, CHR 0x88],
      [CHR 0xE2, CHR 0x80, CHR 0x89], [CHR 0xE2, CHR 0x80, CHR 0x8A], [CHR 0xE2, CHR 0x80, CHR 0xA8],
      [CHR 0xE2, CHR 0x80, CHR 0xA9], [CHR 0xE2, CHR 0x80, CHR 0xAF], [CHR 0xE2, CHR 0x81, CHR 0x9F],
      [CHR 0xE3, CHR 0x80, CHR 0x80]]"

text \<open>Drop members of \<open>rs\<close> from the front as long as one is there. An empty member would make
  no progress and ends the loop.\<close>

function trim_front :: "string list \<Rightarrow> string \<Rightarrow> string" where
  "trim_front rs s =
     (case find (\<lambda>r. prefix r s) rs of
        None \<Rightarrow> s
      | Some r \<Rightarrow> if r = [] then s else trim_front rs (drop (length r) s))"
  by pat_completeness auto
termination
proof (relation "measure (\<lambda>(rs, s). length s)", goal_cases)
  case (2 rs s r)
  then have "prefix r s" by (metis find_Some_in)
  then have "length r \<le> length s" by (rule prefix_length_le)
  with 2 show ?case by (cases r) auto
qed simp

declare trim_front.simps [simp del]

definition TrimSpace :: "string \<Rightarrow> string" where
  "TrimSpace s = rev (trim_front (map rev space_runes) (rev (trim_front space_runes s)))"

text \<open>\<open>strings.TrimLeft(s, cutset)\<close> for an ASCII cutset.\<close>

definition TrimLeft :: "string \<Rightarrow> string \<Rightarrow> string" where
  "TrimLeft s cutset = dropWhile (\<lambda>c. c \<in> set cutset) s"

lemma space_runes_not_Nil: "[] \<notin> set space_runes" "[] \<notin> set (map rev space_runes)"
  by (simp_all add: space_runes_def)

lemma trim_front_suffix: "suffix (trim_front rs s) s"
proof (induction rs s rule: trim_front.induct)
  case (1 rs s)
  show ?case
  proof (cases "find (\<lambda>r. prefix r s) rs")
    case None
    then show ?thesis by (simp add: trim_front.simps [of rs s])
  next
    case (Some r)
    show ?thesis
    proof (cases "r = []")
      case True
      with Some show ?thesis by (simp add: trim_front.simps [of rs s])
    next
      case False
      with Some "1.IH" have "suffix (trim_front rs (drop (length r) s)) (drop (length r) s)" by simp
      then have "suffix (trim_front rs (drop (length r) s)) s"
        by (rule suffix_order.trans) (rule suffix_drop)
      with Some False show ?thesis by (simp add: trim_front.simps [of rs s])
    qed
  qed
qed

lemma trim_front_done:
  assumes "[] \<notin> set rs"
  shows "r \<in> set rs \<Longrightarrow> \<not> prefix r (trim_front rs s)"
  using assms
proof (induction rs s rule: trim_front.induct)
  case (1 rs s)
  show ?case
  proof (cases "find (\<lambda>r. prefix r s) rs")
    case None
    with "1.prems" show ?thesis by (simp add: trim_front.simps [of rs s]) (auto simp: find_None_iff)
  next
    case (Some r')
    with "1.prems" have "r' \<noteq> []" by (metis find_Some_in)
    with Some "1.IH" "1.prems" show ?thesis by (simp add: trim_front.simps [of rs s])
  qed
qed

lemma trim_front_id: "(\<And>r. r \<in> set rs \<Longrightarrow> \<not> prefix r s) \<Longrightarrow> trim_front rs s = s"
  by (subst trim_front.simps) (simp add: find_None_iff [THEN iffD2] split: option.split)

lemma TrimSpace_prefix_free:
  assumes "r \<in> set space_runes"
  shows "\<not> prefix r (TrimSpace s)"
proof
  assume p: "prefix r (TrimSpace s)"
  have "suffix (rev (TrimSpace s)) (rev (trim_front space_runes s))"
    by (simp add: TrimSpace_def trim_front_suffix)
  then have "prefix (TrimSpace s) (trim_front space_runes s)"
    by (simp add: suffix_to_prefix)
  with p have "prefix r (trim_front space_runes s)" by (rule prefix_order.trans)
  with trim_front_done [OF space_runes_not_Nil(1) assms] show False by blast
qed

lemma TrimSpace_suffix_free:
  assumes "r \<in> set space_runes"
  shows "\<not> suffix r (TrimSpace s)"
proof
  assume "suffix r (TrimSpace s)"
  then have "prefix (rev r) (rev (TrimSpace s))" by (simp add: suffix_to_prefix)
  then have "prefix (rev r) (trim_front (map rev space_runes) (rev (trim_front space_runes s)))"
    by (simp add: TrimSpace_def)
  moreover have "rev r \<in> set (map rev space_runes)" using assms by simp
  ultimately show False using trim_front_done [OF space_runes_not_Nil(2)] by blast
qed

lemma TrimSpace_idem: "TrimSpace (TrimSpace s) = TrimSpace s"
proof -
  let ?t = "TrimSpace s"
  have 1: "trim_front space_runes ?t = ?t"
    by (rule trim_front_id) (rule TrimSpace_prefix_free)
  have 2: "trim_front (map rev space_runes) (rev ?t) = rev ?t"
    by (rule trim_front_id) (auto simp: suffix_to_prefix [symmetric] dest: TrimSpace_suffix_free)
  show ?thesis by (subst TrimSpace_def) (simp add: 1 2)
qed

lemma TrimSpace_Nil [simp]: "TrimSpace [] = []"
  using trim_front_suffix [of space_runes "[]"] trim_front_suffix [of "map rev space_runes" "[]"]
  by (simp add: TrimSpace_def)

section \<open>ToLower\<close>

text \<open>\<open>strings.ToLower\<close> on ASCII letters. Outside ASCII the function only matters to the code as
  part of a comparison with the ASCII prefix \<open>aws:\<close>, and no code point outside ASCII has one of
  the letters a, w, s as its lower case.\<close>

definition lower_char :: "char \<Rightarrow> char" where
  "lower_char c = (if (65::nat) \<le> of_char c \<and> of_char c \<le> (90::nat) then char_of (of_char c + (32::nat)) else c)"

definition ToLower :: "string \<Rightarrow> string" where
  "ToLower s = map lower_char s"

lemma length_ToLower [simp]: "length (ToLower s) = length s"
  by (simp add: ToLower_def)

section \<open>Integers\<close>

definition is_digit :: "char \<Rightarrow> bool" where
  "is_digit c \<longleftrightarrow> (48::nat) \<le> of_char c \<and> of_char c \<le> (57::nat)"

definition digit_val :: "char \<Rightarrow> int" where
  "digit_val c = int (of_char c) - 48"

text \<open>The value of a digit string, most significant digit first.\<close>

definition digits_val :: "string \<Rightarrow> int" where
  "digits_val s = foldl (\<lambda>n c. 10 * n + digit_val c) 0 s"

text \<open>\<open>strconv.ParseInt(s, 10, bits)\<close>; \<open>fn\<close> is the function named in the error.\<close>

definition parse_int :: "string \<Rightarrow> nat \<Rightarrow> string \<Rightarrow> goerror + int" where
  "parse_int fn bits s =
     (let neg = (case s of [] \<Rightarrow> False | c # _ \<Rightarrow> c = CHR ''-'');
          body = (case s of [] \<Rightarrow> [] | c # cs \<Rightarrow> if c = CHR ''-'' \<or> c = CHR ''+'' then cs else s)
      in if body = [] \<or> \<not> list_all is_digit body
         then Inl (ErrNum fn s ''invalid syntax'')
         else let v = (if neg then - digits_val body else digits_val body)
              in if fits bits v then Inr v else Inl (ErrNum fn s ''value out of range''))"

definition ParseInt :: "nat \<Rightarrow> string \<Rightarrow> goerror + int" where
  "ParseInt bits s = parse_int ''ParseInt'' bits s"

definition Atoi :: "string \<Rightarrow> goerror + int" where
  "Atoi s = parse_int ''Atoi'' 64 s"

text \<open>\<open>strconv.Itoa\<close>, \<open>strconv.FormatInt(n, 10)\<close> and the verb \<open>%d\<close>.\<close>

fun nat_digits :: "nat \<Rightarrow> string" where
  "nat_digits n = (if n < 10 then [char_of (48 + n)] else nat_digits (n div 10) @ [char_of (48 + n mod 10)])"

declare nat_digits.simps [simp del]

definition Itoa :: "int \<Rightarrow> string" where
  "Itoa n = (if n < 0 then CHR ''-'' # nat_digits (nat (- n)) else nat_digits (nat n))"

lemma digits_val_snoc: "digits_val (s @ [c]) = 10 * digits_val s + digit_val c"
  by (simp add: digits_val_def)

lemma digit_char: "d < 10 \<Longrightarrow> is_digit (char_of (48 + d)) \<and> digit_val (char_of (48 + d)) = int d"
  by (simp add: is_digit_def digit_val_def of_char_of)

lemma nat_digits_sound: "list_all is_digit (nat_digits n) \<and> digits_val (nat_digits n) = int n \<and> nat_digits n \<noteq> []"
proof (induction n rule: nat_digits.induct)
  case (1 n)
  show ?case
  proof (cases "n < 10")
    case True
    with digit_char [OF True] show ?thesis
      by (simp add: nat_digits.simps [of n] digits_val_def)
  next
    case False
    have "n mod 10 < 10" by simp
    with False "1.IH" digit_char [of "n mod 10"] show ?thesis
      by (auto simp: nat_digits.simps [of n] digits_val_snoc zdiv_int zmod_int)
  qed
qed

lemma nat_digits_no_sign: "\<exists>c cs. nat_digits n = c # cs \<and> c \<noteq> CHR ''-'' \<and> c \<noteq> CHR ''+''"
proof -
  obtain c cs where eq: "nat_digits n = c # cs" using nat_digits_sound [of n] by (cases "nat_digits n") auto
  with nat_digits_sound [of n] have "is_digit c" by simp
  with eq show ?thesis by (auto simp: is_digit_def)
qed

lemma parse_int_Itoa: "fits bits n \<Longrightarrow> parse_int fn bits (Itoa n) = Inr n"
proof -
  assume f: "fits bits n"
  obtain c cs where eq: "nat_digits (nat (if n < 0 then - n else n)) = c # cs"
      and c: "c \<noteq> CHR ''-''" "c \<noteq> CHR ''+''"
    using nat_digits_no_sign by blast
  have "list_all is_digit (c # cs)" "digits_val (c # cs) = int (nat (if n < 0 then - n else n))"
    using nat_digits_sound [of "nat (if n < 0 then - n else n)"] eq by auto
  with eq c f show ?thesis
    by (auto simp: parse_int_def Itoa_def Let_def)
qed

lemma parse_int_fits: "parse_int fn bits s = Inr v \<Longrightarrow> fits bits v"
  by (auto simp: parse_int_def Let_def split: if_splits)

lemma Itoa_not_Nil [simp]: "Itoa n \<noteq> []"
  using nat_digits_sound by (simp add: Itoa_def)

lemma Atoi_Itoa: "fits 64 n \<Longrightarrow> Atoi (Itoa n) = Inr n"
  by (simp add: Atoi_def parse_int_Itoa)

lemma ParseInt_Itoa: "fits b n \<Longrightarrow> ParseInt b (Itoa n) = Inr n"
  by (simp add: ParseInt_def parse_int_Itoa)

end
