(* ===== verification/Cloud.thy ===== *)
theory Cloud
  imports Go_Strings
begin

text \<open>
  \<open>pkg/cloud/cloud.go\<close>: the data that the cloud provider interface exchanges with the reconciler
  and the validation of the TaskRun identifier every provider tags its instances with.
\<close>

section \<open>Data\<close>

definition InstanceTag :: string where "InstanceTag = ''multi-platform-instance''"
definition TaskRunTagKey :: string where "TaskRunTagKey = ''taskRunID''"

text \<open>\<open>VMState\<close> is a string; the code uses two values and the empty string for "unknown".\<close>

definition OKState :: string where "OKState = ''OK''"
definition FailedState :: string where "FailedState = ''FAILED''"

record CloudVMInstance =
  vm_InstanceId :: string
  vm_StartTime :: int
  vm_Address :: string

section \<open>TaskRun identifiers\<close>

definition lower_alnum :: "char \<Rightarrow> bool" where
  "lower_alnum c \<longleftrightarrow> c \<in> set ''abcdefghijklmnopqrstuvwxyz0123456789''"

text \<open>The regular expression \<^verbatim>\<open>^[a-z0-9]([-a-z0-9]*[a-z0-9])?$\<close>.\<close>

definition rfc1123Regex :: "string \<Rightarrow> bool" where
  "rfc1123Regex s \<longleftrightarrow> s \<noteq> [] \<and> lower_alnum (hd s) \<and> lower_alnum (last s)
     \<and> list_all (\<lambda>c. lower_alnum c \<or> c = CHR ''-'') s"

definition validateRFC1123 :: "string \<Rightarrow> string \<Rightarrow> goerror option" where
  "validateRFC1123 labelType label =
     (if length label > 63
      then Some (ErrNew (labelType @ '' part '' @ sq label @ '' is too long for a Kubernetes label (max 63 chars)''))
      else if \<not> rfc1123Regex label
      then Some (ErrNew (labelType @ '' part '' @ sq label @ '' is not a valid RFC 1123 label (must be lowercase alphanumeric characters or '' @ sq ''-'' @ '', and must start and end with an alphanumeric character)''))
      else None)"

definition ValidateTaskRunID :: "string \<Rightarrow> goerror option" where
  "ValidateTaskRunID taskRunID =
     (if length taskRunID > 128
      then Some (ErrNew (''taskRunID '' @ sq taskRunID @ '' cannot be longer than 128 chars''))
      else if prefix ''aws:'' (ToLower taskRunID)
      then Some (ErrNew (''taskRunID '' @ sq taskRunID @ '' cannot start with '' @ sq ''aws:'' @ '' (case-insensitive) as per AWS tag restrictions''))
      else
        let parts = Split (CHR '':'') taskRunID
        in if length parts \<noteq> 2 \<or> parts ! 0 = [] \<or> parts ! 1 = []
           then Some (ErrNew (sq taskRunID @ '' does not follow the correct format: '' @ sq ''<TaskRun Namespace>:<TaskRun Name>'' @ '', neither the namespace nor the name can be empty''))
           else validateRFC1123 ''namespace'' (parts ! 0))"

section \<open>What an accepted identifier is\<close>

lemma lower_alnum_table:
  "list_all (\<lambda>c. lower_char c = c \<and> c \<noteq> CHR '':'') ''abcdefghijklmnopqrstuvwxyz0123456789''"
  by code_simp

lemma lower_alnum_lower: "lower_alnum c \<Longrightarrow> lower_char c = c \<and> c \<noteq> CHR '':''"
  unfolding lower_alnum_def by (rule lower_alnum_table [unfolded list_all_iff, rule_format])

lemma rfc1123_chars:
  assumes "rfc1123Regex s" "c \<in> set s"
  shows "lower_char c = c \<and> c \<noteq> CHR '':''"
proof -
  from assms have "lower_alnum c \<or> c = CHR ''-''"
    unfolding rfc1123Regex_def list_all_iff by blast
  moreover have "lower_char (CHR ''-'') = CHR ''-'' \<and> CHR ''-'' \<noteq> CHR '':''" by code_simp
  ultimately show ?thesis using lower_alnum_lower by blast
qed

lemma rfc1123_no_colon: "rfc1123Regex s \<Longrightarrow> CHR '':'' \<notin> set s"
  using rfc1123_chars by blast

lemma rfc1123_nonempty: "rfc1123Regex s \<Longrightarrow> s \<noteq> []"
  unfolding rfc1123Regex_def by blast

lemma rfc1123_ToLower: "rfc1123Regex s \<Longrightarrow> ToLower s = s"
  unfolding ToLower_def by (rule map_idI) (simp add: rfc1123_chars)

lemma Split_two: "Split c s = [a, b] \<longleftrightarrow> s = a @ c # b \<and> c \<notin> set a \<and> c \<notin> set b"
proof
  assume eq: "Split c s = [a, b]"
  with Join_Split [of c s] have "s = a @ c # b" by simp
  moreover have "c \<notin> set a" "c \<notin> set b" using Split_no_sep [of _ c s] eq by auto
  ultimately show "s = a @ c # b \<and> c \<notin> set a \<and> c \<notin> set b" by simp
qed (simp add: Split_append_sep Split_absent)

text \<open>C19: \<open>ValidateTaskRunID\<close> accepts exactly the identifiers \<open>namespace:name\<close> of at most 128
  bytes with an RFC 1123 namespace of at most 63 bytes other than \<open>aws\<close> and a non-empty name
  without a colon; every other string is refused with an error.\<close>

theorem ValidateTaskRunID_spec:
  "ValidateTaskRunID s = None \<longleftrightarrow>
     length s \<le> 128 \<and>
     (\<exists>ns nm. s = ns @ CHR '':'' # nm \<and> rfc1123Regex ns \<and> length ns \<le> 63 \<and> ns \<noteq> ''aws'' \<and>
        nm \<noteq> [] \<and> CHR '':'' \<notin> set nm)"
proof -
  have two: "length xs = 2 \<longleftrightarrow> (\<exists>a b. xs = [a, b])" for xs :: "string list"
    by (cases xs; cases "tl xs") auto
  have aws: "prefix ''aws:'' (ToLower (ns @ CHR '':'' # nm)) \<longleftrightarrow> ns = ''aws''"
    if "rfc1123Regex ns" for ns nm
  proof -
    have low: "ToLower (ns @ CHR '':'' # nm) = ns @ CHR '':'' # ToLower nm"
      using rfc1123_ToLower [OF that] by (simp add: ToLower_def lower_char_def)
    have "CHR '':'' \<notin> set ns" using rfc1123_no_colon [OF that] .
    then show ?thesis
      unfolding low
      by (cases ns; cases "tl ns"; cases "tl (tl ns)"; cases "tl (tl (tl ns))") auto
  qed
  have "ValidateTaskRunID s = None \<longleftrightarrow>
      length s \<le> 128 \<and> \<not> prefix ''aws:'' (ToLower s) \<and>
      (\<exists>a b. Split (CHR '':'') s = [a, b] \<and> a \<noteq> [] \<and> b \<noteq> [] \<and> length a \<le> 63 \<and> rfc1123Regex a)"
    using two [of "Split (CHR '':'') s"]
    by (auto simp: ValidateTaskRunID_def validateRFC1123_def Let_def)
  also have "\<dots> \<longleftrightarrow> length s \<le> 128 \<and>
      (\<exists>ns nm. s = ns @ CHR '':'' # nm \<and> rfc1123Regex ns \<and> length ns \<le> 63 \<and> ns \<noteq> ''aws'' \<and>
        nm \<noteq> [] \<and> CHR '':'' \<notin> set nm)"
    unfolding Split_two using aws rfc1123_no_colon rfc1123_nonempty by metis
  finally show ?thesis .
qed

end
