(* ===== verification/Kube_Objects.thy ===== *)
theory Kube_Objects
  imports Go_Strings
begin

text \<open>
  The Kubernetes and Tekton objects the controller reads and writes, with the fields it uses, and
  the label, annotation and parameter names of \<open>pkg/constant/constant.go\<close> and of
  \<open>pkg/reconciler/taskrun/taskrun.go\<close>. Times are nanoseconds since the Unix epoch; a nil pointer,
  map or slice is \<open>None\<close> where the code tells it from an empty value.
\<close>

section \<open>Objects\<close>

text \<open>\<open>types.NamespacedName\<close>: namespace and name.\<close>

type_synonym nsname = "string \<times> string"

text \<open>\<open>tektonapi.TaskRun\<close>: metadata, the fields of the spec the controller fills in or reads, and
  the fields of the status it reads. A volume of the task spec is the name of the secret behind it,
  if it is a secret volume. The status of the condition \<open>Succeeded\<close> is \<open>None\<close> if absent.\<close>

record TaskRun =
  tr_Name :: string
  tr_Namespace :: string
  tr_GenerateName :: string
  tr_Labels :: "strmap option"
  tr_Annotations :: "strmap option"
  tr_Finalizers :: "string list"
  tr_ResourceVersion :: string
  tr_CreationTimestamp :: int
  tr_DeletionTimestamp :: "int option"
  tr_Params :: "(string \<times> string) list option"
  tr_TaskRef :: "string option"
  tr_Workspaces :: "(string \<times> string) list"
  tr_Requests :: "(string \<times> string) list"
  tr_Limits :: "(string \<times> string) list"
  tr_ServiceAccountName :: string
  tr_Retries :: int
  tr_CompletionTime :: "int option"
  tr_Succeeded :: "string option"
  tr_Volumes :: "string option list option option"

text \<open>\<open>tektonapi.TaskRun{}\<close>: the zero value. The zero time is 1 January of year 1.\<close>

definition zeroTime :: int where
  "zeroTime = - 62135596800 * 1000000000"

definition emptyTaskRun :: TaskRun where
  "emptyTaskRun = \<lparr>tr_Name = [], tr_Namespace = [], tr_GenerateName = [], tr_Labels = None,
     tr_Annotations = None, tr_Finalizers = [], tr_ResourceVersion = [], tr_CreationTimestamp = zeroTime,
     tr_DeletionTimestamp = None, tr_Params = None, tr_TaskRef = None, tr_Workspaces = [],
     tr_Requests = [], tr_Limits = [], tr_ServiceAccountName = [], tr_Retries = 0,
     tr_CompletionTime = None, tr_Succeeded = None, tr_Volumes = None\<rparr>"

definition objKey :: "TaskRun \<Rightarrow> nsname" where
  "objKey tr = (tr_Namespace tr, tr_Name tr)"

text \<open>\<open>tr.DeletionTimestamp.IsZero()\<close>\<close>

definition IsZeroTime :: "int option \<Rightarrow> bool" where
  "IsZeroTime t = (case t of None \<Rightarrow> True | Some x \<Rightarrow> x = zeroTime)"

text \<open>\<open>tr.Status.GetCondition(apis.ConditionSucceeded).IsTrue()\<close>\<close>

definition succeeded :: "TaskRun \<Rightarrow> bool" where
  "succeeded tr \<longleftrightarrow> tr_Succeeded tr = Some ''True''"

record Secret =
  sec_Name :: string
  sec_Namespace :: string
  sec_Labels :: strmap
  sec_Data :: strmap
  sec_Owner :: "nsname option"

record ConfigMap =
  cm_ResourceVersion :: string
  cm_Data :: gomap

record Pod =
  pod_Name :: string
  pod_Namespace :: string
  pod_OwnerReferences :: "string list"
  pod_Annotations :: "strmap option"

text \<open>\<open>reconcile.Result\<close>: only \<open>RequeueAfter\<close> (in nanoseconds) is ever set.\<close>

record Result =
  RequeueAfter :: int

definition noRequeue :: Result where
  "noRequeue = \<lparr>RequeueAfter = 0\<rparr>"

definition requeueIn :: "int \<Rightarrow> Result" where
  "requeueIn d = \<lparr>RequeueAfter = d\<rparr>"

definition Second :: int where "Second = 1000000000"
definition Minute :: int where "Minute = 60 * Second"
definition Hour :: int where "Hour = 60 * Minute"

text \<open>\<open>t.Unix()\<close>\<close>

definition Unix :: "int \<Rightarrow> int" where
  "Unix t = t div Second"

section \<open>Names\<close>

definition AssignedHost :: string where
  "AssignedHost = ''build.appstudio.redhat.com/assigned-host''"
definition TargetPlatformLabel :: string where
  "TargetPlatformLabel = ''build.appstudio.redhat.com/target-platform''"
definition WaitingForPlatformLabel :: string where
  "WaitingForPlatformLabel = ''build.appstudio.redhat.com/waiting-for-platform''"

definition SecretPrefix :: string where "SecretPrefix = ''multi-platform-ssh-''"
definition MultiPlatformSecretLabel :: string where
  "MultiPlatformSecretLabel = ''build.appstudio.redhat.com/multi-platform-secret''"
definition FailedHosts :: string where
  "FailedHosts = ''build.appstudio.redhat.com/failed-hosts''"
definition CloudInstanceId :: string where
  "CloudInstanceId = ''build.appstudio.redhat.com/cloud-instance-id''"
definition CloudFailures :: string where
  "CloudFailures = ''build.appstudio.redhat.com/cloud-failure-count''"
definition CloudAddress :: string where
  "CloudAddress = ''build.appstudio.redhat.com/cloud-address''"
definition CloudDynamicPlatform :: string where
  "CloudDynamicPlatform = ''build.appstudio.redhat.com/cloud-dynamic-platform''"
definition ProvisionTaskProcessed :: string where
  "ProvisionTaskProcessed = ''build.appstudio.redhat.com/provision-task-processed''"
definition AllocationStartTimeAnnotation :: string where
  "AllocationStartTimeAnnotation = ''build.appstudio.redhat.com/allocation-start-time''"
definition UserTaskName :: string where
  "UserTaskName = ''build.appstudio.redhat.com/user-task-name''"
definition UserTaskNamespace :: string where
  "UserTaskNamespace = ''build.appstudio.redhat.com/user-task-namespace''"
definition FinishedWaitingLabel :: string where
  "FinishedWaitingLabel = ''build.appstudio.redhat.com/finished-waiting''"
definition PipelineFinalizer :: string where
  "PipelineFinalizer = ''appstudio.io/multi-platform-finalizer''"
definition HostConfig :: string where "HostConfig = ''host-config''"
definition TaskTypeLabel :: string where
  "TaskTypeLabel = ''build.appstudio.redhat.com/task-type''"
definition TaskTypeProvision :: string where "TaskTypeProvision = ''provision''"
definition TaskTypeUpdate :: string where "TaskTypeUpdate = ''update''"
definition TaskTypeClean :: string where "TaskTypeClean = ''clean''"
definition ProvisionerServiceAccountName :: string where
  "ProvisionerServiceAccountName = ''multi-platform-controller-provisioner''"
definition TaskRunnerServiceAccountName :: string where
  "TaskRunnerServiceAccountName = ''multi-platform-controller-task-runner''"
definition PlatformParam :: string where "PlatformParam = ''PLATFORM''"
definition LocalPlatforms :: string where "LocalPlatforms = ''local-platforms''"
definition DynamicPlatforms :: string where "DynamicPlatforms = ''dynamic-platforms''"
definition DynamicPoolPlatforms :: string where "DynamicPoolPlatforms = ''dynamic-pool-platforms''"
definition DefaultInstanceTag :: string where "DefaultInstanceTag = ''instance-tag''"
definition AdditionalInstanceTags :: string where "AdditionalInstanceTags = ''additional-instance-tags''"

lemmas label_defs =
  AssignedHost_def TargetPlatformLabel_def WaitingForPlatformLabel_def FailedHosts_def
  CloudInstanceId_def CloudFailures_def CloudAddress_def CloudDynamicPlatform_def
  ProvisionTaskProcessed_def AllocationStartTimeAnnotation_def UserTaskName_def
  UserTaskNamespace_def FinishedWaitingLabel_def TaskTypeLabel_def

text \<open>The keys are pairwise distinct, so an update of one never touches another.\<close>

lemma label_keys_distinct:
  "distinct [AssignedHost, TargetPlatformLabel, WaitingForPlatformLabel, FailedHosts,
     CloudInstanceId, CloudFailures, CloudAddress, CloudDynamicPlatform, ProvisionTaskProcessed,
     AllocationStartTimeAnnotation, UserTaskName, UserTaskNamespace, FinishedWaitingLabel,
     TaskTypeLabel]"
  by (simp add: label_defs)

lemma label_keys_distinct_rev:
  "distinct [TaskTypeLabel, FinishedWaitingLabel, UserTaskNamespace, UserTaskName,
     AllocationStartTimeAnnotation, ProvisionTaskProcessed, CloudDynamicPlatform, CloudAddress,
     CloudFailures, CloudInstanceId, FailedHosts, WaitingForPlatformLabel, TargetPlatformLabel,
     AssignedHost]"
  by (simp add: label_defs)

lemmas label_neq [simp] =
  label_keys_distinct [unfolded distinct.simps list.set insert_iff empty_iff de_Morgan_disj, simplified]
  label_keys_distinct_rev [unfolded distinct.simps list.set insert_iff empty_iff de_Morgan_disj, simplified]

lemma task_types_distinct [simp]:
  "TaskTypeProvision \<noteq> []" "TaskTypeUpdate \<noteq> []" "TaskTypeClean \<noteq> []"
  "TaskTypeProvision \<noteq> TaskTypeUpdate" "TaskTypeProvision \<noteq> TaskTypeClean"
  "TaskTypeUpdate \<noteq> TaskTypeClean" "TaskTypeUpdate \<noteq> TaskTypeProvision"
  "TaskTypeClean \<noteq> TaskTypeProvision" "TaskTypeClean \<noteq> TaskTypeUpdate"
  by (simp_all add: TaskTypeProvision_def TaskTypeUpdate_def TaskTypeClean_def)

section \<open>Label and annotation access\<close>

definition label :: "TaskRun \<Rightarrow> string \<Rightarrow> string" where
  "label tr k = mget (tr_Labels tr) k"

definition annotation :: "TaskRun \<Rightarrow> string \<Rightarrow> string" where
  "annotation tr k = mget (tr_Annotations tr) k"

text \<open>\<open>tr.Labels[k] = v\<close> and \<open>tr.Annotations[k] = v\<close>: a panic (\<open>None\<close>) on a nil map.\<close>

definition setLabel :: "string \<Rightarrow> string \<Rightarrow> TaskRun \<Rightarrow> TaskRun option" where
  "setLabel k v tr = map_option (\<lambda>m. tr\<lparr>tr_Labels := m\<rparr>) (mset_at (tr_Labels tr) k v)"

definition setAnnotation :: "string \<Rightarrow> string \<Rightarrow> TaskRun \<Rightarrow> TaskRun option" where
  "setAnnotation k v tr = map_option (\<lambda>m. tr\<lparr>tr_Annotations := m\<rparr>) (mset_at (tr_Annotations tr) k v)"

definition delLabel :: "string \<Rightarrow> TaskRun \<Rightarrow> TaskRun" where
  "delLabel k tr = tr\<lparr>tr_Labels := mdel (tr_Labels tr) k\<rparr>"

definition delAnnotation :: "string \<Rightarrow> TaskRun \<Rightarrow> TaskRun" where
  "delAnnotation k tr = tr\<lparr>tr_Annotations := mdel (tr_Annotations tr) k\<rparr>"

text \<open>\<open>if tr.Labels == nil { tr.Labels = map[string]string{} }\<close>\<close>

definition ensureLabels :: "TaskRun \<Rightarrow> TaskRun" where
  "ensureLabels tr = (case tr_Labels tr of None \<Rightarrow> tr\<lparr>tr_Labels := Some Map.empty\<rparr> | Some _ \<Rightarrow> tr)"

definition ensureAnnotations :: "TaskRun \<Rightarrow> TaskRun" where
  "ensureAnnotations tr =
     (case tr_Annotations tr of None \<Rightarrow> tr\<lparr>tr_Annotations := Some Map.empty\<rparr> | Some _ \<Rightarrow> tr)"

lemma setLabel_Some: "setLabel k v tr = Some tr' \<longleftrightarrow>
    (\<exists>m. tr_Labels tr = Some m \<and> tr' = tr\<lparr>tr_Labels := Some (m(k \<mapsto> v))\<rparr>)"
  by (cases "tr_Labels tr") (auto simp: setLabel_def)

lemma setAnnotation_Some: "setAnnotation k v tr = Some tr' \<longleftrightarrow>
    (\<exists>m. tr_Annotations tr = Some m \<and> tr' = tr\<lparr>tr_Annotations := Some (m(k \<mapsto> v))\<rparr>)"
  by (cases "tr_Annotations tr") (auto simp: setAnnotation_def)

lemma setLabel_None [simp]: "(setLabel k v tr = None) = (tr_Labels tr = None)"
  by (cases "tr_Labels tr") (simp_all add: setLabel_def)

lemma setAnnotation_None [simp]: "(setAnnotation k v tr = None) = (tr_Annotations tr = None)"
  by (cases "tr_Annotations tr") (simp_all add: setAnnotation_def)

lemma label_delLabel [simp]: "label (delLabel k tr) k' = (if k' = k then [] else label tr k')"
  by (simp add: label_def delLabel_def)

lemma annotation_delAnnotation [simp]:
  "annotation (delAnnotation k tr) k' = (if k' = k then [] else annotation tr k')"
  by (simp add: annotation_def delAnnotation_def)

lemma label_delAnnotation [simp]: "label (delAnnotation k tr) k' = label tr k'"
  by (simp add: label_def delAnnotation_def)

lemma annotation_delLabel [simp]: "annotation (delLabel k tr) k' = annotation tr k'"
  by (simp add: annotation_def delLabel_def)

lemma label_setLabel:
  "setLabel k v tr = Some tr' \<Longrightarrow> label tr' k' = (if k' = k then v else label tr k')"
  by (auto simp: setLabel_Some label_def)

lemma annotation_setLabel: "setLabel k v tr = Some tr' \<Longrightarrow> annotation tr' k' = annotation tr k'"
  by (auto simp: setLabel_Some annotation_def)

lemma annotation_setAnnotation:
  "setAnnotation k v tr = Some tr' \<Longrightarrow> annotation tr' k' = (if k' = k then v else annotation tr k')"
  by (auto simp: setAnnotation_Some annotation_def)

lemma label_setAnnotation: "setAnnotation k v tr = Some tr' \<Longrightarrow> label tr' k' = label tr k'"
  by (auto simp: setAnnotation_Some label_def)

lemma ensureLabels_label [simp]: "label (ensureLabels tr) k = label tr k"
  by (auto simp: ensureLabels_def label_def split: option.split)

lemma ensureLabels_not_None [simp]: "tr_Labels (ensureLabels tr) \<noteq> None"
  by (auto simp: ensureLabels_def split: option.split)

lemma ensureAnnotations_annotation [simp]: "annotation (ensureAnnotations tr) k = annotation tr k"
  by (auto simp: ensureAnnotations_def annotation_def split: option.split)

lemma ensureAnnotations_not_None [simp]: "tr_Annotations (ensureAnnotations tr) \<noteq> None"
  by (auto simp: ensureAnnotations_def split: option.split)

lemma label_ensureAnnotations [simp]: "label (ensureAnnotations tr) k = label tr k"
  by (auto simp: ensureAnnotations_def label_def split: option.split)

end
