(* ===== verification/Cloud_Types.thy ===== *)
theory Cloud_Types
  imports Complex_Main Cloud Kube_Objects
begin

text \<open>
  The data that flows between the controller and the cloud SDKs, and the configuration records of
  the providers and of the platforms. A Go pointer is an \<open>option\<close>; dereferencing a nil pointer is a
  panic in the operations that do it. Of an SDK structure only the fields the code reads or writes
  are kept. The fields through which tests inject clients and ping functions are nil in the program
  and are left out.
\<close>

section \<open>Floating point\<close>

text \<open>A \<open>float64\<close>: the finite values are kept as exact rationals.\<close>

datatype f64 = Fin rat | PosInf | NegInf | NaN

fun f64_less :: "f64 \<Rightarrow> f64 \<Rightarrow> bool" where
  "f64_less (Fin x) (Fin y) = (x < y)"
| "f64_less (Fin x) PosInf = True"
| "f64_less NegInf (Fin y) = True"
| "f64_less NegInf PosInf = True"
| "f64_less _ _ = False"

fun f64_eq :: "f64 \<Rightarrow> f64 \<Rightarrow> bool" where
  "f64_eq NaN y = False"
| "f64_eq x y = (x = y)"

section \<open>AWS EC2\<close>

record ec2_Instance =
  ins_InstanceId :: "string option"
  ins_InstanceType :: string
  ins_State :: "string option"
  ins_LaunchTime :: "int option"
  ins_PublicDnsName :: "string option"
  ins_PublicIpAddress :: "string option"
  ins_PrivateIpAddress :: "string option"

record ec2_Ebs =
  ebs_DeleteOnTermination :: bool
  ebs_VolumeSize :: int
  ebs_VolumeType :: string
  ebs_Iops :: "int option"
  ebs_Throughput :: "int option"

record RunInstancesInput =
  run_KeyName :: string
  run_ImageId :: string
  run_InstanceType :: string
  run_MinCount :: int
  run_MaxCount :: int
  run_EbsOptimized :: bool
  run_SecurityGroups :: "string list"
  run_SecurityGroupIds :: "string list"
  run_IamInstanceProfile :: "(string option \<times> string option) option"
  run_SubnetId :: "string option"
  run_UserData :: "string option"
  run_BlockDeviceMappings :: "(string \<times> string \<times> ec2_Ebs) list"
  run_ShutdownBehavior :: string
  run_Placement :: "(string \<times> string) option"
  run_LicenseSpecifications :: "string list"
  run_TagSpecifications :: "(string \<times> gomap) list"

record DescribeInstancesInput =
  desc_Filters :: "(string \<times> string list) list"
  desc_InstanceIds :: "string list"

text \<open>\<open>AWSEc2DynamicConfig\<close> of \<open>pkg/aws/ec2.go\<close>.\<close>

record AWSEc2DynamicConfig =
  ec_Region :: string
  ec_Ami :: string
  ec_InstanceType :: string
  ec_KeyName :: string
  ec_Secret :: string
  ec_SystemNamespace :: string
  ec_SecurityGroup :: string
  ec_SecurityGroupId :: string
  ec_SubnetId :: string
  ec_Disk :: int
  ec_InstanceProfileName :: string
  ec_InstanceProfileArn :: string
  ec_Throughput :: "int option"
  ec_Iops :: "int option"
  ec_UserData :: "string option"
  ec_Tenancy :: string
  ec_HostResourceGroupArn :: string
  ec_LicenseConfigurationArn :: string
  ec_StrictPublicAddress :: bool
  ec_ProvisioningUser :: string

section \<open>IBM VPC (System Z)\<close>

record vpc_Instance =
  vi_ID :: "string option"
  vi_Name :: "string option"
  vi_Status :: "string option"
  vi_LifecycleState :: "string option"
  vi_CreatedAt :: "int option"
  vi_ResourceGroup :: "string option option"
  vi_PrimaryNetworkInterface :: "string option option"
  vi_NetworkInterfaces :: "string option option list"

record vpc_VPC =
  vpc_ID :: "string option"
  vpc_Name :: "string option"
  vpc_ResourceGroup :: "string option option"
  vpc_DefaultSecurityGroup :: "string option option"

text \<open>A key or a subnet: identifier and name.\<close>

record vpc_Named =
  nm_ID :: "string option"
  nm_Name :: "string option"

record vpc_FloatingIP =
  fip_ID :: "string option"
  fip_Address :: "string option"
  fip_Status :: "string option"

text \<open>The instance prototype of \<open>CreateInstance\<close>.\<close>

record vpc_Prototype =
  vp_Name :: string
  vp_Zone :: string
  vp_ResourceGroupID :: "string option"
  vp_VPC :: "string option"
  vp_Profile :: string
  vp_Keys :: "string option list"
  vp_DeleteVolumeOnInstanceDelete :: bool
  vp_VolumeName :: string
  vp_VolumeCapacity :: int
  vp_VolumeProfile :: string
  vp_VolumeUserTags :: "string list"
  vp_AttachmentName :: string
  vp_AllowIPSpoofing :: bool
  vp_AutoDelete :: bool
  vp_EnableInfrastructureNat :: bool
  vp_IpsAutoDelete :: "bool list"
  vp_PrimaryIPAutoDelete :: bool
  vp_Subnet :: "string option"
  vp_SecurityGroups :: "string option list"
  vp_HostFailure :: string
  vp_Image :: string

text \<open>\<open>IBMZDynamicConfig\<close> of \<open>pkg/ibm/ibmz.go\<close>.\<close>

record IBMZDynamicConfig =
  iz_SystemNamespace :: string
  iz_Secret :: string
  iz_Region :: string
  iz_Key :: string
  iz_Subnet :: string
  iz_Vpc :: string
  iz_ImageId :: string
  iz_Url :: string
  iz_Profile :: string
  iz_Disk :: int
  iz_PrivateIP :: bool

section \<open>IBM Power\<close>

text \<open>A network of a VM instance: external address and address.\<close>

record PVMInstanceNetwork =
  pn_ExternalIP :: string
  pn_IPAddress :: string

text \<open>The fields the code reads of \<open>models.PVMInstance\<close> and of the entries of
  \<open>models.PVMInstances\<close>; the health is the status of the health structure behind a pointer.\<close>

record PVMInstance =
  pvm_ID :: "string option"
  pvm_ServerName :: "string option"
  pvm_Status :: "string option"
  pvm_Health :: "string option"
  pvm_Networks :: "PVMInstanceNetwork option list"
  pvm_VolumeIDs :: "string list"
  pvm_DiskSize :: "f64 option"
  pvm_CreationDate :: int

record PVMInstanceCreate =
  pc_ServerName :: string
  pc_ImageID :: string
  pc_Processors :: f64
  pc_ProcType :: string
  pc_Memory :: f64
  pc_NetworkIDs :: "string list"
  pc_KeyPairName :: string
  pc_SysType :: string
  pc_UserData :: string
  pc_UserTags :: "string list"

datatype power_body = NoBody | CreateBody PVMInstanceCreate | VolumeBody f64

text \<open>A request as \<open>core.RequestBuilder\<close> assembles it: verb, URL and path template with its
  parameters, query, headers and body.\<close>

record power_request =
  rq_Verb :: string
  rq_URL :: string
  rq_Path :: string
  rq_Params :: gomap
  rq_Query :: gomap
  rq_Headers :: gomap
  rq_Body :: power_body

text \<open>\<open>IBMPowerDynamicConfig\<close> of \<open>pkg/ibm/ibmp.go\<close>.\<close>

record IBMPowerDynamicConfig =
  pw_SystemNamespace :: string
  pw_Secret :: string
  pw_Key :: string
  pw_ImageId :: string
  pw_Url :: string
  pw_CRN :: string
  pw_Network :: string
  pw_Cores :: f64
  pw_Memory :: f64
  pw_Disk :: f64
  pw_System :: string
  pw_UserData :: string
  pw_ProcType :: string

section \<open>Providers and platforms\<close>

text \<open>A value of the interface \<open>cloud.CloudProvider\<close>: one of its three implementations.\<close>

datatype CloudProvider =
    AWS AWSEc2DynamicConfig
  | IBMZ IBMZDynamicConfig
  | IBMP IBMPowerDynamicConfig

text \<open>\<open>Host\<close> of \<open>taskrun.go\<close>; the start time is only set for a dynamic pool.\<close>

record Host =
  h_Address :: string
  h_Name :: string
  h_User :: string
  h_Concurrency :: int
  h_Platform :: string
  h_Secret :: string
  h_StartTime :: "int option"

text \<open>\<open>HostPool\<close> of \<open>hostpool.go\<close>: the map of hosts as an association list, in the order in which
  a \<open>range\<close> statement visits it.\<close>

record HostPool =
  hp_hosts :: "(string \<times> Host) list"
  hp_targetPlatform :: string

record DynamicResolver =
  dr_CloudProvider :: CloudProvider
  dr_sshSecret :: string
  dr_platform :: string
  dr_maxInstances :: int
  dr_instanceTag :: string
  dr_timeout :: int
  dr_checkInterval :: int
  dr_sudoCommands :: string
  dr_additionalInstanceTags :: gomap

record DynamicHostPool =
  dp_cloudProvider :: CloudProvider
  dp_sshSecret :: string
  dp_platform :: string
  dp_maxInstances :: int
  dp_concurrency :: int
  dp_maxAge :: int
  dp_instanceTag :: string
  dp_additionalInstanceTags :: gomap

text \<open>A value of the interface \<open>PlatformConfig\<close>: one of its four implementations.\<close>

datatype PlatformConfig =
    PLocal
  | PHostPool HostPool
  | PDynamic DynamicResolver
  | PDynamicPool DynamicHostPool

text \<open>\<open>PlatformMetrics\<close> of \<open>pkg/metrics/platform.go\<close>: a histogram is the list of its observations
  (exact values), a counter its count.\<close>

record PlatformMetrics =
  m_AllocationTime :: "rat list"
  m_WaitTime :: "rat list"
  m_TaskRunTime :: "rat list"
  m_ProvisionFailures :: nat
  m_ProvisionSuccesses :: nat
  m_CleanupFailures :: nat
  m_HostAllocationFailures :: nat
  m_poolSize :: int

end
