(* ===== verification/Environment.thy ===== *)
theory Environment
  imports Cloud_Types
begin

text \<open>
  The world the controller acts on. Everything outside the repository (the API server behind
  \<open>client.Client\<close> and \<open>client.Reader\<close>, the cloud SDKs, the clock, the random source, the network)
  is a parameter \<open>E\<close>: for each call a function from the history of all calls so far and the
  arguments to the answer. The theorems hold for every such environment unless a named hypothesis
  restricts it. Each call appends one event, with its arguments and its answer, to the history, so
  that what the controller did and in which order is a list that theorems speak about.
\<close>

section \<open>Events\<close>

text \<open>The label selector of a \<open>List\<close> call.\<close>

datatype selector = HasLabels string | MatchingLabels gomap

text \<open>The goroutines the code starts.\<close>

datatype goroutine =
    TerminateLoopZ IBMZDynamicConfig string int
  | TerminateLoopP IBMPowerDynamicConfig string int
  | ResizeLoop IBMPowerDynamicConfig string int
  | HostUpdate int TaskRun

datatype event =
    EvApiGet nsname "goerror + TaskRun"
  | EvGet nsname "goerror + TaskRun"
  | EvUpdate TaskRun "goerror + TaskRun"
  | EvCreate TaskRun "goerror option"
  | EvDelete TaskRun "goerror option"
  | EvList selector "goerror + TaskRun list"
  | EvGetSecret nsname "goerror + Secret"
  | EvCreateSecret Secret "goerror option"
  | EvDeleteSecret Secret "goerror option"
  | EvGetConfigMap nsname "goerror + ConfigMap"
  | EvListPods string "goerror + Pod list"
  | EvUpdatePod Pod "goerror option"
  | EvRecord TaskRun string string string
  | EvNow int
  | EvSleep int
  | EvRand nat "goerror + string"
  | EvRegister string string "goerror option"
  | EvGo goroutine
  | EvDial string int "goerror option"
  | EvClose string "goerror option"
  | EvResolve string "goerror + string"
  | EvAwsConfig AWSEc2DynamicConfig "goerror option"
  | EvRunInstances RunInstancesInput "goerror + ec2_Instance list"
  | EvDescribeInstances DescribeInstancesInput "goerror + ec2_Instance list list"
  | EvTerminateInstances "string list" "goerror option"
  | EvNewVpc string string "goerror option"
  | EvListSubnets "goerror + vpc_Named list"
  | EvListKeys "goerror + vpc_Named list"
  | EvListVpcs "goerror + vpc_VPC list"
  | EvVpcListInstances "string option" string "goerror + vpc_Instance list"
  | EvVpcCreateInstance vpc_Prototype "goerror + vpc_Instance"
  | EvVpcGetInstance string "goerror + vpc_Instance"
  | EvVpcDeleteInstance "string option" "goerror option"
  | EvListInterfaceIps "string option" "string option" "goerror + vpc_FloatingIP list option"
  | EvListFloatingIps "string option" "goerror + vpc_FloatingIP list"
  | EvAddFloatingIP "string option" "string option" "string option" "goerror option"
  | EvCreateFloatingIP string "string option" "goerror + vpc_FloatingIP"
  | EvNewPower string string "goerror option"
  | EvPowerList power_request "goerror + PVMInstance list"
  | EvPowerLaunch power_request "goerror + PVMInstance list"
  | EvPowerGet power_request "goerror + PVMInstance"
  | EvPowerDelete power_request "goerror option"
  | EvPowerVolume power_request "goerror option"

type_synonym history = "event list"

section \<open>State\<close>

text \<open>The state of the controller process: the fields of \<open>ReconcileTaskRun\<close> that change
  (\<open>configMapResourceVersion\<close>, \<open>platformConfig\<close>), the package variables of \<open>pkg/metrics\<close>
  (\<open>platformMetrics\<close>, the two gauges), and the history.\<close>

record world =
  hist :: history
  configMapResourceVersion :: string
  platformConfig :: "string \<rightharpoonup> PlatformConfig"
  platformMetrics :: "string \<rightharpoonup> PlatformMetrics"
  runningTasksGauge :: "(string \<times> string) \<rightharpoonup> int"
  waitingTasksGauge :: "(string \<times> string) \<rightharpoonup> int"

text \<open>The initial state, as \<open>newReconciler\<close> and the package initialisation leave it.\<close>

definition initial :: world where
  "initial = \<lparr>hist = [], configMapResourceVersion = [], platformConfig = Map.empty,
     platformMetrics = Map.empty, runningTasksGauge = Map.empty, waitingTasksGauge = Map.empty\<rparr>"

type_synonym 'a M = "(world, 'a) go"

section \<open>Environment\<close>

record kube_api =
  k_apiGet :: "history \<Rightarrow> nsname \<Rightarrow> goerror + TaskRun"
  k_get :: "history \<Rightarrow> nsname \<Rightarrow> goerror + TaskRun"
  k_update :: "history \<Rightarrow> TaskRun \<Rightarrow> goerror + TaskRun"
  k_create :: "history \<Rightarrow> TaskRun \<Rightarrow> goerror option"
  k_delete :: "history \<Rightarrow> TaskRun \<Rightarrow> goerror option"
  k_list :: "history \<Rightarrow> selector \<Rightarrow> goerror + TaskRun list"
  k_getSecret :: "history \<Rightarrow> nsname \<Rightarrow> goerror + Secret"
  k_createSecret :: "history \<Rightarrow> Secret \<Rightarrow> goerror option"
  k_deleteSecret :: "history \<Rightarrow> Secret \<Rightarrow> goerror option"
  k_getConfigMap :: "history \<Rightarrow> nsname \<Rightarrow> goerror + ConfigMap"
  k_listPods :: "history \<Rightarrow> string \<Rightarrow> goerror + Pod list"
  k_updatePod :: "history \<Rightarrow> Pod \<Rightarrow> goerror option"

text \<open>The process environment: clock (nanoseconds), secure random bytes, Prometheus registry,
  TCP connections, name resolution, environment variables.\<close>

record sys_api =
  s_now :: "history \<Rightarrow> int"
  s_rand :: "history \<Rightarrow> nat \<Rightarrow> goerror + string"
  s_register :: "history \<Rightarrow> string \<Rightarrow> string \<Rightarrow> goerror option"
  s_dial :: "history \<Rightarrow> string \<Rightarrow> int \<Rightarrow> goerror option"
  s_close :: "history \<Rightarrow> string \<Rightarrow> goerror option"
  s_resolve :: "history \<Rightarrow> string \<Rightarrow> goerror + string"

record ec2_api =
  a_config :: "history \<Rightarrow> AWSEc2DynamicConfig \<Rightarrow> goerror option"
  a_run :: "history \<Rightarrow> RunInstancesInput \<Rightarrow> goerror + ec2_Instance list"
  a_describe :: "history \<Rightarrow> DescribeInstancesInput \<Rightarrow> goerror + ec2_Instance list list"
  a_terminate :: "history \<Rightarrow> string list \<Rightarrow> goerror option"

record vpc_api =
  v_new :: "history \<Rightarrow> string \<Rightarrow> string \<Rightarrow> goerror option"
  v_subnets :: "history \<Rightarrow> goerror + vpc_Named list"
  v_keys :: "history \<Rightarrow> goerror + vpc_Named list"
  v_vpcs :: "history \<Rightarrow> goerror + vpc_VPC list"
  v_list :: "history \<Rightarrow> string option \<Rightarrow> string \<Rightarrow> goerror + vpc_Instance list"
  v_create :: "history \<Rightarrow> vpc_Prototype \<Rightarrow> goerror + vpc_Instance"
  v_get :: "history \<Rightarrow> string \<Rightarrow> goerror + vpc_Instance"
  v_delete :: "history \<Rightarrow> string option \<Rightarrow> goerror option"
  v_interfaceIps :: "history \<Rightarrow> string option \<Rightarrow> string option \<Rightarrow> goerror + vpc_FloatingIP list option"
  v_floatingIps :: "history \<Rightarrow> string option \<Rightarrow> goerror + vpc_FloatingIP list"
  v_addIp :: "history \<Rightarrow> string option \<Rightarrow> string option \<Rightarrow> string option \<Rightarrow> goerror option"
  v_createIp :: "history \<Rightarrow> string \<Rightarrow> string option \<Rightarrow> goerror + vpc_FloatingIP"

record power_api =
  p_new :: "history \<Rightarrow> string \<Rightarrow> string \<Rightarrow> goerror option"
  p_url :: "string \<Rightarrow> string \<Rightarrow> gomap \<Rightarrow> goerror option"
  p_json :: "power_body \<Rightarrow> goerror option"
  p_build :: "power_request \<Rightarrow> goerror option"
  p_list :: "history \<Rightarrow> power_request \<Rightarrow> goerror + PVMInstance list"
  p_launch :: "history \<Rightarrow> power_request \<Rightarrow> goerror + PVMInstance list"
  p_get :: "history \<Rightarrow> power_request \<Rightarrow> goerror + PVMInstance"
  p_delete :: "history \<Rightarrow> power_request \<Rightarrow> goerror option"
  p_volume :: "history \<Rightarrow> power_request \<Rightarrow> goerror option"

text \<open>Functions of the libraries the code calls: the finalizer helpers of \<open>controllerutil\<close> (with
  whether they changed the list), \<open>SetOwnerReference\<close>, \<open>kmeta.ChildName\<close>,
  \<open>validation.IsDNS1035Label\<close>, \<open>retry.RetryOnConflict\<close> with its default backoff,
  \<open>strconv.ParseFloat\<close> (\<open>None\<close> for an error), \<open>os.Getenv\<close>; and two facts of the deployment: the path of the source file that \<open>runtime.Caller\<close> reports and the namespace of
  the operator.\<close>

record libs =
  l_contains :: "string list \<Rightarrow> string \<Rightarrow> bool"
  l_add :: "string list \<Rightarrow> string \<Rightarrow> bool \<times> string list"
  l_remove :: "string list \<Rightarrow> string \<Rightarrow> bool \<times> string list"
  l_owner :: "TaskRun \<Rightarrow> Secret \<Rightarrow> goerror + Secret"
  l_childName :: "string \<Rightarrow> string \<Rightarrow> string"
  l_dns :: "string \<Rightarrow> string list"
  l_retryOnConflict :: "goerror option M \<Rightarrow> goerror option M"
  l_parseFloat :: "string \<Rightarrow> f64 option"
  l_getenv :: "string \<Rightarrow> string"
  l_file :: string
  operatorNamespace :: string

record env =
  kube :: kube_api
  sys :: sys_api
  ec2 :: ec2_api
  vpc :: vpc_api
  power :: power_api
  lib :: libs

end
