(* ===== verification/Calls.thy ===== *)
theory Calls
  imports Environment
begin

text \<open>
  The calls of the controller to its environment, and the two ways of reasoning about a sequence of
  them: \<open>emits\<close> (what a command may add to the history, if it returns) and \<open>ok\<close> (it returns, only
  permitted events are added, the cache is untouched, the result satisfies a predicate). The
  documented behaviour of the environment that theorems may assume is at the end.
\<close>

section \<open>Calls\<close>

definition call :: "(history \<Rightarrow> 'r) \<Rightarrow> ('r \<Rightarrow> event) \<Rightarrow> 'r M" where
  "call f ev = (\<lambda>w. Some (f (hist w), w\<lparr>hist := hist w @ [ev (f (hist w))]\<rparr>))"

definition ApiGet :: "env \<Rightarrow> nsname \<Rightarrow> (goerror + TaskRun) M" where
  "ApiGet E k = call (\<lambda>h. k_apiGet (kube E) h k) (EvApiGet k)"

definition Get :: "env \<Rightarrow> nsname \<Rightarrow> (goerror + TaskRun) M" where
  "Get E k = call (\<lambda>h. k_get (kube E) h k) (EvGet k)"

definition UpdateObj :: "env \<Rightarrow> TaskRun \<Rightarrow> (goerror + TaskRun) M" where
  "UpdateObj E tr = call (\<lambda>h. k_update (kube E) h tr) (EvUpdate tr)"

text \<open>\<open>client.Update(ctx, tr)\<close>: on success the server's answer overwrites the object, on failure
  the object is as it was.\<close>

definition Update :: "env \<Rightarrow> TaskRun \<Rightarrow> (goerror option \<times> TaskRun) M" where
  "Update E tr = bnd (UpdateObj E tr) (\<lambda>r. case r of Inl e \<Rightarrow> ret (Some e, tr) | Inr tr' \<Rightarrow> ret (None, tr'))"

definition Create :: "env \<Rightarrow> TaskRun \<Rightarrow> goerror option M" where
  "Create E tr = call (\<lambda>h. k_create (kube E) h tr) (EvCreate tr)"

definition Delete :: "env \<Rightarrow> TaskRun \<Rightarrow> goerror option M" where
  "Delete E tr = call (\<lambda>h. k_delete (kube E) h tr) (EvDelete tr)"

definition List :: "env \<Rightarrow> selector \<Rightarrow> (goerror + TaskRun list) M" where
  "List E s = call (\<lambda>h. k_list (kube E) h s) (EvList s)"

definition GetSecret :: "env \<Rightarrow> nsname \<Rightarrow> (goerror + Secret) M" where
  "GetSecret E k = call (\<lambda>h. k_getSecret (kube E) h k) (EvGetSecret k)"

definition CreateSecret :: "env \<Rightarrow> Secret \<Rightarrow> goerror option M" where
  "CreateSecret E s = call (\<lambda>h. k_createSecret (kube E) h s) (EvCreateSecret s)"

definition DeleteSecret :: "env \<Rightarrow> Secret \<Rightarrow> goerror option M" where
  "DeleteSecret E s = call (\<lambda>h. k_deleteSecret (kube E) h s) (EvDeleteSecret s)"

definition GetConfigMap :: "env \<Rightarrow> nsname \<Rightarrow> (goerror + ConfigMap) M" where
  "GetConfigMap E k = call (\<lambda>h. k_getConfigMap (kube E) h k) (EvGetConfigMap k)"

definition ListPods :: "env \<Rightarrow> string \<Rightarrow> (goerror + Pod list) M" where
  "ListPods E ns = call (\<lambda>h. k_listPods (kube E) h ns) (EvListPods ns)"

definition UpdatePod :: "env \<Rightarrow> Pod \<Rightarrow> goerror option M" where
  "UpdatePod E p = call (\<lambda>h. k_updatePod (kube E) h p) (EvUpdatePod p)"

text \<open>\<open>eventRecorder.Event(tr, type, reason, message)\<close>\<close>

definition Event :: "TaskRun \<Rightarrow> string \<Rightarrow> string \<Rightarrow> string \<Rightarrow> unit M" where
  "Event tr typ reason msg = call (\<lambda>h. ()) (\<lambda>_. EvRecord tr typ reason msg)"

definition Now :: "env \<Rightarrow> int M" where
  "Now E = call (s_now (sys E)) EvNow"

definition Sleep :: "int \<Rightarrow> unit M" where
  "Sleep d = call (\<lambda>h. ()) (\<lambda>_. EvSleep d)"

definition RandRead :: "env \<Rightarrow> nat \<Rightarrow> (goerror + string) M" where
  "RandRead E n = call (\<lambda>h. s_rand (sys E) h n) (EvRand n)"

definition Register :: "env \<Rightarrow> string \<Rightarrow> string \<Rightarrow> goerror option M" where
  "Register E metric platform = call (\<lambda>h. s_register (sys E) h metric platform) (EvRegister metric platform)"

definition Go :: "goroutine \<Rightarrow> unit M" where
  "Go g = call (\<lambda>h. ()) (\<lambda>_. EvGo g)"

definition Dial :: "env \<Rightarrow> string \<Rightarrow> int \<Rightarrow> goerror option M" where
  "Dial E addr d = call (\<lambda>h. s_dial (sys E) h addr d) (EvDial addr d)"

definition Close :: "env \<Rightarrow> string \<Rightarrow> goerror option M" where
  "Close E addr = call (\<lambda>h. s_close (sys E) h addr) (EvClose addr)"

definition ResolveTCPAddr :: "env \<Rightarrow> string \<Rightarrow> (goerror + string) M" where
  "ResolveTCPAddr E addr = call (\<lambda>h. s_resolve (sys E) h addr) (EvResolve addr)"

lemmas call_defs =
  ApiGet_def Get_def UpdateObj_def Create_def Delete_def List_def GetSecret_def CreateSecret_def
  DeleteSecret_def GetConfigMap_def ListPods_def UpdatePod_def Event_def Now_def Sleep_def RandRead_def
  Register_def Go_def Dial_def Close_def ResolveTCPAddr_def

section \<open>Reasoning about calls\<close>

lemma bnd_Some: "bnd m f w = Some (y, w'') \<longleftrightarrow> (\<exists>x w'. m w = Some (x, w') \<and> f x w' = Some (y, w''))"
  by (auto simp: bnd_def split: option.split)

lemma ret_Some [simp]: "ret x w = Some (y, w') \<longleftrightarrow> y = x \<and> w' = w"
  by (auto simp: ret_def)

lemma must_Some: "must x f w = Some (y, w') \<longleftrightarrow> (\<exists>v. x = Some v \<and> f v w = Some (y, w'))"
  by (cases x) (simp_all add: must_def panic_def)

lemma call_Some: "call f ev w = Some (y, w') \<longleftrightarrow> y = f (hist w) \<and> w' = w\<lparr>hist := hist w @ [ev (f (hist w))]\<rparr>"
  by (auto simp: call_def)

lemma wp_call [wp]: "wp (call f ev) Q w = Q (f (hist w)) (w\<lparr>hist := hist w @ [ev (f (hist w))]\<rparr>)"
  by (simp add: call_def wp_def)

lemma wlp_call [wp]: "wlp (call f ev) Q w = Q (f (hist w)) (w\<lparr>hist := hist w @ [ev (f (hist w))]\<rparr>)"
  by (simp add: call_def wlp_def)

text \<open>\<open>emits P m\<close>: the history only grows while \<open>m\<close> runs, and every event \<open>m\<close> adds satisfies
  \<open>P\<close>.\<close>

definition emits :: "(event \<Rightarrow> bool) \<Rightarrow> 'a M \<Rightarrow> bool" where
  "emits P m \<longleftrightarrow> (\<forall>w x w'. m w = Some (x, w') \<longrightarrow> (\<exists>es. hist w' = hist w @ es \<and> list_all P es))"

lemma emitsD: "emits P m \<Longrightarrow> m w = Some (x, w') \<Longrightarrow> \<exists>es. hist w' = hist w @ es \<and> list_all P es"
  by (simp add: emits_def)

lemma wp_emits:
  assumes "wp m Q w" "emits P m"
  shows "wp m (\<lambda>x w'. (\<exists>es. hist w' = hist w @ es \<and> list_all P es) \<and> Q x w') w"
proof -
  from assms(1) obtain x w' where m: "m w = Some (x, w')" "Q x w'" by (auto simp: wp_iff_Some)
  with emitsD [OF assms(2) m(1)] show ?thesis by (simp add: wp_def)
qed

lemma emits_mono: "emits P m \<Longrightarrow> (\<And>e. P e \<Longrightarrow> Q e) \<Longrightarrow> emits Q m"
  unfolding emits_def list_all_iff by blast

lemma emits_ret [emits]: "emits P (ret x)"
  by (simp add: emits_def go_defs)

lemma emits_panic [emits]: "emits P panic"
  by (simp add: emits_def go_defs)

lemma emits_call [emits]: "(\<And>r. P (ev r)) \<Longrightarrow> emits P (call f ev)"
  by (simp add: emits_def call_def)

lemma emits_bnd [emits]:
  assumes "emits P m" "\<And>x. emits P (f x)"
  shows "emits P (bnd m f)"
  unfolding emits_def
proof (intro allI impI)
  fix w y w''
  assume "bnd m f w = Some (y, w'')"
  then obtain x w' where "m w = Some (x, w')" "f x w' = Some (y, w'')"
    by (auto simp: go_defs split: option.splits prod.splits)
  with assms obtain es fs where "hist w' = hist w @ es" "list_all P es"
    "hist w'' = hist w' @ fs" "list_all P fs"
    by (meson emitsD)
  then show "\<exists>es. hist w'' = hist w @ es \<and> list_all P es" by simp
qed

lemma emits_must [emits]: "(\<And>v. x = Some v \<Longrightarrow> emits P (f v)) \<Longrightarrow> emits P (must x f)"
  by (cases x) (simp_all add: must_def emits_panic)

lemma emits_modify [emits]: "(\<And>w. hist (f w) = hist w) \<Longrightarrow> emits P (modify f)"
  by (auto simp: emits_def go_defs)

lemma emits_reads [emits]: "emits P (reads f)"
  by (simp add: emits_def go_defs)

lemma emits_if [emits]: "(b \<Longrightarrow> emits P m) \<Longrightarrow> (\<not> b \<Longrightarrow> emits P n) \<Longrightarrow> emits P (if b then m else n)"
  by simp

lemma emits_option [emits]:
  "(x = None \<Longrightarrow> emits P m) \<Longrightarrow> (\<And>v. x = Some v \<Longrightarrow> emits P (f v)) \<Longrightarrow>
     emits P (case x of None \<Rightarrow> m | Some v \<Rightarrow> f v)"
  by (cases x) simp_all

lemma emits_sum [emits]:
  "(\<And>e. x = Inl e \<Longrightarrow> emits P (f e)) \<Longrightarrow> (\<And>v. x = Inr v \<Longrightarrow> emits P (g v)) \<Longrightarrow>
     emits P (case x of Inl e \<Rightarrow> f e | Inr v \<Rightarrow> g v)"
  by (cases x) simp_all

lemma emits_prod [emits]: "(\<And>a b. x = (a, b) \<Longrightarrow> emits P (f a b)) \<Longrightarrow> emits P (case x of (a, b) \<Rightarrow> f a b)"
  by (cases x) simp

lemma emits_list [emits]:
  "(x = [] \<Longrightarrow> emits P m) \<Longrightarrow> (\<And>y ys. x = y # ys \<Longrightarrow> emits P (f y ys)) \<Longrightarrow>
     emits P (case x of [] \<Rightarrow> m | y # ys \<Rightarrow> f y ys)"
  by (cases x) simp_all

lemma emits_foreach [emits]:
  "(\<And>x b. x \<in> set xs \<Longrightarrow> emits P (f x b)) \<Longrightarrow> emits P (foreach f xs a)"
proof (induction xs arbitrary: a)
  case Nil
  then show ?case by (simp add: emits_ret)
next
  case (Cons x xs)
  then show ?case by (simp add: emits_bnd)
qed

section \<open>Commands that return and only do what is permitted\<close>

text \<open>\<open>same_cache\<close>: the configuration cache of the reconciler is untouched.\<close>

definition same_cache :: "world \<Rightarrow> world \<Rightarrow> bool" where
  "same_cache w w' \<longleftrightarrow> platformConfig w' = platformConfig w \<and>
     configMapResourceVersion w' = configMapResourceVersion w"

lemma same_cache_refl [simp]: "same_cache w w"
  by (simp add: same_cache_def)

lemma same_cache_trans: "same_cache u v \<Longrightarrow> same_cache v w \<Longrightarrow> same_cache u w"
  by (simp add: same_cache_def)

text \<open>\<open>ok P m Q\<close>: from every state \<open>m\<close> returns (it does not panic), every event it adds satisfies
  \<open>P\<close>, the configuration cache is untouched, and the result satisfies \<open>Q\<close>.\<close>

definition ok :: "(event \<Rightarrow> bool) \<Rightarrow> 'a M \<Rightarrow> ('a \<Rightarrow> bool) \<Rightarrow> bool" where
  "ok P m Q \<longleftrightarrow> (\<forall>w. wp m (\<lambda>x w'. (\<exists>es. hist w' = hist w @ es \<and> list_all P es) \<and> same_cache w w' \<and> Q x) w)"

lemma okD:
  "ok P m Q \<Longrightarrow> \<exists>x w' es. m w = Some (x, w') \<and> hist w' = hist w @ es \<and> list_all P es \<and> same_cache w w' \<and> Q x"
  unfolding ok_def wp_iff_Some by blast

lemma ok_run:
  "ok P m Q \<Longrightarrow> m w = Some (x, w') \<Longrightarrow> \<exists>es. hist w' = hist w @ es \<and> list_all P es \<and> same_cache w w' \<and> Q x"
  by (drule okD [of _ _ _ w]) auto

lemma ok_grows: "ok P m Q \<Longrightarrow> m w = Some (x, w') \<Longrightarrow> prefix (hist w) (hist w')"
  by (drule (1) ok_run) auto

lemma ok_mono: "ok P m Q \<Longrightarrow> (\<And>x. Q x \<Longrightarrow> R x) \<Longrightarrow> ok P m R"
  unfolding ok_def by (blast intro: wp_mono)

lemma ok_events: "ok P m Q \<Longrightarrow> (\<And>e. P e \<Longrightarrow> P' e) \<Longrightarrow> ok P' m Q"
  unfolding ok_def
  by (rule allI, erule allE, erule wp_mono) (auto simp: list_all_iff)

lemma ok_bnd [ok]:
  assumes "ok P m R" "\<And>x. R x \<Longrightarrow> ok P (f x) Q"
  shows "ok P (bnd m f) Q"
  unfolding ok_def wp_iff_Some
proof (rule allI)
  fix w
  from okD [OF assms(1)] obtain x w' es where m: "m w = Some (x, w')" "hist w' = hist w @ es"
    "list_all P es" "same_cache w w'" "R x" by blast
  from okD [OF assms(2) [OF m(5)]] obtain y w'' fs where "f x w' = Some (y, w'')"
    "hist w'' = hist w' @ fs" "list_all P fs" "same_cache w' w''" "Q y" by blast
  with m show "\<exists>x w'. bnd m f w = Some (x, w') \<and>
      (\<exists>es. hist w' = hist w @ es \<and> list_all P es) \<and> same_cache w w' \<and> Q x"
    by (auto simp: bnd_def intro: same_cache_trans)
qed

lemma ok_ret [ok]: "Q x \<Longrightarrow> ok P (ret x) Q"
  by (simp add: ok_def wp)

lemma ok_call: "(\<And>r. P (ev r)) \<Longrightarrow> (\<And>h. Q (f h)) \<Longrightarrow> ok P (call f ev) Q"
  by (auto simp: ok_def wp same_cache_def)

lemma ok_reads [ok]: "(\<And>w. Q (f w)) \<Longrightarrow> ok P (reads f) Q"
  by (simp add: ok_def wp)

lemma ok_must [ok]: "x \<noteq> None \<Longrightarrow> (\<And>v. x = Some v \<Longrightarrow> ok P (f v) Q) \<Longrightarrow> ok P (must x f) Q"
  by (auto simp: must_def)

lemma ok_if [ok]: "(b \<Longrightarrow> ok P m Q) \<Longrightarrow> (\<not> b \<Longrightarrow> ok P n Q) \<Longrightarrow> ok P (if b then m else n) Q"
  by simp

lemma ok_option [ok]:
  "(x = None \<Longrightarrow> ok P m Q) \<Longrightarrow> (\<And>v. x = Some v \<Longrightarrow> ok P (f v) Q) \<Longrightarrow>
     ok P (case x of None \<Rightarrow> m | Some v \<Rightarrow> f v) Q"
  by (cases x) simp_all

lemma ok_sum [ok]:
  "(\<And>e. x = Inl e \<Longrightarrow> ok P (f e) Q) \<Longrightarrow> (\<And>v. x = Inr v \<Longrightarrow> ok P (g v) Q) \<Longrightarrow>
     ok P (case x of Inl e \<Rightarrow> f e | Inr v \<Rightarrow> g v) Q"
  by (cases x) simp_all

lemma ok_prod [ok]: "(\<And>a b. x = (a, b) \<Longrightarrow> ok P (f a b) Q) \<Longrightarrow> ok P (case x of (a, b) \<Rightarrow> f a b) Q"
  by (cases x) simp

lemma ok_list [ok]:
  "(x = [] \<Longrightarrow> ok P m Q) \<Longrightarrow> (\<And>y ys. x = y # ys \<Longrightarrow> ok P (f y ys) Q) \<Longrightarrow>
     ok P (case x of [] \<Rightarrow> m | y # ys \<Rightarrow> f y ys) Q"
  by (cases x) simp_all

lemma ok_bool [ok]:
  "(b \<Longrightarrow> ok P m Q) \<Longrightarrow> (\<not> b \<Longrightarrow> ok P n Q) \<Longrightarrow> ok P (case b of True \<Rightarrow> m | False \<Rightarrow> n) Q"
  by (cases b) simp_all

lemma ok_foreach:
  assumes "\<And>x b. x \<in> set xs \<Longrightarrow> Q b \<Longrightarrow> ok P (f x b) Q" and "Q a"
  shows "ok P (foreach f xs a) Q"
  using assms
proof (induction xs arbitrary: a)
  case Nil
  then show ?case by (simp add: ok_ret)
next
  case (Cons x xs)
  show ?case
    unfolding foreach.simps
    by (rule ok_bnd [where R = Q]) (simp_all add: Cons)
qed

lemma ok_foreach_True [ok]:
  "(\<And>x b. x \<in> set xs \<Longrightarrow> ok P (f x b) (\<lambda>_. True)) \<Longrightarrow> ok P (foreach f xs a) (\<lambda>_. True)"
  by (rule ok_foreach) simp_all

lemma ok_call_True [ok]: "(\<And>r. P (ev r)) \<Longrightarrow> ok P (call f ev) (\<lambda>_. True)"
  by (rule ok_call) simp_all

lemma ok_Let [ok]: "(\<And>x. x = t \<Longrightarrow> ok P (f x) Q) \<Longrightarrow> ok P (let x = t in f x) Q"
  by simp

text \<open>Calls whose answer is of no interest.\<close>

lemma ok_calls [ok]:
  "(\<And>r. P (EvCreate tr r)) \<Longrightarrow> ok P (Create E tr) (\<lambda>_. True)"
  "(\<And>r. P (EvDelete tr r)) \<Longrightarrow> ok P (Delete E tr) (\<lambda>_. True)"
  "(\<And>r. P (EvGet k r)) \<Longrightarrow> ok P (Get E k) (\<lambda>_. True)"
  "(\<And>r. P (EvGetSecret k r)) \<Longrightarrow> ok P (GetSecret E k) (\<lambda>_. True)"
  "(\<And>r. P (EvCreateSecret s r)) \<Longrightarrow> ok P (CreateSecret E s) (\<lambda>_. True)"
  "(\<And>r. P (EvDeleteSecret s r)) \<Longrightarrow> ok P (DeleteSecret E s) (\<lambda>_. True)"
  "(\<And>r. P (EvGetConfigMap k r)) \<Longrightarrow> ok P (GetConfigMap E k) (\<lambda>_. True)"
  "(\<And>r. P (EvListPods ns r)) \<Longrightarrow> ok P (ListPods E ns) (\<lambda>_. True)"
  "(\<And>r. P (EvUpdatePod pod r)) \<Longrightarrow> ok P (UpdatePod E pod) (\<lambda>_. True)"
  "P (EvRecord tr ty re msg) \<Longrightarrow> ok P (Event tr ty re msg) (\<lambda>_. True)"
  "(\<And>r. P (EvNow r)) \<Longrightarrow> ok P (Now E) (\<lambda>_. True)"
  "P (EvSleep d') \<Longrightarrow> ok P (Sleep d') (\<lambda>_. True)"
  "(\<And>r. P (EvRand n r)) \<Longrightarrow> ok P (RandRead E n) (\<lambda>_. True)"
  "(\<And>r. P (EvRegister m p r)) \<Longrightarrow> ok P (Register E m p) (\<lambda>_. True)"
  "P (EvGo g) \<Longrightarrow> ok P (Go g) (\<lambda>_. True)"
  "(\<And>r. P (EvDial a d r)) \<Longrightarrow> ok P (Dial E a d) (\<lambda>_. True)"
  "(\<And>r. P (EvClose a r)) \<Longrightarrow> ok P (Close E a) (\<lambda>_. True)"
  "(\<And>r. P (EvResolve a r)) \<Longrightarrow> ok P (ResolveTCPAddr E a) (\<lambda>_. True)"
  "(\<And>r. P (EvApiGet k r)) \<Longrightarrow> ok P (ApiGet E k) (\<lambda>_. True)"
  unfolding call_defs by (rule ok_call; simp)+

section \<open>Documented behaviour of the environment\<close>

text \<open>Named hypotheses that theorems may make about the code outside the repository.\<close>

text \<open>\<open>retry.OnError(backoff, retriable, fn)\<close> as documented: run \<open>fn\<close>; while it fails with an error
  that is retriable run it again, at most \<open>n\<close> times in all; the answer is that of the last run.\<close>

fun on_error :: "nat \<Rightarrow> (goerror \<Rightarrow> bool) \<Rightarrow> ('w, goerror option) go \<Rightarrow> ('w, goerror option) go" where
  "on_error 0 retriable fn = fn"
| "on_error (Suc n) retriable fn =
     bnd fn (\<lambda>r. case r of None \<Rightarrow> ret None
       | Some e \<Rightarrow> if retriable e then (if n = 0 then ret (Some e) else on_error n retriable fn) else ret (Some e))"

text \<open>\<open>retry.DefaultRetry\<close> takes 5 steps.\<close>

definition retry_documented :: "env \<Rightarrow> bool" where
  "retry_documented E \<longleftrightarrow> (\<forall>fn. l_retryOnConflict (lib E) fn = on_error 5 IsConflict fn)"

text \<open>The finalizer helpers of \<open>controllerutil\<close>: \<open>AddFinalizer\<close> appends if absent,
  \<open>RemoveFinalizer\<close> removes every occurrence.\<close>

definition finalizers_documented :: "env \<Rightarrow> bool" where
  "finalizers_documented E \<longleftrightarrow>
     (\<forall>fs f. l_contains (lib E) fs f = (f \<in> set fs)) \<and>
     (\<forall>fs f. l_add (lib E) fs f = (if f \<in> set fs then (False, fs) else (True, fs @ [f]))) \<and>
     (\<forall>fs f. l_remove (lib E) fs f = (f \<in> set fs, filter (\<lambda>g. g \<noteq> f) fs))"

text \<open>A \<open>List\<close> call answers with objects that match its selector.\<close>

fun matches :: "selector \<Rightarrow> TaskRun \<Rightarrow> bool" where
  "matches (HasLabels k) tr = (case tr_Labels tr of None \<Rightarrow> False | Some m \<Rightarrow> m k \<noteq> None)"
| "matches (MatchingLabels kv) tr =
     (case tr_Labels tr of None \<Rightarrow> kv = [] | Some m \<Rightarrow> list_all (\<lambda>(k, v). m k = Some v) kv)"

definition list_documented :: "env \<Rightarrow> bool" where
  "list_documented E \<longleftrightarrow>
     (\<forall>h s trs. k_list (kube E) h s = Inr trs \<longrightarrow> list_all (matches s) trs)"

text \<open>Objects keep their key: a read answers with the object asked for, an update with the object
  sent; \<open>SetOwnerReference\<close> changes only the owner references.\<close>

definition objects_documented :: "env \<Rightarrow> bool" where
  "objects_documented E \<longleftrightarrow>
     (\<forall>h k tr. k_apiGet (kube E) h k = Inr tr \<longrightarrow> objKey tr = k) \<and>
     (\<forall>h k tr. k_get (kube E) h k = Inr tr \<longrightarrow> objKey tr = k) \<and>
     (\<forall>h tr tr'. k_update (kube E) h tr = Inr tr' \<longrightarrow> objKey tr' = objKey tr) \<and>
     (\<forall>h k s. k_getSecret (kube E) h k = Inr s \<longrightarrow> (sec_Namespace s, sec_Name s) = k) \<and>
     (\<forall>tr s s'. l_owner (lib E) tr s = Inr s' \<longrightarrow> s'\<lparr>sec_Owner := sec_Owner s\<rparr> = s)"

lemma emits_on_error [emits]: "emits P fn \<Longrightarrow> emits P (on_error n retriable fn)"
  by (induction n) (auto intro!: emits)

lemma ok_on_error [ok]: "ok P fn Q \<Longrightarrow> ok P (on_error n retriable fn) Q"
proof (induction n)
  case (Suc n)
  have *: "ok P (case r of None \<Rightarrow> ret None
       | Some e \<Rightarrow> if retriable e then if n = 0 then ret (Some e) else on_error n retriable fn
                  else ret (Some e)) Q" if "Q r" for r
    using Suc that by (auto intro!: ok)
  show ?case
    unfolding on_error.simps by (rule ok_bnd [OF Suc.prems *])
qed simp

text \<open>All that the theorems about the reconciler assume of the Kubernetes side.\<close>

definition documented :: "env \<Rightarrow> bool" where
  "documented E \<longleftrightarrow> retry_documented E \<and> finalizers_documented E \<and> list_documented E \<and> objects_documented E"

lemma documented_keys:
  "documented E \<Longrightarrow> k_apiGet (kube E) h k = Inr tr \<Longrightarrow> objKey tr = k"
  "documented E \<Longrightarrow> k_get (kube E) h k = Inr tr \<Longrightarrow> objKey tr = k"
  "documented E \<Longrightarrow> k_update (kube E) h tr = Inr tr' \<Longrightarrow> objKey tr' = objKey tr"
  "documented E \<Longrightarrow> k_getSecret (kube E) h k = Inr s \<Longrightarrow> (sec_Namespace s, sec_Name s) = k"
  unfolding documented_def objects_documented_def by blast+

end
