(* ===== verification/Fixtures.thy ===== *)
theory Fixtures
  imports Calls
begin

text \<open>
  A concrete environment for the examples: the libraries behave as documented, every remote call
  fails. Examples replace the answers they need. Also two sample TaskRuns.
\<close>

definition std_libs :: libs where
  "std_libs = \<lparr>l_contains = (\<lambda>fs f. f \<in> set fs),
     l_add = (\<lambda>fs f. if f \<in> set fs then (False, fs) else (True, fs @ [f])),
     l_remove = (\<lambda>fs f. (f \<in> set fs, filter (\<lambda>g. g \<noteq> f) fs)),
     l_owner = (\<lambda>tr s. Inr (s\<lparr>sec_Owner := Some (objKey tr)\<rparr>)),
     l_childName = (\<lambda>parent suffix. parent @ suffix), l_dns = (\<lambda>_. []),
     l_retryOnConflict = on_error 5 IsConflict, l_parseFloat = (\<lambda>_. None), l_getenv = (\<lambda>_. []), l_file = ''taskrun.go'',
     operatorNamespace = ''multi-platform-controller''\<rparr>"

definition down :: goerror where "down = ErrExt ''connection refused''"

definition offline_kube :: kube_api where
  "offline_kube = \<lparr>k_apiGet = (\<lambda>_ _. Inl down), k_get = (\<lambda>_ _. Inl down), k_update = (\<lambda>_ _. Inl down),
     k_create = (\<lambda>_ _. Some down), k_delete = (\<lambda>_ _. Some down), k_list = (\<lambda>_ _. Inl down),
     k_getSecret = (\<lambda>_ _. Inl down), k_createSecret = (\<lambda>_ _. Some down), k_deleteSecret = (\<lambda>_ _. Some down),
     k_getConfigMap = (\<lambda>_ _. Inl down), k_listPods = (\<lambda>_ _. Inl down), k_updatePod = (\<lambda>_ _. Some down)\<rparr>"

definition offline_sys :: sys_api where
  "offline_sys = \<lparr>s_now = (\<lambda>_. 1700000000 * Second), s_rand = (\<lambda>_ _. Inl down),
     s_register = (\<lambda>_ _ _. None), s_dial = (\<lambda>_ _ _. Some down), s_close = (\<lambda>_ _. None),
     s_resolve = (\<lambda>_ _. Inl down)\<rparr>"

definition offline_ec2 :: ec2_api where
  "offline_ec2 = \<lparr>a_config = (\<lambda>_ _. None), a_run = (\<lambda>_ _. Inl down), a_describe = (\<lambda>_ _. Inl down),
     a_terminate = (\<lambda>_ _. Some down)\<rparr>"

definition offline_vpc :: vpc_api where
  "offline_vpc = \<lparr>v_new = (\<lambda>_ _ _. None), v_subnets = (\<lambda>_. Inl down), v_keys = (\<lambda>_. Inl down),
     v_vpcs = (\<lambda>_. Inl down), v_list = (\<lambda>_ _ _. Inl down), v_create = (\<lambda>_ _. Inl down),
     v_get = (\<lambda>_ _. Inl down), v_delete = (\<lambda>_ _. Some down), v_interfaceIps = (\<lambda>_ _ _. Inl down),
     v_floatingIps = (\<lambda>_ _. Inl down), v_addIp = (\<lambda>_ _ _ _. Some down), v_createIp = (\<lambda>_ _ _. Inl down)\<rparr>"

definition offline_power :: power_api where
  "offline_power = \<lparr>p_new = (\<lambda>_ _ _. None), p_url = (\<lambda>_ _ _. None), p_json = (\<lambda>_. None),
     p_build = (\<lambda>_. None), p_list = (\<lambda>_ _. Inl down), p_launch = (\<lambda>_ _. Inl down),
     p_get = (\<lambda>_ _. Inl down), p_delete = (\<lambda>_ _. Some down), p_volume = (\<lambda>_ _. Some down)\<rparr>"

definition offline :: env where
  "offline = \<lparr>kube = offline_kube, sys = offline_sys, ec2 = offline_ec2, vpc = offline_vpc,
     power = offline_power, lib = std_libs\<rparr>"

lemmas fixture_defs = offline_def offline_kube_def offline_sys_def offline_ec2_def offline_vpc_def
  offline_power_def std_libs_def

text \<open>An environment with the given Kubernetes side.\<close>

definition with_kube :: "kube_api \<Rightarrow> env" where
  "with_kube k = offline\<lparr>kube := k\<rparr>"

lemma with_kube_simps [simp]: "kube (with_kube k) = k" "lib (with_kube k) = std_libs" "sys (with_kube k) = offline_sys"
  "ec2 (with_kube k) = offline_ec2"
  by (simp_all add: with_kube_def offline_def)

lemma std_libs_documented: "lib E = std_libs \<Longrightarrow> retry_documented E" "lib E = std_libs \<Longrightarrow> finalizers_documented E"
  by (simp_all add: retry_documented_def finalizers_documented_def std_libs_def)

lemma owner_std_libs: "lib E = std_libs \<Longrightarrow> l_owner (lib E) tr s = Inr s' \<Longrightarrow> s'\<lparr>sec_Owner := sec_Owner s\<rparr> = s"
  by (auto simp: std_libs_def)

text \<open>A user task asking for a platform, and one that has a host assigned.\<close>

definition userTask :: TaskRun where
  "userTask = emptyTaskRun\<lparr>tr_Name := ''build'', tr_Namespace := ''team'',
     tr_Labels := Some Map.empty, tr_Annotations := Some Map.empty,
     tr_Params := Some [(''PLATFORM'', ''linux/arm64'')],
     tr_Volumes := Some (Some [Some ''multi-platform-ssh-build''])\<rparr>"

definition assignedTask :: "string \<Rightarrow> TaskRun" where
  "assignedTask h = userTask\<lparr>tr_Name := ''other'',
     tr_Labels := Some [AssignedHost \<mapsto> h, TargetPlatformLabel \<mapsto> ''linux-arm64'']\<rparr>"

end
