(* ===== verification/Metrics.thy ===== *)
theory Metrics
  imports Fixtures
begin

text \<open>
  \<open>pkg/metrics\<close>: the per-platform metrics (\<open>platform.go\<close>) and the gauges of running and waiting
  tasks that the periodic exporter sets (\<open>taskrun_exporter.go\<close>).
\<close>

section \<open>platform.go\<close>

definition metricsPlatformLabel :: "string \<Rightarrow> string" where
  "metricsPlatformLabel platform = ReplaceAll (CHR ''/'') (CHR ''-'') platform"

definition metricNames :: "string list" where
  "metricNames = [''host_allocation_time'', ''wait_time'', ''task_run_time'', ''provisioning_failures'',
     ''provisioning_successes'', ''cleanup_failures'', ''host_allocation_failures'', ''platform_pool_size'']"

text \<open>The collectors are registered one after the other; the first failure is returned.\<close>

fun registerAll :: "env \<Rightarrow> string \<Rightarrow> string list \<Rightarrow> goerror option M" where
  "registerAll E platform [] = ret None"
| "registerAll E platform (n # ns) =
     bnd (Register E n platform) (\<lambda>r. case r of Some e \<Rightarrow> ret (Some e) | None \<Rightarrow> registerAll E platform ns)"

definition newPlatformMetrics :: "int \<Rightarrow> PlatformMetrics" where
  "newPlatformMetrics poolSize = \<lparr>m_AllocationTime = [], m_WaitTime = [], m_TaskRunTime = [],
     m_ProvisionFailures = 0, m_ProvisionSuccesses = 0, m_CleanupFailures = 0,
     m_HostAllocationFailures = 0, m_poolSize = poolSize\<rparr>"

definition RegisterPlatformMetrics :: "env \<Rightarrow> string \<Rightarrow> int \<Rightarrow> goerror option M" where
  "RegisterPlatformMetrics E platform0 poolSize =
     (let platform = metricsPlatformLabel platform0
      in bnd (reads platformMetrics) (\<lambda>pms.
         if pms (metricsPlatformLabel platform) \<noteq> None then ret None
         else bnd (registerAll E platform metricNames) (\<lambda>r. case r of Some e \<Rightarrow> ret (Some e)
           | None \<Rightarrow> bnd (modify (\<lambda>w. w\<lparr>platformMetrics := (platformMetrics w)(platform \<mapsto> newPlatformMetrics poolSize)\<rparr>))
                     (\<lambda>_. ret None))))"

definition HandleMetrics :: "string \<Rightarrow> (PlatformMetrics \<Rightarrow> PlatformMetrics) \<Rightarrow> unit M" where
  "HandleMetrics platform0 f =
     (let platform = metricsPlatformLabel platform0
      in modify (\<lambda>w. case platformMetrics w platform of None \<Rightarrow> w
           | Some pm \<Rightarrow> w\<lparr>platformMetrics := (platformMetrics w)(platform \<mapsto> f pm)\<rparr>))"

text \<open>The updates the reconciler passes to \<open>HandleMetrics\<close>.\<close>

definition incProvisionFailures :: "PlatformMetrics \<Rightarrow> PlatformMetrics" where
  "incProvisionFailures m = m\<lparr>m_ProvisionFailures := Suc (m_ProvisionFailures m)\<rparr>"
definition incProvisionSuccesses :: "PlatformMetrics \<Rightarrow> PlatformMetrics" where
  "incProvisionSuccesses m = m\<lparr>m_ProvisionSuccesses := Suc (m_ProvisionSuccesses m)\<rparr>"
definition incCleanupFailures :: "PlatformMetrics \<Rightarrow> PlatformMetrics" where
  "incCleanupFailures m = m\<lparr>m_CleanupFailures := Suc (m_CleanupFailures m)\<rparr>"
definition incHostAllocationFailures :: "PlatformMetrics \<Rightarrow> PlatformMetrics" where
  "incHostAllocationFailures m = m\<lparr>m_HostAllocationFailures := Suc (m_HostAllocationFailures m)\<rparr>"
definition observeAllocationTime :: "rat \<Rightarrow> PlatformMetrics \<Rightarrow> PlatformMetrics" where
  "observeAllocationTime x m = m\<lparr>m_AllocationTime := m_AllocationTime m @ [x]\<rparr>"
definition observeWaitTime :: "rat \<Rightarrow> PlatformMetrics \<Rightarrow> PlatformMetrics" where
  "observeWaitTime x m = m\<lparr>m_WaitTime := m_WaitTime m @ [x]\<rparr>"
definition observeTaskRunTime :: "rat \<Rightarrow> PlatformMetrics \<Rightarrow> PlatformMetrics" where
  "observeTaskRunTime x m = m\<lparr>m_TaskRunTime := m_TaskRunTime m @ [x]\<rparr>"

text \<open>Registering twice for one platform does nothing the second time; a platform spelled with
  slashes and with dashes has one set of metrics.\<close>

lemma metricsPlatformLabel_idem [simp]: "metricsPlatformLabel (metricsPlatformLabel p) = metricsPlatformLabel p"
  by (auto simp: metricsPlatformLabel_def ReplaceAll_def)

lemma emits_registerAll [emits]:
  "(\<And>n p r. P (EvRegister n p r)) \<Longrightarrow> emits P (registerAll E platform ns)"
  by (induction ns) (auto intro!: emits simp: Register_def)

lemma emits_RegisterPlatformMetrics [emits]:
  "(\<And>n p r. P (EvRegister n p r)) \<Longrightarrow> emits P (RegisterPlatformMetrics E platform n)"
  by (auto simp: RegisterPlatformMetrics_def Let_def intro!: emits)

lemma emits_HandleMetrics [emits]: "emits P (HandleMetrics platform f)"
  by (auto simp: HandleMetrics_def Let_def intro!: emits split: option.split)

text \<open>Neither touches the configuration cache, and neither panics.\<close>

lemma wp_HandleMetrics [wp]:
  "wp (HandleMetrics p f) Q w = Q () (case platformMetrics w (metricsPlatformLabel p) of None \<Rightarrow> w
     | Some pm \<Rightarrow> w\<lparr>platformMetrics := (platformMetrics w)(metricsPlatformLabel p \<mapsto> f pm)\<rparr>)"
  "wlp (HandleMetrics p f) Q w = Q () (case platformMetrics w (metricsPlatformLabel p) of None \<Rightarrow> w
     | Some pm \<Rightarrow> w\<lparr>platformMetrics := (platformMetrics w)(metricsPlatformLabel p \<mapsto> f pm)\<rparr>)"
  by (simp_all add: HandleMetrics_def Let_def wp)

lemma wp_registerAll: "wp (registerAll E p ns) (\<lambda>r w'. same_cache w w' \<and> platformMetrics w' = platformMetrics w) w"
proof (induction ns arbitrary: w)
  case (Cons n ns)
  show ?case
    by (auto simp: wp Register_def same_cache_def split: option.split
        intro!: wp_mono [OF Cons.IH])
qed (simp add: wp)

lemma wp_RegisterPlatformMetrics:
  "wp (RegisterPlatformMetrics E p n)
     (\<lambda>r w'. same_cache w w' \<and> (r = None \<longrightarrow> platformMetrics w' (metricsPlatformLabel p) \<noteq> None)) w"
proof (cases "platformMetrics w (metricsPlatformLabel p)")
  case None
  have "wp (registerAll E (metricsPlatformLabel p) metricNames)
      (\<lambda>r w'. wp (case r of Some e \<Rightarrow> ret (Some e)
           | None \<Rightarrow> bnd (modify (\<lambda>w. w\<lparr>platformMetrics := (platformMetrics w)(metricsPlatformLabel p \<mapsto> newPlatformMetrics n)\<rparr>))
                     (\<lambda>_. ret None))
        (\<lambda>r w'. same_cache w w' \<and> (r = None \<longrightarrow> platformMetrics w' (metricsPlatformLabel p) \<noteq> None)) w') w"
    by (rule wp_mono [OF wp_registerAll]) (auto simp: wp same_cache_def split: option.split)
  with None show ?thesis by (simp add: RegisterPlatformMetrics_def Let_def wp)
qed (simp add: RegisterPlatformMetrics_def Let_def wp)

lemma ok_HandleMetrics [ok]: "Q () \<Longrightarrow> ok P (HandleMetrics p f) Q"
  by (auto simp: ok_def wp same_cache_def split: option.split)

section \<open>taskrun\_exporter.go\<close>

text \<open>The map from \<open>metricLabels\<close> (platform and namespace) to the number of tasks: one round of the
  loop per task that counts.\<close>

definition incKey :: "('k \<rightharpoonup> int) \<Rightarrow> 'k \<Rightarrow> ('k \<rightharpoonup> int)" where
  "incKey m k = m(k \<mapsto> (case m k of None \<Rightarrow> 0 | Some n \<Rightarrow> n) + 1)"

fun countRunning :: "TaskRun list \<Rightarrow> ((string \<times> string) \<rightharpoonup> int) \<Rightarrow> ((string \<times> string) \<rightharpoonup> int)" where
  "countRunning [] rts = rts"
| "countRunning (tr # trs) rts =
     (if tr_CompletionTime tr \<noteq> None then countRunning trs rts
      else let platform = label tr TargetPlatformLabel
        in if platform = [] then countRunning trs rts
           else countRunning trs (incKey rts (metricsPlatformLabel platform, tr_Namespace tr)))"

definition exportRunningTasks :: "env \<Rightarrow> goerror option M" where
  "exportRunningTasks E = bnd (List E (HasLabels AssignedHost)) (\<lambda>r. case r of
       Inl e \<Rightarrow> ret (Some e)
     | Inr trs \<Rightarrow> bnd (modify (\<lambda>w. w\<lparr>runningTasksGauge := runningTasksGauge w ++ countRunning trs Map.empty\<rparr>))
         (\<lambda>_. ret None))"

fun countWaiting :: "TaskRun list \<Rightarrow> ((string \<times> string) \<rightharpoonup> int) \<Rightarrow> ((string \<times> string) \<rightharpoonup> int)" where
  "countWaiting [] wts = wts"
| "countWaiting (tr # trs) wts =
     (let platform = label tr WaitingForPlatformLabel
      in if platform = [] then countWaiting trs wts
         else countWaiting trs (incKey wts (metricsPlatformLabel platform, tr_Namespace tr)))"

definition exportWaitingTasks :: "env \<Rightarrow> goerror option M" where
  "exportWaitingTasks E = bnd (List E (HasLabels WaitingForPlatformLabel)) (\<lambda>r. case r of
       Inl e \<Rightarrow> ret (Some e)
     | Inr trs \<Rightarrow> bnd (modify (\<lambda>w. w\<lparr>waitingTasksGauge := waitingTasksGauge w ++ countWaiting trs Map.empty\<rparr>))
         (\<lambda>_. ret None))"

text \<open>One tick of the exporter (the body of its loop): an error of one export does not stop the
  other.\<close>

definition exporterTick :: "env \<Rightarrow> unit M" where
  "exporterTick E = bnd (exportRunningTasks E) (\<lambda>_. bnd (exportWaitingTasks E) (\<lambda>_. ret ()))"

section \<open>What the gauges show\<close>

definition tally :: "('a \<Rightarrow> 'k option) \<Rightarrow> 'a list \<Rightarrow> 'k \<Rightarrow> int" where
  "tally key xs k = int (length (filter (\<lambda>x. key x = Some k) xs))"

definition runningKey :: "TaskRun \<Rightarrow> (string \<times> string) option" where
  "runningKey tr = (if tr_CompletionTime tr = None \<and> label tr TargetPlatformLabel \<noteq> []
     then Some (metricsPlatformLabel (label tr TargetPlatformLabel), tr_Namespace tr) else None)"

definition waitingKey :: "TaskRun \<Rightarrow> (string \<times> string) option" where
  "waitingKey tr = (if label tr WaitingForPlatformLabel \<noteq> []
     then Some (metricsPlatformLabel (label tr WaitingForPlatformLabel), tr_Namespace tr) else None)"

lemma tally_Cons: "tally key (x # xs) k = (if key x = Some k then 1 else 0) + tally key xs k"
  by (simp add: tally_def)

lemma tally_nonneg: "0 \<le> tally key xs k"
  by (simp add: tally_def)

definition plus_tally :: "('k \<rightharpoonup> int) \<Rightarrow> ('a \<Rightarrow> 'k option) \<Rightarrow> 'a list \<Rightarrow> 'k \<rightharpoonup> int" where
  "plus_tally m key xs k = (case m k of None \<Rightarrow> if tally key xs k = 0 then None else Some (tally key xs k)
     | Some n \<Rightarrow> Some (n + tally key xs k))"

lemma plus_tally_step:
  "plus_tally m key (x # xs) = (case key x of None \<Rightarrow> plus_tally m key xs
     | Some k \<Rightarrow> plus_tally (incKey m k) key xs)"
proof
  fix k
  show "plus_tally m key (x # xs) k = (case key x of None \<Rightarrow> plus_tally m key xs
     | Some k \<Rightarrow> plus_tally (incKey m k) key xs) k"
    using tally_nonneg [of key xs k]
    by (auto simp: plus_tally_def tally_Cons incKey_def split: option.splits)
qed

lemma countRunning_tally: "countRunning trs m = plus_tally m runningKey trs"
proof (induction trs m rule: countRunning.induct)
  case (1 rts)
  then show ?case by (auto simp: plus_tally_def tally_def fun_eq_iff split: option.split)
next
  case (2 tr trs rts)
  then show ?case by (simp add: plus_tally_step runningKey_def Let_def)
qed

lemma countWaiting_tally: "countWaiting trs m = plus_tally m waitingKey trs"
proof (induction trs m rule: countWaiting.induct)
  case (1 wts)
  then show ?case by (auto simp: plus_tally_def tally_def fun_eq_iff split: option.split)
next
  case (2 tr trs wts)
  then show ?case by (simp add: plus_tally_step waitingKey_def Let_def)
qed

text \<open>C18: one tick of the exporter, when both lists answer: a gauge shows, for each platform and
  namespace with at least one task, exactly the number of tasks that have a host assigned and are
  not completed (respectively wait for the platform), whatever the order of the lists; a gauge whose
  count dropped to none keeps its previous value.\<close>

theorem exporterTick_counts:
  assumes "k_list (kube E) (hist w) (HasLabels AssignedHost) = Inr rs"
    and "\<And>h. k_list (kube E) h (HasLabels WaitingForPlatformLabel) = Inr ws"
  shows "\<exists>w'. exporterTick E w = Some ((), w') \<and>
     (\<forall>k. runningTasksGauge w' k =
        (if tally runningKey rs k = 0 then runningTasksGauge w k else Some (tally runningKey rs k))) \<and>
     (\<forall>k. waitingTasksGauge w' k =
        (if tally waitingKey ws k = 0 then waitingTasksGauge w k else Some (tally waitingKey ws k)))"
proof -
  have "wp (exporterTick E) (\<lambda>u w'.
     (\<forall>k. runningTasksGauge w' k =
        (if tally runningKey rs k = 0 then runningTasksGauge w k else Some (tally runningKey rs k))) \<and>
     (\<forall>k. waitingTasksGauge w' k =
        (if tally waitingKey ws k = 0 then waitingTasksGauge w k else Some (tally waitingKey ws k)))) w"
    using assms
    by (auto simp: exporterTick_def exportRunningTasks_def exportWaitingTasks_def List_def wp
        countRunning_tally countWaiting_tally plus_tally_def map_add_def)
  then show ?thesis by (auto simp: wp_iff_Some)
qed

definition exporterEnv :: env where
  "exporterEnv = with_kube (offline_kube\<lparr>k_list := (\<lambda>_ _. Inr [assignedTask ''h1'', assignedTask ''h2''])\<rparr>)"

theorem exporterTick_counts_witness:
  "\<exists>w'. exporterTick exporterEnv initial = Some ((), w') \<and>
     runningTasksGauge w' (''linux-arm64'', ''team'') = Some 2 \<and>
     waitingTasksGauge w' (''linux-arm64'', ''team'') = None"
proof -
  let ?trs = "[assignedTask ''h1'', assignedTask ''h2'']"
  have "tally runningKey ?trs (''linux-arm64'', ''team'') = 2"
    by (simp add: tally_def runningKey_def assignedTask_def userTask_def emptyTaskRun_def label_def
        metricsPlatformLabel_def ReplaceAll_def)
  moreover have "tally waitingKey ?trs (''linux-arm64'', ''team'') = 0"
    by (simp add: tally_def waitingKey_def assignedTask_def userTask_def emptyTaskRun_def label_def)
  moreover have "waitingTasksGauge initial = Map.empty" by (simp add: initial_def)
  ultimately show ?thesis
    using exporterTick_counts [of exporterEnv initial ?trs ?trs]
    by (auto simp: exporterEnv_def)
qed

end
