(* ===== verification/Go_Digest.thy ===== *)
theory Go_Digest
  imports Go_Strings
begin

text \<open>
  The encodings of the Go standard library that the controller uses to build names and payloads:
  \<open>hex.EncodeToString\<close>, \<open>md5.Sum\<close> (RFC 1321, on 32-bit words that wrap around) and
  \<open>base64.StdEncoding.EncodeToString\<close>, all executable. What the components need of the digest is
  its length and that its hexadecimal form is a name-safe string.
\<close>

unbundle bit_operations_syntax

section \<open>encoding/hex\<close>

definition hex_digit :: "nat \<Rightarrow> char" where
  "hex_digit n = (if n < 10 then char_of (48 + n) else char_of (87 + n))"

definition EncodeToString :: "string \<Rightarrow> string" where
  "EncodeToString bs = concat (map (\<lambda>b. [hex_digit (of_char b div 16), hex_digit (of_char b mod 16)]) bs)"

definition is_hex :: "char \<Rightarrow> bool" where
  "is_hex c \<longleftrightarrow> c \<in> set ''0123456789abcdef''"

lemma is_hex_digit: "n < 16 \<Longrightarrow> is_hex (hex_digit n)"
proof -
  have "list_all (\<lambda>n. is_hex (hex_digit n)) [0..<16]" by code_simp
  then show "n < 16 \<Longrightarrow> is_hex (hex_digit n)" by (simp add: list_all_iff)
qed

lemma of_char_less: "of_char (c :: char) < (256 :: nat)"
  by (metis less_imp_of_nat_less of_char_of char_of_char mod_less_divisor zero_less_numeral)

lemma EncodeToString_hex: "list_all is_hex (EncodeToString bs)"
proof (induction bs)
  case (Cons b bs)
  have "of_char b div 16 < (16 :: nat)" using of_char_less [of b] by (simp add: less_mult_imp_div_less)
  with Cons show ?case by (simp add: EncodeToString_def is_hex_digit)
qed (simp add: EncodeToString_def)

lemma length_EncodeToString [simp]: "length (EncodeToString bs) = 2 * length bs"
  by (induction bs) (simp_all add: EncodeToString_def)

section \<open>crypto/md5\<close>

definition md5_K :: "32 word list" where
  "md5_K =
     [0xD76AA478, 0xE8C7B756, 0x242070DB, 0xC1BDCEEE, 0xF57C0FAF, 0x4787C62A, 0xA8304613,
      0xFD469501, 0x698098D8, 0x8B44F7AF, 0xFFFF5BB1, 0x895CD7BE, 0x6B901122, 0xFD987193,
      0xA679438E, 0x49B40821, 0xF61E2562, 0xC040B340, 0x265E5A51, 0xE9B6C7AA, 0xD62F105D,
      0x02441453, 0xD8A1E681, 0xE7D3FBC8, 0x21E1CDE6, 0xC33707D6, 0xF4D50D87, 0x455A14ED,
      0xA9E3E905, 0xFCEFA3F8, 0x676F02D9, 0x8D2A4C8A, 0xFFFA3942, 0x8771F681, 0x6D9D6122,
      0xFDE5380C, 0xA4BEEA44, 0x4BDECFA9, 0xF6BB4B60, 0xBEBFBC70, 0x289B7EC6, 0xEAA127FA,
      0xD4EF3085, 0x04881D05, 0xD9D4D039, 0xE6DB99E5, 0x1FA27CF8, 0xC4AC5665, 0xF4292244,
      0x432AFF97, 0xAB9423A7, 0xFC93A039, 0x655B59C3, 0x8F0CCC92, 0xFFEFF47D, 0x85845DD1,
      0x6FA87E4F, 0xFE2CE6E0, 0xA3014314, 0x4E0811A1, 0xF7537E82, 0xBD3AF235, 0x2AD7D2BB,
      0xEB86D391]"

definition md5_S :: "nat list" where
  "md5_S = concat (map (\<lambda>row. concat (replicate 4 row))
     [[7, 12, 17, 22], [5, 9, 14, 20], [4, 11, 16, 23], [6, 10, 15, 21]])"

type_synonym md5_state = "32 word \<times> 32 word \<times> 32 word \<times> 32 word"

fun md5_step :: "32 word list \<Rightarrow> nat \<Rightarrow> md5_state \<Rightarrow> md5_state" where
  "md5_step M i (a, b, c, d) =
     (let (f, g) =
        (if i < 16 then ((b AND c) OR (NOT b AND d), i)
         else if i < 32 then ((d AND b) OR (NOT d AND c), (5 * i + 1) mod 16)
         else if i < 48 then (b XOR c XOR d, (3 * i + 5) mod 16)
         else (c XOR (b OR NOT d), (7 * i) mod 16))
      in (d, b + word_rotl (md5_S ! i) (a + f + md5_K ! i + M ! g), b, c))"

text \<open>Four bytes, least significant first, as a word and back.\<close>

definition le_word :: "string \<Rightarrow> 32 word" where
  "le_word bs = word_of_nat (foldr (\<lambda>b n. of_char b + 256 * n) bs 0)"

definition le_bytes :: "nat \<Rightarrow> nat \<Rightarrow> string" where
  "le_bytes k n = map (\<lambda>i. char_of (n div 256 ^ i)) [0..<k]"

fun chunks :: "nat \<Rightarrow> nat \<Rightarrow> 'a list \<Rightarrow> 'a list list" where
  "chunks 0 k xs = []"
| "chunks (Suc n) k xs = take k xs # chunks n k (drop k xs)"

definition md5_block :: "string \<Rightarrow> md5_state \<Rightarrow> md5_state" where
  "md5_block bs s =
     (let M = map le_word (chunks 16 4 bs);
          (a, b, c, d) = s;
          (a', b', c', d') = fold (md5_step M) [0..<64] s
      in (a + a', b + b', c + c', d + d'))"

text \<open>The message, one bit, zeros up to 56 bytes modulo 64, the bit length in eight bytes.\<close>

definition md5_pad :: "string \<Rightarrow> string" where
  "md5_pad m = m @ [CHR 0x80] @ replicate ((119 - length m mod 64) mod 64) (CHR 0x00)
     @ le_bytes 8 (8 * length m)"

definition md5_Sum :: "string \<Rightarrow> string" where
  "md5_Sum m =
     (let p = md5_pad m;
          (a, b, c, d) = fold md5_block (chunks (length p div 64) 64 p)
                           (0x67452301, 0xEFCDAB89, 0x98BADCFE, 0x10325476)
      in concat (map (\<lambda>w. le_bytes 4 (unat w)) [a, b, c, d]))"

lemma length_md5_Sum [simp]: "length (md5_Sum m) = 16"
  by (simp add: md5_Sum_def Let_def le_bytes_def split: prod.split)

section \<open>encoding/base64\<close>

definition b64_alphabet :: string where
  "b64_alphabet = ''ABCDEFGHIJKLMNOPQRSTUVWXYZabcdefghijklmnopqrstuvwxyz0123456789+/''"

fun base64 :: "string \<Rightarrow> string" where
  "base64 [] = []"
| "base64 [x] =
     (let n = of_char x * 16 in [b64_alphabet ! (n div 64), b64_alphabet ! (n mod 64), CHR ''='', CHR ''=''])"
| "base64 [x, y] =
     (let n = (of_char x * 256 + of_char y) * 4
      in [b64_alphabet ! (n div 4096), b64_alphabet ! (n div 64 mod 64), b64_alphabet ! (n mod 64), CHR ''=''])"
| "base64 (x # y # z # zs) =
     (let n = of_char x * 65536 + of_char y * 256 + of_char z
      in [b64_alphabet ! (n div 262144), b64_alphabet ! (n div 4096 mod 64),
          b64_alphabet ! (n div 64 mod 64), b64_alphabet ! (n mod 64)] @ base64 zs)"

end
