(* ===== verification/TaskRun_Core.thy ===== *)
theory TaskRun_Core
  imports Metrics Go_Digest
begin

text \<open>
  The helpers of \<open>pkg/reconciler/taskrun/taskrun.go\<close> that every platform kind uses: names of
  platforms, the conflict-resilient update of a TaskRun, the secrets written for the user's task and
  the provisioning task, with \<open>createUserTaskSecret\<close> of \<open>local.go\<close>. A function that mutates the
  TaskRun it is given through a pointer returns the TaskRun as it is afterwards.
\<close>

section \<open>Names\<close>

definition platformLabel :: "string \<Rightarrow> string" where
  "platformLabel platform = ReplaceAll (CHR ''/'') (CHR ''-'') platform"

definition rawPlatform :: "string \<Rightarrow> string" where
  "rawPlatform platform =
     (let parts = Split (CHR ''-'') (platformLabel platform)
      in if length parts = 0 then platform
         else if length parts = 1 then parts ! 0
         else parts ! 0 @ ''-'' @ parts ! (length parts - 1))"

text \<open>\<open>hex.EncodeToString(hash[:])[:5]\<close> of the MD5 hash of an address.\<close>

definition shortHash :: "string \<Rightarrow> string" where
  "shortHash address = take 5 (EncodeToString (md5_Sum address))"

section \<open>Updating a TaskRun\<close>

definition managedLabels :: "string list" where
  "managedLabels = [AssignedHost, UserTaskName, UserTaskNamespace, TargetPlatformLabel,
     WaitingForPlatformLabel, TaskTypeLabel]"

definition managedAnnotations :: "string list" where
  "managedAnnotations = [FailedHosts, CloudInstanceId, ProvisionTaskProcessed, AllocationStartTimeAnnotation]"

definition mergeKeysInMaps :: "strmap option \<Rightarrow> strmap option \<Rightarrow> string list \<Rightarrow> strmap" where
  "mergeKeysInMaps latest0 mutation0 keys =
     (let latest = (case latest0 of None \<Rightarrow> Map.empty | Some m \<Rightarrow> m);
          mutation = (case mutation0 of None \<Rightarrow> Map.empty | Some m \<Rightarrow> m)
      in foldl (\<lambda>acc k. case mutation k of Some a \<Rightarrow> acc(k \<mapsto> a) | None \<Rightarrow> acc(k := None)) latest keys)"

definition ContainsFinalizer :: "env \<Rightarrow> TaskRun \<Rightarrow> string \<Rightarrow> bool" where
  "ContainsFinalizer E tr f = l_contains (lib E) (tr_Finalizers tr) f"

definition AddFinalizer :: "env \<Rightarrow> TaskRun \<Rightarrow> string \<Rightarrow> bool \<times> TaskRun" where
  "AddFinalizer E tr f = (let (changed, fs) = l_add (lib E) (tr_Finalizers tr) f in (changed, tr\<lparr>tr_Finalizers := fs\<rparr>))"

definition RemoveFinalizer :: "env \<Rightarrow> TaskRun \<Rightarrow> string \<Rightarrow> bool \<times> TaskRun" where
  "RemoveFinalizer E tr f = (let (changed, fs) = l_remove (lib E) (tr_Finalizers tr) f in (changed, tr\<lparr>tr_Finalizers := fs\<rparr>))"

definition ensureFinalizerIsUpdated :: "env \<Rightarrow> TaskRun \<Rightarrow> TaskRun \<Rightarrow> string \<Rightarrow> TaskRun" where
  "ensureFinalizerIsUpdated E latest mutated finalizer =
     (let ofin = ContainsFinalizer E latest finalizer;
          mfin = ContainsFinalizer E mutated finalizer
      in if mfin = ofin then latest
         else if \<not> mfin then snd (RemoveFinalizer E latest finalizer)
         else snd (AddFinalizer E latest finalizer))"

text \<open>The object that \<open>updateTaskRun\<close> sends, from the latest version and the mutated one.\<close>

definition mergedTaskRun :: "env \<Rightarrow> TaskRun \<Rightarrow> TaskRun \<Rightarrow> TaskRun" where
  "mergedTaskRun E latest tr =
     ensureFinalizerIsUpdated E
       (latest\<lparr>tr_Annotations := Some (mergeKeysInMaps (tr_Annotations latest) (tr_Annotations tr) managedAnnotations),
               tr_Labels := Some (mergeKeysInMaps (tr_Labels latest) (tr_Labels tr) managedLabels)\<rparr>)
       tr PipelineFinalizer"

definition updateTaskRun :: "env \<Rightarrow> TaskRun \<Rightarrow> goerror option M" where
  "updateTaskRun E tr =
     bnd (ApiGet E (objKey tr)) (\<lambda>r. case r of
       Inl err \<Rightarrow> ret (Some err)
     | Inr latest \<Rightarrow> bnd (Update E (mergedTaskRun E latest tr)) (\<lambda>(err, _). ret err))"

definition UpdateTaskRunWithRetry :: "env \<Rightarrow> TaskRun \<Rightarrow> (goerror option \<times> TaskRun) M" where
  "UpdateTaskRunWithRetry E tr0 =
     bnd (Update E tr0) (\<lambda>(err, tr). case err of
       None \<Rightarrow> ret (None, tr)
     | Some e \<Rightarrow> if \<not> IsConflict e then ret (Some e, tr)
                else bnd (l_retryOnConflict (lib E) (updateTaskRun E tr)) (\<lambda>r. ret (r, tr)))"

section \<open>Secrets for the user's task\<close>

definition NL :: char where "NL = CHR 0x0A"

definition errorMessage :: "string \<Rightarrow> string \<Rightarrow> string \<Rightarrow> int \<Rightarrow> string" where
  "errorMessage msg targetPlatform file line =
     msg @ [NL, NL] @ ''Context info:'' @ [NL] @ ''  Platform: '' @ targetPlatform @ [NL] @
     ''  File:     '' @ file @ [NL] @ ''  Line:     '' @ Itoa line @ [NL, NL]"

definition newSecret :: "string \<Rightarrow> string \<Rightarrow> strmap \<Rightarrow> Secret" where
  "newSecret ns name data = \<lparr>sec_Name = name, sec_Namespace = ns,
     sec_Labels = [MultiPlatformSecretLabel \<mapsto> ''true''], sec_Data = data, sec_Owner = None\<rparr>"

text \<open>\<open>createErrorSecret\<close>; \<open>line\<close> is the line of the calling statement, which \<open>runtime.Caller(1)\<close>
  reports. The owner reference is set before the data.\<close>

definition createErrorSecret ::
  "env \<Rightarrow> int \<Rightarrow> TaskRun \<Rightarrow> string \<Rightarrow> string \<Rightarrow> string \<Rightarrow> (goerror option \<times> TaskRun) M" where
  "createErrorSecret E line tr0 targetPlatform secretName msg =
     (let (changed, tr1) = AddFinalizer E tr0 PipelineFinalizer
      in bnd (if changed then Update E tr1 else ret (None, tr1)) (\<lambda>(err, tr). case err of
         Some e \<Rightarrow> ret (Some e, tr)
       | None \<Rightarrow> (case l_owner (lib E) tr (newSecret (tr_Namespace tr) secretName Map.empty) of
           Inl e \<Rightarrow> ret (Some e, tr)
         | Inr secret \<Rightarrow>
             bnd (CreateSecret E (secret\<lparr>sec_Data := [''error'' \<mapsto> errorMessage msg targetPlatform (l_file (lib E)) line]\<rparr>))
               (\<lambda>err. case err of
                  Some e \<Rightarrow> if IsAlreadyExists e then ret (None, tr) else ret (Some e, tr)
                | None \<Rightarrow> ret (None, tr)))))"

definition createUserTaskSecret :: "env \<Rightarrow> TaskRun \<Rightarrow> string \<Rightarrow> strmap \<Rightarrow> goerror option M" where
  "createUserTaskSecret E tr secretName secretData =
     (case l_owner (lib E) tr (newSecret (tr_Namespace tr) secretName secretData) of
        Inl e \<Rightarrow> ret (Some e)
      | Inr secret \<Rightarrow> bnd (CreateSecret E secret) (\<lambda>err. case err of
          Some e \<Rightarrow> if IsAlreadyExists e then ret None else ret (Some e)
        | None \<Rightarrow> ret None))"

section \<open>The provisioning task\<close>

definition provisionTaskRef :: "string \<Rightarrow> string" where
  "provisionTaskRef platform =
     (if prefix ''windows'' platform then ''provision-host-windows''
      else if prefix ''macos'' platform then ''provision-host-macos''
      else ''provision-shared-host'')"

definition provisionTask ::
  "env \<Rightarrow> TaskRun \<Rightarrow> string \<Rightarrow> string \<Rightarrow> string \<Rightarrow> string \<Rightarrow> string \<Rightarrow> string \<Rightarrow> string \<Rightarrow> TaskRun" where
  "provisionTask E tr secretName sshSecret address user platform sudoCommands instanceTag =
     emptyTaskRun\<lparr>
       tr_Name := l_childName (lib E) (tr_Name tr) (''-prov-'' @ shortHash address),
       tr_Namespace := operatorNamespace (lib E),
       tr_Labels := Some [TaskTypeLabel \<mapsto> TaskTypeProvision, TargetPlatformLabel \<mapsto> platformLabel platform,
         UserTaskNamespace \<mapsto> tr_Namespace tr, UserTaskName \<mapsto> tr_Name tr,
         AssignedHost \<mapsto> label tr AssignedHost],
       tr_TaskRef := Some (provisionTaskRef platform),
       tr_Workspaces := [(''ssh'', sshSecret)],
       tr_Requests := [(''cpu'', ''100m''), (''memory'', ''256Mi'')],
       tr_Limits := [(''cpu'', ''100m''), (''memory'', ''512Mi'')],
       tr_ServiceAccountName := ProvisionerServiceAccountName,
       tr_Params := Some [(''SECRET_NAME'', secretName), (''TASKRUN_NAME'', tr_Name tr),
         (''NAMESPACE'', tr_Namespace tr), (''HOST'', address), (''USER'', user),
         (''SUDO_COMMANDS'', sudoCommands), (''RAW_PLATFORM'', rawPlatform platform),
         (''INSTANCE_TAG'', instanceTag)]\<rparr>"

definition launchProvisioningTask ::
  "env \<Rightarrow> TaskRun \<Rightarrow> string \<Rightarrow> string \<Rightarrow> string \<Rightarrow> string \<Rightarrow> string \<Rightarrow> string \<Rightarrow> (goerror option \<times> TaskRun) M" where
  "launchProvisioningTask E tr secretName sshSecret address user platform sudoCommands =
     bnd (GetSecret E (operatorNamespace (lib E), sshSecret)) (\<lambda>r. case r of
       Inl _ \<Rightarrow> createErrorSecret E 986 tr platform secretName
         ''failed to get SSH secret, system may not be configured correctly''
     | Inr _ \<Rightarrow>
         bnd (GetConfigMap E (operatorNamespace (lib E), HostConfig)) (\<lambda>c.
         let instanceTag = (case c of Inl _ \<Rightarrow> [] | Inr hostCfg \<Rightarrow> lk (cm_Data hostCfg) DefaultInstanceTag)
         in bnd (Create E (provisionTask E tr secretName sshSecret address user platform sudoCommands instanceTag))
              (\<lambda>err. case err of
                 Some e \<Rightarrow> if IsAlreadyExists e then ret (None, tr) else ret (Some e, tr)
               | None \<Rightarrow> ret (None, tr))))"

section \<open>Lemmas\<close>

lemma finalizer_simps [simp]:
  "tr_Labels (snd (AddFinalizer E tr f)) = tr_Labels tr"
  "tr_Annotations (snd (AddFinalizer E tr f)) = tr_Annotations tr"
  "tr_Namespace (snd (AddFinalizer E tr f)) = tr_Namespace tr"
  "tr_Name (snd (AddFinalizer E tr f)) = tr_Name tr"
  "tr_Labels (snd (RemoveFinalizer E tr f)) = tr_Labels tr"
  "tr_Annotations (snd (RemoveFinalizer E tr f)) = tr_Annotations tr"
  "tr_Namespace (snd (RemoveFinalizer E tr f)) = tr_Namespace tr"
  "tr_Name (snd (RemoveFinalizer E tr f)) = tr_Name tr"
  by (simp_all add: AddFinalizer_def RemoveFinalizer_def split: prod.split)

lemma foldl_merge:
  "foldl (\<lambda>acc k. case f k of Some a \<Rightarrow> acc(k \<mapsto> a) | None \<Rightarrow> acc(k := None)) m keys k =
     (if k \<in> set keys then f k else m k)"
  by (induction keys arbitrary: m) (auto split: option.splits)

definition or_empty :: "strmap option \<Rightarrow> strmap" where
  "or_empty m = (case m of None \<Rightarrow> Map.empty | Some f \<Rightarrow> f)"

lemma or_empty_simps [simp]: "or_empty None = Map.empty" "or_empty (Some f) = f"
  by (simp_all add: or_empty_def)

lemma mergeKeysInMaps_apply:
  "mergeKeysInMaps latest mutation keys k =
     (if k \<in> set keys then or_empty mutation k else or_empty latest k)"
  by (simp add: mergeKeysInMaps_def foldl_merge or_empty_def Let_def)

text \<open>Length and alphabet of the suffix of a child task's name.\<close>

lemma length_shortHash [simp]: "length (shortHash a) = 5"
  by (simp add: shortHash_def length_md5_Sum)

section \<open>What an update sends\<close>

text \<open>The fields of a TaskRun that the conflict path takes from the mutated object, and that the rest
  comes from the latest one.\<close>

definition managed_from :: "TaskRun \<Rightarrow> TaskRun \<Rightarrow> bool" where
  "managed_from tr sent \<longleftrightarrow>
     (\<forall>k \<in> set managedLabels. or_empty (tr_Labels sent) k = or_empty (tr_Labels tr) k) \<and>
     (\<forall>k \<in> set managedAnnotations. or_empty (tr_Annotations sent) k = or_empty (tr_Annotations tr) k) \<and>
     (PipelineFinalizer \<in> set (tr_Finalizers sent) \<longleftrightarrow> PipelineFinalizer \<in> set (tr_Finalizers tr))"

definition rest_from :: "TaskRun \<Rightarrow> TaskRun \<Rightarrow> bool" where
  "rest_from latest sent \<longleftrightarrow>
     (\<forall>k. k \<notin> set managedLabels \<longrightarrow> or_empty (tr_Labels sent) k = or_empty (tr_Labels latest) k) \<and>
     (\<forall>k. k \<notin> set managedAnnotations \<longrightarrow> or_empty (tr_Annotations sent) k = or_empty (tr_Annotations latest) k) \<and>
     (\<forall>f. f \<noteq> PipelineFinalizer \<longrightarrow> f \<in> set (tr_Finalizers sent) \<longleftrightarrow> f \<in> set (tr_Finalizers latest)) \<and>
     sent\<lparr>tr_Labels := tr_Labels latest, tr_Annotations := tr_Annotations latest,
          tr_Finalizers := tr_Finalizers latest\<rparr> = latest"

lemma managed_from_refl: "managed_from tr tr"
  by (simp add: managed_from_def)

lemma ensureFinalizerIsUpdated_documented:
  assumes "finalizers_documented E"
  shows "ensureFinalizerIsUpdated E latest tr f =
    latest\<lparr>tr_Finalizers :=
      (if f \<in> set (tr_Finalizers tr)
       then if f \<in> set (tr_Finalizers latest) then tr_Finalizers latest else tr_Finalizers latest @ [f]
       else filter (\<lambda>g. g \<noteq> f) (tr_Finalizers latest))\<rparr>"
proof -
  have "filter (\<lambda>g. g \<noteq> f) fs = fs" if "f \<notin> set fs" for fs
    using that by (induction fs) auto
  with assms show ?thesis
    by (simp add: ensureFinalizerIsUpdated_def ContainsFinalizer_def AddFinalizer_def
        RemoveFinalizer_def finalizers_documented_def Let_def)
qed

lemma mergedTaskRun_merges:
  assumes "finalizers_documented E"
  shows "managed_from tr (mergedTaskRun E latest tr)" and "rest_from latest (mergedTaskRun E latest tr)"
  by (auto simp: managed_from_def rest_from_def mergedTaskRun_def mergeKeysInMaps_apply
      ensureFinalizerIsUpdated_documented [OF assms])

text \<open>What a successful attempt on the conflict path did since the history was \<open>h\<close>: it read the latest
  version and sent the merge of the two.\<close>

definition sent_merge :: "history \<Rightarrow> TaskRun \<Rightarrow> world \<Rightarrow> bool" where
  "sent_merge h tr w \<longleftrightarrow> (\<exists>es latest sent answer.
     hist w = h @ es @ [EvUpdate sent (Inr answer)] \<and> EvApiGet (objKey tr) (Inr latest) \<in> set es \<and>
     managed_from tr sent \<and> rest_from latest sent)"

lemma updateTaskRun_merges:
  assumes "finalizers_documented E" "hist w = h @ es"
  shows "wp (updateTaskRun E tr) (\<lambda>r w'. (\<exists>es'. hist w' = h @ es') \<and> (r = None \<longrightarrow> sent_merge h tr w')) w"
proof -
  have *: "sent_merge h tr w'" if "hist w' = h @ es @ [EvApiGet (objKey tr) (Inr latest),
      EvUpdate (mergedTaskRun E latest tr) (Inr answer)]" for w' latest answer
    unfolding sent_merge_def using mergedTaskRun_merges [OF assms(1)] that
    by (intro exI [of _ "es @ [EvApiGet (objKey tr) (Inr latest)]"] exI [of _ latest]
        exI [of _ "mergedTaskRun E latest tr"] exI [of _ answer]) simp
  show ?thesis
    by (auto simp: updateTaskRun_def ApiGet_def Update_def UpdateObj_def wp assms(2)
        split: sum.split intro!: *)
qed

text \<open>Retrying keeps what every attempt establishes.\<close>

lemma wp_on_error:
  assumes "\<And>w. I w \<Longrightarrow> wp fn (\<lambda>r w'. I w' \<and> Q r w') w" and "I w" and "0 < n"
  shows "wp (on_error n P fn) (\<lambda>r w'. I w' \<and> Q r w') w"
  using assms(2,3)
proof (induction n arbitrary: w)
  case (Suc n)
  show ?case
    using Suc by (auto simp: wp split: option.split intro!: wp_mono [OF assms(1)])
qed simp

lemma wp_retryOnConflict:
  assumes "retry_documented E" "\<And>w. I w \<Longrightarrow> wp fn (\<lambda>r w'. I w' \<and> Q r w') w" "I w"
  shows "wp (l_retryOnConflict (lib E) fn) (\<lambda>r w'. I w' \<and> Q r w') w"
  using wp_on_error [OF assms(2,3), of 5] assms(1) by (simp add: retry_documented_def)

text \<open>The update as its callers see it: it returns, leaves the configuration cache alone, and the
  TaskRun afterwards is the server's answer or unchanged.\<close>

definition update_post :: "env \<Rightarrow> TaskRun \<Rightarrow> world \<Rightarrow> goerror option \<times> TaskRun \<Rightarrow> world \<Rightarrow> bool" where
  "update_post E tr w res w' \<longleftrightarrow> same_cache w w' \<and>
     (snd res = tr \<or> k_update (kube E) (hist w) tr = Inr (snd res))"

lemma wp_UpdateTaskRunWithRetry:
  assumes "retry_documented E"
  shows "wp (UpdateTaskRunWithRetry E tr) (update_post E tr w) w"
proof -
  have u: "wp (updateTaskRun E tr) (\<lambda>r w'. same_cache w w' \<and> True) v" if "same_cache w v" for v
    using that by (auto simp: updateTaskRun_def ApiGet_def Update_def UpdateObj_def wp same_cache_def
        split: sum.split)
  have "wp (l_retryOnConflict (lib E) (updateTaskRun E tr)) (\<lambda>r w'. update_post E tr w (r, tr) w') v"
    if "same_cache w v" for v
    using wp_retryOnConflict [OF assms u that] by (auto simp: update_post_def elim: wp_mono)
  then show ?thesis
    by (auto simp: UpdateTaskRunWithRetry_def Update_def UpdateObj_def wp update_post_def same_cache_def
        split: sum.split)
qed

lemma emits_Update [emits]: "(\<And>r. P (EvUpdate tr r)) \<Longrightarrow> emits P (Update E tr)"
  by (auto simp: Update_def UpdateObj_def intro!: emits)

lemma emits_UpdateTaskRunWithRetry:
  assumes "retry_documented E" "\<And>x r. P (EvUpdate x r)" "\<And>k r. P (EvApiGet k r)"
  shows "emits P (UpdateTaskRunWithRetry E tr)"
  unfolding UpdateTaskRunWithRetry_def updateTaskRun_def ApiGet_def
    assms(1) [unfolded retry_documented_def, rule_format]
  by (intro emits assms(2,3))

lemma accepted_update:
  assumes "retry_documented E" "finalizers_documented E"
    and "UpdateTaskRunWithRetry E tr w = Some ((None, tr'), w')"
  shows "hist w' = hist w @ [EvUpdate tr (Inr tr')] \<or> sent_merge (hist w) tr w'"
proof -
  have u: "wp (updateTaskRun E tr) (\<lambda>r w'. (\<exists>es. hist w' = hist w @ es) \<and> (r = None \<longrightarrow> sent_merge (hist w) tr w')) v"
    if "\<exists>es. hist v = hist w @ es" for v
    using that updateTaskRun_merges [OF assms(2)] by blast
  have r: "wlp (l_retryOnConflict (lib E) (updateTaskRun E tr)) (\<lambda>r w'. r = None \<longrightarrow> sent_merge (hist w) tr w')
      (w\<lparr>hist := hist w @ es\<rparr>)" for es
    by (rule wlp_mono [OF wp_imp_wlp [OF wp_retryOnConflict [OF assms(1) u]]]) auto
  have "wlp (UpdateTaskRunWithRetry E tr)
     (\<lambda>(err, tr') w'. err = None \<longrightarrow> hist w' = hist w @ [EvUpdate tr (Inr tr')] \<or> sent_merge (hist w) tr w') w"
    by (auto simp: UpdateTaskRunWithRetry_def Update_def UpdateObj_def wp split: sum.split
        intro!: wlp_mono [OF r])
  from wlpD [OF this assms(3)] show ?thesis by simp
qed

text \<open>The sent object in either case.\<close>

lemma accepted_update_sent:
  assumes "retry_documented E" "finalizers_documented E"
    and "UpdateTaskRunWithRetry E tr w = Some ((None, tr'), w')"
  shows "\<exists>es sent answer. hist w' = hist w @ es @ [EvUpdate sent (Inr answer)] \<and> managed_from tr sent"
  using accepted_update [OF assms] managed_from_refl [of tr]
  by (auto simp: sent_merge_def)

text \<open>C6: a successful \<open>UpdateTaskRunWithRetry\<close> ends in an accepted update: either of the TaskRun as
  the caller has it, or, after a conflict, of a version read from the API server during this call in
  which exactly the managed labels and annotations and the controller's finalizer are replaced by the
  caller's, so that no concurrent change to anything else is lost.\<close>

theorem UpdateTaskRunWithRetry_merges:
  assumes "retry_documented E" "finalizers_documented E"
    and "UpdateTaskRunWithRetry E tr w = Some ((None, tr'), w')"
  shows "hist w' = hist w @ [EvUpdate tr (Inr tr')] \<or>
    (\<exists>es latest sent answer. hist w' = hist w @ es @ [EvUpdate sent (Inr answer)] \<and>
       EvApiGet (objKey tr) (Inr latest) \<in> set es \<and> managed_from tr sent \<and> rest_from latest sent)"
  using accepted_update [OF assms] by (simp add: sent_merge_def)

text \<open>Example: the first update is refused with a conflict; the version on the server has a label of
  somebody else's.\<close>

definition conflictEnv :: env where
  "conflictEnv = with_kube (offline_kube\<lparr>
     k_update := (\<lambda>h tr. if tr_ResourceVersion tr = ''2'' then Inr tr else Inl (ErrAPI Conflict ''stale'')),
     k_apiGet := (\<lambda>h k. Inr (userTask\<lparr>tr_ResourceVersion := ''2'', tr_Labels := Some [''team'' \<mapsto> ''a'']\<rparr>))\<rparr>)"

theorem UpdateTaskRunWithRetry_merges_witness:
  "\<exists>w' sent answer. UpdateTaskRunWithRetry conflictEnv (assignedTask ''h1'') initial =
      Some ((None, assignedTask ''h1''), w') \<and>
     last (hist w') = EvUpdate sent (Inr answer) \<and> label sent AssignedHost = ''h1''"
proof -
  let ?tr = "assignedTask ''h1''"
  obtain w' where run: "UpdateTaskRunWithRetry conflictEnv ?tr initial = Some ((None, ?tr), w')"
    by (simp add: UpdateTaskRunWithRetry_def Update_def UpdateObj_def updateTaskRun_def ApiGet_def
        call_def bnd_def ret_def conflictEnv_def std_libs_def initial_def IsConflict_def assignedTask_def
        userTask_def emptyTaskRun_def mergedTaskRun_def ensureFinalizerIsUpdated_def ContainsFinalizer_def
        eval_nat_numeral)
  from UpdateTaskRunWithRetry_merges [OF std_libs_documented this]
  obtain es sent answer where "hist w' = hist initial @ es @ [EvUpdate sent (Inr answer)]" "managed_from ?tr sent"
    by (auto simp: conflictEnv_def managed_from_refl)
  moreover from this(2) have "or_empty (tr_Labels sent) AssignedHost = Some ''h1''"
    by (simp add: managed_from_def managedLabels_def assignedTask_def)
  ultimately show ?thesis
    using run by (auto simp: label_def or_empty_def split: option.splits)
qed

section \<open>What is done on behalf of a user's task\<close>

text \<open>The tasks the controller creates: in its own namespace, labelled with the user's task they work
  for, a provisioning task under the provisioner's service account, a cleanup task under the one
  without privileges.\<close>

definition internal_task :: "env \<Rightarrow> nsname \<Rightarrow> TaskRun \<Rightarrow> bool" where
  "internal_task E key p \<longleftrightarrow>
     tr_Namespace p = operatorNamespace (lib E) \<and>
     (label p UserTaskNamespace, label p UserTaskName) = key \<and>
     (label p TaskTypeLabel = TaskTypeProvision \<and> tr_ServiceAccountName p = ProvisionerServiceAccountName \<or>
      label p TaskTypeLabel = TaskTypeClean \<and> tr_ServiceAccountName p = TaskRunnerServiceAccountName)"

text \<open>What handling the user's task with a given key and secret name may do to the cluster: update
  that TaskRun, create that secret (marked as the controller's) in its namespace, create internal
  tasks for it. It deletes no TaskRun, touches no pod and no other secret. Reads, events of the
  recorder and calls to the cloud are not restricted here.\<close>

definition permitted :: "env \<Rightarrow> nsname \<Rightarrow> string \<Rightarrow> event \<Rightarrow> bool" where
  "permitted E key secretName e = (case e of
       EvUpdate x _ \<Rightarrow> objKey x = key
     | EvCreate p _ \<Rightarrow> internal_task E key p
     | EvDelete _ _ \<Rightarrow> False
     | EvCreateSecret s _ \<Rightarrow> sec_Namespace s = fst key \<and> sec_Name s = secretName \<and>
         sec_Labels s MultiPlatformSecretLabel = Some ''true''
     | EvDeleteSecret _ _ \<Rightarrow> False
     | EvUpdatePod _ _ \<Rightarrow> False
     | _ \<Rightarrow> True)"

lemma objKey_simps [simp]:
  "objKey (delLabel k tr) = objKey tr"
  "objKey (delAnnotation k tr) = objKey tr"
  "objKey (ensureLabels tr) = objKey tr"
  "objKey (ensureAnnotations tr) = objKey tr"
  "objKey (snd (AddFinalizer E tr f)) = objKey tr"
  "objKey (snd (RemoveFinalizer E tr f)) = objKey tr"
  by (simp_all add: objKey_def delLabel_def delAnnotation_def ensureLabels_def ensureAnnotations_def
      split: option.split)

lemma objKey_set:
  "setLabel k v tr = Some tr' \<Longrightarrow> objKey tr' = objKey tr"
  "setAnnotation k v tr = Some tr' \<Longrightarrow> objKey tr' = objKey tr"
  by (auto simp: setLabel_Some setAnnotation_Some objKey_def)

lemma set_ex [simp]:
  "(\<exists>tr'. setLabel k v tr = Some tr') = (tr_Labels tr \<noteq> None)"
  "(\<exists>tr'. setAnnotation k v tr = Some tr') = (tr_Annotations tr \<noteq> None)"
  by (auto simp: setLabel_Some setAnnotation_Some)

lemma objKey_merged [simp]: "objKey (mergedTaskRun E latest tr) = objKey latest"
  by (simp add: mergedTaskRun_def ensureFinalizerIsUpdated_def Let_def)
     (simp add: objKey_def)

lemma ok_Update [ok]:
  assumes "documented E" "\<And>r. P (EvUpdate tr r)"
  shows "ok P (Update E tr) (\<lambda>(err, tr'). objKey tr' = objKey tr)"
  using assms
  by (auto simp: ok_def Update_def UpdateObj_def wp documented_def objects_documented_def same_cache_def
      split: sum.split)

lemma ok_updateTaskRun:
  assumes "documented E" "\<And>x r. objKey x = objKey tr \<Longrightarrow> P (EvUpdate x r)" "\<And>k r. P (EvApiGet k r)"
  shows "ok P (updateTaskRun E tr) (\<lambda>_. True)"
proof -
  have "ok P (ApiGet E (objKey tr)) (\<lambda>r. \<forall>tr'. r = Inr tr' \<longrightarrow> objKey tr' = objKey tr)"
    unfolding ApiGet_def
    by (rule ok_call) (auto intro: assms documented_keys [OF assms(1)])
  then show ?thesis
    unfolding updateTaskRun_def by (rule ok_bnd) (auto intro!: ok assms)
qed

lemma ok_UpdateTaskRunWithRetry:
  assumes "documented E" "\<And>x r. objKey x = objKey tr \<Longrightarrow> P (EvUpdate x r)" "\<And>k r. P (EvApiGet k r)"
  shows "ok P (UpdateTaskRunWithRetry E tr) (\<lambda>(err, tr'). objKey tr' = objKey tr)"
proof -
  have r: "l_retryOnConflict (lib E) fn = on_error 5 IsConflict fn" for fn
    using assms(1) by (simp add: documented_def retry_documented_def)
  have u: "ok P (Update E tr) (\<lambda>(err, tr'). objKey tr' = objKey tr)"
    by (intro ok assms) simp
  have v: "ok P (on_error 5 IsConflict (updateTaskRun E b)) (\<lambda>_. True)" if "objKey b = objKey tr" for b
    by (rule ok_on_error, rule ok_updateTaskRun) (use assms that in auto)
  show ?thesis
    unfolding UpdateTaskRunWithRetry_def r
    by (rule ok_bnd [OF u]) (auto intro!: ok ok_bnd [OF v])
qed

lemma permitted_UpdateTaskRunWithRetry [ok]:
  assumes "documented E" "objKey tr = key"
  shows "ok (permitted E key secretName) (UpdateTaskRunWithRetry E tr) (\<lambda>(err, tr'). objKey tr' = key)"
  using ok_UpdateTaskRunWithRetry [OF assms(1), of tr "permitted E key secretName"] assms(2)
  by (simp add: permitted_def)

lemma owner_keeps:
  assumes "documented E" "l_owner (lib E) tr (newSecret ns name data) = Inr s"
  shows "sec_Namespace s = ns" "sec_Name s = name" "sec_Labels s = [MultiPlatformSecretLabel \<mapsto> ''true'']"
proof -
  have "s\<lparr>sec_Owner := sec_Owner (newSecret ns name data)\<rparr> = newSecret ns name data"
    using assms unfolding documented_def objects_documented_def by blast
  then show "sec_Namespace s = ns" "sec_Name s = name" "sec_Labels s = [MultiPlatformSecretLabel \<mapsto> ''true'']"
    by (cases s; simp add: newSecret_def)+
qed

lemma permitted_createErrorSecret [ok]:
  assumes d: "documented E" and k: "objKey tr = key"
  shows "ok (permitted E key secretName) (createErrorSecret E line tr platform secretName msg)
    (\<lambda>(err, tr'). objKey tr' = key)"
proof -
  obtain changed tr1 where a: "AddFinalizer E tr PipelineFinalizer = (changed, tr1)" by force
  then have k1: "objKey tr1 = key" using k objKey_simps(5) [of E tr PipelineFinalizer] by simp
  have u: "ok (permitted E key secretName) (if changed then Update E tr1 else ret (None, tr1))
      (\<lambda>(err, tr'). objKey tr' = key)"
    using ok_Update [OF d, of "permitted E key secretName" tr1] k1
    by (auto simp: permitted_def intro: ok)
  show ?thesis
    unfolding createErrorSecret_def a prod.case Let_def
    by (rule ok_bnd [OF u])
       (auto intro!: ok simp: permitted_def owner_keeps [OF d] objKey_def)
qed

lemma permitted_createUserTaskSecret [ok]:
  assumes d: "documented E" and k: "objKey tr = key"
  shows "ok (permitted E key secretName) (createUserTaskSecret E tr secretName data) (\<lambda>_. True)"
  unfolding createUserTaskSecret_def
  by (auto intro!: ok simp: permitted_def owner_keeps [OF d] k [symmetric] objKey_def)

lemma permitted_launchProvisioningTask [ok]:
  assumes d: "documented E" and k: "objKey tr = key"
  shows "ok (permitted E key secretName)
    (launchProvisioningTask E tr secretName sshSecret address user platform sudo)
    (\<lambda>(err, tr'). objKey tr' = key)"
proof -
  have "permitted E key secretName
      (EvCreate (provisionTask E tr secretName sshSecret address user platform sudo tag) r)" for tag r
    by (simp add: permitted_def internal_task_def provisionTask_def label_def k [symmetric] objKey_def)
  moreover have "permitted E key secretName (EvGetSecret k r)"
    "permitted E key secretName (EvGetConfigMap k r')" for k r r'
    by (simp_all add: permitted_def)
  ultimately show ?thesis
    unfolding launchProvisioningTask_def by (auto intro!: ok d k)
qed

end
