(* ===== verification/Provider_Interface.thy ===== *)
theory Provider_Interface
  imports TaskRun_Core
begin

text \<open>
  The interface \<open>cloud.CloudProvider\<close> of \<open>pkg/cloud/cloud.go\<close>: its operations as a record, and the
  contract its clients rely on as a locale. The contract: every operation returns, none of them
  writes to the cluster, only launching starts an instance, only terminating stops one, and launching
  with an identifier that is not valid starts nothing and fails.
\<close>

record provider_ops =
  LaunchInstance :: "string \<Rightarrow> string \<Rightarrow> gomap \<Rightarrow> (goerror + string) M"
  TerminateInstance :: "string \<Rightarrow> goerror option M"
  GetInstanceAddress :: "string \<Rightarrow> (goerror + string) M"
  CountInstances :: "string \<Rightarrow> (goerror + int) M"
  ListInstances :: "string \<Rightarrow> (goerror + CloudVMInstance list) M"
  GetState :: "string \<Rightarrow> (goerror + string) M"
  SshUser :: string

section \<open>Classes of events\<close>

text \<open>Writes to the cluster.\<close>

fun writes_cluster :: "event \<Rightarrow> bool" where
  "writes_cluster (EvUpdate _ _) = True"
| "writes_cluster (EvCreate _ _) = True"
| "writes_cluster (EvDelete _ _) = True"
| "writes_cluster (EvCreateSecret _ _) = True"
| "writes_cluster (EvDeleteSecret _ _) = True"
| "writes_cluster (EvUpdatePod _ _) = True"
| "writes_cluster _ = False"

fun starts_instance :: "event \<Rightarrow> bool" where
  "starts_instance (EvRunInstances _ _) = True"
| "starts_instance (EvVpcCreateInstance _ _) = True"
| "starts_instance (EvPowerLaunch _ _) = True"
| "starts_instance _ = False"

fun stops_instance :: "event \<Rightarrow> bool" where
  "stops_instance (EvTerminateInstances _ _) = True"
| "stops_instance (EvVpcDeleteInstance _ _) = True"
| "stops_instance (EvPowerDelete _ _) = True"
| "stops_instance (EvGo (TerminateLoopZ _ _ _)) = True"
| "stops_instance (EvGo (TerminateLoopP _ _ _)) = True"
| "stops_instance _ = False"

definition launching :: "event \<Rightarrow> bool" where
  "launching e \<longleftrightarrow> \<not> writes_cluster e \<and> \<not> stops_instance e"

definition terminating :: "event \<Rightarrow> bool" where
  "terminating e \<longleftrightarrow> \<not> writes_cluster e \<and> \<not> starts_instance e"

definition inspecting :: "event \<Rightarrow> bool" where
  "inspecting e \<longleftrightarrow> \<not> writes_cluster e \<and> \<not> starts_instance e \<and> \<not> stops_instance e"

lemma inspecting_launching: "inspecting e \<Longrightarrow> launching e"
  by (simp add: inspecting_def launching_def)

lemma inspecting_terminating: "inspecting e \<Longrightarrow> terminating e"
  by (simp add: inspecting_def terminating_def)

lemma quiet_permitted: "\<not> writes_cluster e \<Longrightarrow> permitted E key sn e"
  by (cases e) (simp_all add: permitted_def)

section \<open>Documented behaviour of the SDKs\<close>

text \<open>The fields that the code dereferences without a check are the ones the SDKs mark as always
  present.\<close>

definition ec2_documented :: "env \<Rightarrow> bool" where
  "ec2_documented E \<longleftrightarrow>
     (\<forall>h i rs. a_describe (ec2 E) h i = Inr rs \<longrightarrow>
        (\<forall>r \<in> set rs. \<forall>ins \<in> set r. ins_State ins \<noteq> None \<and> ins_InstanceId ins \<noteq> None \<and> ins_LaunchTime ins \<noteq> None)) \<and>
     (\<forall>h i rs. a_run (ec2 E) h i = Inr rs \<longrightarrow> (\<forall>ins \<in> set rs. ins_InstanceId ins \<noteq> None))"

definition vpc_instance_documented :: "vpc_Instance \<Rightarrow> bool" where
  "vpc_instance_documented i \<longleftrightarrow> vi_ID i \<noteq> None \<and> vi_Name i \<noteq> None \<and> vi_Status i \<noteq> None \<and>
     vi_LifecycleState i \<noteq> None \<and> vi_CreatedAt i \<noteq> None \<and> vi_ResourceGroup i \<noteq> None \<and>
     (\<exists>n. vi_PrimaryNetworkInterface i = Some (Some n))"

definition ip_documented :: "vpc_FloatingIP \<Rightarrow> bool" where
  "ip_documented i \<longleftrightarrow> fip_ID i \<noteq> None \<and> fip_Address i \<noteq> None \<and> fip_Status i \<noteq> None"

definition vpc_documented :: "env \<Rightarrow> bool" where
  "vpc_documented E \<longleftrightarrow>
     (\<forall>h xs. v_subnets (vpc E) h = Inr xs \<longrightarrow> (\<forall>x \<in> set xs. nm_Name x \<noteq> None)) \<and>
     (\<forall>h xs. v_keys (vpc E) h = Inr xs \<longrightarrow> (\<forall>x \<in> set xs. nm_Name x \<noteq> None)) \<and>
     (\<forall>h xs. v_vpcs (vpc E) h = Inr xs \<longrightarrow> (\<forall>x \<in> set xs. vpc_Name x \<noteq> None \<and> vpc_ID x \<noteq> None \<and>
        vpc_ResourceGroup x \<noteq> None \<and> vpc_DefaultSecurityGroup x \<noteq> None)) \<and>
     (\<forall>h g n xs. v_list (vpc E) h g n = Inr xs \<longrightarrow> (\<forall>x \<in> set xs. vpc_instance_documented x)) \<and>
     (\<forall>h p x. v_create (vpc E) h p = Inr x \<longrightarrow> vpc_instance_documented x) \<and>
     (\<forall>h i x. v_get (vpc E) h i = Inr x \<longrightarrow> vpc_instance_documented x) \<and>
     (\<forall>h i n xs. v_interfaceIps (vpc E) h i n = Inr (Some xs) \<longrightarrow> (\<forall>x \<in> set xs. ip_documented x)) \<and>
     (\<forall>h g xs. v_floatingIps (vpc E) h g = Inr xs \<longrightarrow> (\<forall>x \<in> set xs. ip_documented x)) \<and>
     (\<forall>h z g x. v_createIp (vpc E) h z g = Inr x \<longrightarrow> ip_documented x)"

definition pvm_documented :: "PVMInstance \<Rightarrow> bool" where
  "pvm_documented p \<longleftrightarrow> pvm_ID p \<noteq> None \<and> pvm_ServerName p \<noteq> None \<and> pvm_Status p \<noteq> None \<and> pvm_Health p \<noteq> None \<and>
     pvm_DiskSize p \<noteq> None"

definition power_documented :: "env \<Rightarrow> bool" where
  "power_documented E \<longleftrightarrow>
     (\<forall>h r xs. p_list (power E) h r = Inr xs \<longrightarrow> (\<forall>x \<in> set xs. pvm_documented x)) \<and>
     (\<forall>h r xs. p_launch (power E) h r = Inr xs \<longrightarrow> xs \<noteq> [] \<and> (\<forall>x \<in> set xs. pvm_documented x)) \<and>
     (\<forall>h r x. p_get (power E) h r = Inr x \<longrightarrow> pvm_documented x)"

definition sdk_documented :: "env \<Rightarrow> bool" where
  "sdk_documented E \<longleftrightarrow> ec2_documented E \<and> vpc_documented E \<and> power_documented E"

section \<open>The contract\<close>

locale cloud_provider =
  fixes E :: env and impl :: provider_ops
  assumes launch_ok: "sdk_documented E \<Longrightarrow> ok launching (LaunchInstance impl i tag tags) (\<lambda>_. True)"
    and launch_invalid: "sdk_documented E \<Longrightarrow> ValidateTaskRunID i \<noteq> None \<Longrightarrow>
      ok inspecting (LaunchInstance impl i tag tags) isl"
    and terminate_ok: "sdk_documented E \<Longrightarrow> ok terminating (TerminateInstance impl x) (\<lambda>_. True)"
    and address_ok: "sdk_documented E \<Longrightarrow> ok inspecting (GetInstanceAddress impl x) (\<lambda>_. True)"
    and count_ok: "sdk_documented E \<Longrightarrow> ok inspecting (CountInstances impl tag) (\<lambda>_. True)"
    and list_ok: "sdk_documented E \<Longrightarrow> ok inspecting (ListInstances impl tag) (\<lambda>_. True)"
    and state_ok: "sdk_documented E \<Longrightarrow> ok inspecting (GetState impl x) (\<lambda>_. True)"
begin

text \<open>What a client working for one task needs: every operation is permitted to it.\<close>

lemma permitted_ops:
  assumes "sdk_documented E"
  shows "ok (permitted E key sn) (LaunchInstance impl i tag tags) (\<lambda>_. True)"
    and "ok (permitted E key sn) (TerminateInstance impl x) (\<lambda>_. True)"
    and "ok (permitted E key sn) (GetInstanceAddress impl x) (\<lambda>_. True)"
    and "ok (permitted E key sn) (CountInstances impl tag) (\<lambda>_. True)"
    and "ok (permitted E key sn) (ListInstances impl tag) (\<lambda>_. True)"
    and "ok (permitted E key sn) (GetState impl x) (\<lambda>_. True)"
  by (rule ok_events [OF launch_ok [OF assms]] ok_events [OF terminate_ok [OF assms]]
      ok_events [OF address_ok [OF assms]] ok_events [OF count_ok [OF assms]]
      ok_events [OF list_ok [OF assms]] ok_events [OF state_ok [OF assms]],
      simp add: launching_def terminating_def inspecting_def quiet_permitted)+

lemma calm_ops:
  assumes "sdk_documented E"
  shows "ok (\<lambda>e. \<not> starts_instance e) (TerminateInstance impl x) (\<lambda>_. True)"
    and "ok (\<lambda>e. \<not> starts_instance e) (GetInstanceAddress impl x) (\<lambda>_. True)"
    and "ok (\<lambda>e. \<not> starts_instance e) (CountInstances impl tag) (\<lambda>_. True)"
    and "ok (\<lambda>e. \<not> starts_instance e) (ListInstances impl tag) (\<lambda>_. True)"
    and "ok (\<lambda>e. \<not> starts_instance e) (GetState impl x) (\<lambda>_. True)"
  by (rule ok_events [OF terminate_ok [OF assms]] ok_events [OF address_ok [OF assms]]
      ok_events [OF count_ok [OF assms]] ok_events [OF list_ok [OF assms]] ok_events [OF state_ok [OF assms]],
      simp add: terminating_def inspecting_def)+

end

end
