(* ===== verification/AWS.thy ===== *)
theory AWS
  imports Provider_Interface
begin

text \<open>
  \<open>pkg/aws\<close>: the EC2 implementation of the cloud provider (\<open>ec2.go\<close>, \<open>ec2_helpers.go\<close>).
\<close>

section \<open>Configuration\<close>

definition MultiPlatformManaged :: string where "MultiPlatformManaged = ''MultiPlatformManaged''"

definition defaultSSHUser_aws :: string where "defaultSSHUser_aws = ''ec2-user''"

text \<open>The key of a field of a dynamic platform.\<close>

definition dynKey :: "string \<Rightarrow> string \<Rightarrow> string" where
  "dynKey platform field = ''dynamic.'' @ platform @ ''.'' @ field"

definition optInt32 :: "string \<Rightarrow> int option" where
  "optInt32 s = (if s \<noteq> [] then (case ParseInt 32 s of Inl _ \<Rightarrow> None | Inr n \<Rightarrow> Some n) else None)"

definition CreateEc2CloudConfig :: "string \<Rightarrow> gomap \<Rightarrow> string \<Rightarrow> AWSEc2DynamicConfig" where
  "CreateEc2CloudConfig platformName config systemNamespace =
     (let f = (\<lambda>field. lk config (dynKey platformName field));
          disk = (case ParseInt 32 (f ''disk'') of Inl _ \<Rightarrow> 40 | Inr n \<Rightarrow> n);
          userData = f ''user-data''
      in \<lparr>ec_Region = f ''region'', ec_Ami = f ''ami'', ec_InstanceType = f ''instance-type'',
          ec_KeyName = f ''key-name'', ec_Secret = f ''aws-secret'', ec_SystemNamespace = systemNamespace,
          ec_SecurityGroup = f ''security-group'', ec_SecurityGroupId = f ''security-group-id'',
          ec_SubnetId = f ''subnet-id'', ec_Disk = disk,
          ec_InstanceProfileName = f ''instance-profile-name'', ec_InstanceProfileArn = f ''instance-profile-arn'',
          ec_Throughput = optInt32 (f ''throughput''), ec_Iops = optInt32 (f ''iops''),
          ec_UserData = (if userData \<noteq> [] then Some (base64 userData) else None),
          ec_Tenancy = f ''tenancy'', ec_HostResourceGroupArn = f ''host-resource-group-arn'',
          ec_LicenseConfigurationArn = f ''license-configuration-arn'',
          ec_StrictPublicAddress = (f ''strict-public-address'' = ''true''),
          ec_ProvisioningUser = f ''provisioning-user''\<rparr>)"

section \<open>Helpers\<close>

definition pingIPAddress :: "env \<Rightarrow> string \<Rightarrow> goerror option M" where
  "pingIPAddress E ip =
     bnd (Dial E (ip @ '':22'') (60 * Second)) (\<lambda>r. case r of Some e \<Rightarrow> ret (Some e) | None \<Rightarrow> Close E (ip @ '':22''))"

definition ToString :: "string option \<Rightarrow> string" where
  "ToString p = (case p of None \<Rightarrow> [] | Some s \<Rightarrow> s)"

definition chooseAddress :: "AWSEc2DynamicConfig \<Rightarrow> ec2_Instance \<Rightarrow> string" where
  "chooseAddress ec ins =
     (if ToString (ins_PublicDnsName ins) \<noteq> [] then ToString (ins_PublicDnsName ins)
      else if ToString (ins_PublicIpAddress ins) \<noteq> [] then ToString (ins_PublicIpAddress ins)
      else if ToString (ins_PrivateIpAddress ins) \<noteq> [] \<and> \<not> ec_StrictPublicAddress ec
      then ToString (ins_PrivateIpAddress ins) else [])"

definition validateIPAddress :: "env \<Rightarrow> AWSEc2DynamicConfig \<Rightarrow> ec2_Instance \<Rightarrow> (goerror + string) M" where
  "validateIPAddress E ec ins =
     (let ip = chooseAddress ec ins
      in if ip = [] then ret (Inl (ErrNew (''instance '' @ ToString (ins_InstanceId ins) @ '' has no accessible IP address'')))
         else bnd (pingIPAddress E ip) (\<lambda>r. case r of
           Some e \<Rightarrow> ret (Inl (ErrWrap (''failed to resolve IP address '' @ ip @ '': '') e []))
         | None \<Rightarrow> ret (Inr ip)))"

definition getEC2Client :: "env \<Rightarrow> AWSEc2DynamicConfig \<Rightarrow> goerror option M" where
  "getEC2Client E ec =
     bnd (call (\<lambda>h. a_config (ec2 E) h ec) (EvAwsConfig ec)) (\<lambda>r. case r of
       Some e \<Rightarrow> ret (Some (ErrWrap ''failed to create an AWS config for an EC2 client: '' e []))
     | None \<Rightarrow> ret None)"

definition instanceTags :: "string \<Rightarrow> string \<Rightarrow> gomap \<Rightarrow> gomap" where
  "instanceTags taskRunName instanceTag additionalInstanceTags =
     [(MultiPlatformManaged, ''true''), (InstanceTag, instanceTag), (''Name'', ''multi-platform-builder-'' @ taskRunName)]
     @ additionalInstanceTags"

definition configureInstance :: "AWSEc2DynamicConfig \<Rightarrow> string \<Rightarrow> string \<Rightarrow> gomap \<Rightarrow> goerror + RunInstancesInput" where
  "configureInstance ec taskRunName instanceTag additionalInstanceTags =
     (let tenancySet = ec_Tenancy ec \<noteq> [];
          hostResourceGroupSet = ec_HostResourceGroupArn ec \<noteq> [];
          licenseConfigSet = ec_LicenseConfigurationArn ec \<noteq> []
      in if (tenancySet \<or> hostResourceGroupSet \<or> licenseConfigSet) \<and>
            (\<not> tenancySet \<or> \<not> hostResourceGroupSet \<or> \<not> licenseConfigSet)
         then Inl (ErrNew ''MacOS dedicated host configuration requires all three fields: Tenancy, HostResourceGroupArn, and LicenseConfigurationArn must be set together'')
         else Inr \<lparr>run_KeyName = ec_KeyName ec, run_ImageId = ec_Ami ec, run_InstanceType = ec_InstanceType ec,
           run_MinCount = 1, run_MaxCount = 1, run_EbsOptimized = True,
           run_SecurityGroups = (if ec_SecurityGroup ec \<noteq> [] then [ec_SecurityGroup ec] else []),
           run_SecurityGroupIds = (if ec_SecurityGroupId ec \<noteq> [] then [ec_SecurityGroupId ec] else []),
           run_IamInstanceProfile =
             (if ec_InstanceProfileName ec \<noteq> [] \<or> ec_InstanceProfileArn ec \<noteq> []
              then Some (if ec_InstanceProfileName ec \<noteq> [] then Some (ec_InstanceProfileName ec) else None,
                         if ec_InstanceProfileArn ec \<noteq> [] then Some (ec_InstanceProfileArn ec) else None)
              else None),
           run_SubnetId = (if ec_SubnetId ec \<noteq> [] then Some (ec_SubnetId ec) else None),
           run_UserData = ec_UserData ec,
           run_BlockDeviceMappings = [(''/dev/sda1'', ''ephemeral0'',
             \<lparr>ebs_DeleteOnTermination = True, ebs_VolumeSize = ec_Disk ec, ebs_VolumeType = ''gp3'',
              ebs_Iops = ec_Iops ec, ebs_Throughput = ec_Throughput ec\<rparr>)],
           run_ShutdownBehavior = ''terminate'',
           run_Placement = (if tenancySet then Some (ec_Tenancy ec, ec_HostResourceGroupArn ec) else None),
           run_LicenseSpecifications = (if tenancySet then [ec_LicenseConfigurationArn ec] else []),
           run_TagSpecifications = [(''instance'', instanceTags taskRunName instanceTag additionalInstanceTags)]\<rparr>)"

text \<open>\<open>SecretCredentialsProvider.Retrieve\<close>, which the SDK calls back: the three credentials, from the
  secret, or from environment variables (\<open>getenv\<close>) if there is no Kubernetes client.\<close>

definition Retrieve :: "env \<Rightarrow> (string \<Rightarrow> string) \<Rightarrow> bool \<Rightarrow> string \<Rightarrow> string \<Rightarrow> (goerror + string \<times> string \<times> string) M" where
  "Retrieve E getenv haveClient name namespace =
     (if \<not> haveClient
      then ret (Inr (getenv ''MULTI_ARCH_ACCESS_KEY'', getenv ''MULTI_ARCH_SECRET_KEY'', getenv ''MULTI_ARCH_SESSION_TOKEN''))
      else bnd (GetSecret E (namespace, name)) (\<lambda>r. case r of
        Inl e \<Rightarrow> ret (Inl (ErrWrap (''failed to retrieve the secret '' @ namespace @ ''/'' @ name @ '' from the Kubernetes client: '') e []))
      | Inr s \<Rightarrow>
          let d = (\<lambda>k. case sec_Data s k of None \<Rightarrow> [] | Some v \<Rightarrow> v)
          in ret (Inr (d ''access-key-id'', d ''secret-access-key'', d ''session-token''))))"

section \<open>Operations\<close>

text \<open>\<open>m[k] = v\<close> on a map that is ranged over.\<close>

fun mput :: "string \<Rightarrow> string \<Rightarrow> gomap \<Rightarrow> gomap" where
  "mput k v [] = [(k, v)]"
| "mput k v ((k', v') # m) = (if k' = k then (k, v) # m else (k', v') # mput k v m)"

lemma map_of_mput: "map_of (mput k v m) = (map_of m)(k \<mapsto> v)"
  by (induction k v m rule: mput.induct) (auto simp: fun_eq_iff)

text \<open>\<open>xs[i]\<close>: an index out of range is a panic.\<close>

definition idx :: "'a list \<Rightarrow> nat \<Rightarrow> 'a option" where
  "idx xs i = (if i < length xs then Some (xs ! i) else None)"

definition RunInstances :: "env \<Rightarrow> RunInstancesInput \<Rightarrow> (goerror + ec2_Instance list) M" where
  "RunInstances E i = call (\<lambda>h. a_run (ec2 E) h i) (EvRunInstances i)"

definition DescribeInstances :: "env \<Rightarrow> DescribeInstancesInput \<Rightarrow> (goerror + ec2_Instance list list) M" where
  "DescribeInstances E i = call (\<lambda>h. a_describe (ec2 E) h i) (EvDescribeInstances i)"

definition TerminateInstances :: "env \<Rightarrow> string list \<Rightarrow> goerror option M" where
  "TerminateInstances E ids = call (\<lambda>h. a_terminate (ec2 E) h ids) (EvTerminateInstances ids)"

definition clientError :: "goerror \<Rightarrow> goerror" where
  "clientError e = ErrWrap ''failed to create an EC2 client: '' e []"

definition AWS_LaunchInstance :: "env \<Rightarrow> AWSEc2DynamicConfig \<Rightarrow> string \<Rightarrow> string \<Rightarrow> gomap \<Rightarrow> (goerror + string) M" where
  "AWS_LaunchInstance E ec taskRunID instanceTag tags0 =
     (case ValidateTaskRunID taskRunID of
        Some err \<Rightarrow> ret (Inl (ErrWrap ''invalid TaskRun ID: '' err []))
      | None \<Rightarrow> must (idx (Split (CHR '':'') taskRunID) 1) (\<lambda>taskRunName.
          let additionalInstanceTags = mput TaskRunTagKey taskRunID tags0
          in bnd (getEC2Client E ec) (\<lambda>r. case r of
            Some e \<Rightarrow> ret (Inl (clientError e))
          | None \<Rightarrow> (case configureInstance ec taskRunName instanceTag additionalInstanceTags of
              Inl err \<Rightarrow>
                if sublist ''MacOS'' (Error err)
                then ret (Inl (ErrWrap ''missing configuration fields mandatory for MacOS instances: '' err []))
                else ret (Inl (ErrWrap (''failed to configure EC2 instance for '' @ taskRunName @ '': '') err []))
            | Inr launchInput \<Rightarrow> bnd (RunInstances E launchInput) (\<lambda>out. case out of
                Inl e \<Rightarrow> ret (Inl (ErrWrap (''failed to launch EC2 instance for '' @ taskRunName @ '': '') e []))
              | Inr [] \<Rightarrow> ret (Inl (ErrNew ''no EC2 instances were created''))
              | Inr (ins # _) \<Rightarrow> must (ins_InstanceId ins) (\<lambda>i. ret (Inr i)))))))"

definition tagFilters :: "string \<Rightarrow> DescribeInstancesInput" where
  "tagFilters instanceTag = \<lparr>desc_Filters = [(''tag:'' @ InstanceTag, [instanceTag]), (''tag:'' @ MultiPlatformManaged, [''true''])],
     desc_InstanceIds = []\<rparr>"

definition byId :: "string \<Rightarrow> DescribeInstancesInput" where
  "byId i = \<lparr>desc_Filters = [], desc_InstanceIds = [i]\<rparr>"

definition retrieveError :: "string \<Rightarrow> goerror \<Rightarrow> goerror" where
  "retrieveError instanceTag e = ErrWrap (''failed to retrieve EC2 instances starting with '' @ instanceTag @ '': '') e []"

definition AWS_CountInstances :: "env \<Rightarrow> AWSEc2DynamicConfig \<Rightarrow> string \<Rightarrow> (goerror + int) M" where
  "AWS_CountInstances E ec instanceTag =
     bnd (getEC2Client E ec) (\<lambda>r. case r of
       Some e \<Rightarrow> ret (Inl (clientError e))
     | None \<Rightarrow> bnd (DescribeInstances E (tagFilters instanceTag)) (\<lambda>out. case out of
         Inl e \<Rightarrow> ret (Inl (retrieveError instanceTag e))
       | Inr reservations \<Rightarrow>
           bnd (foreach (\<lambda>ins cnt. must (ins_State ins) (\<lambda>st.
                  if st \<noteq> ''terminated'' \<and> ins_InstanceType ins = ec_InstanceType ec
                  then must (ins_InstanceId ins) (\<lambda>_. ret (cnt + 1)) else ret cnt)) (concat reservations) 0)
               (\<lambda>cnt. ret (Inr cnt))))"

definition AWS_GetInstanceAddress :: "env \<Rightarrow> AWSEc2DynamicConfig \<Rightarrow> string \<Rightarrow> (goerror + string) M" where
  "AWS_GetInstanceAddress E ec instanceID =
     bnd (getEC2Client E ec) (\<lambda>r. case r of
       Some e \<Rightarrow> ret (Inl (clientError e))
     | None \<Rightarrow> bnd (DescribeInstances E (byId instanceID)) (\<lambda>out. case out of
         Inr ((ins # _) # _) \<Rightarrow> bnd (validateIPAddress E ec ins) (\<lambda>ip. case ip of
             Inl _ \<Rightarrow> ret (Inr []) | Inr ip \<Rightarrow> ret (Inr ip))
       | _ \<Rightarrow> ret (Inr [])))"

definition AWS_TerminateInstance :: "env \<Rightarrow> AWSEc2DynamicConfig \<Rightarrow> string \<Rightarrow> goerror option M" where
  "AWS_TerminateInstance E ec instanceID =
     (if instanceID = [] then ret (Some (ErrNew ''cannot terminate instance: empty instance ID''))
      else bnd (getEC2Client E ec) (\<lambda>r. case r of
        Some e \<Rightarrow> ret (Some (clientError e))
      | None \<Rightarrow> TerminateInstances E [instanceID]))"

definition AWS_ListInstances :: "env \<Rightarrow> AWSEc2DynamicConfig \<Rightarrow> string \<Rightarrow> (goerror + CloudVMInstance list) M" where
  "AWS_ListInstances E ec instanceTag =
     bnd (getEC2Client E ec) (\<lambda>r. case r of
       Some e \<Rightarrow> ret (Inl (clientError e))
     | None \<Rightarrow> bnd (DescribeInstances E (tagFilters instanceTag)) (\<lambda>out. case out of
         Inl e \<Rightarrow> ret (Inl (retrieveError instanceTag e))
       | Inr reservations \<Rightarrow>
           bnd (foreach (\<lambda>ins vms. must (ins_State ins) (\<lambda>st.
                  if st \<noteq> ''terminated'' \<and> ins_InstanceType ins = ec_InstanceType ec
                  then bnd (validateIPAddress E ec ins) (\<lambda>ip. case ip of
                    Inl _ \<Rightarrow> ret vms
                  | Inr ip \<Rightarrow> must (ins_InstanceId ins) (\<lambda>i. must (ins_LaunchTime ins) (\<lambda>t.
                      ret (vms @ [\<lparr>vm_InstanceId = i, vm_StartTime = t, vm_Address = ip\<rparr>]))))
                  else ret vms)) (concat reservations) [])
               (\<lambda>vms. ret (Inr vms))))"

definition AWS_SshUser :: "AWSEc2DynamicConfig \<Rightarrow> string" where
  "AWS_SshUser ec = (let u = TrimSpace (TrimLeft (ec_ProvisioningUser ec) '' -'')
     in if u \<noteq> [] then u else defaultSSHUser_aws)"

definition awsOkStates :: "string list" where
  "awsOkStates = [''pending'', ''running'', ''shutting-down'', ''terminated'', ''stopping'', ''stopped'']"

definition AWS_GetState :: "env \<Rightarrow> AWSEc2DynamicConfig \<Rightarrow> string \<Rightarrow> (goerror + string) M" where
  "AWS_GetState E ec instanceId =
     bnd (getEC2Client E ec) (\<lambda>r. case r of
       Some e \<Rightarrow> ret (Inl (clientError e))
     | None \<Rightarrow> bnd (DescribeInstances E (byId instanceId)) (\<lambda>out. case out of
         Inl _ \<Rightarrow> ret (Inr [])
       | Inr ((ins # _) # _) \<Rightarrow> must (ins_State ins) (\<lambda>st.
           if st \<in> set awsOkStates then ret (Inr OKState) else ret (Inr FailedState))
       | Inr _ \<Rightarrow> ret (Inr FailedState)))"

text \<open>The implementation of the interface.\<close>

definition aws_ops :: "env \<Rightarrow> AWSEc2DynamicConfig \<Rightarrow> provider_ops" where
  "aws_ops E ec = \<lparr>LaunchInstance = AWS_LaunchInstance E ec, TerminateInstance = AWS_TerminateInstance E ec,
     GetInstanceAddress = AWS_GetInstanceAddress E ec, CountInstances = AWS_CountInstances E ec,
     ListInstances = AWS_ListInstances E ec, GetState = AWS_GetState E ec, SshUser = AWS_SshUser ec\<rparr>"

section \<open>The contract holds\<close>

definition ins_documented :: "ec2_Instance \<Rightarrow> bool" where
  "ins_documented ins \<longleftrightarrow> ins_State ins \<noteq> None \<and> ins_InstanceId ins \<noteq> None \<and> ins_LaunchTime ins \<noteq> None"

lemma ok_getEC2Client [ok]:
  "(\<And>r. P (EvAwsConfig ec r)) \<Longrightarrow> ok P (getEC2Client E ec) (\<lambda>_. True)"
  unfolding getEC2Client_def by (auto intro!: ok)

lemma ok_pingIPAddress [ok]:
  "(\<And>a d r. P (EvDial a d r)) \<Longrightarrow> (\<And>a r. P (EvClose a r)) \<Longrightarrow> ok P (pingIPAddress E ip) (\<lambda>_. True)"
  unfolding pingIPAddress_def by (auto intro!: ok)

lemma ok_validateIPAddress [ok]:
  "(\<And>a d r. P (EvDial a d r)) \<Longrightarrow> (\<And>a r. P (EvClose a r)) \<Longrightarrow> ok P (validateIPAddress E ec ins) (\<lambda>_. True)"
  unfolding validateIPAddress_def Let_def by (auto intro!: ok)

lemma ok_DescribeInstances [ok]:
  assumes "sdk_documented E" "\<And>r. P (EvDescribeInstances i r)"
  shows "ok P (DescribeInstances E i) (\<lambda>r. \<forall>rs. r = Inr rs \<longrightarrow> (\<forall>ins \<in> set (concat rs). ins_documented ins))"
  unfolding DescribeInstances_def
  by (rule ok_call) (use assms in \<open>auto simp: sdk_documented_def ec2_documented_def ins_documented_def\<close>)

lemma ok_RunInstances [ok]:
  assumes "sdk_documented E" "\<And>r. P (EvRunInstances i r)"
  shows "ok P (RunInstances E i) (\<lambda>r. \<forall>rs. r = Inr rs \<longrightarrow> (\<forall>ins \<in> set rs. ins_InstanceId ins \<noteq> None))"
  unfolding RunInstances_def
  by (rule ok_call) (use assms in \<open>auto simp: sdk_documented_def ec2_documented_def\<close>)

lemma ValidateTaskRunID_parts: "ValidateTaskRunID i = None \<Longrightarrow> length (Split (CHR '':'') i) = 2"
  by (auto simp: ValidateTaskRunID_def Let_def split: if_splits)

lemmas event_classes = launching_def terminating_def inspecting_def

lemma aws_launch:
  assumes "sdk_documented E"
  shows "ok launching (AWS_LaunchInstance E ec i tag tags) (\<lambda>_. True)"
  unfolding AWS_LaunchInstance_def
  using assms ValidateTaskRunID_parts [of i]
  by (auto intro!: ok simp: event_classes idx_def split: list.split)

lemma aws_launch_invalid:
  "ValidateTaskRunID i \<noteq> None \<Longrightarrow> ok inspecting (AWS_LaunchInstance E ec i tag tags) isl"
  unfolding AWS_LaunchInstance_def by (auto intro!: ok)

lemma aws_terminate: "ok terminating (AWS_TerminateInstance E ec x) (\<lambda>_. True)"
  unfolding AWS_TerminateInstance_def TerminateInstances_def
  by (auto intro!: ok simp: event_classes)

lemma aws_address: "sdk_documented E \<Longrightarrow> ok inspecting (AWS_GetInstanceAddress E ec x) (\<lambda>_. True)"
  unfolding AWS_GetInstanceAddress_def
  by (auto intro!: ok simp: event_classes split: list.split)

lemma aws_count: "sdk_documented E \<Longrightarrow> ok inspecting (AWS_CountInstances E ec tag) (\<lambda>_. True)"
  unfolding AWS_CountInstances_def
  by (rule ok | (auto simp: event_classes ins_documented_def; fail))+

lemma aws_list: "sdk_documented E \<Longrightarrow> ok inspecting (AWS_ListInstances E ec tag) (\<lambda>_. True)"
  unfolding AWS_ListInstances_def
  by (rule ok | (auto simp: event_classes ins_documented_def; fail))+

lemma aws_state: "sdk_documented E \<Longrightarrow> ok inspecting (AWS_GetState E ec x) (\<lambda>_. True)"
  unfolding AWS_GetState_def
  by (rule ok | (auto simp: event_classes ins_documented_def; fail))+

interpretation aws: cloud_provider E "aws_ops E ec" for E ec
  by unfold_locales
     (simp_all add: aws_ops_def aws_launch aws_launch_invalid aws_terminate aws_address aws_count aws_list aws_state)

end
