(* ===== verification/IBMZ.thy ===== *)
theory IBMZ
  imports AWS
begin

text \<open>
  \<open>pkg/ibm\<close>, the helpers shared by the two IBM providers and the System Z provider
  (\<open>ibmz.go\<close>, \<open>ibmz_helpers.go\<close>). The goroutine that \<open>TerminateInstance\<close> starts is an event of the
  history; its loop is \<open>terminateLoopZ\<close>, with fuel for the number of rounds.
\<close>

section \<open>Shared helpers\<close>

definition defaultSSHUser_ibm :: string where "defaultSSHUser_ibm = ''root''"

definition name_char :: "char \<Rightarrow> bool" where
  "name_char c \<longleftrightarrow> c \<in> set ''abcdefghijklmnopqrstuvwxyzABCDEFGHIJKLMNOPQRSTUVWXYZ0123456789_''"

text \<open>The regular expression \<^verbatim>\<open>^[a-zA-Z0-9_][a-zA-Z0-9_-]*$\<close>.\<close>

definition validInstanceNamePattern :: "string \<Rightarrow> bool" where
  "validInstanceNamePattern s \<longleftrightarrow> s \<noteq> [] \<and> name_char (hd s) \<and> list_all (\<lambda>c. name_char c \<or> c = CHR ''-'') s"

definition hashLength :: nat where "hashLength = 16"

text \<open>The name built from the tag and the time of creation (nanoseconds since the epoch).\<close>

definition instanceNameAt :: "string \<Rightarrow> int \<Rightarrow> string" where
  "instanceNameAt instanceTag now =
     (let timestamp = Itoa (Unix now) @ ''-'' @ Itoa (now mod Second);
          hashInput = instanceTag @ ''-'' @ timestamp;
          short = take hashLength (EncodeToString (md5_Sum hashInput))
      in ReplaceAll (CHR ''_'') (CHR ''-'') (ToLower (instanceTag @ ''-'' @ short @ ''x'')))"

definition createInstanceName :: "env \<Rightarrow> string \<Rightarrow> (goerror + string) M" where
  "createInstanceName E instanceTag =
     (if \<not> validInstanceNamePattern instanceTag
      then ret (Inl (ErrNew (''instance tag contains invalid characters, only alphanumeric characters, hyphens, and underscores are allowed, got: '' @ instanceTag)))
      else bnd (Now E) (\<lambda>now. ret (Inr (instanceNameAt instanceTag now))))"

definition checkIfIpIsLive :: "env \<Rightarrow> string \<Rightarrow> goerror option M" where
  "checkIfIpIsLive E ip =
     bnd (ResolveTCPAddr E (ip @ '':22'')) (\<lambda>r. case r of
       Inl e \<Rightarrow> ret (Some e)
     | Inr server \<Rightarrow> bnd (Dial E server (5 * Second)) (\<lambda>r. case r of
         Some e \<Rightarrow> ret (Some e)
       | None \<Rightarrow> Close E server))"

text \<open>\<open>strconv.ParseBool\<close> with the error ignored.\<close>

definition ParseBool :: "string \<Rightarrow> bool" where
  "ParseBool s \<longleftrightarrow> s \<in> set [''1'', ''t'', ''T'', ''TRUE'', ''true'', ''True'']"

section \<open>Configuration and client\<close>

definition CreateIbmZCloudConfig :: "string \<Rightarrow> gomap \<Rightarrow> string \<Rightarrow> IBMZDynamicConfig" where
  "CreateIbmZCloudConfig arch config systemNamespace =
     (let f = (\<lambda>field. lk config (dynKey arch field));
          volumeSize = (case Atoi (f ''disk'') of Inl _ \<Rightarrow> 100 | Inr n \<Rightarrow> n)
      in \<lparr>iz_SystemNamespace = systemNamespace, iz_Secret = f ''secret'', iz_Region = f ''region'',
          iz_Key = f ''key'', iz_Subnet = f ''subnet'', iz_Vpc = f ''vpc'', iz_ImageId = f ''image-id'',
          iz_Url = f ''url'', iz_Profile = f ''profile'', iz_Disk = volumeSize,
          iz_PrivateIP = ParseBool (f ''private-ip'')\<rparr>)"

definition NewVpcV1 :: "env \<Rightarrow> string \<Rightarrow> string \<Rightarrow> goerror option M" where
  "NewVpcV1 E url apiKey = call (\<lambda>h. v_new (vpc E) h url apiKey) (EvNewVpc url apiKey)"

text \<open>\<open>types.NamespacedName.String()\<close>\<close>

definition namespacedName :: "string \<Rightarrow> string \<Rightarrow> string" where
  "namespacedName ns name = ns @ ''/'' @ name"

definition createAuthenticatedVpcService :: "env \<Rightarrow> bool \<Rightarrow> IBMZDynamicConfig \<Rightarrow> goerror option M" where
  "createAuthenticatedVpcService E haveClient iz =
     (if \<not> haveClient
      then let apiKey = l_getenv (lib E) ''IBM_CLOUD_API_KEY''
        in if apiKey = [] then ret (Some (ErrNew ''the API key from the IBM_CLOUD_API_KEY environment variable was empty''))
           else NewVpcV1 E (iz_Url iz) apiKey
      else bnd (GetSecret E (iz_SystemNamespace iz, iz_Secret iz)) (\<lambda>r. case r of
        Inl e \<Rightarrow> ret (Some (ErrWrap (''failed to retrieve the secret '' @ namespacedName (iz_SystemNamespace iz) (iz_Secret iz) @ '' from the Kubernetes client: '') e []))
      | Inr s \<Rightarrow> (case sec_Data s ''api-key'' of
          None \<Rightarrow> ret (Some (ErrNew (''the secret '' @ namespacedName (iz_SystemNamespace iz) (iz_Secret iz) @ '' did not have an API key field'')))
        | Some apiKey \<Rightarrow> NewVpcV1 E (iz_Url iz) apiKey)))"

text \<open>\<open>getVpcClient\<close> for the program's configurations (no injected client); the callers wrap its
  error.\<close>

definition getVpcClient :: "env \<Rightarrow> IBMZDynamicConfig \<Rightarrow> goerror option M" where
  "getVpcClient E iz = createAuthenticatedVpcService E True iz"

definition vpcServiceError :: "goerror \<Rightarrow> goerror" where
  "vpcServiceError e = ErrWrap ''failed to create an authenticated VPC service: '' e []"

section \<open>Look-ups\<close>

text \<open>The first element of a list whose name is the wanted one; a nil name is a panic.\<close>

fun firstNamed :: "('a \<Rightarrow> string option) \<Rightarrow> string \<Rightarrow> 'a list \<Rightarrow> 'a option M" where
  "firstNamed nm wanted [] = ret None"
| "firstNamed nm wanted (x # xs) = must (nm x) (\<lambda>n. if n = wanted then ret (Some x) else firstNamed nm wanted xs)"

definition lookUpSubnet :: "env \<Rightarrow> IBMZDynamicConfig \<Rightarrow> (goerror + vpc_Named) M" where
  "lookUpSubnet E iz =
     bnd (call (v_subnets (vpc E)) EvListSubnets) (\<lambda>r. case r of
       Inl e \<Rightarrow> ret (Inl (ErrWrap ''failed to list VPC subnets: '' e []))
     | Inr subnets \<Rightarrow> bnd (firstNamed nm_Name (iz_Subnet iz) subnets) (\<lambda>s. case s of
         None \<Rightarrow> ret (Inl (ErrNew (''failed to find subnet '' @ iz_Subnet iz)))
       | Some subnet \<Rightarrow> ret (Inr subnet)))"

definition lookUpSSHKey :: "env \<Rightarrow> IBMZDynamicConfig \<Rightarrow> (goerror + vpc_Named) M" where
  "lookUpSSHKey E iz =
     bnd (call (v_keys (vpc E)) EvListKeys) (\<lambda>r. case r of
       Inl e \<Rightarrow> ret (Inl (ErrWrap ''failed to list VPC keys: '' e []))
     | Inr keys \<Rightarrow> bnd (firstNamed nm_Name (iz_Key iz) keys) (\<lambda>s. case s of
         None \<Rightarrow> ret (Inl (ErrNew (''failed to find SSH key '' @ iz_Key iz)))
       | Some key \<Rightarrow> ret (Inr key)))"

definition lookUpVpc :: "env \<Rightarrow> IBMZDynamicConfig \<Rightarrow> (goerror + vpc_VPC) M" where
  "lookUpVpc E iz =
     bnd (call (v_vpcs (vpc E)) EvListVpcs) (\<lambda>r. case r of
       Inl e \<Rightarrow> ret (Inl (ErrWrap ''failed to list VPC networks: '' e []))
     | Inr vpcs \<Rightarrow> bnd (firstNamed vpc_Name (iz_Vpc iz) vpcs) (\<lambda>s. case s of
         None \<Rightarrow> ret (Inl (ErrNew (''failed to find VPC network '' @ iz_Vpc iz)))
       | Some v \<Rightarrow> ret (Inr v)))"

section \<open>Addresses\<close>

definition assignNetworkInterfaceFloatingIP :: "env \<Rightarrow> vpc_Instance \<Rightarrow> string M" where
  "assignNetworkInterfaceFloatingIP E ins =
     (case vi_PrimaryNetworkInterface ins of
        Some (Some nid) \<Rightarrow>
          bnd (call (\<lambda>h. v_interfaceIps (vpc E) h (vi_ID ins) (Some nid)) (EvListInterfaceIps (vi_ID ins) (Some nid)))
            (\<lambda>r. case r of
               Inr (Some (ip # _)) \<Rightarrow> must (fip_Address ip) ret
             | _ \<Rightarrow> ret [])
      | _ \<Rightarrow> ret [])"

text \<open>\<open>instance.PrimaryNetworkInterface.ID\<close>: dereferences the interface.\<close>

definition AddInstanceNetworkInterfaceFloatingIP :: "env \<Rightarrow> string option \<Rightarrow> string option \<Rightarrow> string option \<Rightarrow> goerror option M" where
  "AddInstanceNetworkInterfaceFloatingIP E iid nid ip =
     call (\<lambda>h. v_addIp (vpc E) h iid nid ip) (EvAddFloatingIP iid nid ip)"

text \<open>The loop over the floating addresses of the region: the first available one is attached.\<close>

fun attachAvailable :: "env \<Rightarrow> vpc_Instance \<Rightarrow> vpc_FloatingIP list \<Rightarrow> (goerror + string) M" where
  "attachAvailable E ins [] = ret (Inr [])"
| "attachAvailable E ins (ip # ips) =
     must (fip_Status ip) (\<lambda>st.
       if st = ''available''
       then must (vi_PrimaryNetworkInterface ins) (\<lambda>nid.
         bnd (AddInstanceNetworkInterfaceFloatingIP E (vi_ID ins) nid (fip_ID ip)) (\<lambda>r. case r of
           Some e \<Rightarrow> must (fip_ID ip) (\<lambda>iid. must nid (\<lambda>n.
             ret (Inl (ErrWrap (''failed to assign the floating IP '' @ iid @ '' to the instance network interface '' @ n @ '': '') e []))))
         | None \<Rightarrow> must (fip_Address ip) (\<lambda>a. ret (Inr a))))
       else attachAvailable E ins ips)"

definition assignFloatingIP :: "env \<Rightarrow> vpc_Instance \<Rightarrow> (goerror + string) M" where
  "assignFloatingIP E ins =
     must (vi_ResourceGroup ins) (\<lambda>rg.
     bnd (call (\<lambda>h. v_floatingIps (vpc E) h rg) (EvListFloatingIps rg)) (\<lambda>r. case r of
       Inl e \<Rightarrow> ret (Inl (ErrWrap ''failed to retrieve any floating IP addresses: '' e []))
     | Inr ips \<Rightarrow> attachAvailable E ins ips))"

definition assignNewlyAllocatedIP :: "env \<Rightarrow> vpc_Instance \<Rightarrow> (goerror + string) M" where
  "assignNewlyAllocatedIP E ins =
     must (vi_ResourceGroup ins) (\<lambda>rg.
     bnd (call (\<lambda>h. v_createIp (vpc E) h ''us-east-2'' rg) (EvCreateFloatingIP ''us-east-2'' rg)) (\<lambda>r. case r of
       Inl e \<Rightarrow> must (vi_ID ins) (\<lambda>i. ret (Inl (ErrWrap (''failed to create a floating IP address for instance '' @ i @ '': '') e [])))
     | Inr ip \<Rightarrow> must (vi_PrimaryNetworkInterface ins) (\<lambda>nid.
         bnd (AddInstanceNetworkInterfaceFloatingIP E (vi_ID ins) nid (fip_ID ip)) (\<lambda>r. case r of
           Some e \<Rightarrow> must (fip_Address ip) (\<lambda>a. must nid (\<lambda>n.
             ret (Inl (ErrWrap (''failed to assign the floating IP address '' @ a @ '' to the instance network interface '' @ n @ '': '') e []))))
         | None \<Rightarrow> must (fip_Address ip) (\<lambda>a. ret (Inr a))))))"

text \<open>The first primary address of a network interface that is set.\<close>

fun privateAddress :: "string option option list \<Rightarrow> string" where
  "privateAddress [] = []"
| "privateAddress (Some (Some a) # is) = (if a \<noteq> ''0.0.0.0'' then a else privateAddress is)"
| "privateAddress (_ # is) = privateAddress is"

text \<open>The states of an instance in which it gets no new address: with an error, or for now.\<close>

definition unassignable :: "string \<Rightarrow> (goerror + string) option" where
  "unassignable status =
     (if status = ''deleting'' then Some (Inl (ErrNew ''instance was deleted''))
      else if status = ''failed'' then Some (Inl (ErrNew ''instance failed''))
      else if status = ''pending'' \<or> status = ''restarting'' \<or> status = ''starting'' then Some (Inr [])
      else if status = ''stopped'' then Some (Inl (ErrNew ''instance was stopped''))
      else if status = ''stopping'' then Some (Inl (ErrNew ''instance was stopping''))
      else None)"

definition assignIPToInstance :: "env \<Rightarrow> IBMZDynamicConfig \<Rightarrow> vpc_Instance \<Rightarrow> (goerror + string) M" where
  "assignIPToInstance E iz ins =
     (if iz_PrivateIP iz then ret (Inr (privateAddress (vi_NetworkInterfaces ins)))
      else bnd (assignNetworkInterfaceFloatingIP E ins) (\<lambda>ip.
        if ip \<noteq> [] then ret (Inr ip)
        else must (vi_Status ins) (\<lambda>status. case unassignable status of
            Some r \<Rightarrow> ret r
          | None \<Rightarrow> bnd (assignFloatingIP E ins) (\<lambda>r. case r of
              Inl e \<Rightarrow> ret (Inl e)
            | Inr ip \<Rightarrow> if ip \<noteq> [] then ret (Inr ip) else assignNewlyAllocatedIP E ins))))"

section \<open>Operations\<close>

definition vpcPrototype :: "IBMZDynamicConfig \<Rightarrow> string \<Rightarrow> string \<Rightarrow> vpc_VPC \<Rightarrow> string option \<Rightarrow> string option
    \<Rightarrow> vpc_Named \<Rightarrow> vpc_Named \<Rightarrow> vpc_Prototype" where
  "vpcPrototype iz instanceName taskRunID v rg sg key subnet =
     \<lparr>vp_Name = instanceName, vp_Zone = iz_Region iz, vp_ResourceGroupID = rg, vp_VPC = vpc_ID v,
      vp_Profile = iz_Profile iz, vp_Keys = [nm_ID key], vp_DeleteVolumeOnInstanceDelete = True,
      vp_VolumeName = instanceName @ ''-volume'', vp_VolumeCapacity = iz_Disk iz,
      vp_VolumeProfile = ''general-purpose'', vp_VolumeUserTags = [taskRunID], vp_AttachmentName = ''eth0'',
      vp_AllowIPSpoofing = False, vp_AutoDelete = True, vp_EnableInfrastructureNat = True,
      vp_IpsAutoDelete = [True], vp_PrimaryIPAutoDelete = True, vp_Subnet = nm_ID subnet,
      vp_SecurityGroups = [sg], vp_HostFailure = ''stop'', vp_Image = iz_ImageId iz\<rparr>"

definition IBMZ_LaunchInstance :: "env \<Rightarrow> IBMZDynamicConfig \<Rightarrow> string \<Rightarrow> string \<Rightarrow> gomap \<Rightarrow> (goerror + string) M" where
  "IBMZ_LaunchInstance E iz taskRunID instanceTag tags =
     bnd (getVpcClient E iz) (\<lambda>r. case r of
       Some e \<Rightarrow> ret (Inl (vpcServiceError e))
     | None \<Rightarrow> bnd (createInstanceName E instanceTag) (\<lambda>r. case r of
         Inl e \<Rightarrow> ret (Inl (ErrWrap ''failed to create an instance name: '' e []))
       | Inr instanceName \<Rightarrow> (case ValidateTaskRunID taskRunID of
           Some e \<Rightarrow> ret (Inl (ErrWrap ''invalid TaskRun ID: '' e []))
         | None \<Rightarrow> bnd (lookUpVpc E iz) (\<lambda>r. case r of
             Inl e \<Rightarrow> ret (Inl e)
           | Inr v \<Rightarrow> bnd (lookUpSSHKey E iz) (\<lambda>r. case r of
               Inl e \<Rightarrow> ret (Inl e)
             | Inr key \<Rightarrow> bnd (lookUpSubnet E iz) (\<lambda>r. case r of
                 Inl e \<Rightarrow> ret (Inl e)
               | Inr subnet \<Rightarrow> must (vpc_ResourceGroup v) (\<lambda>rg. must (vpc_DefaultSecurityGroup v) (\<lambda>sg.
                   let p = vpcPrototype iz instanceName taskRunID v rg sg key subnet
                   in bnd (call (\<lambda>h. v_create (vpc E) h p) (EvVpcCreateInstance p)) (\<lambda>r. case r of
                     Inl e \<Rightarrow> ret (Inl (ErrWrap (''failed to create the System Z virtual server instance '' @ instanceName @ '': '') e []))
                   | Inr ins \<Rightarrow> must (vi_ID ins) (\<lambda>i. ret (Inr i)))))))))))"

text \<open>\<open>strings.HasPrefix(*instance.Name, instanceTag)\<close> is the test for the instances of a tag.\<close>

definition IBMZ_CountInstances :: "env \<Rightarrow> IBMZDynamicConfig \<Rightarrow> string \<Rightarrow> (goerror + int) M" where
  "IBMZ_CountInstances E iz instanceTag =
     bnd (getVpcClient E iz) (\<lambda>r. case r of
       Some e \<Rightarrow> ret (Inl (vpcServiceError e))
     | None \<Rightarrow> bnd (lookUpVpc E iz) (\<lambda>r. case r of
         Inl e \<Rightarrow> ret (Inl e)
       | Inr v \<Rightarrow> must (vpc_ResourceGroup v) (\<lambda>rg.
           bnd (call (\<lambda>h. v_list (vpc E) h rg (iz_Vpc iz)) (EvVpcListInstances rg (iz_Vpc iz))) (\<lambda>r. case r of
             Inl e \<Rightarrow> ret (Inl (ErrWrap (''failed to list virtual server instances in VPC network '' @ iz_Vpc iz @ '': '') e []))
           | Inr instances \<Rightarrow>
               bnd (foreach (\<lambda>ins cnt. must (vi_Name ins) (\<lambda>n. if prefix instanceTag n then ret (cnt + 1) else ret cnt)) instances 0)
                   (\<lambda>cnt. ret (Inr cnt))))))"

definition IBMZ_ListInstances :: "env \<Rightarrow> IBMZDynamicConfig \<Rightarrow> string \<Rightarrow> (goerror + CloudVMInstance list) M" where
  "IBMZ_ListInstances E iz instanceTag =
     bnd (getVpcClient E iz) (\<lambda>r. case r of
       Some e \<Rightarrow> ret (Inl (vpcServiceError e))
     | None \<Rightarrow> bnd (lookUpVpc E iz) (\<lambda>r. case r of
         Inl e \<Rightarrow> ret (Inl e)
       | Inr v \<Rightarrow> must (vpc_ResourceGroup v) (\<lambda>rg.
           bnd (call (\<lambda>h. v_list (vpc E) h rg (iz_Vpc iz)) (EvVpcListInstances rg (iz_Vpc iz))) (\<lambda>r. case r of
             Inl e \<Rightarrow> must (vpc_ID v) (\<lambda>vid.
               ret (Inl (ErrWrap (''failed to list VPC instances in the VPC network '' @ vid @ '': '') e [])))
           | Inr instances \<Rightarrow>
               bnd (foreach (\<lambda>ins vms. must (vi_Name ins) (\<lambda>n.
                 if prefix instanceTag n
                 then bnd (assignIPToInstance E iz ins) (\<lambda>r. case r of
                   Inl _ \<Rightarrow> must (vi_ID ins) (\<lambda>_. ret vms)
                 | Inr addr \<Rightarrow> bnd (checkIfIpIsLive E addr) (\<lambda>r. case r of
                     Some _ \<Rightarrow> must (vi_ID ins) (\<lambda>_. ret vms)
                   | None \<Rightarrow> must (vi_ID ins) (\<lambda>i. must (vi_CreatedAt ins) (\<lambda>t.
                       ret (vms @ [\<lparr>vm_InstanceId = i, vm_StartTime = t, vm_Address = addr\<rparr>])))))
                 else ret vms)) instances [])
               (\<lambda>vms. ret (Inr vms))))))"

definition vpcGetInstance :: "env \<Rightarrow> string \<Rightarrow> (goerror + vpc_Instance) M" where
  "vpcGetInstance E i = call (\<lambda>h. v_get (vpc E) h i) (EvVpcGetInstance i)"

definition IBMZ_GetInstanceAddress :: "env \<Rightarrow> IBMZDynamicConfig \<Rightarrow> string \<Rightarrow> (goerror + string) M" where
  "IBMZ_GetInstanceAddress E iz instanceId =
     bnd (getVpcClient E iz) (\<lambda>r. case r of
       Some e \<Rightarrow> ret (Inl (vpcServiceError e))
     | None \<Rightarrow> bnd (vpcGetInstance E instanceId) (\<lambda>r. case r of
         Inl _ \<Rightarrow> ret (Inr [])
       | Inr ins \<Rightarrow> bnd (assignIPToInstance E iz ins) (\<lambda>r. case r of
           Inl e \<Rightarrow> ret (Inl (ErrWrap (''failed to look up/assign an IP address for instance '' @ instanceId @ '': '') e []))
         | Inr ip \<Rightarrow> if ip \<noteq> []
             then bnd (checkIfIpIsLive E ip) (\<lambda>r. case r of Some _ \<Rightarrow> ret (Inr []) | None \<Rightarrow> ret (Inr ip))
             else ret (Inr ip))))"

definition IBMZ_TerminateInstance :: "env \<Rightarrow> IBMZDynamicConfig \<Rightarrow> string \<Rightarrow> goerror option M" where
  "IBMZ_TerminateInstance E iz instanceId =
     bnd (getVpcClient E iz) (\<lambda>r. case r of
       Some e \<Rightarrow> ret (Some (vpcServiceError e))
     | None \<Rightarrow> bnd (Now E) (\<lambda>now.
         bnd (Go (TerminateLoopZ iz instanceId (now + 10 * Minute))) (\<lambda>_. ret None)))"

text \<open>The loop of the goroutine; \<open>True\<close> if it returned within the given number of rounds.\<close>

fun terminateLoopZ :: "nat \<Rightarrow> env \<Rightarrow> string \<Rightarrow> int \<Rightarrow> bool M" where
  "terminateLoopZ 0 E instanceId timeout = ret False"
| "terminateLoopZ (Suc fuel) E instanceId timeout =
     bnd (vpcGetInstance E instanceId) (\<lambda>r. case r of
       Inl _ \<Rightarrow> ret True
     | Inr ins \<Rightarrow> must (vi_Status ins) (\<lambda>status.
         if status = ''deleting'' then ret True
         else if status = ''pending'' then bnd (Sleep (10 * Second)) (\<lambda>_. terminateLoopZ fuel E instanceId timeout)
         else bnd (call (\<lambda>h. v_delete (vpc E) h (vi_ID ins)) (EvVpcDeleteInstance (vi_ID ins))) (\<lambda>err.
           bnd (case err of Some _ \<Rightarrow> must (vi_ID ins) (\<lambda>_. ret ()) | None \<Rightarrow> ret ()) (\<lambda>_.
           bnd (Now E) (\<lambda>now.
             if timeout < now then ret True
             else bnd (Sleep (10 * Second)) (\<lambda>_. terminateLoopZ fuel E instanceId timeout))))))"

definition ibmzOkStates :: "string list" where
  "ibmzOkStates = [''deleting'', ''pending'', ''stable'', ''suspended'', ''updating'', ''waiting'']"

definition IBMZ_GetState :: "env \<Rightarrow> IBMZDynamicConfig \<Rightarrow> string \<Rightarrow> (goerror + string) M" where
  "IBMZ_GetState E iz instanceID =
     bnd (getVpcClient E iz) (\<lambda>r. case r of
       Some e \<Rightarrow> ret (Inl (vpcServiceError e))
     | None \<Rightarrow> bnd (vpcGetInstance E instanceID) (\<lambda>r. case r of
         Inl _ \<Rightarrow> ret (Inr [])
       | Inr ins \<Rightarrow> must (vi_LifecycleState ins) (\<lambda>st.
           if st \<in> set ibmzOkStates then ret (Inr OKState) else ret (Inr FailedState))))"

definition ibmz_ops :: "env \<Rightarrow> IBMZDynamicConfig \<Rightarrow> provider_ops" where
  "ibmz_ops E iz = \<lparr>LaunchInstance = IBMZ_LaunchInstance E iz, TerminateInstance = IBMZ_TerminateInstance E iz,
     GetInstanceAddress = IBMZ_GetInstanceAddress E iz, CountInstances = IBMZ_CountInstances E iz,
     ListInstances = IBMZ_ListInstances E iz, GetState = IBMZ_GetState E iz, SshUser = defaultSSHUser_ibm\<rparr>"

section \<open>The contract holds\<close>

lemma ok_createInstanceName [ok]:
  "(\<And>t. P (EvNow t)) \<Longrightarrow> ok P (createInstanceName E tag) (\<lambda>_. True)"
  unfolding createInstanceName_def by (rule ok | (simp; fail))+

lemma ok_checkIfIpIsLive [ok]:
  "(\<And>a r. P (EvResolve a r)) \<Longrightarrow> (\<And>a d r. P (EvDial a d r)) \<Longrightarrow> (\<And>a r. P (EvClose a r)) \<Longrightarrow>
     ok P (checkIfIpIsLive E ip) (\<lambda>_. True)"
  unfolding checkIfIpIsLive_def by (rule ok | (simp; fail))+

lemma ok_getVpcClient [ok]:
  "(\<And>u k r. P (EvNewVpc u k r)) \<Longrightarrow> (\<And>k r. P (EvGetSecret k r)) \<Longrightarrow> ok P (getVpcClient E iz) (\<lambda>_. True)"
  unfolding getVpcClient_def createAuthenticatedVpcService_def NewVpcV1_def by (rule ok | (simp; fail))+

lemma ok_firstNamed:
  "(\<And>x. x \<in> set xs \<Longrightarrow> nm x \<noteq> None) \<Longrightarrow> ok P (firstNamed nm wanted xs) (\<lambda>r. \<forall>x. r = Some x \<longrightarrow> x \<in> set xs)"
proof (induction xs)
  case (Cons x xs)
  then obtain n where "nm x = Some n" by force
  moreover have "ok P (firstNamed nm wanted xs) (\<lambda>r. \<forall>y. r = Some y \<longrightarrow> y \<in> set (x # xs))"
    by (rule ok_mono [OF Cons.IH]) (use Cons.prems in auto)
  ultimately show ?case by (simp add: must_def ok_ret)
qed (simp add: ok_ret)

lemma ok_lookUps [ok]:
  assumes "sdk_documented E"
  shows "(\<And>r. P (EvListSubnets r)) \<Longrightarrow> ok P (lookUpSubnet E iz) (\<lambda>_. True)"
    and "(\<And>r. P (EvListKeys r)) \<Longrightarrow> ok P (lookUpSSHKey E iz) (\<lambda>_. True)"
    and "(\<And>r. P (EvListVpcs r)) \<Longrightarrow> ok P (lookUpVpc E iz) (\<lambda>r. \<forall>v. r = Inr v \<longrightarrow>
      vpc_ID v \<noteq> None \<and> vpc_ResourceGroup v \<noteq> None \<and> vpc_DefaultSecurityGroup v \<noteq> None)"
proof -
  have d: "vpc_documented E" using assms by (simp add: sdk_documented_def)
  show "ok P (lookUpSubnet E iz) (\<lambda>_. True)" if "\<And>r. P (EvListSubnets r)"
    unfolding lookUpSubnet_def
    by (rule ok_bnd [OF ok_call [where Q = "\<lambda>r. \<forall>xs. r = Inr xs \<longrightarrow> (\<forall>x \<in> set xs. nm_Name x \<noteq> None)"]])
       (use that d in \<open>auto simp: vpc_documented_def intro!: ok ok_bnd [OF ok_firstNamed]\<close>)
  show "ok P (lookUpSSHKey E iz) (\<lambda>_. True)" if "\<And>r. P (EvListKeys r)"
    unfolding lookUpSSHKey_def
    by (rule ok_bnd [OF ok_call [where Q = "\<lambda>r. \<forall>xs. r = Inr xs \<longrightarrow> (\<forall>x \<in> set xs. nm_Name x \<noteq> None)"]])
       (use that d in \<open>auto simp: vpc_documented_def intro!: ok ok_bnd [OF ok_firstNamed]\<close>)
  show "ok P (lookUpVpc E iz) (\<lambda>r. \<forall>v. r = Inr v \<longrightarrow>
      vpc_ID v \<noteq> None \<and> vpc_ResourceGroup v \<noteq> None \<and> vpc_DefaultSecurityGroup v \<noteq> None)" if "\<And>r. P (EvListVpcs r)"
    unfolding lookUpVpc_def
    by (rule ok_bnd [OF ok_call [where Q = "\<lambda>r. \<forall>xs. r = Inr xs \<longrightarrow> (\<forall>x \<in> set xs. vpc_Name x \<noteq> None \<and> vpc_ID x \<noteq> None \<and>
        vpc_ResourceGroup x \<noteq> None \<and> vpc_DefaultSecurityGroup x \<noteq> None)"]])
       (use that d in \<open>auto simp: vpc_documented_def intro!: ok ok_bnd [OF ok_firstNamed]\<close>)
qed

lemma ok_vpcGetInstance [ok]:
  assumes "sdk_documented E" "\<And>r. P (EvVpcGetInstance i r)"
  shows "ok P (vpcGetInstance E i) (\<lambda>r. \<forall>ins. r = Inr ins \<longrightarrow> vpc_instance_documented ins)"
  unfolding vpcGetInstance_def
  by (rule ok_call) (use assms in \<open>auto simp: sdk_documented_def vpc_documented_def\<close>)

text \<open>Answers of the calls about floating addresses have the fields the code reads.\<close>

lemma ok_ip_calls [ok]:
  assumes "sdk_documented E"
  shows "(\<And>r. P (EvListInterfaceIps i n r)) \<Longrightarrow>
      ok P (call (\<lambda>h. v_interfaceIps (vpc E) h i n) (EvListInterfaceIps i n))
        (\<lambda>r. \<forall>xs. r = Inr (Some xs) \<longrightarrow> (\<forall>x \<in> set xs. ip_documented x))"
    and "(\<And>r. P (EvListFloatingIps g r)) \<Longrightarrow>
      ok P (call (\<lambda>h. v_floatingIps (vpc E) h g) (EvListFloatingIps g))
        (\<lambda>r. \<forall>xs. r = Inr xs \<longrightarrow> (\<forall>x \<in> set xs. ip_documented x))"
    and "(\<And>r. P (EvCreateFloatingIP z g r)) \<Longrightarrow>
      ok P (call (\<lambda>h. v_createIp (vpc E) h z g) (EvCreateFloatingIP z g)) (\<lambda>r. \<forall>x. r = Inr x \<longrightarrow> ip_documented x)"
    and "(\<And>r. P (EvVpcCreateInstance p r)) \<Longrightarrow>
      ok P (call (\<lambda>h. v_create (vpc E) h p) (EvVpcCreateInstance p)) (\<lambda>r. \<forall>x. r = Inr x \<longrightarrow> vpc_instance_documented x)"
    and "(\<And>r. P (EvVpcListInstances g n' r)) \<Longrightarrow>
      ok P (call (\<lambda>h. v_list (vpc E) h g n') (EvVpcListInstances g n'))
        (\<lambda>r. \<forall>xs. r = Inr xs \<longrightarrow> (\<forall>x \<in> set xs. vpc_instance_documented x))"
  using assms by (auto intro!: ok_call simp: sdk_documented_def vpc_documented_def)

lemmas vpc_fields = vpc_instance_documented_def ip_documented_def event_classes

lemma ok_assignNetworkInterfaceFloatingIP [ok]:
  assumes "sdk_documented E"
  shows "ok inspecting (assignNetworkInterfaceFloatingIP E ins) (\<lambda>_. True)"
proof -
  have "ok inspecting (case r of Inr (Some (ip # _)) \<Rightarrow> must (fip_Address ip) ret | _ \<Rightarrow> ret []) (\<lambda>_. True)"
    if "\<forall>xs. r = Inr (Some xs) \<longrightarrow> (\<forall>x \<in> set xs. ip_documented x)" for r :: "goerror + vpc_FloatingIP list option"
    using that by (auto intro!: ok simp: vpc_fields split: sum.split option.split list.split)
  then show ?thesis
    unfolding assignNetworkInterfaceFloatingIP_def
    by (auto intro!: ok ok_bnd [OF ok_ip_calls(1) [OF assms]] simp: vpc_fields split: option.split)
qed

lemma ok_attachAvailable:
  assumes "vpc_instance_documented ins" "\<forall>x \<in> set ips. ip_documented x"
  shows "ok inspecting (attachAvailable E ins ips) (\<lambda>_. True)"
  using assms(2)
proof (induction ips)
  case (Cons ip ips)
  show ?case
    unfolding attachAvailable.simps AddInstanceNetworkInterfaceFloatingIP_def
    by (rule ok Cons.IH | (use assms(1) Cons.prems in \<open>auto simp: vpc_fields\<close>; fail))+
qed (simp add: ok_ret)

lemma ok_assignFloatingIP [ok]:
  assumes "sdk_documented E" "vpc_instance_documented ins"
  shows "ok inspecting (assignFloatingIP E ins) (\<lambda>_. True)"
  unfolding assignFloatingIP_def
  by (rule ok_attachAvailable | rule ok_must ok_bnd ok_ip_calls ok_sum ok_ret
      | (use assms in \<open>auto simp: vpc_fields\<close>; fail))+

lemma ok_assignNewlyAllocatedIP [ok]:
  assumes "sdk_documented E" "vpc_instance_documented ins"
  shows "ok inspecting (assignNewlyAllocatedIP E ins) (\<lambda>_. True)"
  unfolding assignNewlyAllocatedIP_def AddInstanceNetworkInterfaceFloatingIP_def
  by (rule ok_ip_calls(3) | rule ok | (use assms in \<open>auto simp: vpc_fields\<close>; fail))+

lemma ok_assignIPToInstance [ok]:
  assumes "sdk_documented E" "vpc_instance_documented ins"
  shows "ok inspecting (assignIPToInstance E iz ins) (\<lambda>_. True)"
  unfolding assignIPToInstance_def
  by (rule ok | (use assms in \<open>auto simp: vpc_fields\<close>; fail))+

lemma ibmz_count: "sdk_documented E \<Longrightarrow> ok inspecting (IBMZ_CountInstances E iz tag) (\<lambda>_. True)"
  unfolding IBMZ_CountInstances_def
  by (rule ok_ip_calls(5) | rule ok | (auto simp: vpc_fields; fail))+

lemma ibmz_list: "sdk_documented E \<Longrightarrow> ok inspecting (IBMZ_ListInstances E iz tag) (\<lambda>_. True)"
  unfolding IBMZ_ListInstances_def
  by (rule ok_ip_calls(5) | rule ok | (auto simp: vpc_fields; fail))+

lemma ibmz_address: "sdk_documented E \<Longrightarrow> ok inspecting (IBMZ_GetInstanceAddress E iz x) (\<lambda>_. True)"
  unfolding IBMZ_GetInstanceAddress_def
  by (rule ok | (auto simp: vpc_fields; fail))+

lemma ibmz_state: "sdk_documented E \<Longrightarrow> ok inspecting (IBMZ_GetState E iz x) (\<lambda>_. True)"
  unfolding IBMZ_GetState_def
  by (rule ok | (auto simp: vpc_fields; fail))+

lemma ibmz_terminate: "ok terminating (IBMZ_TerminateInstance E iz x) (\<lambda>_. True)"
  unfolding IBMZ_TerminateInstance_def
  by (rule ok | (auto simp: vpc_fields; fail))+

lemma ibmz_launch: "sdk_documented E \<Longrightarrow> ok launching (IBMZ_LaunchInstance E iz i tag tags) (\<lambda>_. True)"
  unfolding IBMZ_LaunchInstance_def
  by (rule ok_ip_calls(4) | rule ok | (auto simp: vpc_fields; fail))+

lemma ibmz_launch_invalid:
  assumes "ValidateTaskRunID i \<noteq> None"
  shows "ok inspecting (IBMZ_LaunchInstance E iz i tag tags) isl"
proof -
  from assms obtain e where v: "ValidateTaskRunID i = Some e" by auto
  show ?thesis
    unfolding IBMZ_LaunchInstance_def v option.case
    by (rule ok | (auto simp: vpc_fields; fail))+
qed

interpretation ibmz: cloud_provider E "ibmz_ops E iz" for E iz
  by unfold_locales
     (simp_all add: ibmz_ops_def ibmz_launch ibmz_launch_invalid ibmz_terminate ibmz_address ibmz_count
       ibmz_list ibmz_state)

end
