(* ===== verification/Go_Net.thy ===== *)
theory Go_Net
  imports Go_Strings
begin

text \<open>
  \<open>net.ParseIP\<close> of the Go standard library, as the question whether a string is an IP address:
  a dotted-decimal IPv4 address or an IPv6 address (with at most one \<open>::\<close> and an optional
  trailing IPv4 part; a zone makes the result nil). The scanner looks for the first \<open>.\<close>, \<open>:\<close>
  or \<open>%\<close> and decides the family on it.
\<close>

section \<open>IPv4\<close>

text \<open>A field: one to three digits, no leading zero, at most 255.\<close>

definition ipv4_field :: "string \<Rightarrow> bool" where
  "ipv4_field f \<longleftrightarrow> f \<noteq> [] \<and> list_all is_digit f \<and> (hd f = CHR ''0'' \<longrightarrow> length f = 1)
     \<and> digits_val f \<le> 255"

definition parseIPv4 :: "string \<Rightarrow> bool" where
  "parseIPv4 s \<longleftrightarrow> (let fs = Split (CHR ''.'') s in length fs = 4 \<and> list_all ipv4_field fs)"

section \<open>IPv6\<close>

definition is_hexdigit :: "char \<Rightarrow> bool" where
  "is_hexdigit c \<longleftrightarrow> c \<in> set ''0123456789abcdefABCDEF''"

text \<open>
  The group loop: \<open>s\<close> is the rest of the input, \<open>i\<close> the number of bytes written, \<open>ell\<close>
  whether an ellipsis was seen. A group has one to four hexadecimal digits; a dot after it starts
  a trailing IPv4 address, which needs four free bytes and, without an ellipsis, position 12.
  The result of the loop is the position reached and whether an ellipsis was seen, once the
  whole string has been used.
\<close>

function ipv6_groups :: "string \<Rightarrow> nat \<Rightarrow> bool \<Rightarrow> (nat \<times> bool) option" where
  "ipv6_groups s i ell =
     (if 16 \<le> i then (if s = [] then Some (i, ell) else None)
      else
        let g = takeWhile is_hexdigit s; rest = drop (length g) s
        in if g = [] \<or> 4 < length g then None
           else (case rest of
               [] \<Rightarrow> Some (i + 2, ell)
             | c # cs \<Rightarrow>
                 if c = CHR ''.''
                 then (if (\<not> ell \<and> i \<noteq> 12) \<or> 16 < i + 4 \<or> \<not> parseIPv4 s then None
                       else Some (i + 4, ell))
                 else if c \<noteq> CHR '':'' then None
                 else (case cs of
                     [] \<Rightarrow> None
                   | d # ds \<Rightarrow>
                       if d = CHR '':''
                       then (if ell then None
                             else if ds = [] then Some (i + 2, True)
                             else ipv6_groups ds (i + 2) True)
                       else ipv6_groups cs (i + 2) ell)))"
  by pat_completeness auto
termination
  by (relation "measure (\<lambda>(s, i, ell). 18 - i)") auto

declare ipv6_groups.simps [simp del]

definition parseIPv6 :: "string \<Rightarrow> bool" where
  "parseIPv6 s \<longleftrightarrow>
     (if CHR ''%'' \<in> set s then False
      else
        let lead = prefix ''::'' s; body = (if lead then drop 2 s else s)
        in if lead \<and> body = [] then True
           else (case ipv6_groups body 0 lead of
               None \<Rightarrow> False
             | Some (i, ell) \<Rightarrow> if i < 16 then ell else \<not> ell))"

section \<open>ParseIP\<close>

definition ParseIP :: "string \<Rightarrow> bool" where
  "ParseIP s \<longleftrightarrow>
     (case find (\<lambda>c. c = CHR ''.'' \<or> c = CHR '':'' \<or> c = CHR ''%'') s of
        None \<Rightarrow> False
      | Some c \<Rightarrow> if c = CHR ''.'' then parseIPv4 s
                  else if c = CHR '':'' then parseIPv6 s else False)"

text \<open>The dotted-decimal rendering of four octets.\<close>

definition render_ipv4 :: "nat \<Rightarrow> nat \<Rightarrow> nat \<Rightarrow> nat \<Rightarrow> string" where
  "render_ipv4 a b c d = Join ''.'' [nat_digits a, nat_digits b, nat_digits c, nat_digits d]"

lemma digit_not: "is_digit c \<Longrightarrow> c \<noteq> CHR ''.'' \<and> c \<noteq> CHR '':'' \<and> c \<noteq> CHR ''%''"
  by (auto simp: is_digit_def)

lemma nat_digits_chars: "c \<in> set (nat_digits n) \<Longrightarrow> is_digit c"
  using nat_digits_sound [of n] by (auto simp: list_all_iff)

lemma nat_digits_no_leading_zero: "hd (nat_digits n) = CHR ''0'' \<Longrightarrow> n = 0"
proof (induction n rule: nat_digits.induct)
  case (1 n)
  show ?case
  proof (cases "n < 10")
    case True
    then have "n \<in> {0, 1, 2, 3, 4, 5, 6, 7, 8, 9}" by auto
    with "1.prems" show ?thesis by (auto simp: nat_digits.simps [of n] char_of_def)
  next
    case False
    then have "hd (nat_digits n) = hd (nat_digits (n div 10))"
      using nat_digits_sound [of "n div 10"] by (simp add: nat_digits.simps [of n])
    with "1.IH" False "1.prems" show ?thesis by simp
  qed
qed

lemma ipv4_field_digits: "n \<le> 255 \<Longrightarrow> ipv4_field (nat_digits n)"
proof -
  assume n: "n \<le> 255"
  have "length (nat_digits 0) = 1" by (simp add: nat_digits.simps)
  then have "hd (nat_digits n) = CHR ''0'' \<Longrightarrow> length (nat_digits n) = 1"
    using nat_digits_no_leading_zero by blast
  with n nat_digits_sound [of n] show ?thesis by (simp add: ipv4_field_def)
qed

lemma parseIPv4_render:
  assumes "a \<le> 255" "b \<le> 255" "c \<le> 255" "d \<le> 255"
  shows "parseIPv4 (render_ipv4 a b c d)"
proof -
  have "Split (CHR ''.'') (render_ipv4 a b c d) = [nat_digits a, nat_digits b, nat_digits c, nat_digits d]"
    unfolding render_ipv4_def
    by (rule Split_Join) (auto dest!: nat_digits_chars simp: digit_not is_digit_def)
  with assms show ?thesis by (simp add: parseIPv4_def ipv4_field_digits)
qed

lemma find_skip: "(\<And>x. x \<in> set p \<Longrightarrow> \<not> P x) \<Longrightarrow> P y \<Longrightarrow> find P (p @ y # s) = Some y"
  by (induction p) auto

lemma ParseIP_render:
  assumes "a \<le> 255" "b \<le> 255" "c \<le> 255" "d \<le> 255"
  shows "ParseIP (render_ipv4 a b c d)"
proof -
  have "find (\<lambda>c. c = CHR ''.'' \<or> c = CHR '':'' \<or> c = CHR ''%'') (render_ipv4 a b c d) = Some (CHR ''.'')"
  proof -
    have "render_ipv4 a b c d = nat_digits a @ CHR ''.'' # Join ''.'' [nat_digits b, nat_digits c, nat_digits d]"
      by (simp add: render_ipv4_def)
    moreover have "\<not> (x = CHR ''.'' \<or> x = CHR '':'' \<or> x = CHR ''%'')" if "x \<in> set (nat_digits a)" for x
      using digit_not [OF nat_digits_chars [OF that]] by blast
    ultimately show ?thesis by (simp only:) (rule find_skip, simp_all)
  qed
  with parseIPv4_render [OF assms] show ?thesis by (simp add: ParseIP_def)
qed

text \<open>Without a colon, exactly the dotted-decimal strings are accepted.\<close>

lemma ParseIP_no_colon: "CHR '':'' \<notin> set s \<Longrightarrow> CHR ''%'' \<notin> set s \<Longrightarrow> ParseIP s = parseIPv4 s"
proof -
  assume nc: "CHR '':'' \<notin> set s" "CHR ''%'' \<notin> set s"
  let ?P = "\<lambda>c. c = CHR ''.'' \<or> c = CHR '':'' \<or> c = CHR ''%''"
  show ?thesis
  proof (cases "find ?P s")
    case None
    then have "\<not> (\<exists>x. x \<in> set s \<and> ?P x)" by (rule find_None_iff [THEN iffD1])
    then have "CHR ''.'' \<notin> set s" by blast
    with None show ?thesis by (simp add: ParseIP_def parseIPv4_def Split_absent)
  next
    case (Some c)
    then have "?P c" and "c \<in> set s" using find_Some_in [of ?P s c] by blast+
    with nc have "c = CHR ''.''" by metis
    with Some show ?thesis by (simp add: ParseIP_def)
  qed
qed

end
