(* ===== verification/Config.thy ===== *)
theory Config
  imports Kube_Objects Go_Net
begin

text \<open>
  \<open>pkg/config\<close>: validation of platform names, numbers, addresses, IBM secrets and instance tags
  (\<open>validation.go\<close>), and the parsers that turn the entries of the \<open>host-config\<close> ConfigMap into
  structured configurations (\<open>config.go\<close>). Every function is total and returns its error as a
  value. \<open>validation.IsDNS1035Label\<close> belongs to apimachinery and is the parameter \<open>dns\<close>: it
  returns the list of complaints about a label.
\<close>

section \<open>validation.go\<close>

definition errInvalidPlatformFormat :: goerror where
  "errInvalidPlatformFormat = ErrNew ''platform must be in format 'label/label' where each label follows Kubernetes RFC 1035 label name format''"

definition errMissingPlatformParameter :: goerror where
  "errMissingPlatformParameter = ErrNew ''PLATFORM parameter not found in TaskRun parameters''"

definition ErrInvalidIPFormat :: goerror where
  "ErrInvalidIPFormat = ErrNew ''value must be a valid IP address in dotted decimal notation''"

definition errIBMHostSecretPlatformMismatch :: goerror where
  "errIBMHostSecretPlatformMismatch = ErrNew ''host secret key and value must contain matching platform substring''"

definition maxStaticConcurrency :: int where "maxStaticConcurrency = 8"
definition maxPoolHostAge :: int where "maxPoolHostAge = 1440"
definition maxInstanceTagLengthPPC :: nat where "maxInstanceTagLengthPPC = 29"
definition maxInstanceTagLengthS390x :: nat where "maxInstanceTagLengthS390x = 45"

definition validatePlatformFormat :: "(string \<Rightarrow> string list) \<Rightarrow> string \<Rightarrow> goerror option" where
  "validatePlatformFormat dns platform =
     (if platform = ''local'' \<or> platform = ''localhost'' \<or> platform = ''linux/x86_64'' then None
      else
        let parts = Split (CHR ''/'') platform
        in if length parts \<noteq> 2 then Some errInvalidPlatformFormat
           else if \<exists>part \<in> set parts. dns part \<noteq> [] then Some errInvalidPlatformFormat
           else None)"

definition ExtractPlatform :: "TaskRun \<Rightarrow> goerror + string" where
  "ExtractPlatform tr =
     (case tr_Params tr of
        None \<Rightarrow> Inl errMissingPlatformParameter
      | Some ps \<Rightarrow> (case find (\<lambda>p. fst p = PlatformParam) ps of
            None \<Rightarrow> Inl errMissingPlatformParameter
          | Some p \<Rightarrow> Inr (snd p)))"

definition ValidatePlatform :: "(string \<Rightarrow> string list) \<Rightarrow> TaskRun \<Rightarrow> goerror + string" where
  "ValidatePlatform dns tr =
     (case ExtractPlatform tr of
        Inl err \<Rightarrow> Inl err
      | Inr platform \<Rightarrow> (case validatePlatformFormat dns platform of
            Some err \<Rightarrow> Inl err
          | None \<Rightarrow> Inr platform))"

definition validateNonZeroPositiveNumber :: "string \<Rightarrow> goerror + int" where
  "validateNonZeroPositiveNumber value =
     (case Atoi value of
        Inl err \<Rightarrow> Inl (ErrWrap (''invalid value '' @ sq value @ '': must be a valid integer greater than or equal to 1: '') err [])
      | Inr num \<Rightarrow>
          if num < 1 then Inl (ErrNew (''invalid value '' @ sq value @ '': must be greater than or equal to 1''))
          else Inr num)"

definition validateNonZeroPositiveNumberWithMax :: "string \<Rightarrow> int \<Rightarrow> goerror + int" where
  "validateNonZeroPositiveNumberWithMax value maxValue =
     (case validateNonZeroPositiveNumber value of
        Inl err \<Rightarrow> Inl err
      | Inr num \<Rightarrow>
          if num > maxValue then Inl (ErrNew (''invalid value '' @ sq value @ '': must be between 1 and '' @ Itoa maxValue))
          else Inr num)"

definition ValidateIPFormat :: "string \<Rightarrow> goerror option" where
  "ValidateIPFormat value = (if ParseIP value then None else Some ErrInvalidIPFormat)"

definition validateIBMHostSecret :: "string \<Rightarrow> string \<Rightarrow> goerror option" where
  "validateIBMHostSecret key value =
     (if \<exists>platform \<in> set [''s390x'', ''ppc64le'']. sublist platform key \<and> sublist platform value
      then None else Some errIBMHostSecretPlatformMismatch)"

definition parseDynamicHostInstanceTypeKey :: "string \<Rightarrow> goerror + string \<times> string" where
  "parseDynamicHostInstanceTypeKey platformConfigName =
     (let firstDash = Index platformConfigName (CHR ''-'');
          lastDash = LastIndex platformConfigName (CHR ''-'')
      in if firstDash = -1 \<or> lastDash = -1
         then Inl (ErrNew (''invalid platform config name: no dashes found in '' @ sq platformConfigName))
         else
           let platform = slice_from platformConfigName (lastDash + 1)
           in if firstDash = lastDash then Inr (platform, [])
              else
                let instanceType = slice platformConfigName (firstDash + 1) lastDash;
                    instanceParts = Split (CHR ''-'') instanceType
                in if length instanceParts > 1
                   then Inr (platform, Join ''-'' (sort instanceParts))
                   else Inr (platform, instanceType))"

definition parseDynamicHostInstanceTypeValue :: "string \<Rightarrow> goerror + string \<times> string" where
  "parseDynamicHostInstanceTypeValue value =
     (let parts = Split (CHR ''-'') value
      in if length parts < 2
         then Inl (ErrNew (''invalid value format: must be '' @ sq ''<prefix>-<platform>'' @ '' or ''
                @ sq ''<prefix>-<platform>-<instance_type>''))
         else
           let platform = parts ! 1
           in if length parts = 2 then Inr (platform, [])
              else
                let instanceParts = drop 2 parts;
                    sorted = (if length instanceParts > 1 then sort instanceParts else instanceParts)
                in Inr (platform, Join ''-'' sorted))"

definition validateDynamicInstanceTag :: "string \<Rightarrow> string \<Rightarrow> goerror option" where
  "validateDynamicInstanceTag key value =
     (case parseDynamicHostInstanceTypeKey key of
        Inl err \<Rightarrow> Some err
      | Inr (keyPlatform, keyInstanceType) \<Rightarrow>
        (case parseDynamicHostInstanceTypeValue value of
           Inl err \<Rightarrow> Some err
         | Inr (valuePlatform, valueInstanceType) \<Rightarrow>
             if keyPlatform \<noteq> valuePlatform
             then Some (ErrNew (''platform mismatch: key has '' @ sq keyPlatform @ '', value has '' @ sq valuePlatform))
             else if keyInstanceType \<noteq> valueInstanceType
             then Some (ErrNew (''instance type mismatch: key has '' @ sq keyInstanceType @ '', value has '' @ sq valueInstanceType))
             else if keyPlatform = ''ppc64le'' \<and> length value > maxInstanceTagLengthPPC
             then Some (ErrNew (''instance tag too long for ppc64le platform: '' @
                     Itoa (int (length value)) @ '' characters (max 29)''))
             else if keyPlatform = ''s390x'' \<and> length value > maxInstanceTagLengthS390x
             then Some (ErrNew (''instance tag too long for s390x platform: '' @
                     Itoa (int (length value)) @ '' characters (max 45)''))
             else None))"


section \<open>config.go\<close>

datatype PlatformType = PlatformTypeLocal | PlatformTypeDynamic | PlatformTypeDynamicPool

fun platformTypeName :: "PlatformType \<Rightarrow> string" where
  "platformTypeName PlatformTypeLocal = ''local''"
| "platformTypeName PlatformTypeDynamic = ''dynamic''"
| "platformTypeName PlatformTypeDynamicPool = ''dynamic pool''"

definition defaultAllocationTimeout :: int where "defaultAllocationTimeout = 600"
definition defaultCheckInterval :: int where "defaultCheckInterval = 60"
definition defaultStaticHostsConcurrency :: int where "defaultStaticHostsConcurrency = 0"

record DynamicPlatformConfig =
  dc_Type :: string
  dc_MaxInstances :: int
  dc_InstanceTag :: string
  dc_AllocationTimeout :: int
  dc_CheckInterval :: int
  dc_SSHSecret :: string
  dc_SudoCommands :: string

record DynamicPoolPlatformConfig =
  pc_Type :: string
  pc_MaxInstances :: int
  pc_Concurrency :: int
  pc_MaxAge :: int
  pc_InstanceTag :: string
  pc_SSHSecret :: string

record StaticHostConfig =
  hc_Address :: string
  hc_User :: string
  hc_Platform :: string
  hc_Secret :: string
  hc_Concurrency :: int

text \<open>The loop of \<open>ParsePlatformList\<close>: the elements still to visit (the last one is the one whose
  index is \<open>len(platforms)-1\<close>) and the result so far.\<close>

fun parse_platforms :: "(string \<Rightarrow> string list) \<Rightarrow> PlatformType \<Rightarrow> string list \<Rightarrow> string list \<Rightarrow> goerror + string list" where
  "parse_platforms dns pType [] result = Inr result"
| "parse_platforms dns pType (p # ps) result =
     (let platform = TrimSpace p
      in if platform = []
         then (if ps = [] then parse_platforms dns pType ps result
               else Inl (ErrNew (''invalid '' @ platformTypeName pType @ '' platform '' @ sq []
                      @ '': empty platform in middle of list'')))
         else (case validatePlatformFormat dns platform of
             Some err \<Rightarrow> Inl (ErrWrap (''invalid '' @ platformTypeName pType @ '' platform ''
                           @ sq platform @ '': '') err [])
           | None \<Rightarrow> parse_platforms dns pType ps (result @ [platform])))"

definition ParsePlatformList :: "(string \<Rightarrow> string list) \<Rightarrow> string \<Rightarrow> PlatformType \<Rightarrow> goerror + string list" where
  "ParsePlatformList dns platformList pType =
     (if platformList = [] then Inr []
      else parse_platforms dns pType (Split (CHR '','') platformList) [])"

definition parseDynamicRequiredTypeField :: "gomap \<Rightarrow> string \<Rightarrow> string \<Rightarrow> string \<Rightarrow> goerror + string" where
  "parseDynamicRequiredTypeField data pre platform platformType =
     (if lk data (pre @ ''type'') \<noteq> [] then Inr (lk data (pre @ ''type''))
      else Inl (ErrNew (platformType @ '' '' @ sq platform @ '': type field is required'')))"

definition parseDynamicRequiredMaxInstancesField :: "gomap \<Rightarrow> string \<Rightarrow> string \<Rightarrow> string \<Rightarrow> goerror + int" where
  "parseDynamicRequiredMaxInstancesField data pre platform platformType =
     (let maxInstancesStr = lk data (pre @ ''max-instances'')
      in if maxInstancesStr \<noteq> []
         then (case validateNonZeroPositiveNumber maxInstancesStr of
             Inl err \<Rightarrow> Inl (ErrWrap (platformType @ '' '' @ sq platform @ '': invalid max-instances ''
                          @ sq maxInstancesStr @ '': '') err [])
           | Inr maxInstances \<Rightarrow> Inr maxInstances)
         else Inl (ErrNew (platformType @ '' '' @ sq platform @ '': max-instances field is required'')))"

definition parseDynamicOptionalInstanceTagField ::
    "gomap \<Rightarrow> string \<Rightarrow> string \<Rightarrow> string \<Rightarrow> string \<Rightarrow> goerror + string" where
  "parseDynamicOptionalInstanceTagField data pre platformConfigName platform platformType =
     (let instanceTag = lk data (pre @ ''instance-tag'')
      in if instanceTag \<noteq> []
         then (case validateDynamicInstanceTag platformConfigName instanceTag of
             Some err \<Rightarrow> Inl (ErrWrap (platformType @ '' '' @ sq platform @ '': invalid instance-tag ''
                          @ sq instanceTag @ '': '') err [])
           | None \<Rightarrow> Inr instanceTag)
         else Inr [])"

definition parseRequiredSSHSecretField ::
    "gomap \<Rightarrow> string \<Rightarrow> string \<Rightarrow> string \<Rightarrow> string \<Rightarrow> goerror + string" where
  "parseRequiredSSHSecretField data pre platform platformType cloudProviderType =
     (let sshSecret = TrimSpace (lk data (pre @ ''ssh-secret''))
      in if sshSecret = []
         then Inl (ErrNew (platformType @ '' '' @ sq platform @ '': ssh-secret field is required''))
         else if cloudProviderType = ''aws'' then Inr sshSecret
         else if cloudProviderType = ''ibmz'' \<or> cloudProviderType = ''ibmp''
         then (case validateIBMHostSecret platform sshSecret of
             Some err \<Rightarrow> Inl (ErrWrap (platformType @ '' '' @ sq platform @ '': invalid ssh-secret ''
                          @ sq sshSecret @ '': '') err [])
           | None \<Rightarrow> Inr sshSecret)
         else Inl (ErrNew (''invalid type: expect '' @ sq ''aws'' @ '', '' @ sq ''ibmz'' @ '', or ''
                @ sq ''ibmp'' @ '', got '' @ sq cloudProviderType)))"

text \<open>An optional positive number with a default (\<open>allocation-timeout\<close>, \<open>check-interval\<close>), and a
  required one with a maximum (\<open>concurrency\<close>, \<open>max-age\<close>): the blocks of the two parsers below.\<close>

definition optional_positive :: "gomap \<Rightarrow> string \<Rightarrow> string \<Rightarrow> string \<Rightarrow> int \<Rightarrow> goerror + int" where
  "optional_positive data pre field platform dflt =
     (let str = lk data (pre @ field)
      in if str \<noteq> []
         then (case validateNonZeroPositiveNumber str of
             Inl err \<Rightarrow> Inl (ErrWrap (''dynamic platform '' @ sq platform @ '': invalid '' @ field @ '' ''
                          @ sq str @ '': '') err [])
           | Inr n \<Rightarrow> Inr n)
         else Inr dflt)"

definition required_bounded :: "gomap \<Rightarrow> string \<Rightarrow> string \<Rightarrow> string \<Rightarrow> int \<Rightarrow> goerror + int" where
  "required_bounded data pre field platform maxValue =
     (let str = lk data (pre @ field)
      in if str \<noteq> []
         then (case validateNonZeroPositiveNumberWithMax str maxValue of
             Inl err \<Rightarrow> Inl (ErrWrap (''dynamic pool platform '' @ sq platform @ '': invalid '' @ field @ '' ''
                          @ sq str @ '': '') err [])
           | Inr n \<Rightarrow> Inr n)
         else Inl (ErrNew (''dynamic pool platform '' @ sq platform @ '': '' @ field @ '' field is required'')))"

text \<open>Continue with the value or stop with the error: \<open>if err != nil { return ..., err }\<close>.\<close>

definition ebind :: "goerror + 'a \<Rightarrow> ('a \<Rightarrow> goerror + 'b) \<Rightarrow> goerror + 'b" where
  "ebind r f = (case r of Inl e \<Rightarrow> Inl e | Inr x \<Rightarrow> f x)"

lemma ebind_Inr: "ebind r f = Inr y \<longleftrightarrow> (\<exists>x. r = Inr x \<and> f x = Inr y)"
  by (cases r) (simp_all add: ebind_def)

definition ParseDynamicPlatformConfig :: "gomap \<Rightarrow> string \<Rightarrow> goerror + DynamicPlatformConfig" where
  "ParseDynamicPlatformConfig data platform =
     (let platformConfigName = ReplaceAll (CHR ''/'') (CHR ''-'') platform;
          pre = ''dynamic.'' @ platformConfigName @ ''.''
      in ebind (parseDynamicRequiredTypeField data pre platform ''dynamic platform'') (\<lambda>typeName.
         ebind (parseDynamicRequiredMaxInstancesField data pre platform ''dynamic platform'') (\<lambda>maxInstances.
         ebind (parseDynamicOptionalInstanceTagField data pre platformConfigName platform ''dynamic platform'')
           (\<lambda>instanceTag.
         ebind (optional_positive data pre ''allocation-timeout'' platform defaultAllocationTimeout) (\<lambda>timeout.
         ebind (optional_positive data pre ''check-interval'' platform defaultCheckInterval) (\<lambda>interval.
         ebind (parseRequiredSSHSecretField data pre platform ''dynamic platform'' typeName) (\<lambda>sshSecret.
           Inr \<lparr>dc_Type = typeName, dc_MaxInstances = maxInstances, dc_InstanceTag = instanceTag,
                dc_AllocationTimeout = timeout, dc_CheckInterval = interval, dc_SSHSecret = sshSecret,
                dc_SudoCommands = lk data (pre @ ''sudo-commands'')\<rparr>)))))))"

definition ParseDynamicPoolPlatformConfig :: "gomap \<Rightarrow> string \<Rightarrow> goerror + DynamicPoolPlatformConfig" where
  "ParseDynamicPoolPlatformConfig data platform =
     (let platformConfigName = ReplaceAll (CHR ''/'') (CHR ''-'') platform;
          pre = ''dynamic.'' @ platformConfigName @ ''.''
      in ebind (parseDynamicRequiredTypeField data pre platform ''dynamic pool platform'') (\<lambda>typeName.
         ebind (parseDynamicRequiredMaxInstancesField data pre platform ''dynamic pool platform'') (\<lambda>maxInstances.
         ebind (required_bounded data pre ''concurrency'' platform maxStaticConcurrency) (\<lambda>concurrency.
         ebind (required_bounded data pre ''max-age'' platform maxPoolHostAge) (\<lambda>maxAge.
         ebind (parseDynamicOptionalInstanceTagField data pre platformConfigName platform ''dynamic pool platform'')
           (\<lambda>instanceTag.
         ebind (parseRequiredSSHSecretField data pre platform ''dynamic pool platform'' typeName) (\<lambda>sshSecret.
           Inr \<lparr>pc_Type = typeName, pc_MaxInstances = maxInstances, pc_Concurrency = concurrency,
                pc_MaxAge = maxAge, pc_InstanceTag = instanceTag, pc_SSHSecret = sshSecret\<rparr>)))))))"

text \<open>The fields of a static host, in the order in which they are checked.\<close>

definition parse_address :: "gomap \<Rightarrow> string \<Rightarrow> goerror + string" where
  "parse_address data hostName =
     (let address = TrimSpace (lk data (''host.'' @ hostName @ ''.address''))
      in if address = [] then Inr []
         else (case ValidateIPFormat address of
             Some err \<Rightarrow> Inl (ErrWrap (''static host '' @ sq hostName @ '': invalid address ''
                          @ sq address @ '': '') err [])
           | None \<Rightarrow> Inr address))"

definition parse_platform :: "(string \<Rightarrow> string list) \<Rightarrow> gomap \<Rightarrow> string \<Rightarrow> goerror + string" where
  "parse_platform dns data hostName =
     (let platform = TrimSpace (lk data (''host.'' @ hostName @ ''.platform''))
      in if platform = [] then Inr []
         else (case validatePlatformFormat dns platform of
             Some err \<Rightarrow> Inl (ErrWrap (''static host '' @ sq hostName @ '': invalid platform ''
                          @ sq platform @ '': '') err [])
           | None \<Rightarrow> Inr platform))"

definition parse_secret :: "gomap \<Rightarrow> string \<Rightarrow> string \<Rightarrow> goerror + string" where
  "parse_secret data hostName platform =
     (let secret = TrimSpace (lk data (''host.'' @ hostName @ ''.secret''))
      in if secret = [] then Inr []
         else if sublist ''s390x'' platform \<or> sublist ''ppc64le'' platform
         then (case validateIBMHostSecret platform secret of
             Some err \<Rightarrow> Inl (ErrWrap (''static host '' @ sq hostName @ '': invalid secret ''
                          @ sq secret @ '': '') err [])
           | None \<Rightarrow> Inr secret)
         else Inr secret)"

definition parse_concurrency :: "gomap \<Rightarrow> string \<Rightarrow> goerror + int" where
  "parse_concurrency data hostName =
     (let str = lk data (''host.'' @ hostName @ ''.concurrency'')
      in if str = [] then Inr defaultStaticHostsConcurrency
         else (case validateNonZeroPositiveNumberWithMax str maxStaticConcurrency of
             Inl err \<Rightarrow> Inl (ErrWrap (''static host '' @ sq hostName @ '': invalid concurrency ''
                          @ sq str @ '': '') err [])
           | Inr n \<Rightarrow> Inr n))"

definition ParseStaticHostConfig :: "(string \<Rightarrow> string list) \<Rightarrow> gomap \<Rightarrow> string \<Rightarrow> goerror + StaticHostConfig" where
  "ParseStaticHostConfig dns data hostName =
     ebind (parse_address data hostName) (\<lambda>address.
     ebind (parse_platform dns data hostName) (\<lambda>platform.
     ebind (parse_secret data hostName platform) (\<lambda>secret.
     ebind (parse_concurrency data hostName) (\<lambda>concurrency.
       if address = []
       then Inl (ErrNew (''static host '' @ sq hostName @ '': address field is required''))
       else Inr \<lparr>hc_Address = address, hc_User = TrimSpace (lk data (''host.'' @ hostName @ ''.user'')),
                 hc_Platform = platform, hc_Secret = secret, hc_Concurrency = concurrency\<rparr>))))"

end
