(* ===== verification/IBMP.thy ===== *)
theory IBMP
  imports IBMZ Config
begin

text \<open>
  \<open>pkg/ibm\<close>, the Power Systems provider: \<open>ibmp.go\<close>, \<open>ibmp_helpers.go\<close> and the REST client of
  \<open>ibmp_client.go\<close>. A request is assembled as a value and sent; the two goroutines are events of the
  history with their loops modelled as \<open>terminateLoopP\<close> and \<open>resizeLoop\<close>.
\<close>

section \<open>Configuration\<close>

definition CreateIBMPowerCloudConfig :: "env \<Rightarrow> string \<Rightarrow> gomap \<Rightarrow> string \<Rightarrow> IBMPowerDynamicConfig" where
  "CreateIBMPowerCloudConfig E platform config systemNamespace =
     (let f = (\<lambda>field. lk config (dynKey platform field));
          mem = (case l_parseFloat (lib E) (f ''memory'') of None \<Rightarrow> Fin 2 | Some x \<Rightarrow> x);
          cores = (case l_parseFloat (lib E) (f ''cores'') of None \<Rightarrow> Fin (1 / 4) | Some x \<Rightarrow> x);
          volumeSize = (case l_parseFloat (lib E) (f ''disk'') of None \<Rightarrow> Fin 100
            | Some x \<Rightarrow> if f64_less x (Fin 100) then Fin 100 else x);
          userData = f ''user-data''
      in \<lparr>pw_SystemNamespace = systemNamespace, pw_Secret = f ''secret'', pw_Key = f ''key'',
          pw_ImageId = f ''image'', pw_Url = f ''url'', pw_CRN = f ''crn'', pw_Network = f ''network'',
          pw_Cores = cores, pw_Memory = mem, pw_Disk = volumeSize, pw_System = f ''system'',
          pw_UserData = (if userData \<noteq> [] then base64 userData else []), pw_ProcType = ''shared''\<rparr>)"

section \<open>Helpers\<close>

definition retrieveInstanceIp :: "string \<Rightarrow> PVMInstanceNetwork option list \<Rightarrow> goerror + string" where
  "retrieveInstanceIp instanceID networks =
     (case networks of
        [] \<Rightarrow> Inl (ErrNew (''no networks found for Power Systems VM '' @ instanceID))
      | None # _ \<Rightarrow> Inl (ErrNew (''network entry is nil for Power Systems VM '' @ instanceID))
      | Some network # _ \<Rightarrow>
          let ip = (if pn_ExternalIP network \<noteq> [] then pn_ExternalIP network else pn_IPAddress network)
          in if ip = [] then Inl (ErrNew (''no IP address found for Power Systems VM '' @ instanceID))
             else (case ValidateIPFormat ip of
                 Some e \<Rightarrow> Inl (ErrWrap (''invalid IP address format for Power Systems VM '' @ instanceID @ '': '') e [])
               | None \<Rightarrow> Inr ip))"

definition NewBaseService :: "env \<Rightarrow> string \<Rightarrow> string \<Rightarrow> goerror option M" where
  "NewBaseService E url apiKey = call (\<lambda>h. p_new (power E) h url apiKey) (EvNewPower url apiKey)"

definition createAuthenticatedBaseService :: "env \<Rightarrow> bool \<Rightarrow> IBMPowerDynamicConfig \<Rightarrow> goerror option M" where
  "createAuthenticatedBaseService E haveClient pw =
     (if \<not> haveClient then NewBaseService E (pw_Url pw) (l_getenv (lib E) ''IBM_CLOUD_API_KEY'')
      else bnd (GetSecret E (pw_SystemNamespace pw, pw_Secret pw)) (\<lambda>r. case r of
        Inl e \<Rightarrow> ret (Some (ErrWrap (''failed to retrieve the secret '' @ namespacedName (pw_SystemNamespace pw) (pw_Secret pw) @ '' from the Kubernetes client: '') e []))
      | Inr s \<Rightarrow> (case sec_Data s ''api-key'' of
          None \<Rightarrow> ret (Some (ErrNew (''the secret '' @ namespacedName (pw_SystemNamespace pw) (pw_Secret pw) @ '' did not have an API key field'')))
        | Some apiKey \<Rightarrow> NewBaseService E (pw_Url pw) apiKey)))"

definition getPowerClient :: "env \<Rightarrow> IBMPowerDynamicConfig \<Rightarrow> goerror option M" where
  "getPowerClient E pw = createAuthenticatedBaseService E True pw"

definition parseCRN :: "IBMPowerDynamicConfig \<Rightarrow> goerror + string" where
  "parseCRN pw =
     (if \<not> prefix ''crn:'' (pw_CRN pw) then Inl (ErrNew (''invalid CRN: must start with '' @ sq ''crn:''))
      else let crnSegments = Split (CHR '':'') (pw_CRN pw)
        in if length crnSegments \<noteq> 10
           then Inl (ErrNew (''invalid CRN format: expected 10 segments, but got '' @ Itoa (int (length crnSegments))))
           else if crnSegments ! 4 \<noteq> ''power-iaas''
           then Inl (ErrNew (''invalid CRN service name: expected '' @ sq ''power-iaas'' @ '', but got '' @ sq (crnSegments ! 4)))
           else if crnSegments ! 5 = ''global'' then Inl (ErrNew ''this resource is global and has no service instance'')
           else if crnSegments ! 7 = [] then Inl (ErrNew ''the service instance is null'')
           else Inr (crnSegments ! 7))"

section \<open>The REST client\<close>

definition pvmBasePath :: string where "pvmBasePath = ''/pcloud/v1/cloud-instances/{cloud}/pvm-instances''"
definition pvmByIDPath :: string where "pvmByIDPath = pvmBasePath @ ''/{pvm_instance_id}''"
definition volumeByIDPath :: string where "volumeByIDPath = ''/pcloud/v1/cloud-instances/{cloud}/volumes/{volume}''"
definition acceptHeader :: string where "acceptHeader = ''application/json''"

definition readHeaders :: "IBMPowerDynamicConfig \<Rightarrow> gomap" where
  "readHeaders pw = [(''CRN'', pw_CRN pw), (''Accept'', acceptHeader)]"

definition writeHeaders :: "IBMPowerDynamicConfig \<Rightarrow> gomap" where
  "writeHeaders pw = [(''CRN'', pw_CRN pw), (''Content-Type'', acceptHeader), (''Accept'', acceptHeader)]"

definition crnError :: "goerror \<Rightarrow> goerror" where
  "crnError e = ErrWrap ''failed to retrieve cloud service instance ID: '' e []"

definition encodeError :: "goerror \<Rightarrow> goerror" where
  "encodeError e = ErrWrap ''failed to encode the request with parameters: '' e []"

definition buildError :: "goerror \<Rightarrow> goerror" where
  "buildError e = ErrWrap ''failed to build the HTTP request: '' e []"

definition request :: "IBMPowerDynamicConfig \<Rightarrow> string \<Rightarrow> string \<Rightarrow> gomap \<Rightarrow> gomap \<Rightarrow> gomap \<Rightarrow> power_body \<Rightarrow> power_request" where
  "request pw verb path params query headers body = \<lparr>rq_Verb = verb, rq_URL = pw_Url pw, rq_Path = path,
     rq_Params = params, rq_Query = query, rq_Headers = headers, rq_Body = body\<rparr>"

definition power_listInstances :: "env \<Rightarrow> IBMPowerDynamicConfig \<Rightarrow> (goerror + PVMInstance list) M" where
  "power_listInstances E pw =
     (case parseCRN pw of
        Inl e \<Rightarrow> ret (Inl (crnError e))
      | Inr cloudId \<Rightarrow>
          let params = [(''cloud'', cloudId)];
              rq = request pw ''GET'' pvmBasePath params [] (readHeaders pw) NoBody
          in (case p_url (power E) (pw_Url pw) pvmBasePath params of
              Some e \<Rightarrow> ret (Inl (encodeError e))
            | None \<Rightarrow> (case p_build (power E) rq of
                Some e \<Rightarrow> ret (Inl (buildError e))
              | None \<Rightarrow> bnd (call (\<lambda>h. p_list (power E) h rq) (EvPowerList rq)) (\<lambda>r. case r of
                  Inl e \<Rightarrow> ret (Inl (ErrWrap (''failed to list all Power Systems VM instances on cloud '' @ cloudId @ '': '') e []))
                | Inr instances \<Rightarrow> ret (Inr instances)))))"

definition power_getInstance :: "env \<Rightarrow> IBMPowerDynamicConfig \<Rightarrow> string \<Rightarrow> (goerror + PVMInstance) M" where
  "power_getInstance E pw pvmId =
     (case parseCRN pw of
        Inl e \<Rightarrow> ret (Inl (crnError e))
      | Inr cloudId \<Rightarrow>
          let params = [(''cloud'', cloudId), (''pvm_instance_id'', pvmId)];
              rq = request pw ''GET'' pvmByIDPath params [] (readHeaders pw) NoBody
          in (case p_url (power E) (pw_Url pw) pvmByIDPath params of
              Some e \<Rightarrow> ret (Inl (encodeError e))
            | None \<Rightarrow> (case p_build (power E) rq of
                Some e \<Rightarrow> ret (Inl (buildError e))
              | None \<Rightarrow> bnd (call (\<lambda>h. p_get (power E) h rq) (EvPowerGet rq)) (\<lambda>r. case r of
                  Inl e \<Rightarrow> ret (Inl (ErrWrap (''failed to get the Power Systems VM instance '' @ pvmId @ '': '') e []))
                | Inr ins \<Rightarrow> ret (Inr ins)))))"

definition power_deleteInstance :: "env \<Rightarrow> IBMPowerDynamicConfig \<Rightarrow> string \<Rightarrow> goerror option M" where
  "power_deleteInstance E pw pvmId =
     (case parseCRN pw of
        Inl e \<Rightarrow> ret (Some (crnError e))
      | Inr cloudId \<Rightarrow>
          let params = [(''cloud'', cloudId), (''pvm_instance_id'', pvmId)];
              rq = request pw ''DELETE'' pvmByIDPath params [(''delete_data_volumes'', ''true'')] (readHeaders pw) NoBody
          in (case p_url (power E) (pw_Url pw) pvmByIDPath params of
              Some e \<Rightarrow> ret (Some (encodeError e))
            | None \<Rightarrow> (case p_build (power E) rq of
                Some e \<Rightarrow> ret (Some (buildError e))
              | None \<Rightarrow> bnd (call (\<lambda>h. p_delete (power E) h rq) (EvPowerDelete rq)) (\<lambda>r. case r of
                  Some e \<Rightarrow> ret (Some (ErrWrap (''failed to delete the Power System VM instance '' @ pvmId @ '': '') e []))
                | None \<Rightarrow> ret None))))"

definition power_updateVolume :: "env \<Rightarrow> IBMPowerDynamicConfig \<Rightarrow> string \<Rightarrow> goerror option M" where
  "power_updateVolume E pw volumeID =
     (case parseCRN pw of
        Inl e \<Rightarrow> ret (Some (crnError e))
      | Inr cloudID \<Rightarrow>
          let params = [(''cloud'', cloudID), (''volume'', volumeID)];
              body = VolumeBody (pw_Disk pw);
              rq = request pw ''PUT'' volumeByIDPath params [] (writeHeaders pw) body
          in (case p_url (power E) (pw_Url pw) volumeByIDPath params of
              Some e \<Rightarrow> ret (Some (encodeError e))
            | None \<Rightarrow> (case p_json (power E) body of
                Some e \<Rightarrow> ret (Some e)
              | None \<Rightarrow> (case p_build (power E) rq of
                  Some e \<Rightarrow> ret (Some (buildError e))
                | None \<Rightarrow> bnd (call (\<lambda>h. p_volume (power E) h rq) (EvPowerVolume rq)) (\<lambda>r. case r of
                    Some e \<Rightarrow> ret (Some (ErrWrap (''failed to update volume '' @ volumeID @ '': '') e []))
                  | None \<Rightarrow> ret None)))))"

text \<open>\<open>resizeInstanceVolume\<close> starts a goroutine; its loop follows. \<open>id\<close> is a pointer there.\<close>

definition resizeInstanceVolume :: "env \<Rightarrow> IBMPowerDynamicConfig \<Rightarrow> string option \<Rightarrow> unit M" where
  "resizeInstanceVolume E pw i = bnd (Now E) (\<lambda>now. Go (ResizeLoop pw (ToString i) (now + 10 * Minute)))"

fun resizeLoop :: "nat \<Rightarrow> env \<Rightarrow> IBMPowerDynamicConfig \<Rightarrow> string \<Rightarrow> int \<Rightarrow> bool M" where
  "resizeLoop 0 E pw i timeout = ret False"
| "resizeLoop (Suc fuel) E pw i timeout =
     bnd (Sleep (10 * Second)) (\<lambda>_. bnd (Now E) (\<lambda>now.
       if timeout < now then ret True
       else bnd (power_getInstance E pw i) (\<lambda>r. case r of
         Inl _ \<Rightarrow> resizeLoop fuel E pw i timeout
       | Inr ins \<Rightarrow> (case pvm_VolumeIDs ins of
           [] \<Rightarrow> resizeLoop fuel E pw i timeout
         | v # _ \<Rightarrow> must (pvm_DiskSize ins) (\<lambda>size.
             if f64_eq size (pw_Disk pw) then ret True
             else bnd (power_updateVolume E pw v) (\<lambda>err. case err of
               Some _ \<Rightarrow> resizeLoop fuel E pw i timeout
             | None \<Rightarrow> ret True))))))"

definition power_launchInstance :: "env \<Rightarrow> IBMPowerDynamicConfig \<Rightarrow> gomap \<Rightarrow> (goerror + string) M" where
  "power_launchInstance E pw additionalInfo =
     (case parseCRN pw of
        Inl e \<Rightarrow> ret (Inl (crnError e))
      | Inr cloudId \<Rightarrow>
          let params = [(''cloud'', cloudId)]
          in (case p_url (power E) (pw_Url pw) pvmBasePath params of
              Some e \<Rightarrow> ret (Inl (encodeError e))
            | None \<Rightarrow> (case map_of additionalInfo ''name'' of
                None \<Rightarrow> ret (Inl (ErrNew (''failed to find the server instance'' @ [CHR 0x27] @ ''s name'')))
              | Some name \<Rightarrow> (case map_of additionalInfo TaskRunTagKey of
                  None \<Rightarrow> ret (Inl (ErrNew (''failed to find the server instance'' @ [CHR 0x27] @ ''s full TaskRun ID'')))
                | Some taskRunTag \<Rightarrow>
                    let body = CreateBody \<lparr>pc_ServerName = name, pc_ImageID = pw_ImageId pw, pc_Processors = pw_Cores pw,
                          pc_ProcType = pw_ProcType pw, pc_Memory = pw_Memory pw,
                          pc_NetworkIDs = Split (CHR '','') (pw_Network pw), pc_KeyPairName = pw_Key pw,
                          pc_SysType = pw_System pw, pc_UserData = pw_UserData pw, pc_UserTags = [taskRunTag]\<rparr>;
                        rq = request pw ''POST'' pvmBasePath params [] (writeHeaders pw) body
                    in (case p_json (power E) body of
                        Some e \<Rightarrow> ret (Inl (ErrWrap ''failed to set the body of the request: '' e []))
                      | None \<Rightarrow> (case p_build (power E) rq of
                          Some e \<Rightarrow> ret (Inl (buildError e))
                        | None \<Rightarrow> bnd (call (\<lambda>h. p_launch (power E) h rq) (EvPowerLaunch rq)) (\<lambda>r. case r of
                            Inl e \<Rightarrow> ret (Inl (ErrWrap ''failed to launch a Power Systems VM instance: '' e []))
                          | Inr instances \<Rightarrow> must (idx instances 0) (\<lambda>ins.
                              bnd (resizeInstanceVolume E pw (pvm_ID ins)) (\<lambda>_.
                                must (pvm_ID ins) (\<lambda>i. ret (Inr i)))))))))))"

section \<open>Operations\<close>

definition baseServiceError :: "goerror \<Rightarrow> goerror" where
  "baseServiceError e = ErrWrap ''failed to create an authenticated base service: '' e []"

definition IBMP_LaunchInstance :: "env \<Rightarrow> IBMPowerDynamicConfig \<Rightarrow> string \<Rightarrow> string \<Rightarrow> gomap \<Rightarrow> (goerror + string) M" where
  "IBMP_LaunchInstance E pw taskRunID instanceTag tags =
     bnd (getPowerClient E pw) (\<lambda>r. case r of
       Some e \<Rightarrow> ret (Inl (baseServiceError e))
     | None \<Rightarrow> bnd (createInstanceName E instanceTag) (\<lambda>r. case r of
         Inl e \<Rightarrow> ret (Inl (ErrWrap ''failed to create an instance name: '' e []))
       | Inr instanceName \<Rightarrow> (case ValidateTaskRunID taskRunID of
           Some e \<Rightarrow> ret (Inl (ErrWrap ''invalid TaskRun ID: '' e []))
         | None \<Rightarrow> bnd (power_launchInstance E pw [(''name'', instanceName), (TaskRunTagKey, taskRunID)]) (\<lambda>r. case r of
             Inl e \<Rightarrow> ret (Inl (ErrWrap ''failed to create a Power Systems instance: '' e []))
           | Inr i \<Rightarrow> ret (Inr i)))))"

definition fetchError :: "goerror \<Rightarrow> goerror" where
  "fetchError e = ErrWrap ''failed to fetch Power Systems instances: '' e []"

definition IBMP_CountInstances :: "env \<Rightarrow> IBMPowerDynamicConfig \<Rightarrow> string \<Rightarrow> (goerror + int) M" where
  "IBMP_CountInstances E pw instanceTag =
     bnd (getPowerClient E pw) (\<lambda>r. case r of
       Some e \<Rightarrow> ret (Inl (baseServiceError e))
     | None \<Rightarrow> bnd (power_listInstances E pw) (\<lambda>r. case r of
         Inl e \<Rightarrow> ret (Inl (fetchError e))
       | Inr instances \<Rightarrow>
           bnd (foreach (\<lambda>ins cnt. must (pvm_ServerName ins) (\<lambda>n. if prefix instanceTag n then ret (cnt + 1) else ret cnt)) instances 0)
             (\<lambda>cnt. ret (Inr cnt))))"

definition IBMP_GetInstanceAddress :: "env \<Rightarrow> IBMPowerDynamicConfig \<Rightarrow> string \<Rightarrow> (goerror + string) M" where
  "IBMP_GetInstanceAddress E pw instanceID =
     bnd (getPowerClient E pw) (\<lambda>r. case r of
       Some e \<Rightarrow> ret (Inl (baseServiceError e))
     | None \<Rightarrow> bnd (power_getInstance E pw instanceID) (\<lambda>r. case r of
         Inl _ \<Rightarrow> ret (Inr [])
       | Inr ins \<Rightarrow> must (pvm_ID ins) (\<lambda>i. case retrieveInstanceIp i (pvm_Networks ins) of
           Inl _ \<Rightarrow> ret (Inr [])
         | Inr ip \<Rightarrow> bnd (checkIfIpIsLive E ip) (\<lambda>err. case err of
             Some _ \<Rightarrow> ret (Inr [])
           | None \<Rightarrow> ret (Inr ip)))))"

definition IBMP_ListInstances :: "env \<Rightarrow> IBMPowerDynamicConfig \<Rightarrow> string \<Rightarrow> (goerror + CloudVMInstance list) M" where
  "IBMP_ListInstances E pw instanceTag =
     bnd (getPowerClient E pw) (\<lambda>r. case r of
       Some e \<Rightarrow> ret (Inl (baseServiceError e))
     | None \<Rightarrow> bnd (power_listInstances E pw) (\<lambda>r. case r of
         Inl e \<Rightarrow> ret (Inl (fetchError e))
       | Inr instances \<Rightarrow>
           bnd (foreach (\<lambda>ins vms. must (pvm_ServerName ins) (\<lambda>n.
             if \<not> prefix instanceTag n then ret vms
             else must (pvm_ID ins) (\<lambda>identifier. bnd (Now E) (\<lambda>_.
               case retrieveInstanceIp identifier (pvm_Networks ins) of
                 Inl _ \<Rightarrow> ret vms
               | Inr ip \<Rightarrow> bnd (checkIfIpIsLive E ip) (\<lambda>err. case err of
                   Some _ \<Rightarrow> ret vms
                 | None \<Rightarrow> ret (vms @ [\<lparr>vm_InstanceId = identifier, vm_StartTime = pvm_CreationDate ins, vm_Address = ip\<rparr>])))))) instances [])
             (\<lambda>vms. ret (Inr vms))))"

definition IBMP_TerminateInstance :: "env \<Rightarrow> IBMPowerDynamicConfig \<Rightarrow> string \<Rightarrow> goerror option M" where
  "IBMP_TerminateInstance E pw instanceID =
     bnd (getPowerClient E pw) (\<lambda>r. case r of
       Some e \<Rightarrow> ret (Some (baseServiceError e))
     | None \<Rightarrow> bnd (power_deleteInstance E pw instanceID) (\<lambda>_. bnd (Now E) (\<lambda>now.
         bnd (Go (TerminateLoopP pw instanceID (now + 10 * Minute))) (\<lambda>_. ret None))))"

fun terminateLoopP :: "nat \<Rightarrow> env \<Rightarrow> IBMPowerDynamicConfig \<Rightarrow> string \<Rightarrow> int \<Rightarrow> bool M" where
  "terminateLoopP 0 E pw instanceID timeout = ret False"
| "terminateLoopP (Suc fuel) E pw instanceID timeout =
     bnd (power_getInstance E pw instanceID) (\<lambda>r. case r of
       Inl _ \<Rightarrow> ret True
     | Inr _ \<Rightarrow> bnd (power_deleteInstance E pw instanceID) (\<lambda>_. bnd (Now E) (\<lambda>now.
         if timeout < now then ret True
         else bnd (Sleep (10 * Second)) (\<lambda>_. terminateLoopP fuel E pw instanceID timeout))))"

definition IBMP_GetState :: "env \<Rightarrow> IBMPowerDynamicConfig \<Rightarrow> string \<Rightarrow> (goerror + string) M" where
  "IBMP_GetState E pw instanceID =
     bnd (getPowerClient E pw) (\<lambda>r. case r of
       Some e \<Rightarrow> ret (Inl (baseServiceError e))
     | None \<Rightarrow> bnd (power_getInstance E pw instanceID) (\<lambda>r. case r of
         Inl _ \<Rightarrow> ret (Inr [])
       | Inr ins \<Rightarrow> must (pvm_Status ins) (\<lambda>st.
           if st = ''ERROR''
           then must (pvm_Health ins) (\<lambda>health. if health = ''CRITICAL'' then ret (Inr FailedState) else ret (Inr OKState))
           else ret (Inr OKState))))"

definition ibmp_ops :: "env \<Rightarrow> IBMPowerDynamicConfig \<Rightarrow> provider_ops" where
  "ibmp_ops E pw = \<lparr>LaunchInstance = IBMP_LaunchInstance E pw, TerminateInstance = IBMP_TerminateInstance E pw,
     GetInstanceAddress = IBMP_GetInstanceAddress E pw, CountInstances = IBMP_CountInstances E pw,
     ListInstances = IBMP_ListInstances E pw, GetState = IBMP_GetState E pw, SshUser = defaultSSHUser_ibm\<rparr>"

section \<open>The contract holds\<close>

lemma ok_getPowerClient [ok]:
  "(\<And>u k r. P (EvNewPower u k r)) \<Longrightarrow> (\<And>k r. P (EvGetSecret k r)) \<Longrightarrow> ok P (getPowerClient E pw) (\<lambda>_. True)"
  unfolding getPowerClient_def createAuthenticatedBaseService_def NewBaseService_def by (rule ok | (simp; fail))+

lemma ok_power_calls:
  assumes "sdk_documented E"
  shows "(\<And>r. P (EvPowerList rq r)) \<Longrightarrow> ok P (call (\<lambda>h. p_list (power E) h rq) (EvPowerList rq))
      (\<lambda>r. \<forall>xs. r = Inr xs \<longrightarrow> (\<forall>x \<in> set xs. pvm_documented x))"
    and "(\<And>r. P (EvPowerLaunch rq r)) \<Longrightarrow> ok P (call (\<lambda>h. p_launch (power E) h rq) (EvPowerLaunch rq))
      (\<lambda>r. \<forall>xs. r = Inr xs \<longrightarrow> xs \<noteq> [] \<and> (\<forall>x \<in> set xs. pvm_documented x))"
    and "(\<And>r. P (EvPowerGet rq r)) \<Longrightarrow> ok P (call (\<lambda>h. p_get (power E) h rq) (EvPowerGet rq))
      (\<lambda>r. \<forall>x. r = Inr x \<longrightarrow> pvm_documented x)"
  by (rule ok_call; use assms in \<open>unfold sdk_documented_def power_documented_def, blast\<close>)+

lemmas pvm_fields = pvm_documented_def event_classes

lemma ok_power_listInstances [ok]:
  assumes "sdk_documented E" "\<And>rq r. P (EvPowerList rq r)"
  shows "ok P (power_listInstances E pw) (\<lambda>r. \<forall>xs. r = Inr xs \<longrightarrow> (\<forall>x \<in> set xs. pvm_documented x))"
  unfolding power_listInstances_def
  by (rule ok_power_calls | rule ok | (use assms in auto; fail))+

lemma ok_power_getInstance [ok]:
  assumes "sdk_documented E" "\<And>rq r. P (EvPowerGet rq r)"
  shows "ok P (power_getInstance E pw i) (\<lambda>r. \<forall>x. r = Inr x \<longrightarrow> pvm_documented x)"
  unfolding power_getInstance_def
  by (rule ok_power_calls | rule ok | (use assms in auto; fail))+

lemma ok_power_deleteInstance [ok]:
  "(\<And>rq r. P (EvPowerDelete rq r)) \<Longrightarrow> ok P (power_deleteInstance E pw i) (\<lambda>_. True)"
  unfolding power_deleteInstance_def by (rule ok | (auto; fail))+

lemma ok_power_launchInstance [ok]:
  assumes "sdk_documented E"
  shows "ok launching (power_launchInstance E pw info) (\<lambda>_. True)"
  unfolding power_launchInstance_def resizeInstanceVolume_def
  by (rule ok_power_calls | rule ok | (use assms in \<open>auto simp: pvm_fields idx_def hd_conv_nth [symmetric]\<close>; fail))+

lemma ibmp_count: "sdk_documented E \<Longrightarrow> ok inspecting (IBMP_CountInstances E pw tag) (\<lambda>_. True)"
  unfolding IBMP_CountInstances_def
  by (rule ok | (auto simp: pvm_fields; fail))+

lemma ibmp_list: "sdk_documented E \<Longrightarrow> ok inspecting (IBMP_ListInstances E pw tag) (\<lambda>_. True)"
  unfolding IBMP_ListInstances_def
  by (rule ok | (auto simp: pvm_fields; fail))+

lemma ibmp_address: "sdk_documented E \<Longrightarrow> ok inspecting (IBMP_GetInstanceAddress E pw x) (\<lambda>_. True)"
  unfolding IBMP_GetInstanceAddress_def
  by (rule ok | (auto simp: pvm_fields; fail))+

lemma ibmp_state: "sdk_documented E \<Longrightarrow> ok inspecting (IBMP_GetState E pw x) (\<lambda>_. True)"
  unfolding IBMP_GetState_def
  by (rule ok | (auto simp: pvm_fields; fail))+

lemma ibmp_terminate: "ok terminating (IBMP_TerminateInstance E pw x) (\<lambda>_. True)"
  unfolding IBMP_TerminateInstance_def
  by (rule ok | (auto simp: pvm_fields; fail))+

lemma ibmp_launch: "sdk_documented E \<Longrightarrow> ok launching (IBMP_LaunchInstance E pw i tag tags) (\<lambda>_. True)"
  unfolding IBMP_LaunchInstance_def
  by (rule ok | (auto simp: pvm_fields; fail))+

lemma ibmp_launch_invalid:
  assumes "ValidateTaskRunID i \<noteq> None"
  shows "ok inspecting (IBMP_LaunchInstance E pw i tag tags) isl"
proof -
  from assms obtain e where v: "ValidateTaskRunID i = Some e" by auto
  show ?thesis
    unfolding IBMP_LaunchInstance_def v option.case
    by (rule ok | (auto simp: pvm_fields; fail))+
qed

interpretation ibmp: cloud_provider E "ibmp_ops E pw" for E pw
  by unfold_locales
     (simp_all add: ibmp_ops_def ibmp_launch ibmp_launch_invalid ibmp_terminate ibmp_address ibmp_count
       ibmp_list ibmp_state)

end
