(* ===== verification/Providers.thy ===== *)
theory Providers
  imports IBMP
begin

text \<open>
  The values of the interface \<open>cloud.CloudProvider\<close> that the program builds: the operations of a
  provider by its kind, and the constructors that \<open>newReconciler\<close> registers by name.
\<close>

fun provider :: "env \<Rightarrow> CloudProvider \<Rightarrow> provider_ops" where
  "provider E (AWS ec) = aws_ops E ec"
| "provider E (IBMZ iz) = ibmz_ops E iz"
| "provider E (IBMP pw) = ibmp_ops E pw"

definition cloudProviders :: "env \<Rightarrow> string \<rightharpoonup> (string \<Rightarrow> gomap \<Rightarrow> string \<Rightarrow> CloudProvider)" where
  "cloudProviders E =
     [''aws'' \<mapsto> (\<lambda>p c ns. AWS (CreateEc2CloudConfig p c ns)),
      ''ibmz'' \<mapsto> (\<lambda>p c ns. IBMZ (CreateIbmZCloudConfig p c ns)),
      ''ibmp'' \<mapsto> (\<lambda>p c ns. IBMP (CreateIBMPowerCloudConfig E p c ns))]"

interpretation prov: cloud_provider E "provider E cp" for E cp
proof (cases cp)
  case (AWS ec)
  then show "cloud_provider E (provider E cp)" using aws.cloud_provider_axioms by simp
next
  case (IBMZ iz)
  then show "cloud_provider E (provider E cp)" using ibmz.cloud_provider_axioms by simp
next
  case (IBMP pw)
  then show "cloud_provider E (provider E cp)" using ibmp.cloud_provider_axioms by simp
qed

end
