(* ===== verification/HostPool.thy ===== *)
theory HostPool
  imports TaskRun_Core
begin

text \<open>
  \<open>pkg/reconciler/taskrun/hostpool.go\<close>: allocation of a host from a pool of static hosts, by the
  number of free slots, and the cleanup task that deallocation starts.
\<close>

section \<open>Allocation\<close>

type_synonym alloc = "Result \<times> goerror option \<times> TaskRun"

text \<open>\<open>hostCount\<close>: how many user tasks of the list are assigned to each host.\<close>

fun countHosts :: "TaskRun list \<Rightarrow> (string \<Rightarrow> int) \<Rightarrow> string \<Rightarrow> int" where
  "countHosts [] hostCount = hostCount"
| "countHosts (tr # trs) hostCount =
     (if label tr TaskTypeLabel = []
      then let host = label tr AssignedHost in countHosts trs (hostCount(host := hostCount host + 1))
      else countHosts trs hostCount)"

text \<open>The local variables of the selection loop.\<close>

record selection =
  sel_selected :: "Host option"
  sel_freeSpots :: int
  sel_platformHostsExists :: bool
  sel_allPlatformHostsFailed :: bool

definition selection0 :: selection where
  "selection0 = \<lparr>sel_selected = None, sel_freeSpots = 0, sel_platformHostsExists = False,
     sel_allPlatformHostsFailed = True\<rparr>"

fun selectHost :: "string \<Rightarrow> string list \<Rightarrow> (string \<Rightarrow> int) \<Rightarrow> (string \<times> Host) list \<Rightarrow> selection \<Rightarrow> selection" where
  "selectHost target failed hostCount [] s = s"
| "selectHost target failed hostCount ((k, v) # hosts) s =
     (if h_Platform v \<noteq> target then selectHost target failed hostCount hosts s
      else let s1 = s\<lparr>sel_platformHostsExists := True\<rparr>
        in if k \<in> set failed then selectHost target failed hostCount hosts s1
           else let s2 = s1\<lparr>sel_allPlatformHostsFailed := False\<rparr>;
                    free = h_Concurrency v - hostCount k
             in if free > sel_freeSpots s2
                then selectHost target failed hostCount hosts (s2\<lparr>sel_selected := Some v, sel_freeSpots := free\<rparr>)
                else selectHost target failed hostCount hosts s2)"

text \<open>The branch of a pool without a free slot: record that the task waits.\<close>

definition waitForHost :: "env \<Rightarrow> HostPool \<Rightarrow> TaskRun \<Rightarrow> alloc M" where
  "waitForHost E hp tr =
     (if label tr WaitingForPlatformLabel = platformLabel (hp_targetPlatform hp) then ret (noRequeue, None, tr)
      else must (setLabel WaitingForPlatformLabel (platformLabel (hp_targetPlatform hp)) tr) (\<lambda>tr1.
           bnd (UpdateTaskRunWithRetry E tr1) (\<lambda>(err, tr2). case err of
             Some e \<Rightarrow> ret (noRequeue, Some e, tr2)
           | None \<Rightarrow> ret (requeueIn Minute, None, tr2))))"

text \<open>The branch of a selected host: assign it, launch the provisioning task, and take the assignment
  back if that fails.\<close>

definition assignHost :: "env \<Rightarrow> HostPool \<Rightarrow> TaskRun \<Rightarrow> string \<Rightarrow> Host \<Rightarrow> alloc M" where
  "assignHost E hp tr secretName selected =
     must (setLabel AssignedHost (h_Name selected) tr) (\<lambda>tr1.
     let tr2 = snd (AddFinalizer E (delLabel WaitingForPlatformLabel tr1) PipelineFinalizer)
     in bnd (UpdateTaskRunWithRetry E tr2) (\<lambda>(err, tr3). case err of
          Some e \<Rightarrow> ret (noRequeue, Some e, tr3)
        | None \<Rightarrow>
            bnd (launchProvisioningTask E tr3 secretName (h_Secret selected) (h_Address selected)
                   (h_User selected) (hp_targetPlatform hp) []) (\<lambda>(err, tr4). case err of
              None \<Rightarrow> ret (noRequeue, None, tr4)
            | Some e \<Rightarrow>
                let tr5 = snd (RemoveFinalizer E (delLabel AssignedHost tr4) PipelineFinalizer)
                in bnd (UpdateTaskRunWithRetry E tr5) (\<lambda>(updateErr, tr6). case updateErr of
                     Some _ \<Rightarrow> ret (noRequeue, Some e, tr6)
                   | None \<Rightarrow> ret (noRequeue, Some (ErrNew (''failed to provision host: '' @ Error e)), tr6)))))"

definition HostPool_Allocate :: "env \<Rightarrow> HostPool \<Rightarrow> TaskRun \<Rightarrow> string \<Rightarrow> alloc M" where
  "HostPool_Allocate E hp tr secretName =
     (if hp_hosts hp = [] then ret (noRequeue, Some (ErrNew ''no hosts configured''), tr)
      else let failedString = annotation tr FailedHosts;
               failed = Split (CHR '','') failedString
        in bnd (List E (HasLabels AssignedHost)) (\<lambda>r. case r of
             Inl e \<Rightarrow> ret (noRequeue, Some e, tr)
           | Inr taskList \<Rightarrow>
               let hostCount = countHosts taskList (\<lambda>_. 0);
                   s = selectHost (hp_targetPlatform hp) failed hostCount (hp_hosts hp) selection0
               in if \<not> sel_platformHostsExists s
                  then ret (noRequeue, Some (ErrNew (''no hosts configured for platform '' @ hp_targetPlatform hp)), tr)
                  else if sel_allPlatformHostsFailed s
                  then ret (noRequeue, Some (ErrWrap [] ErrAllHostsFailed ('': '' @ failedString)), tr)
                  else (case sel_selected s of
                      None \<Rightarrow> waitForHost E hp tr
                    | Some selected \<Rightarrow> assignHost E hp tr secretName selected)))"

section \<open>Deallocation\<close>

definition cleanupLabels :: "HostPool \<Rightarrow> TaskRun \<Rightarrow> gomap" where
  "cleanupLabels hp tr = [(TaskTypeLabel, TaskTypeClean), (UserTaskName, tr_Name tr),
     (UserTaskNamespace, tr_Namespace tr), (TargetPlatformLabel, platformLabel (hp_targetPlatform hp))]"

definition cleanupTask :: "env \<Rightarrow> HostPool \<Rightarrow> TaskRun \<Rightarrow> string \<Rightarrow> Host \<Rightarrow> TaskRun" where
  "cleanupTask E hp tr secretName selected =
     emptyTaskRun\<lparr>
       tr_Name := l_childName (lib E) (tr_Name tr) (''-cleanup-'' @ shortHash (h_Address selected)),
       tr_Namespace := operatorNamespace (lib E),
       tr_Labels := Some (map_of (cleanupLabels hp tr)),
       tr_TaskRef := Some ''clean-shared-host'',
       tr_Retries := 3,
       tr_Requests := [(''cpu'', ''100m''), (''memory'', ''128Mi'')],
       tr_Workspaces := [(''ssh'', h_Secret selected)],
       tr_ServiceAccountName := TaskRunnerServiceAccountName,
       tr_Params := Some [(''SECRET_NAME'', secretName), (''TASKRUN_NAME'', tr_Name tr),
         (''NAMESPACE'', tr_Namespace tr), (''HOST'', h_Address selected), (''USER'', h_User selected)]\<rparr>"

definition HostPool_Deallocate :: "env \<Rightarrow> HostPool \<Rightarrow> TaskRun \<Rightarrow> string \<Rightarrow> string \<Rightarrow> goerror option M" where
  "HostPool_Deallocate E hp tr secretName selectedHost =
     (case map_of (hp_hosts hp) selectedHost of
        None \<Rightarrow> ret None
      | Some selected \<Rightarrow>
          bnd (List E (MatchingLabels (cleanupLabels hp tr))) (\<lambda>r.
          case r of
            Inr (_ # _) \<Rightarrow> ret None
          | _ \<Rightarrow> Create E (cleanupTask E hp tr secretName selected)))"

section \<open>The selection is optimal\<close>

text \<open>Specification: a host is eligible if it is of the target platform and not among the failed
  ones; its free slots are its concurrency less the number of user tasks assigned to it.\<close>

definition assigned :: "TaskRun list \<Rightarrow> string \<Rightarrow> int" where
  "assigned trs k = int (length (filter (\<lambda>tr. label tr TaskTypeLabel = [] \<and> label tr AssignedHost = k) trs))"

definition eligible :: "string \<Rightarrow> string list \<Rightarrow> string \<times> Host \<Rightarrow> bool" where
  "eligible target failed kv \<longleftrightarrow> h_Platform (snd kv) = target \<and> fst kv \<notin> set failed"

definition free_slots :: "(string \<Rightarrow> int) \<Rightarrow> string \<times> Host \<Rightarrow> int" where
  "free_slots cnt kv = h_Concurrency (snd kv) - cnt (fst kv)"

lemma countHosts_assigned: "countHosts trs m k = m k + assigned trs k"
  by (induction trs arbitrary: m) (simp_all add: assigned_def Let_def)

text \<open>The loop, from any state of its variables.\<close>

lemma selectHost_flags:
  "sel_platformHostsExists (selectHost target failed cnt hosts s) \<longleftrightarrow>
     sel_platformHostsExists s \<or> (\<exists>kv \<in> set hosts. h_Platform (snd kv) = target)"
  "sel_allPlatformHostsFailed (selectHost target failed cnt hosts s) \<longleftrightarrow>
     sel_allPlatformHostsFailed s \<and> (\<forall>kv \<in> set hosts. \<not> eligible target failed kv)"
  by (induction target failed cnt hosts s rule: selectHost.induct)
     (auto simp: eligible_def Let_def)

lemma selectHost_free:
  "sel_freeSpots (selectHost target failed cnt hosts s) =
     fold max (map (free_slots cnt) (filter (eligible target failed) hosts)) (sel_freeSpots s)"
  by (induction target failed cnt hosts s rule: selectHost.induct)
     (auto simp: eligible_def Let_def free_slots_def max_def)

lemma selectHost_selected:
  "(sel_selected (selectHost target failed cnt hosts s) = sel_selected s \<and>
    sel_freeSpots (selectHost target failed cnt hosts s) = sel_freeSpots s) \<or>
   (\<exists>kv \<in> set hosts. eligible target failed kv \<and>
      sel_selected (selectHost target failed cnt hosts s) = Some (snd kv) \<and>
      free_slots cnt kv = sel_freeSpots (selectHost target failed cnt hosts s) \<and>
      sel_freeSpots s < free_slots cnt kv)"
proof (induction hosts arbitrary: s)
  case (Cons kv hosts)
  obtain k v where kv: "kv = (k, v)" by (cases kv)
  consider (skip) s' where "selectHost target failed cnt (kv # hosts) s = selectHost target failed cnt hosts s'"
      "sel_selected s' = sel_selected s" "sel_freeSpots s' = sel_freeSpots s"
    | (choose) s' where "selectHost target failed cnt (kv # hosts) s = selectHost target failed cnt hosts s'"
      "eligible target failed kv" "sel_freeSpots s < free_slots cnt kv"
      "sel_selected s' = Some v" "sel_freeSpots s' = free_slots cnt kv"
    unfolding kv by (force simp: Let_def eligible_def free_slots_def split: if_splits)
  then show ?case
  proof cases
    case skip
    with Cons.IH [of s'] show ?thesis by auto
  next
    case choose
    from Cons.IH [of s'] show ?thesis
    proof
      assume "sel_selected (selectHost target failed cnt hosts s') = sel_selected s' \<and>
        sel_freeSpots (selectHost target failed cnt hosts s') = sel_freeSpots s'"
      with choose kv show ?thesis by auto
    next
      assume "\<exists>kv \<in> set hosts. eligible target failed kv \<and>
        sel_selected (selectHost target failed cnt hosts s') = Some (snd kv) \<and>
        free_slots cnt kv = sel_freeSpots (selectHost target failed cnt hosts s') \<and>
        sel_freeSpots s' < free_slots cnt kv"
      with choose show ?thesis by (metis list.set_intros(2) order_less_trans)
    qed
  qed
qed simp

lemma fold_max_ge: "(m :: int) \<le> fold max xs m" "x \<in> set xs \<Longrightarrow> x \<le> fold max xs m"
proof -
  show ge: "m \<le> fold max xs m" for xs and m :: int
    by (induction xs arbitrary: m) (auto intro: order_trans [OF max.cobounded2])
  show "x \<in> set xs \<Longrightarrow> x \<le> fold max xs m"
  proof (induction xs arbitrary: m)
    case (Cons y ys)
    have "y \<le> fold max ys (max y m)" by (rule order_trans [OF max.cobounded1 ge])
    with Cons show ?case by auto
  qed simp
qed

text \<open>The outcome of the loop started as the code starts it.\<close>

lemma selectHost_outcome:
  defines "r t f c hs \<equiv> selectHost t f c hs selection0"
  shows "sel_selected (r t f c hs) = None \<longleftrightarrow>
      (\<forall>kv \<in> set hs. eligible t f kv \<longrightarrow> free_slots c kv \<le> 0)" (is ?none)
    and "sel_selected (r t f c hs) = Some h \<Longrightarrow>
      \<exists>k. (k, h) \<in> set hs \<and> eligible t f (k, h) \<and> 0 < free_slots c (k, h) \<and>
        (\<forall>kv \<in> set hs. eligible t f kv \<longrightarrow> free_slots c kv \<le> free_slots c (k, h))" (is "_ \<Longrightarrow> ?some")
proof -
  have max: "free_slots c kv \<le> sel_freeSpots (r t f c hs)" if "kv \<in> set hs" "eligible t f kv" for kv
    unfolding r_def selectHost_free using that by (intro fold_max_ge(2)) auto
  note sel = selectHost_selected [of t f c hs selection0, folded r_def]
  have init: "sel_selected selection0 = None" "sel_freeSpots selection0 = 0"
    by (simp_all add: selection0_def)
  show ?none
    using sel max init by fastforce
  show ?some if "sel_selected (r t f c hs) = Some h"
  proof -
    from sel that init obtain kv where kv: "kv \<in> set hs" "eligible t f kv" "h = snd kv"
      "free_slots c kv = sel_freeSpots (r t f c hs)" "0 < free_slots c kv"
      by fastforce
    then show ?thesis using max by (intro exI [of _ "fst kv"]) auto
  qed
qed

text \<open>C14: the host that the pool selects. For every order in which the map of hosts is visited: a
  host is selected if and only if some host of the target platform that has not failed for this task
  has a free slot, and then the selected one is such a host with the most free slots; the two flags
  say whether the platform has a host at all and whether all of them have failed. A task counts
  against a host if it is a user task labelled with that host.\<close>

theorem selectHost_best:
  fixes trs hosts target failed
  defines "s \<equiv> selectHost target failed (countHosts trs (\<lambda>_. 0)) hosts selection0"
    and "fr \<equiv> \<lambda>kv. h_Concurrency (snd kv) - assigned trs (fst kv)"
  shows "(sel_selected s = None \<longleftrightarrow> (\<forall>kv \<in> set hosts. eligible target failed kv \<longrightarrow> fr kv \<le> 0)) \<and>
    (\<forall>h. sel_selected s = Some h \<longrightarrow> (\<exists>k. (k, h) \<in> set hosts \<and> eligible target failed (k, h) \<and>
       0 < fr (k, h) \<and> (\<forall>kv \<in> set hosts. eligible target failed kv \<longrightarrow> fr kv \<le> fr (k, h)))) \<and>
    (sel_platformHostsExists s \<longleftrightarrow> (\<exists>kv \<in> set hosts. h_Platform (snd kv) = target)) \<and>
    (sel_allPlatformHostsFailed s \<longleftrightarrow> (\<forall>kv \<in> set hosts. \<not> eligible target failed kv))"
proof -
  have fr: "fr = free_slots (countHosts trs (\<lambda>_. 0))"
    by (simp add: fr_def free_slots_def countHosts_assigned fun_eq_iff)
  show ?thesis
    unfolding s_def fr
    using selectHost_outcome(1) [of target failed "countHosts trs (\<lambda>_. 0)" hosts]
      selectHost_outcome(2) [of target failed "countHosts trs (\<lambda>_. 0)" hosts]
      selectHost_flags [of target failed "countHosts trs (\<lambda>_. 0)" hosts selection0]
    by (simp add: selection0_def)
qed

text \<open>Example: two hosts with a capacity of two, one of them with a task.\<close>

definition sampleHost :: "string \<Rightarrow> Host" where
  "sampleHost n = \<lparr>h_Address = ''10.0.0.'' @ n, h_Name = n, h_User = ''root'', h_Concurrency = 2,
     h_Platform = ''linux/arm64'', h_Secret = ''key'', h_StartTime = None\<rparr>"

definition samplePool :: HostPool where
  "samplePool = \<lparr>hp_hosts = [(''1'', sampleHost ''1''), (''2'', sampleHost ''2'')], hp_targetPlatform = ''linux/arm64''\<rparr>"

theorem selectHost_best_witness:
  "sel_selected (selectHost ''linux/arm64'' [] (countHosts [assignedTask ''1''] (\<lambda>_. 0))
     (hp_hosts samplePool) selection0) = Some (sampleHost ''2'') \<and>
   assigned [assignedTask ''1''] ''1'' = 1 \<and>
   list_all (\<lambda>kv. h_Concurrency (snd kv) - assigned [assignedTask ''1''] (fst kv) \<le> 2) (hp_hosts samplePool)"
proof -
  let ?s = "selectHost ''linux/arm64'' [] (countHosts [assignedTask ''1''] (\<lambda>_. 0)) (hp_hosts samplePool) selection0"
  have s: "sel_selected ?s = Some (sampleHost ''2'')"
    by (simp add: samplePool_def sampleHost_def selection0_def Let_def assignedTask_def userTask_def
        emptyTaskRun_def label_def)
  have a: "assigned [assignedTask ''1''] k = (if k = ''1'' then 1 else 0)" for k
    by (simp add: assigned_def assignedTask_def userTask_def emptyTaskRun_def label_def)
  from selectHost_best [of "''linux/arm64''" "[]" "[assignedTask ''1'']" "hp_hosts samplePool"] s
  have "\<exists>k. (k, sampleHost ''2'') \<in> set (hp_hosts samplePool) \<and>
      (\<forall>kv \<in> set (hp_hosts samplePool). eligible ''linux/arm64'' [] kv \<longrightarrow>
        h_Concurrency (snd kv) - assigned [assignedTask ''1''] (fst kv) \<le>
        h_Concurrency (sampleHost ''2'') - assigned [assignedTask ''1''] k)"
    by auto
  with s a show ?thesis
    by (auto simp: samplePool_def sampleHost_def eligible_def)
qed

section \<open>Allocation returns and keeps to its task\<close>

lemma permitted_waitForHost:
  assumes "documented E" "objKey tr = key" "tr_Labels tr \<noteq> None"
  shows "ok (permitted E key secretName) (waitForHost E hp tr) (\<lambda>(_, _, tr'). objKey tr' = key)"
  unfolding waitForHost_def using assms by (auto intro!: ok simp: objKey_set)

lemma permitted_assignHost:
  assumes "documented E" "objKey tr = key" "tr_Labels tr \<noteq> None"
  shows "ok (permitted E key secretName) (assignHost E hp tr secretName h) (\<lambda>(_, _, tr'). objKey tr' = key)"
  unfolding assignHost_def using assms by (auto intro!: ok simp: objKey_set)

lemma ok_List [ok]: "(\<And>r. P (EvList s r)) \<Longrightarrow> ok P (List E s) (\<lambda>_. True)"
  unfolding List_def by (rule ok_call) simp_all

lemma permitted_HostPool_Allocate [ok]:
  assumes "documented E" "objKey tr = key" "tr_Labels tr \<noteq> None"
  shows "ok (permitted E key secretName) (HostPool_Allocate E hp tr secretName) (\<lambda>(_, _, tr'). objKey tr' = key)"
  unfolding HostPool_Allocate_def
  using assms permitted_waitForHost [OF assms] permitted_assignHost [OF assms]
  by (auto intro!: ok simp: permitted_def)

lemma permitted_HostPool_Deallocate [ok]:
  assumes "objKey tr = key"
  shows "ok (permitted E key secretName) (HostPool_Deallocate E hp tr secretName host) (\<lambda>_. True)"
proof -
  have "permitted E key secretName (EvCreate (cleanupTask E hp tr secretName h) r)" for h r
    by (simp add: permitted_def internal_task_def cleanupTask_def cleanupLabels_def label_def
        assms [symmetric] objKey_def)
  moreover have "permitted E key secretName (EvList s r)" for s r
    by (simp add: permitted_def)
  ultimately show ?thesis
    unfolding HostPool_Deallocate_def by (auto intro!: ok)
qed

section \<open>A provisioning task is only launched for a free host\<close>

text \<open>The events of the branch that assigns a host: until the update that records the assignment is
  accepted no task is created, and the only tasks created are provisioning tasks for that host.\<close>

definition provisions :: "Host \<Rightarrow> event \<Rightarrow> bool" where
  "provisions h e = (case e of EvCreate p _ \<Rightarrow> (''HOST'', h_Address h) \<in> set (the (tr_Params p)) \<and>
     tr_Workspaces p = [(''ssh'', h_Secret h)] | _ \<Rightarrow> True)"

definition no_create :: "event \<Rightarrow> bool" where
  "no_create e = (case e of EvCreate _ _ \<Rightarrow> False | _ \<Rightarrow> True)"

lemma no_create_notin: "list_all no_create es \<Longrightarrow> EvCreate p r \<notin> set es"
  by (auto simp: list_all_iff no_create_def dest: bspec)

lemma no_create_UpdateTaskRunWithRetry: "retry_documented E \<Longrightarrow> emits no_create (UpdateTaskRunWithRetry E tr)"
  by (rule emits_UpdateTaskRunWithRetry) (simp_all add: no_create_def)

lemma no_create_createErrorSecret: "emits no_create (createErrorSecret E line tr p sn msg)"
  unfolding createErrorSecret_def Let_def CreateSecret_def Update_def UpdateObj_def
  by (intro emits) (simp_all add: no_create_def)

lemma provisions_launch:
  "emits (provisions h) (launchProvisioningTask E tr sn (h_Secret h) (h_Address h) (h_User h) platform sudo)"
  unfolding launchProvisioningTask_def Let_def GetSecret_def GetConfigMap_def Create_def
  by (intro emits emits_mono [OF no_create_createErrorSecret])
     (simp_all add: provisions_def provisionTask_def no_create_def split: event.splits)

lemma managed_AssignedHost: "managed_from tr x \<Longrightarrow> label x AssignedHost = label tr AssignedHost"
  unfolding managed_from_def managedLabels_def label_def mget_def or_empty_def
  by (cases "tr_Labels x"; cases "tr_Labels tr") auto

text \<open>The history of a run of \<open>assignHost\<close>: first an update without any creation, then, if that was
  accepted with the host recorded, whatever creates the provisioning task.\<close>

lemma assignHost_trace:
  assumes "retry_documented E" "finalizers_documented E"
    and run: "assignHost E hp tr sn h w = Some (res, w')"
  shows "\<exists>pre post. hist w' = hist w @ pre @ post \<and> list_all no_create pre \<and> list_all (provisions h) post \<and>
    (post \<noteq> [] \<longrightarrow> (\<exists>x y. EvUpdate x (Inr y) \<in> set pre \<and> label x AssignedHost = h_Name h))"
proof -
  from run obtain tr1 where t1: "setLabel AssignedHost (h_Name h) tr = Some tr1"
    by (auto simp: assignHost_def go_defs split: option.splits)
  define tr2 where "tr2 = snd (AddFinalizer E (delLabel WaitingForPlatformLabel tr1) PipelineFinalizer)"
  have l2: "label tr2 AssignedHost = h_Name h"
    using label_setLabel [OF t1, of AssignedHost]
    by (simp add: tr2_def label_def delLabel_def)
  obtain err tr3 w1 where u: "UpdateTaskRunWithRetry E tr2 w = Some ((err, tr3), w1)"
    using wp_UpdateTaskRunWithRetry [OF assms(1), of tr2 w] by (auto simp: wp_iff_Some)
  from emitsD [OF no_create_UpdateTaskRunWithRetry [OF assms(1)] u] obtain pre
    where pre: "hist w1 = hist w @ pre" "list_all no_create pre" by blast
  show ?thesis
  proof (cases err)
    case (Some e)
    with run u pre show ?thesis
      by (intro exI [of _ pre] exI [of _ "[]"])
         (simp add: assignHost_def t1 tr2_def [symmetric] Let_def must_def bnd_def ret_def split: prod.splits)
  next
    case None
    define rest where "rest = (\<lambda>(err, tr4). case err of
              None \<Rightarrow> ret (noRequeue, None, tr4)
            | Some e \<Rightarrow>
                let tr5 = snd (RemoveFinalizer E (delLabel AssignedHost tr4) PipelineFinalizer)
                in bnd (UpdateTaskRunWithRetry E tr5) (\<lambda>(updateErr, tr6). case updateErr of
                     Some _ \<Rightarrow> ret (noRequeue, Some e, tr6)
                   | None \<Rightarrow> ret (noRequeue, Some (ErrNew (''failed to provision host: '' @ Error e)), tr6)))"
    have "emits (provisions h) (bnd (launchProvisioningTask E tr3 sn (h_Secret h) (h_Address h)
        (h_User h) (hp_targetPlatform hp) []) rest)"
      unfolding rest_def Let_def
      by (intro emits provisions_launch emits_mono [OF no_create_UpdateTaskRunWithRetry [OF assms(1)]])
         (simp add: provisions_def no_create_def split: event.splits)
    moreover from run u None have "bnd (launchProvisioningTask E tr3 sn (h_Secret h) (h_Address h)
        (h_User h) (hp_targetPlatform hp) []) rest w1 = Some (res, w')"
      by (simp add: assignHost_def t1 tr2_def [symmetric] Let_def must_def rest_def bnd_def [of "UpdateTaskRunWithRetry E tr2"])
    ultimately obtain post where post: "hist w' = hist w1 @ post" "list_all (provisions h) post"
      by (blast dest: emitsD)
    from accepted_update_sent [OF assms(1,2), of tr2 w tr3 w1] u None obtain es sent answer
      where "hist w1 = hist w @ es @ [EvUpdate sent (Inr answer)]" "managed_from tr2 sent"
      by auto
    with pre l2 have "EvUpdate sent (Inr answer) \<in> set pre" "label sent AssignedHost = h_Name h"
      by (auto simp: managed_AssignedHost)
    with pre post show ?thesis by auto
  qed
qed

text \<open>The outcomes of an allocation after the list was read.\<close>

lemma HostPool_Allocate_cases:
  assumes "HostPool_Allocate E hp tr sn w = Some (res, w')"
  defines "w1 \<equiv> w\<lparr>hist := hist w @ [EvList (HasLabels AssignedHost) (k_list (kube E) (hist w) (HasLabels AssignedHost))]\<rparr>"
  obtains (assign) trs k h where "k_list (kube E) (hist w) (HasLabels AssignedHost) = Inr trs" "(k, h) \<in> set (hp_hosts hp)"
      "eligible (hp_targetPlatform hp) (Split (CHR '','') (annotation tr FailedHosts)) (k, h)" "assigned trs k < h_Concurrency h"
      "assignHost E hp tr sn h w1 = Some (res, w')"
    | (wait) "waitForHost E hp tr w1 = Some (res, w')"
    | (stop) "w' = w1 \<or> w' = w"
proof -
  let ?f = "Split (CHR '','') (annotation tr FailedHosts)"
  let ?s = "\<lambda>trs. selectHost (hp_targetPlatform hp) ?f (countHosts trs (\<lambda>_. 0)) (hp_hosts hp) selection0"
  consider (a) trs h where "k_list (kube E) (hist w) (HasLabels AssignedHost) = Inr trs" "sel_selected (?s trs) = Some h"
      "assignHost E hp tr sn h w1 = Some (res, w')"
    | (w) "waitForHost E hp tr w1 = Some (res, w')" | (s) "w' = w1 \<or> w' = w"
    using assms(1)
    by (auto simp: HostPool_Allocate_def List_def call_def w1_def bnd_def ret_def Let_def
        split: if_splits sum.splits option.splits)
  then show thesis
  proof cases
    case a
    obtain k where "(k, h) \<in> set (hp_hosts hp)" "eligible (hp_targetPlatform hp) ?f (k, h)"
      "0 < free_slots (countHosts trs (\<lambda>_. 0)) (k, h)"
      using selectHost_outcome(2) [OF a(2)] by blast
    with a show thesis by (intro assign) (simp_all add: free_slots_def countHosts_assigned)
  qed (use wait stop in blast)+
qed

text \<open>C3: whenever allocation from a pool creates a task, the task provisions a host of the pool that
  is of the right platform, has not failed for this TaskRun and, according to the list of assigned
  tasks read in this call, has a free slot; and before it was created the API server had accepted an
  update of the TaskRun that records that host as assigned, so the slot is taken first.\<close>

theorem HostPool_Allocate_provisions_free_host:
  assumes "retry_documented E" "finalizers_documented E"
    and "HostPool_Allocate E hp tr sn w = Some (res, w')"
    and "hist w' = hist w @ es" "EvCreate p r \<in> set es"
  shows "\<exists>trs k h pre post x y.
    k_list (kube E) (hist w) (HasLabels AssignedHost) = Inr trs \<and>
    (k, h) \<in> set (hp_hosts hp) \<and> h_Platform h = hp_targetPlatform hp \<and>
    k \<notin> set (Split (CHR '','') (annotation tr FailedHosts)) \<and> assigned trs k < h_Concurrency h \<and>
    (''HOST'', h_Address h) \<in> set (the (tr_Params p)) \<and>
    es = pre @ post \<and> EvCreate p r \<notin> set pre \<and>
    EvUpdate x (Inr y) \<in> set pre \<and> label x AssignedHost = h_Name h"
  using assms(3)
proof (cases rule: HostPool_Allocate_cases)
  case (assign trs k h)
  let ?l = "EvList (HasLabels AssignedHost) (k_list (kube E) (hist w) (HasLabels AssignedHost))"
  from assignHost_trace [OF assms(1,2) assign(5)] obtain pre post where tr:
    "hist w' = hist w @ ?l # pre @ post" "list_all no_create pre" "list_all (provisions h) post"
    "post \<noteq> [] \<longrightarrow> (\<exists>x y. EvUpdate x (Inr y) \<in> set pre \<and> label x AssignedHost = h_Name h)"
    by auto
  have es: "es = (?l # pre) @ post" using tr(1) assms(4) by simp
  have not_pre: "EvCreate p r \<notin> set (?l # pre)" using tr(2) by (auto simp: list_all_iff no_create_def)
  with es assms(5) have post: "EvCreate p r \<in> set post" by auto
  then have "(''HOST'', h_Address h) \<in> set (the (tr_Params p))"
    using tr(3) by (auto simp: list_all_iff provisions_def)
  moreover from tr(4) post obtain x y where "EvUpdate x (Inr y) \<in> set (?l # pre)" "label x AssignedHost = h_Name h"
    by (cases post) auto
  ultimately show ?thesis
    using es not_pre assign(1-4)
    by (intro exI [of _ trs] exI [of _ k] exI [of _ h] exI [of _ "?l # pre"] exI [of _ post] exI [of _ x] exI [of _ y])
       (simp add: eligible_def)
next
  case wait
  have "emits no_create (waitForHost E hp tr)"
    unfolding waitForHost_def by (intro emits no_create_UpdateTaskRunWithRetry assms(1))
  from emitsD [OF this wait] assms(4,5) show ?thesis
    by (auto dest: no_create_notin)
next
  case stop
  with assms(4,5) show ?thesis by auto
qed

text \<open>Example: the second of the two hosts is assigned and provisioned.\<close>

definition poolEnv :: env where
  "poolEnv = with_kube (offline_kube\<lparr>
     k_list := (\<lambda>_ _. Inr [assignedTask ''1'']), k_update := (\<lambda>_ tr. Inr tr),
     k_getSecret := (\<lambda>_ k. Inr \<lparr>sec_Name = snd k, sec_Namespace = fst k, sec_Labels = Map.empty,
       sec_Data = Map.empty, sec_Owner = None\<rparr>),
     k_create := (\<lambda>_ _. None)\<rparr>)"

theorem HostPool_Allocate_provisions_free_host_witness:
  "\<exists>res w' p r k h. HostPool_Allocate poolEnv samplePool userTask ''s'' initial = Some (res, w') \<and>
     EvCreate p r \<in> set (hist w') \<and> (k, h) \<in> set (hp_hosts samplePool) \<and>
     assigned [assignedTask ''1''] k < h_Concurrency h \<and> (''HOST'', h_Address h) \<in> set (the (tr_Params p))"
proof -
  have sel: "selectHost ''linux/arm64'' [[]] (countHosts [assignedTask ''1''] (\<lambda>_. 0)) (hp_hosts samplePool) selection0
      = \<lparr>sel_selected = Some (sampleHost ''2''), sel_freeSpots = 2, sel_platformHostsExists = True,
         sel_allPlatformHostsFailed = False\<rparr>"
    by (simp add: samplePool_def sampleHost_def selection0_def Let_def assignedTask_def userTask_def
        emptyTaskRun_def label_def)
  have u: "wp (UpdateTaskRunWithRetry poolEnv tr) Q w = Q (None, tr) (w\<lparr>hist := hist w @ [EvUpdate tr (Inr tr)]\<rparr>)" for tr Q w
    by (simp add: UpdateTaskRunWithRetry_def Update_def UpdateObj_def wp poolEnv_def)
  have f: "Split (CHR '','') (annotation userTask FailedHosts) = [[]]"
    by (simp add: annotation_def userTask_def)
  obtain x where k: "k_list (kube poolEnv) h s = Inr [assignedTask ''1'']" "k_getSecret (kube poolEnv) h q = Inr (x q)"
    "k_create (kube poolEnv) h t = None" for h s q t
    by (simp add: poolEnv_def)
  have hp: "hp_hosts samplePool \<noteq> []" "hp_targetPlatform samplePool = ''linux/arm64''"
    by (simp_all add: samplePool_def)
  define C where "C w \<longleftrightarrow> (\<exists>p r. EvCreate p r \<in> set (hist w))" for w :: world
  have l: "wp (launchProvisioningTask poolEnv tr sn a b c d e) (\<lambda>r w'. r = (None, tr) \<and> C w') w" for tr sn a b c d e w
    by (simp add: launchProvisioningTask_def GetSecret_def GetConfigMap_def Create_def wp k Let_def C_def) blast
  have "wp (assignHost poolEnv samplePool userTask ''s'' h) (\<lambda>_ w'. C w') w" for h w
    by (auto simp: assignHost_def wp u setLabel_def userTask_def Let_def split: option.split intro!: wp_mono [OF l])
  then have "wp (HostPool_Allocate poolEnv samplePool userTask ''s'') (\<lambda>_ w'. C w') initial"
    by (simp add: HostPool_Allocate_def List_def wp f Let_def k sel hp del: countHosts.simps)
  then obtain res w' where run: "HostPool_Allocate poolEnv samplePool userTask ''s'' initial = Some (res, w')"
    and ev: "C w'"
    by (auto simp: wp_iff_Some)
  from ev obtain p r where p: "EvCreate p r \<in> set (hist w')" unfolding C_def by blast
  have "hist w' = hist initial @ hist w'" by (simp add: initial_def)
  from HostPool_Allocate_provisions_free_host [OF std_libs_documented run this p]
  obtain k h where "(k, h) \<in> set (hp_hosts samplePool)" "assigned [assignedTask ''1''] k < h_Concurrency h"
    "(''HOST'', h_Address h) \<in> set (the (tr_Params p))"
    by (auto simp: poolEnv_def)
  with run p show ?thesis by blast
qed

end
