(* ===== verification/Dynamic.thy ===== *)
theory Dynamic
  imports Providers HostPool
begin

text \<open>
  \<open>pkg/reconciler/taskrun/dynamic.go\<close>: one cloud instance per task. Allocation is called again and
  again for one task: the first call launches the instance and records it in the TaskRun, the later
  ones wait for its address and then start the provisioning task. The operations take the
  implementation \<open>impl\<close> of the embedded \<open>cloud.CloudProvider\<close>.
\<close>

section \<open>Operations\<close>

definition resolver_Deallocate ::
  "env \<Rightarrow> provider_ops \<Rightarrow> DynamicResolver \<Rightarrow> TaskRun \<Rightarrow> string \<Rightarrow> string \<Rightarrow> (goerror option \<times> TaskRun) M" where
  "resolver_Deallocate E impl r tr secretName selectedHost =
     (let inst = annotation tr CloudInstanceId
      in bnd (TerminateInstance impl inst) (\<lambda>err. case err of
           Some e \<Rightarrow> bnd (Event tr ''Error'' ''TerminateFailed'' (Error e)) (\<lambda>_. ret (Some e, tr))
         | None \<Rightarrow> ret (None, delLabel CloudDynamicPlatform (delLabel AssignedHost (delAnnotation CloudInstanceId tr)))))"

definition removeInstanceFromTask :: "env \<Rightarrow> TaskRun \<Rightarrow> (goerror option \<times> TaskRun) M" where
  "removeInstanceFromTask E tr =
     UpdateTaskRunWithRetry E (delAnnotation CloudDynamicPlatform (delLabel AssignedHost tr))"

text \<open>Giving up an instance, as the code does in four places: terminate it, forget its identifier if
  that worked (and, in two of the places, report an event if it did not), and update the TaskRun,
  whose outcome is only logged.\<close>

definition abandonInstance :: "env \<Rightarrow> provider_ops \<Rightarrow> DynamicResolver \<Rightarrow> bool \<Rightarrow> TaskRun \<Rightarrow> TaskRun M" where
  "abandonInstance E impl r report tr =
     bnd (TerminateInstance impl (annotation tr CloudInstanceId)) (\<lambda>terr.
     bnd (case terr of
            Some _ \<Rightarrow> if report
              then bnd (Event tr ''Normal'' ''TerminateFailed''
                     (''failed to terminate '' @ dr_instanceTag r @ '' instance for '' @ tr_Name tr)) (\<lambda>_. ret tr)
              else ret tr
          | None \<Rightarrow> ret (delAnnotation CloudInstanceId tr)) (\<lambda>tr1.
     bnd (removeInstanceFromTask E tr1) (\<lambda>(_, tr2). ret tr2)))"

text \<open>Has the allocation that the annotations describe timed out? The sum wraps around.\<close>

definition timedOut :: "env \<Rightarrow> DynamicResolver \<Rightarrow> TaskRun \<Rightarrow> bool M" where
  "timedOut E r tr =
     (if annotation tr AllocationStartTimeAnnotation \<noteq> [] \<and> annotation tr CloudInstanceId \<noteq> []
      then (case ParseInt 64 (annotation tr AllocationStartTimeAnnotation) of
          Inl _ \<Rightarrow> ret False
        | Inr startTime \<Rightarrow> bnd (Now E) (\<lambda>now. ret (i64 (startTime + dr_timeout r) < Unix now)))
      else ret False)"

text \<open>The instance exists: get its address and start the provisioning task, or look at its state.\<close>

definition awaitInstance :: "env \<Rightarrow> provider_ops \<Rightarrow> DynamicResolver \<Rightarrow> TaskRun \<Rightarrow> string \<Rightarrow> alloc M" where
  "awaitInstance E impl r tr secretName =
     bnd (GetInstanceAddress impl (annotation tr CloudInstanceId)) (\<lambda>a. case a of
       Inl err \<Rightarrow> bnd (abandonInstance E impl r True tr) (\<lambda>tr1. ret (noRequeue, Some err, tr1))
     | Inr address \<Rightarrow>
         if address \<noteq> []
         then must (setLabel AssignedHost (annotation tr CloudInstanceId) tr) (\<lambda>tr1.
              must (setAnnotation CloudAddress address tr1) (\<lambda>tr2.
              bnd (UpdateTaskRunWithRetry E tr2) (\<lambda>(err, tr3). case err of
                Some e \<Rightarrow> ret (noRequeue, Some e, tr3)
              | None \<Rightarrow>
                  bnd (Event tr3 ''Normal'' ''Provisioning''
                         (''starting '' @ dr_instanceTag r @ '' provisioning task for '' @ tr_Name tr3)) (\<lambda>_.
                  bnd (launchProvisioningTask E tr3 secretName (dr_sshSecret r) address (SshUser impl)
                         (dr_platform r) (dr_sudoCommands r)) (\<lambda>(err, tr4). case err of
                    None \<Rightarrow> ret (noRequeue, None, tr4)
                  | Some e \<Rightarrow> bnd (abandonInstance E impl r False tr4) (\<lambda>tr5. ret (noRequeue, Some e, tr5)))))))
         else
           bnd (GetState impl (annotation tr CloudInstanceId)) (\<lambda>s. case s of
             Inl _ \<Rightarrow> ret (requeueIn (10 * Second), None, tr)
           | Inr state \<Rightarrow>
               if state = FailedState
               then bnd (abandonInstance E impl r True tr) (\<lambda>tr1.
                      ret (requeueIn (i64 (dr_checkInterval r * Second)), None, tr1))
               else ret (requeueIn (i64 (dr_checkInterval r * Second)), None, tr)))"

text \<open>At capacity: say so, and record that the task waits.\<close>

definition awaitCapacity :: "env \<Rightarrow> DynamicResolver \<Rightarrow> int \<Rightarrow> TaskRun \<Rightarrow> alloc M" where
  "awaitCapacity E r instanceCount tr =
     bnd (Event tr ''Warning'' ''Pending'' (Itoa instanceCount @ '' of '' @ Itoa (dr_maxInstances r) @
            '' maxInstances running for '' @ dr_instanceTag r @
            '', waiting for existing tasks to finish before provisioning for '')) (\<lambda>_.
       if label tr WaitingForPlatformLabel = platformLabel (dr_platform r) then ret (requeueIn Minute, None, tr)
       else must (setLabel WaitingForPlatformLabel (platformLabel (dr_platform r)) tr) (\<lambda>tr1.
            bnd (UpdateTaskRunWithRetry E tr1) (\<lambda>(_, tr2). ret (requeueIn Minute, None, tr2))))"

text \<open>The launch failed: count the failure in the TaskRun, give up after the third.\<close>

definition launchFailed :: "env \<Rightarrow> TaskRun \<Rightarrow> goerror \<Rightarrow> alloc M" where
  "launchFailed E tr launchErr =
     (let existingFailureString = annotation tr CloudFailures
      in case (if existingFailureString \<noteq> [] then Atoi existingFailureString else Inr 0) of
           Inl err \<Rightarrow> ret (noRequeue, Some err, tr)
         | Inr failureCount \<Rightarrow>
             if failureCount = 2 then ret (noRequeue, Some launchErr, tr)
             else must (setAnnotation CloudFailures (Itoa (i64 (failureCount + 1))) tr) (\<lambda>tr1.
                  bnd (UpdateTaskRunWithRetry E tr1) (\<lambda>(_, tr2). ret (requeueIn (20 * Second), None, tr2))))"

text \<open>The launch succeeded: record the instance in the TaskRun; if that fails, terminate it.\<close>

definition recordInstance :: "env \<Rightarrow> provider_ops \<Rightarrow> DynamicResolver \<Rightarrow> TaskRun \<Rightarrow> string \<Rightarrow> alloc M" where
  "recordInstance E impl r tr inst =
     bnd (Event tr ''Normal'' ''Launched'' (''launched '' @ dr_instanceTag r @ '' instance for '' @ tr_Name tr)) (\<lambda>_.
     must (setAnnotation CloudInstanceId inst tr) (\<lambda>tr1.
     must (setLabel CloudDynamicPlatform (platformLabel (dr_platform r)) tr1) (\<lambda>tr2.
     let tr3 = snd (AddFinalizer E tr2 PipelineFinalizer)
     in bnd (UpdateTaskRunWithRetry E tr3) (\<lambda>(err, tr4). case err of
          Some e \<Rightarrow> bnd (TerminateInstance impl inst) (\<lambda>_. ret (noRequeue, Some e, tr4))
        | None \<Rightarrow> ret (requeueIn (2 * Minute), None, tr4)))))"

definition taskRunIDOf :: "TaskRun \<Rightarrow> string" where
  "taskRunIDOf tr = tr_Namespace tr @ '':'' @ tr_Name tr"

definition launchFor :: "env \<Rightarrow> provider_ops \<Rightarrow> DynamicResolver \<Rightarrow> TaskRun \<Rightarrow> alloc M" where
  "launchFor E impl r tr =
     bnd (CountInstances impl (dr_instanceTag r)) (\<lambda>c. case c of
       Inl err \<Rightarrow> ret (noRequeue, Some err, tr)
     | Inr instanceCount \<Rightarrow>
         if instanceCount \<ge> dr_maxInstances r then awaitCapacity E r instanceCount tr
         else bnd (Now E) (\<lambda>now.
           must (setAnnotation AllocationStartTimeAnnotation (Itoa (Unix now)) (delLabel WaitingForPlatformLabel tr)) (\<lambda>tr1.
           bnd (Event tr1 ''Normal'' ''Launching'' (Itoa instanceCount @ '' instances are running for '' @
                  dr_instanceTag r @ '', creating a new instance '' @ tr_Name tr1)) (\<lambda>_.
           bnd (LaunchInstance impl (taskRunIDOf tr1) (dr_instanceTag r) (dr_additionalInstanceTags r)) (\<lambda>l. case l of
             Inl err \<Rightarrow> launchFailed E tr1 err
           | Inr inst \<Rightarrow> recordInstance E impl r tr1 inst)))))"

definition resolver_Allocate :: "env \<Rightarrow> provider_ops \<Rightarrow> DynamicResolver \<Rightarrow> TaskRun \<Rightarrow> string \<Rightarrow> alloc M" where
  "resolver_Allocate E impl r tr0 secretName =
     (if annotation tr0 FailedHosts \<noteq> [] then ret (noRequeue, Some (ErrNew ''failed to provision host''), tr0)
      else let tr = ensureAnnotations tr0
        in bnd (timedOut E r tr) (\<lambda>late.
             if late
             then bnd (abandonInstance E impl r False tr) (\<lambda>tr1.
                    ret (noRequeue, Some (ErrNew ''timed out waiting for instance address''), tr1))
             else if annotation tr CloudInstanceId \<noteq> [] then awaitInstance E impl r tr secretName
             else launchFor E impl r tr))"

section \<open>Lemmas from the contract of the provider\<close>

lemma ensureAnnotations_labels [simp]: "tr_Labels (ensureAnnotations tr) = tr_Labels tr"
  by (simp add: ensureAnnotations_def split: option.split)

lemma delLabel_nonnil [simp]:
  "(tr_Labels (delLabel k tr) = None) = (tr_Labels tr = None)"
  "tr_Annotations (delLabel k tr) = tr_Annotations tr"
  by (simp_all add: delLabel_def)

lemma set_nonnil:
  "setLabel k v tr = Some tr' \<Longrightarrow> tr_Annotations tr' = tr_Annotations tr \<and> tr_Labels tr' \<noteq> None"
  "setAnnotation k v tr = Some tr' \<Longrightarrow> tr_Labels tr' = tr_Labels tr \<and> tr_Annotations tr' \<noteq> None"
  by (auto simp: setLabel_Some setAnnotation_Some)

text \<open>Nothing between two states started an instance.\<close>

definition calm_since :: "world \<Rightarrow> world \<Rightarrow> bool" where
  "calm_since w v \<longleftrightarrow> (\<exists>es. hist v = hist w @ es \<and> (\<forall>e \<in> set es. \<not> starts_instance e))"

lemma calm_since_refl [simp]: "calm_since w w"
  by (simp add: calm_since_def)

lemma calm_since_step:
  assumes "ok (\<lambda>e. \<not> starts_instance e) m (\<lambda>_. True)" "m v = Some (x, v')" "calm_since w v"
  shows "calm_since w v'"
  using ok_run [OF assms(1,2)] assms(3) unfolding calm_since_def list_all_iff by fastforce

lemma calm_since_prefix: "calm_since w v \<Longrightarrow> prefix (hist w) (hist v)"
  by (auto simp: calm_since_def)

lemma taskRunIDOf_ensure [simp]: "taskRunIDOf (ensureAnnotations tr) = taskRunIDOf tr"
  by (simp add: taskRunIDOf_def ensureAnnotations_def split: option.split)

context cloud_provider
begin

lemma permitted_abandon:
  assumes "documented E" "sdk_documented E" "objKey tr = key"
  shows "ok (permitted E key sn) (abandonInstance E impl r report tr) (\<lambda>tr'. objKey tr' = key)"
proof -
  have 1: "ok (permitted E key sn) (case terr of
            Some _ \<Rightarrow> if report
              then bnd (Event tr ''Normal'' ''TerminateFailed''
                     (''failed to terminate '' @ dr_instanceTag r @ '' instance for '' @ tr_Name tr)) (\<lambda>_. ret tr)
              else ret tr
          | None \<Rightarrow> ret (delAnnotation CloudInstanceId tr)) (\<lambda>tr'. objKey tr' = key)" for terr
    using assms(3) by (auto intro!: ok ok_bnd [OF ok_calls(10)] simp: permitted_def split: option.split)
  have 2: "ok (permitted E key sn) (bnd (removeInstanceFromTask E tr1) (\<lambda>(_, tr2). ret tr2)) (\<lambda>tr'. objKey tr' = key)"
    if "objKey tr1 = key" for tr1
    unfolding removeInstanceFromTask_def
    by (rule ok_bnd [OF permitted_UpdateTaskRunWithRetry [OF assms(1), of _ key]])
       (use that in \<open>auto intro!: ok\<close>)
  show ?thesis
    unfolding abandonInstance_def
    by (rule ok_bnd [OF permitted_ops(2) [OF assms(2)]], rule ok_bnd [OF 1], rule 2)
qed

lemma permitted_await:
  assumes d: "documented E" "sdk_documented E" and k: "objKey tr = key"
    and n: "tr_Labels tr \<noteq> None" "tr_Annotations tr \<noteq> None"
  shows "ok (permitted E key sn) (awaitInstance E impl r tr sn) (\<lambda>(_, _, tr'). objKey tr' = key)"
  unfolding awaitInstance_def
  by (rule permitted_ops [OF d(2)] permitted_UpdateTaskRunWithRetry [OF d(1), of _ key] permitted_launchProvisioningTask [OF d(1), of _ key]
        permitted_abandon [OF d, of _ key] | rule ok
      | (use k n in \<open>auto simp: permitted_def objKey_set set_nonnil\<close>; fail))+

lemma permitted_launch:
  assumes d: "documented E" "sdk_documented E" and k: "objKey tr = key"
    and n: "tr_Labels tr \<noteq> None" "tr_Annotations tr \<noteq> None"
  shows "ok (permitted E key sn) (launchFor E impl r tr) (\<lambda>(_, _, tr'). objKey tr' = key)"
  unfolding launchFor_def awaitCapacity_def launchFailed_def recordInstance_def Let_def
  by (rule permitted_ops [OF d(2)] permitted_UpdateTaskRunWithRetry [OF d(1), of _ key] | rule ok
      | (use k n in \<open>auto simp: permitted_def objKey_set set_nonnil\<close>; fail))+

lemma permitted_resolver_Allocate:
  assumes d: "documented E" "sdk_documented E" and k: "objKey tr = key" and n: "tr_Labels tr \<noteq> None"
  shows "ok (permitted E key sn) (resolver_Allocate E impl r tr sn) (\<lambda>(_, _, tr'). objKey tr' = key)"
proof -
  have t: "ok (permitted E key sn) (timedOut E r tr') (\<lambda>_. True)" for tr'
    unfolding timedOut_def by (auto intro!: ok simp: permitted_def)
  show ?thesis
    unfolding resolver_Allocate_def Let_def
    by (rule t permitted_await [OF d] permitted_launch [OF d] permitted_abandon [OF d, of _ key] | rule ok
        | (use k n in \<open>auto simp: permitted_def\<close>; fail))+
qed

lemma permitted_resolver_Deallocate:
  assumes "sdk_documented E" "objKey tr = key"
  shows "ok (permitted E key sn) (resolver_Deallocate E impl r tr sn host) (\<lambda>(_, tr'). objKey tr' = key)"
  unfolding resolver_Deallocate_def Let_def
  by (rule permitted_ops [OF assms(1)] | rule ok | (use assms(2) in \<open>auto simp: permitted_def\<close>; fail))+

text \<open>Everything but a launch starts no instance.\<close>

lemma calm_UpdateTaskRunWithRetry:
  "documented E \<Longrightarrow> ok (\<lambda>e. \<not> starts_instance e) (UpdateTaskRunWithRetry E tr) (\<lambda>_. True)"
  by (rule ok_mono [OF ok_UpdateTaskRunWithRetry]) simp_all

lemma calm_createErrorSecret:
  assumes "documented E"
  shows "ok (\<lambda>e. \<not> starts_instance e) (createErrorSecret E line tr p sn msg) (\<lambda>_. True)"
proof -
  have u: "ok (\<lambda>e. \<not> starts_instance e) (Update E tr) (\<lambda>_. True)" for tr
    by (rule ok_mono [OF ok_Update [OF assms]]) simp_all
  show ?thesis
    unfolding createErrorSecret_def Let_def
    by (rule u | rule ok | (simp; fail))+
qed

lemma calm_launchProvisioningTask:
  "documented E \<Longrightarrow> ok (\<lambda>e. \<not> starts_instance e) (launchProvisioningTask E tr sn a b c d e) (\<lambda>_. True)"
  unfolding launchProvisioningTask_def Let_def
  by (rule calm_createErrorSecret | rule ok | (simp; fail))+

lemma calm_abandon:
  assumes "documented E" "sdk_documented E"
  shows "ok (\<lambda>e. \<not> starts_instance e) (abandonInstance E impl r report tr) (\<lambda>_. True)"
  unfolding abandonInstance_def removeInstanceFromTask_def
  by (rule calm_ops [OF assms(2)] calm_UpdateTaskRunWithRetry [OF assms(1)] | rule ok_bnd ok_option ok_if ok_ret ok_prod ok_calls
      | (simp; fail))+

lemma calm_await:
  assumes "documented E" "sdk_documented E" "tr_Labels tr \<noteq> None" "tr_Annotations tr \<noteq> None"
  shows "ok (\<lambda>e. \<not> starts_instance e) (awaitInstance E impl r tr sn) (\<lambda>_. True)"
  unfolding awaitInstance_def
  by (rule calm_ops [OF assms(2)] calm_UpdateTaskRunWithRetry [OF assms(1)] calm_launchProvisioningTask [OF assms(1)]
        calm_abandon [OF assms(1,2)] | rule ok | (use assms(3,4) in \<open>auto simp: set_nonnil\<close>; fail))+

lemma calm_awaitCapacity:
  assumes "documented E" "tr_Labels tr \<noteq> None"
  shows "ok (\<lambda>e. \<not> starts_instance e) (awaitCapacity E r n tr) (\<lambda>_. True)"
  unfolding awaitCapacity_def
  by (rule calm_UpdateTaskRunWithRetry [OF assms(1)] | rule ok | (use assms(2) in \<open>auto\<close>; fail))+

lemma update_grows: "documented E \<Longrightarrow> ok (\<lambda>_. True) (UpdateTaskRunWithRetry E tr) (\<lambda>_. True)"
  by (rule ok_mono [OF ok_UpdateTaskRunWithRetry]) simp_all

text \<open>After a launch: the instance is recorded in the TaskRun by an accepted update, with the
  finalizer, or terminated.\<close>

definition settled :: "string \<Rightarrow> goerror option \<Rightarrow> world \<Rightarrow> bool" where
  "settled i err w' \<longleftrightarrow>
     (case err of
        None \<Rightarrow> \<exists>sent answer. last (hist w') = EvUpdate sent (Inr answer) \<and> annotation sent CloudInstanceId = i \<and>
          PipelineFinalizer \<in> set (tr_Finalizers sent)
      | Some _ \<Rightarrow> \<exists>v x. TerminateInstance impl i v = Some (x, w'))"

lemma record_settles:
  assumes d: "documented E" and run: "recordInstance E impl r tr i w = Some ((res, err, tr'), w')"
  shows "settled i err w'"
proof -
  have rd: "retry_documented E" "finalizers_documented E" using d by (simp_all add: documented_def)
  from run obtain tr1 tr2 uerr tr4 w1 w2 where
    t1: "setAnnotation CloudInstanceId i tr = Some tr1" and
    t2: "setLabel CloudDynamicPlatform (platformLabel (dr_platform r)) tr1 = Some tr2" and
    u: "UpdateTaskRunWithRetry E (snd (AddFinalizer E tr2 PipelineFinalizer)) w1 = Some ((uerr, tr4), w2)" and
    rest: "(case uerr of Some e \<Rightarrow> bnd (TerminateInstance impl i) (\<lambda>_. ret (noRequeue, Some e, tr4))
        | None \<Rightarrow> ret (requeueIn (2 * Minute), None, tr4)) w2 = Some ((res, err, tr'), w')"
    by (auto simp: recordInstance_def bnd_Some must_Some Let_def)
  let ?tr3 = "snd (AddFinalizer E tr2 PipelineFinalizer)"
  show ?thesis
  proof (cases uerr)
    case None
    with accepted_update_sent [OF rd, of ?tr3 w1 tr4 w2] u rest obtain es sent answer
      where s: "hist w' = hist w1 @ es @ [EvUpdate sent (Inr answer)]" "managed_from ?tr3 sent" and err: "err = None"
      by auto
    have "or_empty (tr_Annotations sent) CloudInstanceId = or_empty (tr_Annotations ?tr3) CloudInstanceId"
      using s(2) by (simp add: managed_from_def managedAnnotations_def)
    moreover have "or_empty (tr_Annotations ?tr3) CloudInstanceId = Some i"
      using t1 t2 by (auto simp: setAnnotation_Some setLabel_Some)
    moreover have "PipelineFinalizer \<in> set (tr_Finalizers ?tr3)"
      using rd(2) by (simp add: finalizers_documented_def AddFinalizer_def)
    ultimately show ?thesis
      using s err by (auto simp: settled_def annotation_def managed_from_def or_empty_def split: option.splits)
  next
    case (Some e)
    with rest show ?thesis by (auto simp: settled_def bnd_Some)
  qed
qed

lemma launched_grows:
  assumes d: "documented E" "sdk_documented E" and n: "tr_Labels tr \<noteq> None" "tr_Annotations tr \<noteq> None"
    and run: "(case lr of Inl err \<Rightarrow> launchFailed E tr err | Inr inst \<Rightarrow> recordInstance E impl r tr inst) u = Some (x, w)"
  shows "prefix (hist u) (hist w)"
proof (cases lr)
  case (Inl y)
  have "ok (\<lambda>_. True) (launchFailed E tr y) (\<lambda>_. True)"
    unfolding launchFailed_def Let_def
    by (rule update_grows [OF d(1)] | rule ok | (use n in \<open>simp\<close>; fail))+
  with run Inl show ?thesis by (auto intro: ok_grows)
next
  case (Inr y)
  have "ok (\<lambda>_. True) (recordInstance E impl r tr y) (\<lambda>_. True)"
    unfolding recordInstance_def Let_def
    by (rule update_grows [OF d(1)] ok_events [OF terminate_ok [OF d(2)]] | rule ok
        | (use n in \<open>auto simp: set_nonnil\<close>; fail))+
  with run Inr show ?thesis by (auto intro: ok_grows)
qed

text \<open>What \<open>launchFor\<close> did around the start of an instance.\<close>

lemma launchFor_settled:
  assumes d: "documented E" "sdk_documented E" and n: "tr_Labels tr \<noteq> None"
    and l: "launchFor E impl r tr v = Some ((res, err, tr'), w')" and w: "calm_since w v" "\<not> calm_since w w'"
  shows "\<exists>c v' u u' l. CountInstances impl (dr_instanceTag r) v = Some (Inr c, v') \<and> c < dr_maxInstances r \<and>
       prefix (hist v') (hist u) \<and>
       LaunchInstance impl (taskRunIDOf tr) (dr_instanceTag r) (dr_additionalInstanceTags r) u = Some (l, u') \<and>
       prefix (hist u') (hist w') \<and> (\<forall>i. l = Inr i \<longrightarrow> settled i err w')"
proof -
  from l obtain c v1 where c: "CountInstances impl (dr_instanceTag r) v = Some (c, v1)"
    by (auto simp: launchFor_def bnd_Some)
  have v1: "calm_since w v1" by (rule calm_since_step [OF calm_ops(3) [OF d(2)] c w(1)])
  have "c \<noteq> Inl e" for e using l c v1 w(2) by (auto simp: launchFor_def bnd_Some)
  then obtain k where k: "c = Inr k" by (cases c) auto
  have max: "k < dr_maxInstances r"
  proof (rule ccontr)
    assume "\<not> k < dr_maxInstances r"
    with l c k have "awaitCapacity E r k tr v1 = Some ((res, err, tr'), w')" by (auto simp: launchFor_def bnd_Some)
    from calm_since_step [OF calm_awaitCapacity [OF d(1) n] this v1] w(2) show False by simp
  qed
  from l c k max obtain now u0 msg x tr1 u lr u' where
    nw: "Now E v1 = Some (now, u0)" and ev: "Event tr1 ''Normal'' ''Launching'' msg u0 = Some ((), u)" and
    s: "setAnnotation AllocationStartTimeAnnotation x (delLabel WaitingForPlatformLabel tr) = Some tr1" and
    la: "LaunchInstance impl (taskRunIDOf tr1) (dr_instanceTag r) (dr_additionalInstanceTags r) u = Some (lr, u')" and
    fin: "(case lr of Inl err \<Rightarrow> launchFailed E tr1 err | Inr inst \<Rightarrow> recordInstance E impl r tr1 inst) u' = Some ((res, err, tr'), w')"
    by (auto simp: launchFor_def bnd_Some must_Some)
  have "objKey tr1 = objKey tr" using objKey_set(2) [OF s] by simp
  then have "taskRunIDOf tr1 = taskRunIDOf tr" by (simp add: taskRunIDOf_def objKey_def)
  moreover have "prefix (hist v1) (hist u)" using nw ev by (simp add: Now_def Event_def call_Some)
  moreover have "\<forall>i. lr = Inr i \<longrightarrow> settled i err w'" using fin record_settles [OF d(1)] by auto
  moreover have "prefix (hist u') (hist w')"
    by (rule launched_grows [OF d _ _ fin]) (use set_nonnil(2) [OF s] n in auto)
  ultimately show ?thesis using c [unfolded k] max la by metis
qed

text \<open>The states in which allocation starts an instance, and what it did around it.\<close>

lemma launch_is_settled:
  assumes d: "documented E" "sdk_documented E" and n: "tr_Labels tr \<noteq> None"
    and run: "resolver_Allocate E impl r tr sn w = Some ((res, err, tr'), w')"
    and es: "hist w' = hist w @ es" "e \<in> set es" "starts_instance e"
  shows "annotation tr CloudInstanceId = [] \<and> annotation tr FailedHosts = [] \<and>
    (\<exists>c v v' u u' l. prefix (hist w) (hist v) \<and>
       CountInstances impl (dr_instanceTag r) v = Some (Inr c, v') \<and> c < dr_maxInstances r \<and>
       prefix (hist v') (hist u) \<and>
       LaunchInstance impl (taskRunIDOf tr) (dr_instanceTag r) (dr_additionalInstanceTags r) u = Some (l, u') \<and>
       prefix (hist u') (hist w') \<and>
       (\<forall>i. l = Inr i \<longrightarrow> settled i err w'))"
proof -
  have stop: "\<not> calm_since w w'" using es by (auto simp: calm_since_def)
  let ?tr = "ensureAnnotations tr"
  have f: "annotation tr FailedHosts = []"
    using run stop by (auto simp: resolver_Allocate_def split: if_splits)
  from run f obtain late v where t: "timedOut E r ?tr w = Some (late, v)" and
    rest: "(if late then bnd (abandonInstance E impl r False ?tr) (\<lambda>tr1.
                    ret (noRequeue, Some (ErrNew ''timed out waiting for instance address''), tr1))
             else if annotation ?tr CloudInstanceId \<noteq> [] then awaitInstance E impl r ?tr sn
             else launchFor E impl r ?tr) v = Some ((res, err, tr'), w')"
    by (auto simp: resolver_Allocate_def Let_def bnd_Some)
  have "ok (\<lambda>e. \<not> starts_instance e) (timedOut E r ?tr) (\<lambda>_. True)"
    unfolding timedOut_def by (rule ok | (simp; fail))+
  from calm_since_step [OF this t] have v: "calm_since w v" by simp
  have late: "\<not> late" using rest stop calm_since_step [OF calm_abandon [OF d] _ v] by (auto simp: bnd_Some)
  have i: "annotation tr CloudInstanceId = []"
    using rest late stop calm_since_step [OF calm_await [OF d, of ?tr] _ v] n by (auto split: if_splits)
  with rest late have "launchFor E impl r ?tr v = Some ((res, err, tr'), w')" by simp
  from launchFor_settled [OF d _ this v stop] n i f calm_since_prefix [OF v] show ?thesis
    by (fastforce simp: taskRunIDOf_ensure)
qed

end

end
