(* ===== verification/DynamicPool.thy ===== *)
theory DynamicPool
  imports Dynamic
begin

text \<open>
  \<open>pkg/reconciler/taskrun/dynamicpool.go\<close>: a pool of cloud instances shared by several tasks, each
  with a fixed number of slots and a maximal age; and the in-cluster platform of \<open>local.go\<close>.
\<close>

section \<open>Operations of the dynamic pool\<close>

definition isHostIdle :: "env \<Rightarrow> string \<Rightarrow> (goerror + bool) M" where
  "isHostIdle E selectedHost =
     bnd (List E (MatchingLabels [(AssignedHost, selectedHost)])) (\<lambda>r. case r of
       Inl e \<Rightarrow> ret (Inl e)
     | Inr trs \<Rightarrow> ret (Inr (length trs = 0)))"

definition poolHost :: "provider_ops \<Rightarrow> DynamicHostPool \<Rightarrow> CloudVMInstance \<Rightarrow> Host" where
  "poolHost impl a inst = \<lparr>h_Address = vm_Address inst, h_Name = vm_InstanceId inst, h_User = SshUser impl,
     h_Concurrency = dp_concurrency a, h_Platform = dp_platform a, h_Secret = dp_sshSecret a,
     h_StartTime = Some (vm_StartTime inst)\<rparr>"

text \<open>\<open>ret[id] = host\<close> on the map of hosts.\<close>

fun hput :: "string \<Rightarrow> Host \<Rightarrow> (string \<times> Host) list \<Rightarrow> (string \<times> Host) list" where
  "hput k v [] = [(k, v)]"
| "hput k v ((k', v') # m) = (if k' = k then (k, v) # m else (k', v') # hput k v m)"

lemma map_of_hput: "map_of (hput k v m) = (map_of m)(k \<mapsto> v)"
  by (induction k v m rule: hput.induct) (auto simp: fun_eq_iff)

lemma keys_hput: "map fst (hput k v m) = (if k \<in> fst ` set m then map fst m else map fst m @ [k])"
  by (induction k v m rule: hput.induct) auto

text \<open>One round of the loop over the instances: an instance past its age is counted as old, and
  terminated if no task uses it; the others become hosts of the pool.\<close>

definition poolRound :: "env \<Rightarrow> provider_ops \<Rightarrow> DynamicHostPool \<Rightarrow> CloudVMInstance \<Rightarrow>
    (string \<times> Host) list \<times> int \<Rightarrow> ((string \<times> Host) list \<times> int) M" where
  "poolRound E impl a inst acc =
     (case acc of (hosts, oldInstanceCount) \<Rightarrow>
        bnd (Now E) (\<lambda>now.
          if vm_StartTime inst + dp_maxAge a < now
          then bnd (isHostIdle E (vm_InstanceId inst)) (\<lambda>idle. case idle of
                 Inr True \<Rightarrow> bnd (TerminateInstance impl (vm_InstanceId inst)) (\<lambda>_. ret (hosts, oldInstanceCount + 1))
               | _ \<Rightarrow> ret (hosts, oldInstanceCount + 1))
          else ret (hput (vm_InstanceId inst) (poolHost impl a inst) hosts, oldInstanceCount)))"

definition buildHostPool :: "env \<Rightarrow> provider_ops \<Rightarrow> DynamicHostPool \<Rightarrow> (goerror + HostPool \<times> int) M" where
  "buildHostPool E impl a =
     bnd (ListInstances impl (dp_instanceTag a)) (\<lambda>r. case r of
       Inl e \<Rightarrow> ret (Inl e)
     | Inr instances \<Rightarrow> bnd (foreach (poolRound E impl a) instances ([], 0)) (\<lambda>(hosts, old).
         ret (Inr (\<lparr>hp_hosts = hosts, hp_targetPlatform = dp_platform a\<rparr>, old))))"

definition pool_Deallocate ::
  "env \<Rightarrow> provider_ops \<Rightarrow> DynamicHostPool \<Rightarrow> TaskRun \<Rightarrow> string \<Rightarrow> string \<Rightarrow> (goerror option \<times> TaskRun) M" where
  "pool_Deallocate E impl a tr secretName selectedHost =
     bnd (buildHostPool E impl a) (\<lambda>r. case r of
       Inl e \<Rightarrow> ret (Some e, tr)
     | Inr (hostPool, oldInstanceCount) \<Rightarrow>
         bnd (HostPool_Deallocate E hostPool tr secretName selectedHost) (\<lambda>err. case err of
           Some e \<Rightarrow> ret (Some e, tr)
         | None \<Rightarrow>
             if oldInstanceCount > 0 \<and> map_of (hp_hosts hostPool) selectedHost = None
             then bnd (isHostIdle E selectedHost) (\<lambda>idle. case idle of
                    Inl e \<Rightarrow> ret (Some e, tr)
                  | Inr True \<Rightarrow> bnd (TerminateInstance impl selectedHost) (\<lambda>err. ret (err, tr))
                  | Inr False \<Rightarrow> ret (None, tr))
             else ret (None, tr)))"

definition getRandomString :: "env \<Rightarrow> nat \<Rightarrow> (goerror + string) M" where
  "getRandomString E n =
     bnd (RandRead E (n div 2 + 1)) (\<lambda>r. case r of
       Inl e \<Rightarrow> ret (Inl e)
     | Inr bytes \<Rightarrow> ret (Inr (take n (EncodeToString bytes))))"

text \<open>No host could be allocated: start a new instance if there is room.\<close>

definition growPool :: "env \<Rightarrow> provider_ops \<Rightarrow> DynamicHostPool \<Rightarrow> int \<Rightarrow> goerror option \<Rightarrow> TaskRun \<Rightarrow> alloc M" where
  "growPool E impl a oldInstanceCount allocationErr tr =
     bnd (CountInstances impl (dp_instanceTag a)) (\<lambda>c. case c of
       Inl e \<Rightarrow> ret (noRequeue, Some e, tr)
     | Inr cnt \<Rightarrow>
         if cnt - oldInstanceCount \<ge> dp_maxInstances a then ret (requeueIn Minute, allocationErr, tr)
         else bnd (getRandomString E 8) (\<lambda>n. case n of
           Inl e \<Rightarrow> ret (noRequeue, Some e, tr)
         | Inr _ \<Rightarrow>
             let tr1 = delLabel WaitingForPlatformLabel tr
             in bnd (LaunchInstance impl (taskRunIDOf tr1) (dp_instanceTag a) (dp_additionalInstanceTags a)) (\<lambda>l. case l of
                  Inl e \<Rightarrow> ret (noRequeue, Some e, tr1)
                | Inr _ \<Rightarrow> ret (requeueIn Minute, None, tr1))))"

definition pool_Allocate :: "env \<Rightarrow> provider_ops \<Rightarrow> DynamicHostPool \<Rightarrow> TaskRun \<Rightarrow> string \<Rightarrow> alloc M" where
  "pool_Allocate E impl a tr secretName =
     bnd (buildHostPool E impl a) (\<lambda>r. case r of
       Inl e \<Rightarrow> ret (noRequeue, Some e, tr)
     | Inr (hostPool, oldInstanceCount) \<Rightarrow>
         if hp_hosts hostPool \<noteq> []
         then bnd (HostPool_Allocate E hostPool tr secretName) (\<lambda>(_, allocationErr, tr1). case allocationErr of
                Some e \<Rightarrow> if \<not> IsAllHostsFailed e then ret (noRequeue, Some e, tr1)
                          else growPool E impl a oldInstanceCount (Some e) tr1
              | None \<Rightarrow> if label tr1 WaitingForPlatformLabel = [] then ret (noRequeue, None, tr1)
                        else growPool E impl a oldInstanceCount None tr1)
         else growPool E impl a oldInstanceCount None tr)"

section \<open>Operations of the local platform\<close>

definition Local_Allocate :: "env \<Rightarrow> TaskRun \<Rightarrow> string \<Rightarrow> alloc M" where
  "Local_Allocate E tr secretName =
     must (setLabel AssignedHost ''localhost'' tr) (\<lambda>tr1.
     let tr2 = snd (AddFinalizer E tr1 PipelineFinalizer)
     in bnd (Update E tr2) (\<lambda>(err, tr3). case err of
          Some e \<Rightarrow> ret (noRequeue, Some e, tr3)
        | None \<Rightarrow> bnd (createUserTaskSecret E tr3 secretName [''host'' \<mapsto> ''localhost'']) (\<lambda>err. ret (noRequeue, err, tr3))))"

definition Local_Deallocate :: "env \<Rightarrow> TaskRun \<Rightarrow> string \<Rightarrow> string \<Rightarrow> (goerror option \<times> TaskRun) M" where
  "Local_Deallocate E tr secretName selectedHost = ret (None, tr)"

section \<open>The interface PlatformConfig\<close>

record platform_ops =
  Allocate :: "TaskRun \<Rightarrow> string \<Rightarrow> alloc M"
  Deallocate :: "TaskRun \<Rightarrow> string \<Rightarrow> string \<Rightarrow> (goerror option \<times> TaskRun) M"

text \<open>Its contract: both operations return and do only what is permitted for the task they work on.
  Allocation needs a TaskRun with a label map.\<close>

locale platform_config =
  fixes E :: env and impl :: platform_ops
  assumes allocate_ok: "documented E \<Longrightarrow> sdk_documented E \<Longrightarrow> objKey tr = key \<Longrightarrow> tr_Labels tr \<noteq> None \<Longrightarrow>
      ok (permitted E key sn) (Allocate impl tr sn) (\<lambda>(_, _, tr'). objKey tr' = key)"
    and deallocate_ok: "documented E \<Longrightarrow> sdk_documented E \<Longrightarrow> objKey tr = key \<Longrightarrow>
      ok (permitted E key sn) (Deallocate impl tr sn host) (\<lambda>(_, tr'). objKey tr' = key)"

definition local_ops :: "env \<Rightarrow> platform_ops" where
  "local_ops E = \<lparr>Allocate = Local_Allocate E, Deallocate = Local_Deallocate E\<rparr>"

definition hostpool_ops :: "env \<Rightarrow> HostPool \<Rightarrow> platform_ops" where
  "hostpool_ops E hp = \<lparr>Allocate = HostPool_Allocate E hp,
     Deallocate = (\<lambda>tr sn host. bnd (HostPool_Deallocate E hp tr sn host) (\<lambda>err. ret (err, tr)))\<rparr>"

definition resolver_ops :: "env \<Rightarrow> DynamicResolver \<Rightarrow> platform_ops" where
  "resolver_ops E r = \<lparr>Allocate = resolver_Allocate E (provider E (dr_CloudProvider r)) r,
     Deallocate = resolver_Deallocate E (provider E (dr_CloudProvider r)) r\<rparr>"

definition pool_ops :: "env \<Rightarrow> DynamicHostPool \<Rightarrow> platform_ops" where
  "pool_ops E a = \<lparr>Allocate = pool_Allocate E (provider E (dp_cloudProvider a)) a,
     Deallocate = pool_Deallocate E (provider E (dp_cloudProvider a)) a\<rparr>"

fun platform_impl :: "env \<Rightarrow> PlatformConfig \<Rightarrow> platform_ops" where
  "platform_impl E PLocal = local_ops E"
| "platform_impl E (PHostPool hp) = hostpool_ops E hp"
| "platform_impl E (PDynamic r) = resolver_ops E r"
| "platform_impl E (PDynamicPool a) = pool_ops E a"

section \<open>The contract holds\<close>

context cloud_provider
begin

lemma permitted_isHostIdle: "ok (permitted E key sn) (isHostIdle E h) (\<lambda>_. True)"
  unfolding isHostIdle_def by (rule ok | (simp add: permitted_def; fail))+

lemma permitted_poolRound:
  assumes "sdk_documented E"
  shows "ok (permitted E key sn) (poolRound E impl a inst acc) (\<lambda>_. True)"
  unfolding poolRound_def
  by (rule permitted_isHostIdle permitted_ops [OF assms] | rule ok | (simp add: permitted_def; fail))+

lemma permitted_buildHostPool:
  assumes "sdk_documented E"
  shows "ok (permitted E key sn) (buildHostPool E impl a) (\<lambda>_. True)"
  unfolding buildHostPool_def
  by (rule permitted_ops [OF assms] permitted_poolRound [OF assms] | rule ok | (simp add: permitted_def; fail))+

lemma permitted_growPool:
  assumes "sdk_documented E" "objKey tr = key"
  shows "ok (permitted E key sn) (growPool E impl a old err tr) (\<lambda>(_, _, tr'). objKey tr' = key)"
  unfolding growPool_def getRandomString_def Let_def
  by (rule permitted_ops [OF assms(1)] | rule ok | (use assms(2) in \<open>simp add: permitted_def\<close>; fail))+

lemma permitted_pool_Allocate:
  assumes d: "documented E" "sdk_documented E" and k: "objKey tr = key" "tr_Labels tr \<noteq> None"
  shows "ok (permitted E key sn) (pool_Allocate E impl a tr sn) (\<lambda>(_, _, tr'). objKey tr' = key)"
  unfolding pool_Allocate_def
  by (rule permitted_buildHostPool [OF d(2)] permitted_HostPool_Allocate [OF d(1) k] permitted_growPool [OF d(2), of _ key]
      | rule ok | (use k in \<open>auto simp: permitted_def\<close>; fail))+

lemma permitted_pool_Deallocate:
  assumes "sdk_documented E" "objKey tr = key"
  shows "ok (permitted E key sn) (pool_Deallocate E impl a tr sn host) (\<lambda>(_, tr'). objKey tr' = key)"
  unfolding pool_Deallocate_def
  by (rule permitted_buildHostPool [OF assms(1)] permitted_HostPool_Deallocate [OF assms(2)] permitted_isHostIdle
        permitted_ops [OF assms(1)]
      | rule ok | (use assms(2) in \<open>auto simp: permitted_def\<close>; fail))+

end

lemma permitted_Local_Allocate:
  assumes d: "documented E" and k: "objKey tr = key" "tr_Labels tr \<noteq> None"
  shows "ok (permitted E key sn) (Local_Allocate E tr sn) (\<lambda>(_, _, tr'). objKey tr' = key)"
proof -
  have u: "ok (permitted E key sn) (Update E t) (\<lambda>(_, t'). objKey t' = key)" if "objKey t = key" for t
    using ok_Update [OF d, of "permitted E key sn" t] that by (simp add: permitted_def)
  show ?thesis
    unfolding Local_Allocate_def Let_def
    by (rule u permitted_createUserTaskSecret [OF d, of _ key] | rule ok
        | (use k in \<open>auto simp: objKey_set\<close>; fail))+
qed

interpretation loc: platform_config E "local_ops E" for E
  by unfold_locales (auto simp: local_ops_def Local_Deallocate_def permitted_Local_Allocate intro: ok)

interpretation static: platform_config E "hostpool_ops E hp" for E hp
  by unfold_locales
     (auto simp: hostpool_ops_def permitted_HostPool_Allocate intro!: ok_bnd [OF permitted_HostPool_Deallocate] ok)

interpretation resolver: platform_config E "resolver_ops E r" for E r
  by unfold_locales
     (simp_all add: resolver_ops_def prov.permitted_resolver_Allocate prov.permitted_resolver_Deallocate)

interpretation pool: platform_config E "pool_ops E a" for E a
  by unfold_locales (simp_all add: pool_ops_def prov.permitted_pool_Allocate prov.permitted_pool_Deallocate)

interpretation plat: platform_config E "platform_impl E p" for E p
  by (cases p) (simp_all add: loc.platform_config_axioms static.platform_config_axioms
      resolver.platform_config_axioms pool.platform_config_axioms)

end
