(* ===== verification/Config_Props.thy ===== *)
theory Config_Props
  imports Config
begin

text \<open>
  What the validators and parsers of \<open>pkg/config\<close> guarantee: platform lists contain exactly the
  trimmed entries and only valid ones; numbers are within their documented bounds; an instance tag
  is accepted exactly when it agrees with the platform name up to the order of the instance-type
  parts; every configuration a parser returns satisfies the invariant the controller relies on.
\<close>

section \<open>Platform lists\<close>

text \<open>The entries of a list: trimmed, without the empty one a trailing comma leaves at the end.\<close>

definition platform_entries :: "string \<Rightarrow> string list" where
  "platform_entries s =
     (let ps = map TrimSpace (Split (CHR '','') s) in if last ps = [] then butlast ps else ps)"

lemma parse_platforms_Inr:
  assumes "ps \<noteq> []"
  shows "parse_platforms dns t ps acc = Inr r \<longleftrightarrow>
    (let es = map TrimSpace ps; body = (if last es = [] then butlast es else es)
     in r = acc @ body \<and> [] \<notin> set body \<and> (\<forall>p \<in> set body. validatePlatformFormat dns p = None))"
  using assms
proof (induction ps arbitrary: acc)
  case Nil
  then show ?case by simp
next
  case (Cons p ps)
  show ?case
  proof (cases "ps = []")
    case True
    then show ?thesis by (auto simp: Let_def split: option.splits)
  next
    case False
    then have "map TrimSpace ps \<noteq> []" by simp
    with False Cons.IH [OF False] show ?thesis
      by (auto simp: Let_def split: option.splits)
  qed
qed

text \<open>C20: \<open>ParsePlatformList\<close> succeeds exactly when every entry of the comma-separated list, after
  trimming and apart from an empty last one (a trailing comma), is non-empty and has a valid
  platform format, and it then returns exactly these entries in order.\<close>

theorem ParsePlatformList_spec:
  "ParsePlatformList dns s t = Inr r \<longleftrightarrow>
     r = platform_entries s \<and>
     (\<forall>p \<in> set (platform_entries s). p \<noteq> [] \<and> validatePlatformFormat dns p = None)"
proof (cases "s = []")
  case True
  then show ?thesis by (simp add: ParsePlatformList_def platform_entries_def) auto
next
  case False
  then have "ParsePlatformList dns s t = Inr r \<longleftrightarrow>
      r = platform_entries s \<and> [] \<notin> set (platform_entries s) \<and>
      (\<forall>p \<in> set (platform_entries s). validatePlatformFormat dns p = None)"
    by (simp add: ParsePlatformList_def parse_platforms_Inr platform_entries_def Let_def)
  then show ?thesis by metis
qed

theorem ParsePlatformList_spec_witness:
  "ParsePlatformList (\<lambda>_. []) ''linux/arm64, local,'' PlatformTypeLocal = Inr [''linux/arm64'', ''local'']"
proof -
  have e: "platform_entries ''linux/arm64, local,'' = [''linux/arm64'', ''local'']" by code_simp
  have "\<forall>p \<in> set (platform_entries ''linux/arm64, local,'').
      p \<noteq> [] \<and> validatePlatformFormat (\<lambda>_. []) p = None"
    unfolding e by (simp add: validatePlatformFormat_def)
  with e ParsePlatformList_spec
    [of "\<lambda>_. []" "''linux/arm64, local,''" PlatformTypeLocal "[''linux/arm64'', ''local'']"]
  show ?thesis by simp
qed

section \<open>Numbers\<close>

lemma validateNonZeroPositiveNumber_Inr:
  "validateNonZeroPositiveNumber s = Inr n \<longleftrightarrow> Atoi s = Inr n \<and> 1 \<le> n"
  by (auto simp: validateNonZeroPositiveNumber_def split: sum.splits)

lemma validateNonZeroPositiveNumberWithMax_Inr:
  "validateNonZeroPositiveNumberWithMax s m = Inr n \<longleftrightarrow> Atoi s = Inr n \<and> 1 \<le> n \<and> n \<le> m"
  by (auto simp: validateNonZeroPositiveNumberWithMax_def validateNonZeroPositiveNumber_def
      split: sum.splits if_splits)

lemma Atoi_fits: "Atoi s = Inr n \<Longrightarrow> fits 64 n"
  by (auto simp: Atoi_def dest: parse_int_fits)

text \<open>\<open>validateNonZeroPositiveNumberWithMax\<close> accepts the decimal form of a 64-bit integer
  exactly when it lies between 1 and the maximum, and returns that integer.\<close>

theorem validateNonZeroPositiveNumberWithMax_roundtrip:
  assumes "fits 64 n"
  shows "validateNonZeroPositiveNumberWithMax (Itoa n) m = Inr k \<longleftrightarrow> k = n \<and> 1 \<le> n \<and> n \<le> m"
  using assms by (auto simp: validateNonZeroPositiveNumberWithMax_Inr Atoi_Itoa)

theorem validateNonZeroPositiveNumberWithMax_roundtrip_witness:
  "validateNonZeroPositiveNumberWithMax (Itoa 8) maxStaticConcurrency = Inr 8"
proof -
  have "fits 64 8" by (simp add: fits_def)
  from validateNonZeroPositiveNumberWithMax_roundtrip [OF this, of maxStaticConcurrency 8]
  show ?thesis by (simp add: maxStaticConcurrency_def)
qed

section \<open>Addresses\<close>

text \<open>\<open>ValidateIPFormat\<close> accepts the dotted-decimal form of every four octets, and among the
  strings without a colon or a percent sign it accepts nothing but four such fields.\<close>

theorem ValidateIPFormat_ipv4:
  "(a \<le> 255 \<and> b \<le> 255 \<and> c \<le> 255 \<and> d \<le> 255 \<longrightarrow> ValidateIPFormat (render_ipv4 a b c d) = None) \<and>
   (CHR '':'' \<notin> set s \<and> CHR ''%'' \<notin> set s \<longrightarrow>
     (ValidateIPFormat s = None) =
       (length (Split (CHR ''.'') s) = 4 \<and> list_all ipv4_field (Split (CHR ''.'') s)))"
  by (auto simp: ValidateIPFormat_def ParseIP_render ParseIP_no_colon parseIPv4_def Let_def)

theorem ValidateIPFormat_ipv4_witness:
  "ValidateIPFormat (render_ipv4 10 0 0 255) = None \<and> ValidateIPFormat ''10.0.0.256'' \<noteq> None"
proof -
  have "\<not> (length (Split (CHR ''.'') ''10.0.0.256'') = 4 \<and>
      list_all ipv4_field (Split (CHR ''.'') ''10.0.0.256''))" by code_simp
  moreover have "CHR '':'' \<notin> set ''10.0.0.256'' \<and> CHR ''%'' \<notin> set ''10.0.0.256''" by simp
  ultimately show ?thesis
    using ValidateIPFormat_ipv4 [of 10 0 0 255 "''10.0.0.256''"] by simp
qed

text \<open>Contrary to its documentation, which promises IPv4 only, \<open>ValidateIPFormat\<close> also accepts
  IPv6 addresses.\<close>

theorem ValidateIPFormat_accepts_ipv6:
  "ValidateIPFormat ''::1'' = None \<and> ValidateIPFormat ''2001:db8:0:0:0:0:2:1'' = None"
  by code_simp

section \<open>Instance tags\<close>

text \<open>The instance-type parts of a platform config name (\<open>os-part-...-platform\<close>) and of a tag
  (\<open>prefix-platform-part-...\<close>). A single empty part and no part at all print alike.\<close>

definition instance_parts :: "string list \<Rightarrow> string multiset" where
  "instance_parts ps = (if ps = [[]] then {#} else mset ps)"

definition tag_matches :: "string \<Rightarrow> string \<Rightarrow> bool" where
  "tag_matches key value \<longleftrightarrow>
     (let ks = Split (CHR ''-'') key; vs = Split (CHR ''-'') value
      in 2 \<le> length ks \<and> 2 \<le> length vs \<and> last ks = vs ! 1 \<and>
         instance_parts (butlast (tl ks)) = instance_parts (drop 2 vs))"

lemma dash_cases:
  obtains (none) "CHR ''-'' \<notin> set key"
  | (one) a b where "key = a @ CHR ''-'' # b" "CHR ''-'' \<notin> set a" "CHR ''-'' \<notin> set b"
  | (many) a m b where "key = a @ CHR ''-'' # m @ CHR ''-'' # b" "CHR ''-'' \<notin> set a" "CHR ''-'' \<notin> set b"
proof (cases "CHR ''-'' \<in> set key")
  case False
  then show ?thesis by (rule none)
next
  case True
  then obtain a r where ar: "key = a @ CHR ''-'' # r" "CHR ''-'' \<notin> set a"
    by (metis split_list_first)
  show ?thesis
  proof (cases "CHR ''-'' \<in> set r")
    case False
    with ar show ?thesis by (auto intro: one)
  next
    case True
    then obtain m b where "r = m @ CHR ''-'' # b" "CHR ''-'' \<notin> set b"
      by (metis split_list_last)
    with ar show ?thesis by (auto intro: many)
  qed
qed

lemma parseKey_Split:
  "parseDynamicHostInstanceTypeKey key = Inr (p, t) \<longleftrightarrow>
     (let ks = Split (CHR ''-'') key
      in 2 \<le> length ks \<and> p = last ks \<and> t = Join ''-'' (sort (butlast (tl ks))))"
proof (cases rule: dash_cases [of key])
  case none
  then show ?thesis
    by (simp add: parseDynamicHostInstanceTypeKey_def Let_def Split_absent Index_absent [THEN iffD2])
next
  case (one a b)
  then have "Split (CHR ''-'') key = [a, b]" by (simp add: Split_append_sep Split_absent)
  moreover have "Index key (CHR ''-'') = int (length a)" "LastIndex key (CHR ''-'') = int (length a)"
    using one by (simp_all add: Index_first LastIndex_last)
  ultimately show ?thesis
    using one by (auto simp: parseDynamicHostInstanceTypeKey_def Let_def slice_from_def nat_add_distrib)
next
  case (many a m b)
  have ks: "Split (CHR ''-'') key = a # Split (CHR ''-'') m @ [b]"
    using many by (simp add: Split_append_sep Split_snoc)
  have i: "Index key (CHR ''-'') = int (length a)" using many by (simp add: Index_first)
  have l: "LastIndex key (CHR ''-'') = int (length a + 1 + length m)"
    using many LastIndex_last [of "CHR ''-''" b "a @ CHR ''-'' # m"] by simp
  have sl: "slice key (Index key (CHR ''-'') + 1) (LastIndex key (CHR ''-'')) = m"
    unfolding i l using many by (simp add: slice_def nat_add_distrib)
  have sf: "slice_from key (LastIndex key (CHR ''-'') + 1) = b"
    unfolding l using many by (simp add: slice_from_def nat_add_distrib)
  have ne: "Index key (CHR ''-'') \<noteq> -1" "LastIndex key (CHR ''-'') \<noteq> -1"
      "Index key (CHR ''-'') \<noteq> LastIndex key (CHR ''-'')"
    by (simp_all add: i l)
  have j: "length (Split (CHR ''-'') m) \<le> 1 \<Longrightarrow> Join ''-'' (sort (Split (CHR ''-'') m)) = m"
    using Join_Split [of "CHR ''-''" m]
    by (cases "Split (CHR ''-'') m") auto
  show ?thesis
    using j by (auto simp: parseDynamicHostInstanceTypeKey_def Let_def ne sl sf ks)
qed

lemma parseValue_Split:
  "parseDynamicHostInstanceTypeValue value = Inr (p, t) \<longleftrightarrow>
     (let vs = Split (CHR ''-'') value
      in 2 \<le> length vs \<and> p = vs ! 1 \<and> t = Join ''-'' (sort (drop 2 vs)))"
proof -
  have s: "sort xs = xs" if "length xs \<le> 1" for xs :: "string list"
    using that by (cases xs) auto
  have d: "length xs = 2 \<Longrightarrow> drop 2 xs = []" for xs :: "string list" by simp
  show ?thesis
    by (auto simp: parseDynamicHostInstanceTypeValue_def Let_def d s)
qed

lemma Join_sort_eq:
  assumes "\<And>x. x \<in> set xs \<Longrightarrow> CHR ''-'' \<notin> set x" and "\<And>y. y \<in> set ys \<Longrightarrow> CHR ''-'' \<notin> set y"
  shows "Join ''-'' (sort xs) = Join ''-'' (sort ys) \<longleftrightarrow> instance_parts xs = instance_parts ys"
proof -
  have empty: "Join ''-'' zs = [] \<longleftrightarrow> zs = [] \<or> zs = [[]]" for zs
    by (cases "(''-'', zs)" rule: Join.cases) auto
  have sort_single: "sort zs = [[]] \<longleftrightarrow> zs = [[]]" for zs :: "string list"
    by (metis mset_sort mset_single_iff mset_single_iff_right mset.simps)
  have sort_Nil: "sort zs = [] \<longleftrightarrow> zs = []" for zs :: "string list"
    by (metis set_empty set_sort)
  have inj: "Join ''-'' (sort xs) = Join ''-'' (sort ys) \<Longrightarrow> xs \<noteq> [] \<Longrightarrow> ys \<noteq> [] \<Longrightarrow> sort xs = sort ys"
    using assms by (intro Join_inj [of "CHR ''-''"]) (auto simp: set_empty [symmetric] simp del: set_empty)
  have ms: "sort xs = sort ys \<longleftrightarrow> mset xs = mset ys"
    by (metis mset_sort properties_for_sort sorted_sort)
  show ?thesis
  proof (cases "xs = [] \<or> ys = []")
    case True
    then show ?thesis
      using empty [of "sort xs"] empty [of "sort ys"] sort_single [of xs] sort_single [of ys]
      by (auto simp: instance_parts_def sort_Nil)
  next
    case False
    then show ?thesis
      using inj ms by (auto simp: instance_parts_def)
  qed
qed

lemma Split_parts_no_dash:
  "x \<in> set (butlast (tl (Split c s))) \<Longrightarrow> c \<notin> set x" "x \<in> set (drop n (Split c s)) \<Longrightarrow> c \<notin> set x"
  using Split_no_sep [of x c s] by (auto dest!: in_set_butlastD in_set_dropD list.set_sel(2) [rotated])

lemma validateDynamicInstanceTag_iff:
  "validateDynamicInstanceTag key value = None \<longleftrightarrow>
     tag_matches key value \<and>
     (last (Split (CHR ''-'') key) = ''ppc64le'' \<longrightarrow> length value \<le> 29) \<and>
     (last (Split (CHR ''-'') key) = ''s390x'' \<longrightarrow> length value \<le> 45)"
proof -
  let ?ks = "Split (CHR ''-'') key" and ?vs = "Split (CHR ''-'') value"
  have eq: "Join ''-'' (sort (butlast (tl ?ks))) = Join ''-'' (sort (drop 2 ?vs)) \<longleftrightarrow>
      instance_parts (butlast (tl ?ks)) = instance_parts (drop 2 ?vs)"
    by (rule Join_sort_eq) (erule Split_parts_no_dash)+
  show ?thesis
  proof (cases "2 \<le> length ?ks \<and> 2 \<le> length ?vs")
    case True
    then have "parseDynamicHostInstanceTypeKey key = Inr (last ?ks, Join ''-'' (sort (butlast (tl ?ks))))"
      and "parseDynamicHostInstanceTypeValue value = Inr (?vs ! 1, Join ''-'' (sort (drop 2 ?vs)))"
      by (simp_all add: parseKey_Split parseValue_Split Let_def)
    with True eq show ?thesis
      by (auto simp: validateDynamicInstanceTag_def tag_matches_def Let_def
          maxInstanceTagLengthPPC_def maxInstanceTagLengthS390x_def)
  next
    case False
    have "(\<exists>e. parseDynamicHostInstanceTypeKey key = Inl e) \<or>
        (\<exists>e. parseDynamicHostInstanceTypeValue value = Inl e)"
      using False parseKey_Split [of key] parseValue_Split [of "value"]
      by (metis old.sum.exhaust surj_pair)
    with False show ?thesis
      by (auto simp: validateDynamicInstanceTag_def tag_matches_def Let_def split: sum.splits)
  qed
qed

text \<open>\<open>validateDynamicInstanceTag\<close> accepts a tag exactly when it names the platform of the
  config name, carries the same instance-type parts (in any order), and is short enough for the
  IBM platforms.\<close>

theorem validateDynamicInstanceTag_spec:
  "validateDynamicInstanceTag key value = None \<longleftrightarrow>
     tag_matches key value \<and>
     (last (Split (CHR ''-'') key) = ''ppc64le'' \<longrightarrow> length value \<le> 29) \<and>
     (last (Split (CHR ''-'') key) = ''s390x'' \<longrightarrow> length value \<le> 45)"
  by (rule validateDynamicInstanceTag_iff)

theorem validateDynamicInstanceTag_spec_witness:
  "validateDynamicInstanceTag ''linux-d160-m4xlarge-arm64'' ''prod-arm64-m4xlarge-d160'' = None"
proof -
  have "tag_matches ''linux-d160-m4xlarge-arm64'' ''prod-arm64-m4xlarge-d160''"
    by (simp add: tag_matches_def instance_parts_def)
  moreover have "last (Split (CHR ''-'') ''linux-d160-m4xlarge-arm64'') = ''arm64''" by simp
  ultimately show ?thesis
    using validateDynamicInstanceTag_spec [of "''linux-d160-m4xlarge-arm64''" "''prod-arm64-m4xlarge-d160''"]
    by simp
qed

section \<open>Parsed configurations\<close>

text \<open>What the controller relies on: a provider it knows, at least one instance, positive timeouts
  that fit 64 bits, a secret, and a tag that was checked against the platform name.\<close>

definition provider_types :: "string list" where
  "provider_types = [''aws'', ''ibmz'', ''ibmp'']"

definition tag_ok :: "string \<Rightarrow> string \<Rightarrow> bool" where
  "tag_ok platform tag \<longleftrightarrow>
     tag = [] \<or> validateDynamicInstanceTag (ReplaceAll (CHR ''/'') (CHR ''-'') platform) tag = None"

definition secret_ok :: "string \<Rightarrow> string \<Rightarrow> string \<Rightarrow> bool" where
  "secret_ok ty platform secret \<longleftrightarrow>
     secret \<noteq> [] \<and> TrimSpace secret = secret \<and>
     (ty \<in> {''ibmz'', ''ibmp''} \<longrightarrow> validateIBMHostSecret platform secret = None)"

definition wf_dynamic :: "string \<Rightarrow> DynamicPlatformConfig \<Rightarrow> bool" where
  "wf_dynamic platform c \<longleftrightarrow>
     dc_Type c \<in> set provider_types \<and>
     1 \<le> dc_MaxInstances c \<and> fits 64 (dc_MaxInstances c) \<and>
     1 \<le> dc_AllocationTimeout c \<and> fits 64 (dc_AllocationTimeout c) \<and>
     1 \<le> dc_CheckInterval c \<and> fits 64 (dc_CheckInterval c) \<and>
     tag_ok platform (dc_InstanceTag c) \<and> secret_ok (dc_Type c) platform (dc_SSHSecret c)"

definition wf_pool :: "string \<Rightarrow> DynamicPoolPlatformConfig \<Rightarrow> bool" where
  "wf_pool platform c \<longleftrightarrow>
     pc_Type c \<in> set provider_types \<and>
     1 \<le> pc_MaxInstances c \<and> fits 64 (pc_MaxInstances c) \<and>
     1 \<le> pc_Concurrency c \<and> pc_Concurrency c \<le> 8 \<and>
     1 \<le> pc_MaxAge c \<and> pc_MaxAge c \<le> 1440 \<and>
     tag_ok platform (pc_InstanceTag c) \<and> secret_ok (pc_Type c) platform (pc_SSHSecret c)"

lemma maxInstances_Inr:
  "parseDynamicRequiredMaxInstancesField data pre p t = Inr n \<Longrightarrow> 1 \<le> n \<and> fits 64 n"
  by (auto simp: parseDynamicRequiredMaxInstancesField_def Let_def validateNonZeroPositiveNumber_Inr
      dest: Atoi_fits split: if_splits sum.splits)

lemma instanceTag_Inr:
  "parseDynamicOptionalInstanceTagField data pre name p t = Inr tag \<Longrightarrow>
     tag = [] \<or> validateDynamicInstanceTag name tag = None"
  by (auto simp: parseDynamicOptionalInstanceTagField_def Let_def split: if_splits option.splits)

lemma sshSecret_Inr:
  "parseRequiredSSHSecretField data pre p t ty = Inr secret \<Longrightarrow>
     ty \<in> set provider_types \<and> secret_ok ty p secret"
  by (auto simp: parseRequiredSSHSecretField_def Let_def provider_types_def secret_ok_def TrimSpace_idem
      split: if_splits option.splits)

lemma optional_positive_Inr:
  "optional_positive data pre f p d = Inr n \<Longrightarrow> 1 \<le> d \<Longrightarrow> fits 64 d \<Longrightarrow> 1 \<le> n \<and> fits 64 n"
  by (auto simp: optional_positive_def Let_def validateNonZeroPositiveNumber_Inr
      dest: Atoi_fits split: if_splits sum.splits)

lemma required_bounded_Inr:
  "required_bounded data pre f p m = Inr n \<Longrightarrow> 1 \<le> n \<and> n \<le> m"
  by (auto simp: required_bounded_def Let_def validateNonZeroPositiveNumberWithMax_Inr
      split: if_splits sum.splits)

lemma defaults_ok: "1 \<le> defaultAllocationTimeout" "fits 64 defaultAllocationTimeout"
    "1 \<le> defaultCheckInterval" "fits 64 defaultCheckInterval"
  by (simp_all add: defaultAllocationTimeout_def defaultCheckInterval_def fits_def)

lemma ParseDynamicPlatformConfig_wf:
  "ParseDynamicPlatformConfig data platform = Inr c \<Longrightarrow> wf_dynamic platform c"
  by (auto simp: ParseDynamicPlatformConfig_def Let_def ebind_Inr wf_dynamic_def tag_ok_def
      dest!: maxInstances_Inr instanceTag_Inr sshSecret_Inr optional_positive_Inr
      simp: defaults_ok)

lemma ParseDynamicPoolPlatformConfig_wf:
  "ParseDynamicPoolPlatformConfig data platform = Inr c \<Longrightarrow> wf_pool platform c"
  by (auto simp: ParseDynamicPoolPlatformConfig_def Let_def ebind_Inr wf_pool_def tag_ok_def
      maxStaticConcurrency_def maxPoolHostAge_def
      dest!: maxInstances_Inr instanceTag_Inr sshSecret_Inr required_bounded_Inr)

text \<open>A small configuration used by the witnesses.\<close>

definition sample_data :: gomap where
  "sample_data =
     [(''dynamic.linux-arm64.type'', ''aws''), (''dynamic.linux-arm64.max-instances'', ''4''),
      (''dynamic.linux-arm64.concurrency'', ''2''), (''dynamic.linux-arm64.max-age'', ''60''),
      (''dynamic.linux-arm64.instance-tag'', ''prod-arm64''),
      (''dynamic.linux-arm64.ssh-secret'', ''awskeys''),
      (''host.h1.address'', ''10.0.0.1''), (''host.h1.user'', ''root''),
      (''host.h1.platform'', ''linux/s390x''), (''host.h1.secret'', ''key-s390x''),
      (''host.h1.concurrency'', ''4'')]"

text \<open>C21: every configuration that \<open>ParseDynamicPlatformConfig\<close> returns is well formed: a known
  cloud provider, a positive number of instances and positive timeouts within 64 bits, a validated
  instance tag and a non-blank SSH secret that matches the platform for the IBM providers.\<close>

theorem ParseDynamicPlatformConfig_well_formed:
  assumes "ParseDynamicPlatformConfig data platform = Inr c"
  shows "wf_dynamic platform c"
  using assms by (rule ParseDynamicPlatformConfig_wf)

theorem ParseDynamicPlatformConfig_well_formed_witness:
  "\<exists>c. ParseDynamicPlatformConfig sample_data ''linux/arm64'' = Inr c \<and>
     dc_MaxInstances c = 4 \<and> wf_dynamic ''linux/arm64'' c"
proof -
  let ?c = "\<lparr>dc_Type = ''aws'', dc_MaxInstances = 4, dc_InstanceTag = ''prod-arm64'',
    dc_AllocationTimeout = 600, dc_CheckInterval = 60, dc_SSHSecret = ''awskeys'', dc_SudoCommands = []\<rparr>"
  have "ParseDynamicPlatformConfig sample_data ''linux/arm64'' = Inr ?c" by code_simp
  from this ParseDynamicPlatformConfig_well_formed [OF this] show ?thesis by auto
qed

text \<open>C22: every configuration that \<open>ParseDynamicPoolPlatformConfig\<close> returns has a concurrency
  between 1 and 8, an age limit between 1 and 1440 minutes (so that the duration the pool computes
  from it does not overflow 64 bits), a known provider and a positive number of instances.\<close>

theorem ParseDynamicPoolPlatformConfig_well_formed:
  assumes "ParseDynamicPoolPlatformConfig data platform = Inr c"
  shows "wf_pool platform c \<and> fits 64 (Minute * pc_MaxAge c)"
  using ParseDynamicPoolPlatformConfig_wf [OF assms]
  by (auto simp: wf_pool_def fits_def Minute_def Second_def)

theorem ParseDynamicPoolPlatformConfig_well_formed_witness:
  "\<exists>c. ParseDynamicPoolPlatformConfig sample_data ''linux/arm64'' = Inr c \<and> pc_Concurrency c = 2 \<and>
     wf_pool ''linux/arm64'' c \<and> fits 64 (Minute * pc_MaxAge c)"
proof -
  let ?c = "\<lparr>pc_Type = ''aws'', pc_MaxInstances = 4, pc_Concurrency = 2, pc_MaxAge = 60,
    pc_InstanceTag = ''prod-arm64'', pc_SSHSecret = ''awskeys''\<rparr>"
  have "ParseDynamicPoolPlatformConfig sample_data ''linux/arm64'' = Inr ?c" by code_simp
  from this ParseDynamicPoolPlatformConfig_well_formed [OF this] show ?thesis by auto
qed

text \<open>A static host: a valid address; a valid platform or none; a concurrency that is either the
  default 0 (the host is then never selected) or between 1 and 8; an IBM secret that matches.\<close>

definition wf_static :: "(string \<Rightarrow> string list) \<Rightarrow> StaticHostConfig \<Rightarrow> bool" where
  "wf_static dns c \<longleftrightarrow>
     hc_Address c \<noteq> [] \<and> ValidateIPFormat (hc_Address c) = None \<and>
     (hc_Platform c = [] \<or> validatePlatformFormat dns (hc_Platform c) = None) \<and>
     0 \<le> hc_Concurrency c \<and> hc_Concurrency c \<le> 8 \<and>
     (hc_Secret c \<noteq> [] \<and> (sublist ''s390x'' (hc_Platform c) \<or> sublist ''ppc64le'' (hc_Platform c))
        \<longrightarrow> validateIBMHostSecret (hc_Platform c) (hc_Secret c) = None)"

lemma parse_concurrency_Inr: "parse_concurrency data h = Inr n \<Longrightarrow> 0 \<le> n \<and> n \<le> 8"
  by (auto simp: parse_concurrency_def Let_def validateNonZeroPositiveNumberWithMax_Inr
      defaultStaticHostsConcurrency_def maxStaticConcurrency_def split: if_splits sum.splits)

lemma parse_address_Inr: "parse_address data h = Inr a \<Longrightarrow> a \<noteq> [] \<Longrightarrow> ValidateIPFormat a = None"
  by (auto simp: parse_address_def Let_def split: if_splits option.splits)

lemma parse_platform_Inr:
  "parse_platform dns data h = Inr p \<Longrightarrow> p = [] \<or> validatePlatformFormat dns p = None"
  by (auto simp: parse_platform_def Let_def split: if_splits option.splits)

lemma parse_secret_Inr:
  "parse_secret data h p = Inr s \<Longrightarrow> s \<noteq> [] \<Longrightarrow> sublist ''s390x'' p \<or> sublist ''ppc64le'' p \<Longrightarrow>
     validateIBMHostSecret p s = None"
  by (auto simp: parse_secret_def Let_def split: if_splits option.splits)

text \<open>Every host that \<open>ParseStaticHostConfig\<close> returns has a valid address, a valid or empty
  platform, a concurrency between 0 and 8, and a secret that matches its platform if that is an
  IBM platform.\<close>

theorem ParseStaticHostConfig_well_formed:
  assumes "ParseStaticHostConfig dns data hostName = Inr c"
  shows "wf_static dns c"
proof -
  from assms obtain a p s n where
      "parse_address data hostName = Inr a" "parse_platform dns data hostName = Inr p"
      "parse_secret data hostName p = Inr s" "parse_concurrency data hostName = Inr n" "a \<noteq> []"
      "hc_Address c = a" "hc_Platform c = p" "hc_Secret c = s" "hc_Concurrency c = n"
    by (auto simp: ParseStaticHostConfig_def ebind_Inr split: if_splits)
  then show ?thesis
    using parse_concurrency_Inr parse_address_Inr parse_platform_Inr parse_secret_Inr
    unfolding wf_static_def by metis
qed

theorem ParseStaticHostConfig_well_formed_witness:
  "\<exists>c. ParseStaticHostConfig (\<lambda>_. []) sample_data ''h1'' = Inr c \<and> hc_Concurrency c = 4 \<and>
     wf_static (\<lambda>_. []) c"
proof -
  let ?c = "\<lparr>hc_Address = ''10.0.0.1'', hc_User = ''root'', hc_Platform = ''linux/s390x'',
    hc_Secret = ''key-s390x'', hc_Concurrency = 4\<rparr>"
  have "ParseStaticHostConfig (\<lambda>_. []) sample_data ''h1'' = Inr ?c" by code_simp
  from this ParseStaticHostConfig_well_formed [OF this] show ?thesis by auto
qed

end
