(* ===== verification/Platforms.thy ===== *)
theory Platforms
  imports DynamicPool Config_Props
begin

text \<open>
  The resolution of a platform's configuration in \<open>taskrun.go\<close>: \<open>getPlatformConfig\<close> with its cache,
  \<open>buildDynamicResolver\<close> and \<open>buildDynamicHostPool\<close>.
\<close>

section \<open>Building a platform\<close>

text \<open>The two values, from the parsed configuration and the provider's constructor; the instance tag of
  the platform, or the default one if it has none.\<close>

definition instanceTagOr :: "string \<Rightarrow> gomap \<Rightarrow> string" where
  "instanceTagOr tag data = (if tag = [] then lk data DefaultInstanceTag else tag)"

definition newDynamicResolver :: "env \<Rightarrow> (string \<Rightarrow> gomap \<Rightarrow> string \<Rightarrow> CloudProvider) \<Rightarrow> DynamicPlatformConfig \<Rightarrow>
    string \<Rightarrow> string \<Rightarrow> gomap \<Rightarrow> gomap \<Rightarrow> DynamicResolver" where
  "newDynamicResolver E allocfunc dynamicConfig platform platformConfigName additionalInstanceTags data =
     \<lparr>dr_CloudProvider = allocfunc platformConfigName data (operatorNamespace (lib E)),
      dr_sshSecret = dc_SSHSecret dynamicConfig, dr_platform = platform,
      dr_maxInstances = dc_MaxInstances dynamicConfig,
      dr_instanceTag = instanceTagOr (dc_InstanceTag dynamicConfig) data,
      dr_timeout = dc_AllocationTimeout dynamicConfig, dr_checkInterval = dc_CheckInterval dynamicConfig,
      dr_sudoCommands = dc_SudoCommands dynamicConfig, dr_additionalInstanceTags = additionalInstanceTags\<rparr>"

definition newDynamicHostPool :: "env \<Rightarrow> (string \<Rightarrow> gomap \<Rightarrow> string \<Rightarrow> CloudProvider) \<Rightarrow> DynamicPoolPlatformConfig \<Rightarrow>
    string \<Rightarrow> string \<Rightarrow> gomap \<Rightarrow> gomap \<Rightarrow> DynamicHostPool" where
  "newDynamicHostPool E allocfunc poolConfig platform platformConfigName additionalInstanceTags data =
     \<lparr>dp_cloudProvider = allocfunc platformConfigName data (operatorNamespace (lib E)),
      dp_sshSecret = pc_SSHSecret poolConfig, dp_platform = platform,
      dp_maxInstances = pc_MaxInstances poolConfig, dp_concurrency = pc_Concurrency poolConfig,
      dp_maxAge = i64 (Minute * pc_MaxAge poolConfig),
      dp_instanceTag = instanceTagOr (pc_InstanceTag poolConfig) data,
      dp_additionalInstanceTags = additionalInstanceTags\<rparr>"

text \<open>Calling the constructor of a provider that is not registered is a call of a nil function.\<close>

definition buildDynamicResolver ::
  "env \<Rightarrow> DynamicPlatformConfig \<Rightarrow> string \<Rightarrow> string \<Rightarrow> gomap \<Rightarrow> gomap \<Rightarrow> (goerror + DynamicResolver) M" where
  "buildDynamicResolver E dynamicConfig platform platformConfigName additionalInstanceTags data =
     must (cloudProviders E (dc_Type dynamicConfig)) (\<lambda>allocfunc.
       let r = newDynamicResolver E allocfunc dynamicConfig platform platformConfigName additionalInstanceTags data
       in bnd (RegisterPlatformMetrics E platform (dc_MaxInstances dynamicConfig)) (\<lambda>err. case err of
            Some e \<Rightarrow> ret (Inl e)
          | None \<Rightarrow> ret (Inr r)))"

definition buildDynamicHostPool ::
  "env \<Rightarrow> DynamicPoolPlatformConfig \<Rightarrow> string \<Rightarrow> string \<Rightarrow> gomap \<Rightarrow> gomap \<Rightarrow> (goerror + DynamicHostPool) M" where
  "buildDynamicHostPool E poolConfig platform platformConfigName additionalInstanceTags data =
     must (cloudProviders E (pc_Type poolConfig)) (\<lambda>allocfunc.
       let a = newDynamicHostPool E allocfunc poolConfig platform platformConfigName additionalInstanceTags data
       in bnd (RegisterPlatformMetrics E platform (pc_MaxInstances poolConfig)) (\<lambda>err. case err of
            Some e \<Rightarrow> ret (Inl e)
          | None \<Rightarrow> ret (Inr a)))"

section \<open>The cached resolution\<close>

text \<open>\<open>additional-instance-tags\<close>: a list of \<open>key=value\<close> pairs; an entry without \<open>=\<close> is skipped.\<close>

definition parseAdditionalTags :: "gomap \<Rightarrow> gomap" where
  "parseAdditionalTags data =
     (case map_of data AdditionalInstanceTags of
        None \<Rightarrow> []
      | Some val \<Rightarrow> foldl (\<lambda>tags tag.
          let parts = Split (CHR ''='') tag
          in if length parts \<ge> 2 then mput (parts ! 0) (parts ! 1) tags else tags) [] (Split (CHR '','') val))"

text \<open>The names of the static hosts: the part of a key \<open>host.<name>.<field>\<close> up to the last dot.\<close>

definition hostNameOfKey :: "string \<Rightarrow> string option" where
  "hostNameOfKey key =
     (if \<not> prefix ''host.'' key then None
      else let k = drop 5 key;
               pos = LastIndex k (CHR ''.'')
        in if pos = - 1 then None else Some (slice k 0 pos))"

definition hostNames :: "gomap \<Rightarrow> string list" where
  "hostNames data = remdups (List.map_filter (hostNameOfKey \<circ> fst) data)"

fun collectHosts :: "(string \<Rightarrow> string list) \<Rightarrow> gomap \<Rightarrow> string \<Rightarrow> string list \<Rightarrow> (string \<times> Host) list
    \<Rightarrow> goerror + (string \<times> Host) list" where
  "collectHosts dns data targetPlatform [] hosts = Inr hosts"
| "collectHosts dns data targetPlatform (hostName # names) hosts =
     (case ParseStaticHostConfig dns data hostName of
        Inl e \<Rightarrow> Inl (ErrWrap (''failed to parse static host '' @ sq hostName @ '': '') e [])
      | Inr c \<Rightarrow>
          if hc_Platform c = targetPlatform
          then collectHosts dns data targetPlatform names (hput hostName
                 \<lparr>h_Address = hc_Address c, h_Name = hostName, h_User = hc_User c, h_Concurrency = hc_Concurrency c,
                  h_Platform = hc_Platform c, h_Secret = hc_Secret c, h_StartTime = None\<rparr> hosts)
          else collectHosts dns data targetPlatform names hosts)"

definition cachePlatform :: "string \<Rightarrow> PlatformConfig \<Rightarrow> unit M" where
  "cachePlatform p c = modify (\<lambda>w. w\<lparr>platformConfig := (platformConfig w)(p \<mapsto> c)\<rparr>)"

text \<open>The part of \<open>getPlatformConfig\<close> for a platform that is not in the cache.\<close>

definition resolvePlatform :: "env \<Rightarrow> gomap \<Rightarrow> string \<Rightarrow> (goerror + PlatformConfig) M" where
  "resolvePlatform E data targetPlatform =
     (let dns = l_dns (lib E);
          additionalInstanceTags = parseAdditionalTags data;
          platformConfigName = ReplaceAll (CHR ''/'') (CHR ''-'') targetPlatform
      in case ParsePlatformList dns (lk data LocalPlatforms) PlatformTypeLocal of
           Inl e \<Rightarrow> ret (Inl (ErrWrap ''could not parse local platforms: '' e []))
         | Inr localPlatforms \<Rightarrow>
      if targetPlatform \<in> set localPlatforms then ret (Inr PLocal)
      else case ParsePlatformList dns (lk data DynamicPlatforms) PlatformTypeDynamic of
           Inl e \<Rightarrow> ret (Inl (ErrWrap ''could not parse dynamic platforms: '' e []))
         | Inr dynamicPlatforms \<Rightarrow>
      if targetPlatform \<in> set dynamicPlatforms
      then (case ParseDynamicPlatformConfig data targetPlatform of
              Inl e \<Rightarrow> ret (Inl e)
            | Inr c \<Rightarrow> bnd (buildDynamicResolver E c targetPlatform platformConfigName additionalInstanceTags data) (\<lambda>r. case r of
                Inl e \<Rightarrow> ret (Inl e)
              | Inr p \<Rightarrow> bnd (cachePlatform targetPlatform (PDynamic p)) (\<lambda>_. ret (Inr (PDynamic p)))))
      else case ParsePlatformList dns (lk data DynamicPoolPlatforms) PlatformTypeDynamicPool of
           Inl e \<Rightarrow> ret (Inl (ErrWrap ''could not parse dynamic pool platforms: '' e []))
         | Inr dynamicPoolPlatforms \<Rightarrow>
      if targetPlatform \<in> set dynamicPoolPlatforms
      then (case ParseDynamicPoolPlatformConfig data targetPlatform of
              Inl e \<Rightarrow> ret (Inl e)
            | Inr c \<Rightarrow> bnd (buildDynamicHostPool E c targetPlatform platformConfigName additionalInstanceTags data) (\<lambda>r. case r of
                Inl e \<Rightarrow> ret (Inl e)
              | Inr p \<Rightarrow> bnd (cachePlatform targetPlatform (PDynamicPool p)) (\<lambda>_. ret (Inr (PDynamicPool p)))))
      else case collectHosts dns data targetPlatform (hostNames data) [] of
           Inl e \<Rightarrow> ret (Inl e)
         | Inr hosts \<Rightarrow>
             let p = PHostPool \<lparr>hp_hosts = hosts, hp_targetPlatform = targetPlatform\<rparr>;
                 platformCapacity = sum_list (map (h_Concurrency \<circ> snd) hosts)
             in bnd (cachePlatform targetPlatform p) (\<lambda>_.
                bnd (RegisterPlatformMetrics E targetPlatform platformCapacity) (\<lambda>err. case err of
                  Some e \<Rightarrow> ret (Inl e)
                | None \<Rightarrow> ret (Inr p))))"

definition getPlatformConfig :: "env \<Rightarrow> string \<Rightarrow> string \<Rightarrow> (goerror + PlatformConfig) M" where
  "getPlatformConfig E targetPlatform targetNamespace =
     bnd (GetConfigMap E (operatorNamespace (lib E), HostConfig)) (\<lambda>r. case r of
       Inl e \<Rightarrow> ret (Inl e)
     | Inr cm \<Rightarrow>
         bnd (modify (\<lambda>w. if configMapResourceVersion w \<noteq> cm_ResourceVersion cm
                then w\<lparr>configMapResourceVersion := cm_ResourceVersion cm, platformConfig := Map.empty\<rparr> else w)) (\<lambda>_.
         bnd (reads (\<lambda>w. platformConfig w targetPlatform)) (\<lambda>existing. case existing of
           Some p \<Rightarrow> ret (Inr p)
         | None \<Rightarrow> resolvePlatform E (cm_Data cm) targetPlatform)))"

section \<open>Resolution returns\<close>

lemma provider_known: "t \<in> set provider_types \<Longrightarrow> cloudProviders E t \<noteq> None"
  by (auto simp: provider_types_def cloudProviders_def)

text \<open>Specification: the platform that a configuration describes, without cache and metrics.\<close>

definition platform_of :: "env \<Rightarrow> gomap \<Rightarrow> string \<Rightarrow> goerror + PlatformConfig" where
  "platform_of E data p =
     (let dns = l_dns (lib E); tags = parseAdditionalTags data; nm = platformLabel p
      in ebind (map_sum (\<lambda>e. ErrWrap ''could not parse local platforms: '' e []) (\<lambda>x. x)
               (ParsePlatformList dns (lk data LocalPlatforms) PlatformTypeLocal)) (\<lambda>locals.
         if p \<in> set locals then Inr PLocal
         else ebind (map_sum (\<lambda>e. ErrWrap ''could not parse dynamic platforms: '' e []) (\<lambda>x. x)
                (ParsePlatformList dns (lk data DynamicPlatforms) PlatformTypeDynamic)) (\<lambda>dynamics.
         if p \<in> set dynamics
         then ebind (ParseDynamicPlatformConfig data p) (\<lambda>c.
                Inr (PDynamic (newDynamicResolver E (the (cloudProviders E (dc_Type c))) c p nm tags data)))
         else ebind (map_sum (\<lambda>e. ErrWrap ''could not parse dynamic pool platforms: '' e []) (\<lambda>x. x)
                (ParsePlatformList dns (lk data DynamicPoolPlatforms) PlatformTypeDynamicPool)) (\<lambda>pools.
         if p \<in> set pools
         then ebind (ParseDynamicPoolPlatformConfig data p) (\<lambda>c.
                Inr (PDynamicPool (newDynamicHostPool E (the (cloudProviders E (pc_Type c))) c p nm tags data)))
         else ebind (collectHosts dns data p (hostNames data) []) (\<lambda>hosts.
                Inr (PHostPool \<lparr>hp_hosts = hosts, hp_targetPlatform = p\<rparr>))))))"

lemma ebind_simps [simp]: "ebind (Inl e) f = Inl e" "ebind (Inr x) f = f x"
  by (simp_all add: ebind_def)

text \<open>What resolution does: its only events are registrations of metrics, of the cache it only changes
  the entry of the platform, and its result and what it caches are as specified.\<close>

definition registers :: "world \<Rightarrow> world \<Rightarrow> bool" where
  "registers w w' \<longleftrightarrow> (\<exists>es. hist w' = hist w @ es \<and> list_all (\<lambda>e. \<exists>m l x. e = EvRegister m l x) es)"

definition resolves :: "env \<Rightarrow> gomap \<Rightarrow> string \<Rightarrow> world \<Rightarrow> goerror + PlatformConfig \<Rightarrow> world \<Rightarrow> bool" where
  "resolves E data p w r w' \<longleftrightarrow>
     registers w w' \<and> configMapResourceVersion w' = configMapResourceVersion w \<and>
     (\<forall>q. q \<noteq> p \<longrightarrow> platformConfig w' q = platformConfig w q) \<and>
     (platformConfig w' p = platformConfig w p \<or> (\<exists>c. platformConfig w' p = Some c \<and> platform_of E data p = Inr c)) \<and>
     (\<forall>c. r = Inr c \<longrightarrow> platform_of E data p = Inr c)"

lemma wp_Register:
  "wp (RegisterPlatformMetrics E p n) (\<lambda>r w'. registers w w' \<and> same_cache w w') w"
proof -
  have "wp (RegisterPlatformMetrics E p n) (\<lambda>r w'. same_cache w w') w"
    by (rule wp_mono [OF wp_RegisterPlatformMetrics]) simp
  moreover have "emits (\<lambda>e. \<exists>m l x. e = EvRegister m l x) (RegisterPlatformMetrics E p n)"
    by (rule emits_RegisterPlatformMetrics) blast
  ultimately show ?thesis unfolding registers_def by (rule wp_emits)
qed

lemma wp_buildDynamicResolver:
  assumes "dc_Type c \<in> set provider_types"
  shows "wp (buildDynamicResolver E c p nm tags data) (\<lambda>r w'. registers w w' \<and> same_cache w w' \<and>
      (\<forall>x. r = Inr x \<longrightarrow> x = newDynamicResolver E (the (cloudProviders E (dc_Type c))) c p nm tags data)) w"
  using provider_known [OF assms, of E]
  by (auto simp: buildDynamicResolver_def Let_def wp split: option.split intro!: wp_mono [OF wp_Register])

lemma wp_buildDynamicHostPool:
  assumes "pc_Type c \<in> set provider_types"
  shows "wp (buildDynamicHostPool E c p nm tags data) (\<lambda>r w'. registers w w' \<and> same_cache w w' \<and>
      (\<forall>x. r = Inr x \<longrightarrow> x = newDynamicHostPool E (the (cloudProviders E (pc_Type c))) c p nm tags data)) w"
  using provider_known [OF assms, of E]
  by (auto simp: buildDynamicHostPool_def Let_def wp split: option.split intro!: wp_mono [OF wp_Register])

lemma registers_refl [simp]: "registers w w"
  by (simp add: registers_def)

lemma registers_cache [simp]:
  "registers (w\<lparr>platformConfig := x\<rparr>) w' = registers w w'"
  "registers w (w'\<lparr>platformConfig := x\<rparr>) = registers w w'"
  by (simp_all add: registers_def)

text \<open>Building a platform and putting it into the cache.\<close>

lemma wp_cache:
  assumes "wp m (\<lambda>r w'. registers w w' \<and> same_cache w w' \<and> (\<forall>x. r = Inr x \<longrightarrow> platform_of E data p = Inr (f x))) w"
  shows "wp (bnd m (\<lambda>r. case r of Inl e \<Rightarrow> ret (Inl e)
      | Inr x \<Rightarrow> bnd (cachePlatform p (f x)) (\<lambda>_. ret (Inr (f x))))) (resolves E data p w) w"
  unfolding wp
  by (rule wp_mono [OF assms]) (auto simp: wp cachePlatform_def resolves_def same_cache_def split: sum.split)

lemma resolves_ret:
  "r = platform_of E data p \<Longrightarrow> resolves E data p w r w"
  by (simp add: resolves_def)

lemma wp_dynamic:
  assumes "ParseDynamicPlatformConfig data p = Inr c"
    and "platform_of E data p = Inr (PDynamic (newDynamicResolver E (the (cloudProviders E (dc_Type c))) c p nm tags data))"
  shows "wp (bnd (buildDynamicResolver E c p nm tags data) (\<lambda>r. case r of Inl e \<Rightarrow> ret (Inl e)
      | Inr x \<Rightarrow> bnd (cachePlatform p (PDynamic x)) (\<lambda>_. ret (Inr (PDynamic x))))) (resolves E data p w) w"
proof -
  have "dc_Type c \<in> set provider_types" using ParseDynamicPlatformConfig_wf [OF assms(1)] by (simp add: wf_dynamic_def)
  with assms(2) show ?thesis by (intro wp_cache wp_mono [OF wp_buildDynamicResolver]) auto
qed

lemma wp_pool:
  assumes "ParseDynamicPoolPlatformConfig data p = Inr c"
    and "platform_of E data p = Inr (PDynamicPool (newDynamicHostPool E (the (cloudProviders E (pc_Type c))) c p nm tags data))"
  shows "wp (bnd (buildDynamicHostPool E c p nm tags data) (\<lambda>r. case r of Inl e \<Rightarrow> ret (Inl e)
      | Inr x \<Rightarrow> bnd (cachePlatform p (PDynamicPool x)) (\<lambda>_. ret (Inr (PDynamicPool x))))) (resolves E data p w) w"
proof -
  have "pc_Type c \<in> set provider_types" using ParseDynamicPoolPlatformConfig_wf [OF assms(1)] by (simp add: wf_pool_def)
  with assms(2) show ?thesis by (intro wp_cache wp_mono [OF wp_buildDynamicHostPool]) auto
qed

lemma wp_static:
  assumes "platform_of E data p = Inr c"
  shows "wp (bnd (cachePlatform p c) (\<lambda>_. bnd (RegisterPlatformMetrics E p n) (\<lambda>err. case err of
      Some e \<Rightarrow> ret (Inl e) | None \<Rightarrow> ret (Inr c)))) (resolves E data p w) w"
  using assms
  by (simp add: wp cachePlatform_def)
     (rule wp_mono [OF wp_Register], auto simp: wp resolves_def same_cache_def split: option.split)

lemma wp_splits:
  "(\<And>e. x = Inl e \<Longrightarrow> wp (f e) Q w) \<Longrightarrow> (\<And>v. x = Inr v \<Longrightarrow> wp (g v) Q w) \<Longrightarrow>
     wp (case x of Inl e \<Rightarrow> f e | Inr v \<Rightarrow> g v) Q w"
  "(b \<Longrightarrow> wp m Q w) \<Longrightarrow> (\<not> b \<Longrightarrow> wp n Q w) \<Longrightarrow> wp (if b then m else n) Q w"
  by (cases x; simp) simp

lemma wp_resolvePlatform: "wp (resolvePlatform E data p) (resolves E data p w) w"
  unfolding resolvePlatform_def Let_def
  by (rule wp_splits wp_dynamic wp_pool wp_static
      | (simp add: wp resolves_ret platform_of_def Let_def platformLabel_def; fail))+

section \<open>The cache is transparent\<close>

text \<open>A resource version identifies a content of the configuration map.\<close>

definition versions_documented :: "env \<Rightarrow> (string \<Rightarrow> gomap) \<Rightarrow> bool" where
  "versions_documented E content \<longleftrightarrow> content [] = [] \<and>
     (\<forall>h k cm. k_getConfigMap (kube E) h k = Inr cm \<longrightarrow> cm_Data cm = content (cm_ResourceVersion cm))"

text \<open>The invariant of the cache: every entry is the platform that the content of the recorded version
  describes.\<close>

definition cache_valid :: "env \<Rightarrow> (string \<Rightarrow> gomap) \<Rightarrow> world \<Rightarrow> bool" where
  "cache_valid E content w \<longleftrightarrow>
     (\<forall>p c. platformConfig w p = Some c \<longrightarrow> platform_of E (content (configMapResourceVersion w)) p = Inr c)"

lemma cache_valid_initial: "cache_valid E content initial"
  by (simp add: cache_valid_def initial_def)

lemma resolves_keeps_valid:
  assumes "resolves E data p w r w'" "cache_valid E content w" "data = content (configMapResourceVersion w)"
  shows "cache_valid E content w'"
  unfolding cache_valid_def
proof (intro allI impI)
  fix q c
  assume q: "platformConfig w' q = Some c"
  show "platform_of E (content (configMapResourceVersion w')) q = Inr c"
  proof (cases "platformConfig w' q = platformConfig w q")
    case True
    with q assms show ?thesis by (simp add: resolves_def cache_valid_def)
  next
    case False
    with assms(1) have "q = p" by (auto simp: resolves_def)
    with False q assms show ?thesis by (auto simp: resolves_def)
  qed
qed

lemma wp_getPlatformConfig:
  assumes "versions_documented E content" "cache_valid E content w"
  shows "wp (getPlatformConfig E p ns) (\<lambda>r w'. cache_valid E content w' \<and>
     (\<forall>c. r = Inr c \<longrightarrow> (\<exists>cm. k_getConfigMap (kube E) (hist w) (operatorNamespace (lib E), HostConfig) = Inr cm \<and>
        configMapResourceVersion w' = cm_ResourceVersion cm \<and> platform_of E (cm_Data cm) p = Inr c))) w"
proof (cases "k_getConfigMap (kube E) (hist w) (operatorNamespace (lib E), HostConfig)")
  case (Inl e)
  with assms show ?thesis
    by (auto simp: getPlatformConfig_def GetConfigMap_def wp cache_valid_def)
next
  case (Inr cm)
  have content: "cm_Data cm = content (cm_ResourceVersion cm)"
    using assms(1) Inr unfolding versions_documented_def by blast
  have res: "cache_valid E content w' \<and> configMapResourceVersion w' = cm_ResourceVersion cm \<and>
      (\<forall>c. r = Inr c \<longrightarrow> platform_of E (cm_Data cm) p = Inr c)"
    if "resolves E (cm_Data cm) p v r w'" "cache_valid E content v" "configMapResourceVersion v = cm_ResourceVersion cm" for r v w'
    using resolves_keeps_valid [OF that(1), of content] that content by (simp add: resolves_def)
  let ?Q = "\<lambda>r w'. cache_valid E content w' \<and>
     (\<forall>c. r = Inr c \<longrightarrow> configMapResourceVersion w' = cm_ResourceVersion cm \<and> platform_of E (cm_Data cm) p = Inr c)"
  define v0 where "v0 = w\<lparr>hist := hist w @ [EvGetConfigMap (operatorNamespace (lib E), HostConfig) (Inr cm)]\<rparr>"
  define v where "v = (if configMapResourceVersion v0 \<noteq> cm_ResourceVersion cm
    then v0\<lparr>configMapResourceVersion := cm_ResourceVersion cm, platformConfig := Map.empty\<rparr> else v0)"
  have v: "configMapResourceVersion v = cm_ResourceVersion cm" "cache_valid E content v"
    using assms(2) by (auto simp: v_def v0_def cache_valid_def)
  have "wp (case platformConfig v p of Some c \<Rightarrow> ret (Inr c) | None \<Rightarrow> resolvePlatform E (cm_Data cm) p) ?Q v"
  proof (cases "platformConfig v p")
    case None
    have "wp (resolvePlatform E (cm_Data cm) p) ?Q v"
      by (rule wp_mono [OF wp_resolvePlatform]) (use res v in blast)
    with None show ?thesis by simp
  next
    case (Some c)
    with v content show ?thesis by (simp add: wp cache_valid_def)
  qed
  then show ?thesis
    unfolding getPlatformConfig_def GetConfigMap_def wp Inr sum.case v0_def [symmetric] v_def [symmetric]
    by (rule wp_mono) auto
qed

end
