(* ===== verification/Reconcile.thy ===== *)
theory Reconcile
  imports Platforms
begin

text \<open>
  The reconciler of \<open>taskrun.go\<close>: \<open>Reconcile\<close> and the handlers it dispatches to. The order of the
  theory is that of the calls, so the entry point comes last.
\<close>

type_synonym recon = "Result \<times> goerror option"

section \<open>Waiting tasks\<close>

text \<open>The loop that looks for the oldest task: the first of the earliest ones.\<close>

fun oldestTask :: "TaskRun option \<Rightarrow> TaskRun list \<Rightarrow> TaskRun option" where
  "oldestTask oldest [] = oldest"
| "oldestTask oldest (tr # trs) =
     (case oldest of
        None \<Rightarrow> oldestTask (Some tr) trs
      | Some o' \<Rightarrow> if tr_CreationTimestamp tr < tr_CreationTimestamp o' then oldestTask (Some tr) trs
                  else oldestTask (Some o') trs)"

definition handleWaitingTasks :: "env \<Rightarrow> string \<Rightarrow> recon M" where
  "handleWaitingTasks E platform =
     bnd (List E (MatchingLabels [(WaitingForPlatformLabel, platformLabel platform)])) (\<lambda>r. case r of
       Inl e \<Rightarrow> ret (noRequeue, Some (ErrWrap ''failed to list waiting tasks: '' e []))
     | Inr items \<Rightarrow> (case oldestTask None items of
         None \<Rightarrow> ret (noRequeue, None)
       | Some oldest \<Rightarrow> must (setLabel FinishedWaitingLabel ''true'' oldest) (\<lambda>tr1.
           bnd (Update E tr1) (\<lambda>(err, tr2). case err of
             Some e \<Rightarrow> ret (noRequeue, Some (ErrWrap (''failed to update waiting task '' @ tr_Namespace tr2 @ ''/'' @ tr_Name tr2 @ '': '') e []))
           | None \<Rightarrow> ret (noRequeue, None)))))"

section \<open>User tasks\<close>

text \<open>An update of the metrics whose value is taken from the clock, which is read only if the platform
  has metrics.\<close>

definition HandleMetricsNow :: "env \<Rightarrow> string \<Rightarrow> (int \<Rightarrow> PlatformMetrics \<Rightarrow> PlatformMetrics) \<Rightarrow> unit M" where
  "HandleMetricsNow E platform f =
     bnd (reads (\<lambda>w. platformMetrics w (metricsPlatformLabel platform))) (\<lambda>pm. case pm of
       None \<Rightarrow> ret ()
     | Some _ \<Rightarrow> bnd (Now E) (\<lambda>now. HandleMetrics platform (f now)))"

definition handleHostAssigned :: "env \<Rightarrow> TaskRun \<Rightarrow> string \<Rightarrow> recon M" where
  "handleHostAssigned E tr secretName =
     (if tr_CompletionTime tr = None \<and> tr_DeletionTimestamp tr = None then ret (noRequeue, None)
      else case ExtractPlatform tr of
        Inl e \<Rightarrow> ret (noRequeue, Some (ErrWrap ''failed to extract platform: '' e []))
      | Inr platform \<Rightarrow> bnd (getPlatformConfig E platform (tr_Namespace tr)) (\<lambda>r. case r of
          Inl e \<Rightarrow> ret (noRequeue, Some (ErrWrap ''failed to read configuration: '' e []))
        | Inr pc \<Rightarrow>
            bnd (Deallocate (platform_impl E pc) tr secretName (label tr AssignedHost)) (\<lambda>(_, tr1).
            let tr2 = delLabel AssignedHost (snd (RemoveFinalizer E tr1 PipelineFinalizer))
            in bnd (UpdateTaskRunWithRetry E tr2) (\<lambda>(err, tr3). case err of
                 Some e \<Rightarrow> ret (noRequeue, Some (ErrWrap ''failed to update TaskRun: '' e []))
               | None \<Rightarrow>
                   bnd (Now E) (\<lambda>now.
                   bnd (HandleMetrics platform (observeTaskRunTime (of_int (now - tr_CreationTimestamp tr3) / of_int Second))) (\<lambda>_.
                   bnd (GetSecret E (tr_Namespace tr3, secretName)) (\<lambda>s.
                   case s of
                     Inl e \<Rightarrow> if IsNotFound e then bnd (handleWaitingTasks E platform) (\<lambda>(result, err). case err of
                                  Some _ \<Rightarrow> ret (noRequeue, None)
                                | None \<Rightarrow> ret (result, None))
                              else ret (noRequeue, Some (ErrWrap ''error checking secret: '' e []))
                   | Inr secret \<Rightarrow> bnd (DeleteSecret E secret) (\<lambda>_. bnd (handleWaitingTasks E platform) (\<lambda>(result, err). case err of
                                  Some _ \<Rightarrow> ret (noRequeue, None)
                                | None \<Rightarrow> ret (result, None)))))))))) "

text \<open>The start of the allocation: the annotation if it is a number, now otherwise.\<close>

definition allocationStart :: "TaskRun \<Rightarrow> int \<Rightarrow> int" where
  "allocationStart tr now =
     (if annotation tr AllocationStartTimeAnnotation \<noteq> []
      then (case ParseInt 64 (annotation tr AllocationStartTimeAnnotation) of Inl _ \<Rightarrow> Unix now | Inr t \<Rightarrow> t)
      else Unix now)"

definition handleHostAllocation :: "env \<Rightarrow> TaskRun \<Rightarrow> string \<Rightarrow> string \<Rightarrow> alloc M" where
  "handleHostAllocation E tr0 secretName targetPlatform =
     bnd (GetSecret E (tr_Namespace tr0, secretName)) (\<lambda>s. case s of
       Inr _ \<Rightarrow> ret (noRequeue, None, tr0)
     | Inl e \<Rightarrow> if \<not> IsNotFound e then ret (noRequeue, Some e, tr0)
       else bnd (getPlatformConfig E targetPlatform (tr_Namespace tr0)) (\<lambda>r. case r of
         Inl e \<Rightarrow> bnd (HandleMetrics targetPlatform incHostAllocationFailures) (\<lambda>_.
                   bnd (createErrorSecret E 502 tr0 targetPlatform secretName (''failed to read host config: '' @ Error e))
                     (\<lambda>(err, tr1). ret (noRequeue, err, tr1)))
       | Inr hosts \<Rightarrow>
           let tr = ensureAnnotations tr0;
               wasWaiting = label tr WaitingForPlatformLabel \<noteq> []
           in bnd (Now E) (\<lambda>now.
              let startTime = allocationStart tr now
              in bnd (Allocate (platform_impl E hosts) tr secretName) (\<lambda>(res, err, tr1). case err of
                   Some e \<Rightarrow> bnd (HandleMetrics targetPlatform incHostAllocationFailures) (\<lambda>_. ret (res, Some e, tr1))
                 | None \<Rightarrow>
                     let isWaiting = label tr1 WaitingForPlatformLabel \<noteq> []
                     in bnd (if label tr1 AssignedHost \<noteq> []
                             then HandleMetricsNow E targetPlatform (\<lambda>n. observeAllocationTime (of_int (i64 (Unix n - startTime))))
                             else ret ()) (\<lambda>_.
                        bnd (if wasWaiting \<and> \<not> isWaiting
                             then HandleMetricsNow E targetPlatform (\<lambda>n. observeWaitTime (of_int (i64 (Unix n - Unix (tr_CreationTimestamp tr1)))))
                             else ret ()) (\<lambda>_. ret (res, None, tr1)))))))"

definition handleUserTask :: "env \<Rightarrow> TaskRun \<Rightarrow> recon M" where
  "handleUserTask E tr =
     (let secretName = SecretPrefix @ tr_Name tr
      in if label tr AssignedHost \<noteq> [] then handleHostAssigned E tr secretName
         else if tr_CompletionTime tr \<noteq> None \<or> tr_DeletionTimestamp tr \<noteq> None
         then (if ContainsFinalizer E tr PipelineFinalizer then handleHostAssigned E tr secretName
               else ret (noRequeue, None))
         else (case ValidatePlatform (l_dns (lib E)) tr of
             Inl e \<Rightarrow> bnd (createErrorSecret E 451 tr ''[UNKNOWN]'' secretName (Error e)) (\<lambda>_. ret (noRequeue, None))
           | Inr targetPlatform \<Rightarrow>
               let tr1 = ensureLabels tr
               in must (if label tr1 TargetPlatformLabel = []
                        then setLabel TargetPlatformLabel (platformLabel targetPlatform) tr1 else Some tr1) (\<lambda>tr2.
                  bnd (handleHostAllocation E tr2 secretName targetPlatform) (\<lambda>(res, err, tr3). case err of
                    Some e \<Rightarrow>
                      if \<not> IsConflict e
                      then bnd (HandleMetrics targetPlatform incHostAllocationFailures) (\<lambda>_.
                           bnd (createErrorSecret E 472 tr3 targetPlatform secretName (''Error allocating host: '' @ Error e)) (\<lambda>_.
                             ret (res, Some e)))
                      else ret (res, Some e)
                  | None \<Rightarrow> ret (res, None)))))"

section \<open>Internal tasks\<close>

text \<open>\<open>completed.Add(time.Hour).Before(time.Now())\<close>, read from the clock unless the task succeeded.\<close>

definition retentionOver :: "env \<Rightarrow> bool \<Rightarrow> int \<Rightarrow> bool M" where
  "retentionOver E success completed =
     (if success then ret True else bnd (Now E) (\<lambda>now. ret (completed + Hour < now)))"

definition handleCleanTask :: "env \<Rightarrow> TaskRun \<Rightarrow> recon M" where
  "handleCleanTask E tr =
     (if \<not> IsZeroTime (tr_DeletionTimestamp tr) then ret (noRequeue, None)
      else case tr_CompletionTime tr of
        None \<Rightarrow> ret (noRequeue, None)
      | Some completed \<Rightarrow>
          bnd (if \<not> succeeded tr \<and> label tr TargetPlatformLabel \<noteq> []
               then HandleMetrics (label tr TargetPlatformLabel) incCleanupFailures else ret ()) (\<lambda>_.
          bnd (retentionOver E (succeeded tr) completed) (\<lambda>over.
            if over then bnd (Delete E tr) (\<lambda>err. ret (noRequeue, err))
            else ret (requeueIn Hour, None))))"

text \<open>The provisioning task failed: remember the host as failed in the user's task and unassign it.\<close>

definition failedHostsPlus :: "string \<Rightarrow> string \<Rightarrow> string" where
  "failedHostsPlus existing host =
     (let failed = Split (CHR '','') existing
      in Join '','' ((if hd failed = [] then [] else failed) @ [host]))"

definition provisionFailed :: "env \<Rightarrow> string \<Rightarrow> nsname \<Rightarrow> goerror option M" where
  "provisionFailed E host key =
     (if host = [] then ret None
      else bnd (Get E key) (\<lambda>r. case r of
        Inl _ \<Rightarrow> ret None
      | Inr userTr0 \<Rightarrow>
          let userTr = ensureAnnotations userTr0
          in must (setAnnotation FailedHosts (failedHostsPlus (annotation userTr FailedHosts) host) userTr) (\<lambda>tr1.
             bnd (UpdateTaskRunWithRetry E (delLabel AssignedHost tr1)) (\<lambda>(err, _). ret err))))"

text \<open>The provisioning task succeeded: there must be a secret; otherwise the user's task gets an error
  secret.\<close>

definition verifySecret :: "env \<Rightarrow> nsname \<Rightarrow> string \<Rightarrow> string \<Rightarrow> goerror option M" where
  "verifySecret E key secretName targetPlatform =
     bnd (GetSecret E (fst key, secretName)) (\<lambda>s. case s of
       Inr _ \<Rightarrow> ret None
     | Inl e \<Rightarrow> if IsNotFound e
         then bnd (Get E key) (\<lambda>r. case r of
           Inl e \<Rightarrow> if IsNotFound e then ret None else ret (Some e)
         | Inr userTr \<Rightarrow> bnd (createErrorSecret E 333 userTr targetPlatform secretName
             ''provision task failed to create a secret'') (\<lambda>(err, _). ret err))
         else ret (Some e))"

definition annotatePod :: "string \<Rightarrow> Pod \<Rightarrow> Pod" where
  "annotatePod host pod = pod\<lparr>pod_Annotations :=
     Some ((case pod_Annotations pod of None \<Rightarrow> Map.empty | Some m \<Rightarrow> m)(AssignedHost \<mapsto> host))\<rparr>"

definition bumpPods :: "env \<Rightarrow> nsname \<Rightarrow> string \<Rightarrow> unit M" where
  "bumpPods E key host =
     bnd (ListPods E (fst key)) (\<lambda>r. case r of
       Inl _ \<Rightarrow> ret ()
     | Inr pods \<Rightarrow> foreach (\<lambda>pod _.
         if snd key \<in> set (pod_OwnerReferences pod)
         then bnd (UpdatePod E (annotatePod host pod)) (\<lambda>_. ret ())
         else ret ()) pods ())"

definition secretParam :: "TaskRun \<Rightarrow> string" where
  "secretParam tr = (case tr_Params tr of None \<Rightarrow> []
     | Some ps \<Rightarrow> (case find (\<lambda>p. fst p = ''SECRET_NAME'') ps of None \<Rightarrow> [] | Some p \<Rightarrow> snd p))"

definition provisionMessage :: "string \<Rightarrow> nsname \<Rightarrow> string \<Rightarrow> string" where
  "provisionMessage host key outcome =
     ''provision task for host '' @ host @ '' for user task '' @ fst key @ ''/'' @ snd key @ '' '' @ outcome"

text \<open>The body for a task not processed yet.\<close>

definition processProvision :: "env \<Rightarrow> TaskRun \<Rightarrow> recon M" where
  "processProvision E tr =
     (let key = (label tr UserTaskNamespace, label tr UserTaskName);
          host = label tr AssignedHost;
          targetPlatform = label tr TargetPlatformLabel
      in bnd (if \<not> succeeded tr
              then bnd (HandleMetrics targetPlatform incProvisionFailures) (\<lambda>_.
                   bnd (Event tr ''Error'' ''ProvisioningFailed'' (provisionMessage host key ''failed'')) (\<lambda>_.
                     provisionFailed E host key))
              else bnd (Event tr ''Normal'' ''Provisioned'' (provisionMessage host key ''succeeded'')) (\<lambda>_.
                   bnd (verifySecret E key (secretParam tr) targetPlatform) (\<lambda>err. case err of
                     Some e \<Rightarrow> ret (Some e)
                   | None \<Rightarrow> bnd (bumpPods E key host) (\<lambda>_. ret None)))) (\<lambda>err. case err of
           Some e \<Rightarrow> ret (noRequeue, Some e)
         | None \<Rightarrow> bnd (UpdateTaskRunWithRetry E tr) (\<lambda>(err, _). case err of
             Some e \<Rightarrow> ret (noRequeue, Some e)
           | None \<Rightarrow> bnd (HandleMetrics targetPlatform incProvisionSuccesses) (\<lambda>_. ret (noRequeue, None)))))"

definition handleProvisionTask :: "env \<Rightarrow> TaskRun \<Rightarrow> recon M" where
  "handleProvisionTask E tr0 =
     (if \<not> IsZeroTime (tr_DeletionTimestamp tr0) then ret (noRequeue, None)
      else case tr_CompletionTime tr0 of
        None \<Rightarrow> ret (noRequeue, None)
      | Some completed \<Rightarrow>
          let tr = ensureAnnotations tr0
          in if annotation tr ProvisionTaskProcessed = ''true''
             then bnd (retentionOver E (succeeded tr) completed) (\<lambda>over.
                    if over then bnd (Delete E tr) (\<lambda>err. ret (noRequeue, err))
                    else ret (requeueIn Hour, None))
             else must (setAnnotation ProvisionTaskProcessed ''true'' tr) (processProvision E))"

section \<open>Dispatch\<close>

definition hasMultiPlatformSecret :: "string option list \<Rightarrow> bool" where
  "hasMultiPlatformSecret volumes \<longleftrightarrow>
     (\<exists>v \<in> set volumes. case v of None \<Rightarrow> False | Some s \<Rightarrow> prefix SecretPrefix s)"

definition isUserTask :: "TaskRun \<Rightarrow> bool" where
  "isUserTask tr \<longleftrightarrow> (case (tr_Params tr, tr_Volumes tr) of
       (Some ps, Some (Some volumes)) \<Rightarrow> hasMultiPlatformSecret volumes \<and> (\<exists>p \<in> set ps. fst p = PlatformParam)
     | _ \<Rightarrow> False)"

definition handleTaskRunReceived :: "env \<Rightarrow> TaskRun \<Rightarrow> recon M" where
  "handleTaskRunReceived E tr =
     (let taskType = label tr TaskTypeLabel
      in if taskType \<noteq> []
         then (if taskType = TaskTypeClean then handleCleanTask E tr
               else if taskType = TaskTypeProvision then handleProvisionTask E tr
               else ret (noRequeue, None))
         else if isUserTask tr then handleUserTask E tr
         else ret (noRequeue, None))"

definition Reconcile :: "env \<Rightarrow> nsname \<Rightarrow> recon M" where
  "Reconcile E req =
     bnd (ApiGet E req) (\<lambda>r. case r of
       Inl e \<Rightarrow> if IsNotFound e then ret (noRequeue, None)
                else ret (noRequeue, Some (ErrWrap ''failed to get a TaskRun: '' e []))
     | Inr tr \<Rightarrow> handleTaskRunReceived E tr)"

end
