(* ===== verification/Dynamic_Props.thy ===== *)
theory Dynamic_Props
  imports Dynamic Fixtures
begin

text \<open>
  Properties of the dynamic platform: capacity and bookkeeping of launches, the bound on failed
  launches, and the timeout of an allocation.
\<close>

section \<open>Launches\<close>

text \<open>C4: a dynamic platform starts a cloud instance for a task only if the task has no instance yet
  and no failed host, the provider's count of the platform's instances was taken in this call and is
  below the configured maximum; and an instance that was started is never forgotten: either the API
  server accepted an update that records its identifier in the TaskRun together with the finalizer,
  or it was handed to the provider for termination before the call returned.\<close>

theorem DynamicResolver_launches_within_capacity:
  assumes "documented E" "sdk_documented E" "tr_Labels tr \<noteq> None"
    and "resolver_Allocate E (provider E (dr_CloudProvider r)) r tr sn w = Some ((res, err, tr'), w')"
    and "hist w' = hist w @ es" "e \<in> set es" "starts_instance e"
  shows "annotation tr CloudInstanceId = [] \<and> annotation tr FailedHosts = [] \<and>
    (\<exists>c v v' u u' l. prefix (hist w) (hist v) \<and>
       CountInstances (provider E (dr_CloudProvider r)) (dr_instanceTag r) v = Some (Inr c, v') \<and> c < dr_maxInstances r \<and>
       prefix (hist v') (hist u) \<and>
       LaunchInstance (provider E (dr_CloudProvider r)) (taskRunIDOf tr) (dr_instanceTag r)
         (dr_additionalInstanceTags r) u = Some (l, u') \<and>
       prefix (hist u') (hist w') \<and>
       (\<forall>i. l = Inr i \<longrightarrow>
          (case err of
             None \<Rightarrow> \<exists>sent answer. last (hist w') = EvUpdate sent (Inr answer) \<and>
               annotation sent CloudInstanceId = i \<and> PipelineFinalizer \<in> set (tr_Finalizers sent)
           | Some _ \<Rightarrow> \<exists>v x. TerminateInstance (provider E (dr_CloudProvider r)) i v = Some (x, w'))))"
  using prov.launch_is_settled [OF assms] unfolding prov.settled_def .

text \<open>Example: an AWS account without instances, room for one.\<close>

definition freshInstance :: ec2_Instance where
  "freshInstance = \<lparr>ins_InstanceId = Some ''i-1'', ins_InstanceType = ''m6g'', ins_State = Some ''pending'',
     ins_LaunchTime = Some 0, ins_PublicDnsName = None, ins_PublicIpAddress = None, ins_PrivateIpAddress = None\<rparr>"

definition launchEnv :: env where
  "launchEnv = (with_kube (offline_kube\<lparr>k_update := (\<lambda>_ tr. Inr tr)\<rparr>))\<lparr>ec2 := offline_ec2\<lparr>
     a_describe := (\<lambda>_ _. Inr []), a_run := (\<lambda>_ _. Inr [freshInstance])\<rparr>,
     sys := offline_sys\<lparr>s_rand := (\<lambda>_ n. Inr (replicate n CHR ''a''))\<rparr>\<rparr>"

definition awsConf :: AWSEc2DynamicConfig where
  "awsConf = CreateEc2CloudConfig ''linux-arm64'' [] ''ns''"

definition awsPlatform :: DynamicResolver where
  "awsPlatform = \<lparr>dr_CloudProvider = AWS awsConf, dr_sshSecret = ''key'',
     dr_platform = ''linux/arm64'', dr_maxInstances = 1, dr_instanceTag = ''prod-arm64'', dr_timeout = 600,
     dr_checkInterval = 60, dr_sudoCommands = [], dr_additionalInstanceTags = []\<rparr>"

lemma launchEnv_documented: "documented launchEnv" "sdk_documented launchEnv"
proof -
  have l: "lib launchEnv = std_libs" by (simp add: launchEnv_def)
  show "documented launchEnv"
    unfolding documented_def using std_libs_documented [OF l] owner_std_libs [OF l]
    by (simp add: list_documented_def objects_documented_def launchEnv_def offline_kube_def)
  show "sdk_documented launchEnv"
    by (simp add: sdk_documented_def ec2_documented_def vpc_documented_def power_documented_def
        launchEnv_def with_kube_def fixture_defs freshInstance_def)
qed

lemma validID: "ValidateTaskRunID ''team:build'' = None" "Split (CHR '':'') ''team:build'' = [''team'', ''build'']"
  by code_simp+

lemma launchEnv_update:
  "wp (UpdateTaskRunWithRetry launchEnv tr) Q w = Q (None, tr) (w\<lparr>hist := hist w @ [EvUpdate tr (Inr tr)]\<rparr>)"
  by (simp add: UpdateTaskRunWithRetry_def Update_def UpdateObj_def wp launchEnv_def)

lemma launchEnv_client: "wp (getEC2Client launchEnv ec) Q w = Q None (w\<lparr>hist := hist w @ [EvAwsConfig ec None]\<rparr>)"
  by (simp add: getEC2Client_def wp launchEnv_def fixture_defs)

lemma launchEnv_launch:
  "wp (AWS_LaunchInstance launchEnv awsConf ''team:build'' tag tags) (\<lambda>r w'. r = Inr ''i-1'' \<and>
     (\<exists>e \<in> set (hist w'). starts_instance e)) w"
proof -
  have "\<exists>x. configureInstance awsConf ''build'' tag (mput TaskRunTagKey ''team:build'' tags) = Inr x"
    by (simp add: configureInstance_def awsConf_def CreateEc2CloudConfig_def Let_def lk_def)
  then show ?thesis
    by (auto simp: AWS_LaunchInstance_def validID idx_def wp launchEnv_client RunInstances_def Let_def)
       (auto simp: launchEnv_def freshInstance_def wp)
qed

lemma launchEnv_count:
  "wp (AWS_CountInstances launchEnv ec tag) Q w = Q (Inr 0) (w\<lparr>hist := hist w @
     [EvAwsConfig ec None, EvDescribeInstances (tagFilters tag) (Inr [])]\<rparr>)"
  by (simp add: AWS_CountInstances_def DescribeInstances_def wp launchEnv_client) (simp add: launchEnv_def wp)

lemma launchEnv_list:
  "wp (AWS_ListInstances launchEnv ec tag) Q w = Q (Inr []) (w\<lparr>hist := hist w @
     [EvAwsConfig ec None, EvDescribeInstances (tagFilters tag) (Inr [])]\<rparr>)"
  by (simp add: AWS_ListInstances_def DescribeInstances_def wp launchEnv_client) (simp add: launchEnv_def wp)

theorem DynamicResolver_launches_within_capacity_witness:
  "\<exists>res tr' w' c v v'. resolver_Allocate launchEnv (provider launchEnv (dr_CloudProvider awsPlatform)) awsPlatform
      userTask ''s'' initial = Some ((res, None, tr'), w') \<and>
    CountInstances (provider launchEnv (dr_CloudProvider awsPlatform)) ''prod-arm64'' v = Some (Inr c, v') \<and> c < 1"
proof -
  let ?p = "provider launchEnv (dr_CloudProvider awsPlatform)"
  have id: "taskRunIDOf userTask = ''team:build''" by (simp add: taskRunIDOf_def userTask_def)
  have n: "annotation userTask k = []" "label userTask k = []" "tr_Labels userTask = Some Map.empty"
    "tr_Annotations userTask = Some Map.empty" for k
    by (simp_all add: annotation_def label_def userTask_def)
  have l: "wp (LaunchInstance ?p ''team:build'' tag tags) (\<lambda>r w'. r = Inr ''i-1'' \<and>
      (\<exists>e \<in> set (hist w'). starts_instance e)) w" for tag tags w
    using launchEnv_launch by (simp add: awsPlatform_def aws_ops_def)
  have kw: "wp (CountInstances ?p tag) Q w = Q (Inr 0) (w\<lparr>hist := hist w @
      [EvAwsConfig awsConf None, EvDescribeInstances (tagFilters tag) (Inr [])]\<rparr>)" for tag Q w
    by (simp add: awsPlatform_def aws_ops_def launchEnv_count)
  have m: "dr_maxInstances awsPlatform = 1" by (simp add: awsPlatform_def)
  define L where "L = LaunchInstance ?p ''team:build''"
  have id1: "taskRunIDOf (userTask\<lparr>tr_Labels := a, tr_Annotations := b\<rparr>) = ''team:build''" for a b
    using id by (simp add: taskRunIDOf_def)
  have r: "wp (recordInstance launchEnv impl r tr i) (\<lambda>(res, err, tr') w'. err = None \<and>
      (\<exists>e \<in> set (hist w'). starts_instance e)) w"
    if "\<exists>e \<in> set (hist w). starts_instance e" "tr_Labels tr \<noteq> None" "tr_Annotations tr \<noteq> None" for impl r tr i w
    using that by (auto simp: recordInstance_def Event_def wp launchEnv_update setAnnotation_def setLabel_def Let_def)
  have "wp (resolver_Allocate launchEnv ?p awsPlatform userTask ''s'') (\<lambda>(res, err, tr') w'. err = None \<and>
      (\<exists>e \<in> set (hist w'). starts_instance e)) initial"
    by (simp add: resolver_Allocate_def timedOut_def launchFor_def n wp kw Let_def ensureAnnotations_def
        delLabel_def setAnnotation_def Event_def Now_def id1 m L_def [symmetric])
      (rule wp_mono [OF l [folded L_def]], auto simp: awsPlatform_def intro!: r)
  then obtain res tr' w' e where run: "resolver_Allocate launchEnv ?p awsPlatform userTask ''s'' initial = Some ((res, None, tr'), w')"
    and e: "e \<in> set (hist w')" "starts_instance e"
    by (auto simp: wp_iff_Some)
  have "hist w' = hist initial @ hist w'" "tr_Labels userTask \<noteq> None" by (simp_all add: initial_def n)
  from DynamicResolver_launches_within_capacity [OF launchEnv_documented this(2) run this(1) e]
  obtain c v v' where "CountInstances ?p (dr_instanceTag awsPlatform) v = Some (Inr c, v')" "c < dr_maxInstances awsPlatform"
    by blast
  with run m show ?thesis by (auto simp: awsPlatform_def)
qed

section \<open>Failed launches\<close>

lemma launchFailed_counts:
  assumes "retry_documented E" "\<And>h t. k_update (kube E) h t = Inr t" "tr_Annotations tr \<noteq> None"
    and "annotation tr CloudFailures = (if n = 0 then [] else Itoa n)" "0 \<le> n" "n < 2"
  shows "\<exists>tr' w'. launchFailed E tr err w = Some ((requeueIn (20 * Second), None, tr'), w') \<and>
    annotation tr' CloudFailures = Itoa (n + 1) \<and> tr_Annotations tr' \<noteq> None"
proof -
  obtain m where m: "tr_Annotations tr = Some m" using assms(3) by auto
  have f: "fits 64 n" "fits 64 (n + 1)" using assms(5,6) by (simp_all add: fits_def)
  have c: "(if annotation tr CloudFailures \<noteq> [] then Atoi (annotation tr CloudFailures) else Inr 0) = Inr n"
    using assms(4) f by (simp add: Atoi_Itoa)
  have ne: "n \<noteq> 2" using assms(6) by simp
  have u: "UpdateTaskRunWithRetry E t w = Some ((None, t), w\<lparr>hist := hist w @ [EvUpdate t (Inr t)]\<rparr>)" for t w
    by (simp add: UpdateTaskRunWithRetry_def Update_def UpdateObj_def bnd_def call_def ret_def assms(2))
  show ?thesis
    unfolding launchFailed_def Let_def c
    using ne f by (auto simp: bnd_Some must_Some u i64_id setAnnotation_def m annotation_def)
qed



text \<open>After a conflict the update that \<open>UpdateTaskRunWithRetry\<close> sends does not carry the failure
  count, the address or the dynamic-platform label that the controller has just set: whatever the
  caller's TaskRun says, the object sent has those of the version on the server.\<close>

theorem mergedTaskRun_loses_cloud_state:
  "annotation (mergedTaskRun E latest tr) CloudFailures = annotation latest CloudFailures \<and>
   annotation (mergedTaskRun E latest tr) CloudAddress = annotation latest CloudAddress \<and>
   label (mergedTaskRun E latest tr) CloudDynamicPlatform = label latest CloudDynamicPlatform"
proof -
  have "tr_Annotations (ensureFinalizerIsUpdated E l t f) = tr_Annotations l"
    "tr_Labels (ensureFinalizerIsUpdated E l t f) = tr_Labels l" for l t f
    by (simp_all add: ensureFinalizerIsUpdated_def Let_def)
  then show ?thesis
    by (simp add: mergedTaskRun_def annotation_def label_def mergeKeysInMaps_apply managedAnnotations_def managedLabels_def
        CloudFailures_def CloudAddress_def CloudDynamicPlatform_def FailedHosts_def CloudInstanceId_def
        ProvisionTaskProcessed_def AllocationStartTimeAnnotation_def AssignedHost_def UserTaskName_def UserTaskNamespace_def
        TargetPlatformLabel_def WaitingForPlatformLabel_def TaskTypeLabel_def mget_def or_empty_def split: option.split)
qed

section \<open>The timeout of an allocation\<close>

lemma timedOut_run:
  assumes "fits 64 start" "annotation tr AllocationStartTimeAnnotation = Itoa start" "annotation tr CloudInstanceId \<noteq> []"
  shows "timedOut E r tr w = Some (i64 (start + dr_timeout r) < Unix (s_now (sys E) (hist w)),
    w\<lparr>hist := hist w @ [EvNow (s_now (sys E) (hist w))]\<rparr>)"
  using assms by (simp add: timedOut_def ParseInt_Itoa Now_def bnd_def call_def ret_def)

lemma i64_overflow:
  assumes "2 ^ 63 \<le> x" "x < 2 ^ 64"
  shows "i64 x = x - 2 ^ 64"
proof -
  have "(word_of_int (x - 2 ^ 64) :: 64 word) = word_of_int x" by simp
  then have "i64 x = i64 (x - 2 ^ 64)" unfolding i64_def by (rule arg_cong [OF sym])
  also have "\<dots> = x - 2 ^ 64" using assms by (intro i64_id) (simp add: fits_def)
  finally show ?thesis .
qed

text \<open>C24: an allocation times out exactly when more than the configured number of seconds has passed
  since the recorded start, as long as the sum of the two fits 64 bits; when it does not, the sum wraps
  around and the allocation times out at once, however recent its start.\<close>

theorem timedOut_spec:
  assumes "annotation tr AllocationStartTimeAnnotation = Itoa start" "annotation tr CloudInstanceId \<noteq> []"
    and "0 \<le> start" "start \<le> Unix (s_now (sys E) (hist w))" "0 < dr_timeout r" "fits 64 start" "fits 64 (dr_timeout r)"
  shows "\<exists>late w'. timedOut E r tr w = Some (late, w') \<and>
    (late \<longleftrightarrow> dr_timeout r < Unix (s_now (sys E) (hist w)) - start \<or> 2 ^ 63 \<le> start + dr_timeout r)"
proof (cases "start + dr_timeout r < 2 ^ 63")
  case True
  then have "i64 (start + dr_timeout r) = start + dr_timeout r"
    using assms by (intro i64_id) (simp add: fits_def)
  with True show ?thesis unfolding timedOut_run [OF assms(6,1,2)] by auto
next
  case False
  then have "i64 (start + dr_timeout r) = start + dr_timeout r - 2 ^ 64"
    using assms by (intro i64_overflow) (simp_all add: fits_def)
  with False assms show ?thesis unfolding timedOut_run [OF assms(6,1,2)] by (auto simp: fits_def)
qed

definition startedTask :: TaskRun where
  "startedTask = userTask\<lparr>tr_Annotations :=
     Some [AllocationStartTimeAnnotation \<mapsto> Itoa 1700000000, CloudInstanceId \<mapsto> ''i-1'']\<rparr>"

theorem timedOut_spec_witness:
  "(\<exists>w'. timedOut offline awsPlatform startedTask initial = Some (False, w')) \<and>
   (\<exists>w'. timedOut offline (awsPlatform\<lparr>dr_timeout := 2 ^ 63 - 1\<rparr>) startedTask initial = Some (True, w'))"
proof -
  have a: "annotation startedTask AllocationStartTimeAnnotation = Itoa 1700000000" "annotation startedTask CloudInstanceId \<noteq> []"
    by (simp_all add: startedTask_def annotation_def AllocationStartTimeAnnotation_def CloudInstanceId_def)
  have n: "Unix (s_now (sys offline) (hist initial)) = 1700000000"
    by (simp add: fixture_defs Unix_def Second_def)
  have t: "dr_timeout awsPlatform = 600" by (simp add: awsPlatform_def)
  show ?thesis
    using timedOut_spec [OF a, where E = offline and w = initial and r = awsPlatform]
      timedOut_spec [OF a, where E = offline and w = initial and r = "awsPlatform\<lparr>dr_timeout := 2 ^ 63 - 1\<rparr>"] n t
    by (simp add: fits_def) metis
qed

end
