(* ===== verification/Pool_Props.thy ===== *)
theory Pool_Props
  imports DynamicPool Dynamic_Props
begin

text \<open>
  Properties of the host pools: which instances of a dynamic pool are terminated, when a new one is
  started, and the cleanup task of a pool.
\<close>

section \<open>Instances past their age\<close>

text \<open>\<open>backed J es\<close>: before every event of \<open>es\<close> that stops an instance, \<open>J\<close> holds of the events so
  far.\<close>

definition backed :: "(event list \<Rightarrow> bool) \<Rightarrow> event list \<Rightarrow> bool" where
  "backed J es \<longleftrightarrow> (\<forall>n < length es. stops_instance (es ! n) \<longrightarrow> J (take n es))"

lemma backed_Nil [simp]: "backed J []"
  by (simp add: backed_def)

lemma backed_append:
  assumes "backed J es" "\<And>n. n < length fs \<Longrightarrow> stops_instance (fs ! n) \<Longrightarrow> J (es @ take n fs)"
  shows "backed J (es @ fs)"
  unfolding backed_def
proof (intro allI impI)
  fix n
  assume n: "n < length (es @ fs)" and s: "stops_instance ((es @ fs) ! n)"
  show "J (take n (es @ fs))"
  proof (cases "n < length es")
    case True
    with s assms(1) show ?thesis by (simp add: backed_def nth_append)
  next
    case False
    with n s assms(2) [of "n - length es"] show ?thesis by (simp add: nth_append)
  qed
qed

lemma backed_calm: "backed J es \<Longrightarrow> list_all (\<lambda>e. \<not> stops_instance e) fs \<Longrightarrow> backed J (es @ fs)"
  by (rule backed_append) (auto simp: list_all_length)

text \<open>The reason for which a pool may stop an instance: it is one of the pool's instances, the clock
  read in this call says that it is past its age, and the API server answered in this call that no
  task is assigned to it.\<close>

definition retire :: "DynamicHostPool \<Rightarrow> CloudVMInstance list \<Rightarrow> event list \<Rightarrow> bool" where
  "retire a insts es \<longleftrightarrow> (\<exists>inst \<in> set insts. \<exists>now.
     EvNow now \<in> set es \<and> vm_StartTime inst + dp_maxAge a < now \<and>
     EvList (MatchingLabels [(AssignedHost, vm_InstanceId inst)]) (Inr []) \<in> set es)"

text \<open>The hosts offered to tasks: instances within their age.\<close>

definition young :: "provider_ops \<Rightarrow> DynamicHostPool \<Rightarrow> CloudVMInstance list \<Rightarrow> event list \<Rightarrow> string \<times> Host \<Rightarrow> bool" where
  "young impl a insts es kv \<longleftrightarrow> (\<exists>inst \<in> set insts. \<exists>now. kv = (vm_InstanceId inst, poolHost impl a inst) \<and>
     EvNow now \<in> set es \<and> now \<le> vm_StartTime inst + dp_maxAge a)"

lemma hput_in: "kv \<in> set (hput k v m) \<Longrightarrow> kv = (k, v) \<or> kv \<in> set m"
  by (induction k v m rule: hput.induct) (auto split: if_splits)

lemma young_mono: "young impl a insts es kv \<Longrightarrow> set es \<subseteq> set fs \<Longrightarrow> young impl a insts fs kv"
  unfolding young_def by blast

text \<open>The invariant of the loop over the instances.\<close>

definition pool_inv where
  "pool_inv impl a insts w xs acc v \<longleftrightarrow> set xs \<subseteq> set insts \<and>
     (\<exists>es. hist v = hist w @ es \<and> backed (retire a insts) es \<and> list_all (young impl a insts es) (fst acc))"

context cloud_provider
begin

lemma poolRound_inv:
  assumes sdk: "sdk_documented E" and inv: "pool_inv impl a insts w (x # xs) acc v"
  shows "wp (poolRound E impl a x acc) (pool_inv impl a insts w xs) v"
proof -
  obtain hosts old where acc: "acc = (hosts, old)" by force
  from inv obtain es where es: "hist v = hist w @ es" "backed (retire a insts) es" "list_all (young impl a insts es) hosts"
    and x: "x \<in> set insts" "set xs \<subseteq> set insts"
    by (auto simp: pool_inv_def acc)
  define now where "now = s_now (sys E) (hist v)"
  define l where "l = k_list (kube E) (hist v @ [EvNow now]) (MatchingLabels [(AssignedHost, vm_InstanceId x)])"
  let ?es1 = "es @ [EvNow now]" and ?es2 = "es @ [EvNow now, EvList (MatchingLabels [(AssignedHost, vm_InstanceId x)]) l]"
  have b: "backed (retire a insts) ?es1" "backed (retire a insts) ?es2"
    using es(2) by (simp_all add: backed_calm)
  have y: "list_all (young impl a insts fs) hosts" if "set es \<subseteq> set fs" for fs
    using es(3) that by (auto simp: list_all_iff intro: young_mono)
  have done1: "pool_inv impl a insts w xs (hosts, old + 1) u" if "hist u = hist w @ ?es2" for u
    unfolding pool_inv_def using that x b(2) y [of ?es2] by auto
  have keep: "pool_inv impl a insts w xs (hput (vm_InstanceId x) (poolHost impl a x) hosts, old) u"
    if "hist u = hist w @ ?es1" "now \<le> vm_StartTime x + dp_maxAge a" for u
  proof -
    have "young impl a insts ?es1 (vm_InstanceId x, poolHost impl a x)" using x that by (auto simp: young_def)
    then have "list_all (young impl a insts ?es1) (hput (vm_InstanceId x) (poolHost impl a x) hosts)"
      using y [of ?es1] by (auto simp: list_all_iff dest!: hput_in)
    with that x b(1) show ?thesis unfolding pool_inv_def by auto
  qed
  have stop: "wp (bnd (TerminateInstance impl (vm_InstanceId x)) (\<lambda>_. ret (hosts, old + 1))) (pool_inv impl a insts w xs) u"
    if u: "hist u = hist w @ ?es2" and l: "l = Inr []" "vm_StartTime x + dp_maxAge a < now" for u
  proof -
    have r: "retire a insts (?es2 @ fs)" for fs using x l by (auto simp: retire_def)
    have "pool_inv impl a insts w xs (hosts, old + 1) v'" if "hist v' = hist u @ fs" for v' fs
      unfolding pool_inv_def
      using that u x y [of "?es2 @ fs"] backed_append [OF b(2), of fs] r by (auto intro!: exI [of _ "?es2 @ fs"])
    then show ?thesis
      using okD [OF terminate_ok [OF sdk], of "vm_InstanceId x" u] by (auto simp: wp wp_iff_Some)
  qed
  let ?u1 = "v\<lparr>hist := hist v @ [EvNow now]\<rparr>"
  let ?u2 = "v\<lparr>hist := hist v @ [EvNow now, EvList (MatchingLabels [(AssignedHost, vm_InstanceId x)]) l]\<rparr>"
  have u: "hist ?u1 = hist w @ ?es1" "hist ?u2 = hist w @ ?es2" by (simp_all add: es(1))
  have "wp (poolRound E impl a x acc) Q v =
      (if vm_StartTime x + dp_maxAge a < now
       then if l = Inr [] then wp (bnd (TerminateInstance impl (vm_InstanceId x)) (\<lambda>_. ret (hosts, old + 1))) Q ?u2
            else Q (hosts, old + 1) ?u2
       else Q (hput (vm_InstanceId x) (poolHost impl a x) hosts, old) ?u1)" for Q
    by (auto simp: poolRound_def acc wp Now_def isHostIdle_def List_def now_def l_def split: sum.split)
  then show ?thesis using done1 [OF u(2)] keep [OF u(1)] stop [OF u(2)] by auto
qed

lemma buildHostPool_backed:
  assumes sdk: "sdk_documented E" and li: "ListInstances impl (dp_instanceTag a) w = Some (Inr insts, v)"
  shows "\<exists>hosts old w' es. buildHostPool E impl a w =
      Some (Inr (\<lparr>hp_hosts = hosts, hp_targetPlatform = dp_platform a\<rparr>, old), w') \<and>
    hist w' = hist w @ es \<and> backed (retire a insts) es \<and> list_all (young impl a insts es) hosts"
proof -
  from ok_run [OF list_ok [OF sdk] li] obtain fs where "hist v = hist w @ fs" "list_all inspecting fs" by blast
  then have "pool_inv impl a insts w insts ([], 0) v"
    unfolding pool_inv_def
    by (auto simp: list_all_iff inspecting_def intro!: exI [of _ fs] backed_calm [of _ "[]", simplified])
  from wp_foreach [where I = "pool_inv impl a insts w", OF this poolRound_inv [OF sdk]]
  show ?thesis using li by (auto simp: buildHostPool_def bnd_Some wp_iff_Some pool_inv_def)
qed

end


text \<open>Example: one instance, started at the epoch, that no task uses.\<close>

definition oldInstance :: ec2_Instance where
  "oldInstance = freshInstance\<lparr>ins_State := Some ''running'', ins_InstanceType := [], ins_PublicIpAddress := Some ''10.0.0.1''\<rparr>"

definition agingEnv :: env where
  "agingEnv = (with_kube (offline_kube\<lparr>k_list := (\<lambda>_ _. Inr [])\<rparr>))\<lparr>
     ec2 := offline_ec2\<lparr>a_describe := (\<lambda>_ _. Inr [[oldInstance]]), a_terminate := (\<lambda>_ _. None)\<rparr>,
     sys := offline_sys\<lparr>s_dial := (\<lambda>_ _ _. None), s_close := (\<lambda>_ _. None)\<rparr>\<rparr>"

definition agingPool :: DynamicHostPool where
  "agingPool = \<lparr>dp_cloudProvider = AWS awsConf, dp_sshSecret = ''key'',
     dp_platform = ''linux/arm64'', dp_maxInstances = 1, dp_concurrency = 4, dp_maxAge = 60 * Minute,
     dp_instanceTag = ''prod-arm64'', dp_additionalInstanceTags = []\<rparr>"

lemma agingEnv_sdk: "sdk_documented agingEnv"
  by (simp add: sdk_documented_def ec2_documented_def vpc_documented_def power_documented_def
      agingEnv_def with_kube_def fixture_defs freshInstance_def oldInstance_def)


section \<open>New instances\<close>

context cloud_provider
begin

lemma calm_HostPool_Allocate:
  assumes "documented E" "tr_Labels tr \<noteq> None"
  shows "ok (\<lambda>e. \<not> starts_instance e) (HostPool_Allocate E hp tr sn) (\<lambda>_. True)"
  unfolding HostPool_Allocate_def waitForHost_def assignHost_def Let_def
  by (rule calm_UpdateTaskRunWithRetry [OF assms(1)] calm_launchProvisioningTask [OF assms(1)] | rule ok
      | (use assms(2) in \<open>auto simp: List_def\<close>; fail))+

lemma calm_buildHostPool:
  assumes "sdk_documented E"
  shows "ok (\<lambda>e. \<not> starts_instance e) (buildHostPool E impl a) (\<lambda>_. True)"
  unfolding buildHostPool_def poolRound_def isHostIdle_def List_def
  by (rule calm_ops [OF assms] | rule ok | (simp; fail))+

lemma grow_launch:
  assumes sdk: "sdk_documented E" and run: "growPool E impl a old aerr tr u = Some ((res, err, tr'), w')"
    and es: "hist w' = hist u @ es" "e \<in> set es" "starts_instance e"
  shows "\<exists>c u' x l. CountInstances impl (dp_instanceTag a) u = Some (Inr c, u') \<and> c - old < dp_maxInstances a \<and>
    prefix (hist u') (hist x) \<and>
    LaunchInstance impl (taskRunIDOf tr) (dp_instanceTag a) (dp_additionalInstanceTags a) x = Some (l, w')"
proof -
  from run obtain c u' where c: "CountInstances impl (dp_instanceTag a) u = Some (c, u')"
    by (auto simp: growPool_def bnd_Some)
  from ok_run [OF calm_ops(3) [OF sdk] c] obtain fs where fs: "hist u' = hist u @ fs" "list_all (\<lambda>e. \<not> starts_instance e) fs"
    by blast
  have "w' \<noteq> u'" using fs es by (auto simp: list_all_iff)
  with run c obtain k where k: "c = Inr k" "k - old < dp_maxInstances a"
    by (cases c) (auto simp: growPool_def bnd_Some split: if_splits)
  have id: "taskRunIDOf (delLabel WaitingForPlatformLabel tr) = taskRunIDOf tr" by (simp add: taskRunIDOf_def delLabel_def)
  from run c k obtain g x where g: "getRandomString E 8 u' = Some (g, x)"
    and rest: "(case g of Inl e \<Rightarrow> ret (noRequeue, Some e, tr) | Inr _ \<Rightarrow>
             let tr1 = delLabel WaitingForPlatformLabel tr
             in bnd (LaunchInstance impl (taskRunIDOf tr1) (dp_instanceTag a) (dp_additionalInstanceTags a)) (\<lambda>l. case l of
                  Inl e \<Rightarrow> ret (noRequeue, Some e, tr1)
                | Inr _ \<Rightarrow> ret (requeueIn Minute, None, tr1))) x = Some ((res, err, tr'), w')"
    by (auto simp: growPool_def bnd_Some)
  have "ok (\<lambda>e. \<not> starts_instance e) (getRandomString E 8) (\<lambda>_. True)"
    unfolding getRandomString_def by (rule ok | (simp; fail))+
  from ok_run [OF this g] fs obtain gs where gs: "hist x = hist u' @ gs" "list_all (\<lambda>e. \<not> starts_instance e) gs" by blast
  have "w' \<noteq> x" using fs gs es by (auto simp: list_all_iff)
  with rest obtain l y where l: "LaunchInstance impl (taskRunIDOf tr) (dp_instanceTag a) (dp_additionalInstanceTags a) x = Some (l, y)"
    and "(case l of Inl e \<Rightarrow> ret (noRequeue, Some e, delLabel WaitingForPlatformLabel tr)
        | Inr _ \<Rightarrow> ret (requeueIn Minute, None, delLabel WaitingForPlatformLabel tr)) y = Some ((res, err, tr'), w')"
    by (cases g) (auto simp: Let_def bnd_Some id)
  then have "y = w'" by (cases l) auto
  moreover have "prefix (hist u') (hist x)" using gs by simp
  ultimately show ?thesis using l c k by blast
qed

lemma pool_launch:
  assumes d: "documented E" "sdk_documented E" and n: "tr_Labels tr \<noteq> None"
    and run: "pool_Allocate E impl a tr sn w = Some ((res, err, tr'), w')"
    and es: "hist w' = hist w @ es" "e \<in> set es" "starts_instance e"
  shows "\<exists>hp old v c u u' x l. buildHostPool E impl a w = Some (Inr (hp, old), v) \<and>
    (hp_hosts hp = [] \<and> u = v \<or>
     (\<exists>r2 e2 t2. HostPool_Allocate E hp tr sn v = Some ((r2, e2, t2), u) \<and>
        (case e2 of None \<Rightarrow> label t2 WaitingForPlatformLabel \<noteq> [] | Some e \<Rightarrow> IsAllHostsFailed e))) \<and>
    CountInstances impl (dp_instanceTag a) u = Some (Inr c, u') \<and> c - old < dp_maxInstances a \<and>
    prefix (hist u') (hist x) \<and>
    LaunchInstance impl (taskRunIDOf tr) (dp_instanceTag a) (dp_additionalInstanceTags a) x = Some (l, w')"
proof -
  from run obtain b v where b: "buildHostPool E impl a w = Some (b, v)" by (auto simp: pool_Allocate_def bnd_Some)
  from ok_run [OF calm_buildHostPool [OF d(2)] b] obtain fs where
    fs: "hist v = hist w @ fs" "list_all (\<lambda>e. \<not> starts_instance e) fs" by blast
  have "w' \<noteq> v" using fs es by (auto simp: list_all_iff)
  with run b obtain hp old where hp: "b = Inr (hp, old)" by (auto simp: pool_Allocate_def bnd_Some split: sum.splits)
  show ?thesis
  proof (cases "hp_hosts hp = []")
    case True
    with run b hp have g: "growPool E impl a old None tr v = Some ((res, err, tr'), w')"
      by (auto simp: pool_Allocate_def bnd_Some)
    have "ok (\<lambda>_. True) (growPool E impl a old None tr) (\<lambda>_. True)"
      by (rule ok_mono [OF ok_events [OF permitted_growPool [OF d(2) refl, where sn = sn]]]) simp_all
    from ok_run [OF this g] obtain gs where gs: "hist w' = hist v @ gs" by blast
    have "e \<in> set gs" using fs gs es by (auto simp: list_all_iff)
    from grow_launch [OF d(2) g gs this es(3)] True b hp show ?thesis by blast
  next
    case False
    with run b hp obtain r2 e2 t2 u where h: "HostPool_Allocate E hp tr sn v = Some ((r2, e2, t2), u)"
      by (auto simp: pool_Allocate_def bnd_Some)
    from ok_run [OF calm_HostPool_Allocate [OF d(1) n] h] obtain hs where
      hs: "hist u = hist v @ hs" "list_all (\<lambda>e. \<not> starts_instance e) hs" by blast
    have "w' \<noteq> u" using fs hs es by (auto simp: list_all_iff)
    with run b hp False h have g: "growPool E impl a old e2 t2 u = Some ((res, err, tr'), w')"
      and why: "case e2 of None \<Rightarrow> label t2 WaitingForPlatformLabel \<noteq> [] | Some e \<Rightarrow> IsAllHostsFailed e"
      by (auto simp: pool_Allocate_def bnd_Some split: option.splits if_splits)
    have "ok (\<lambda>_. True) (growPool E impl a old e2 t2) (\<lambda>_. True)"
      by (rule ok_mono [OF ok_events [OF permitted_growPool [OF d(2) refl, where sn = sn]]]) simp_all
    from ok_run [OF this g] obtain gs where gs: "hist w' = hist u @ gs" by blast
    have "e \<in> set gs" using fs hs gs es by (auto simp: list_all_iff)
    from grow_launch [OF d(2) g gs this es(3)] obtain c u' x l where
      gl: "CountInstances impl (dp_instanceTag a) u = Some (Inr c, u')" "c - old < dp_maxInstances a"
        "prefix (hist u') (hist x)" "LaunchInstance impl (taskRunIDOf t2) (dp_instanceTag a) (dp_additionalInstanceTags a) x = Some (l, w')"
      by blast
    have "objKey t2 = objKey tr"
      using ok_run [OF permitted_HostPool_Allocate [OF d(1) refl n] h] by auto
    then have "taskRunIDOf t2 = taskRunIDOf tr" by (simp add: taskRunIDOf_def objKey_def)
    with gl h why b hp show ?thesis by metis
  qed
qed

end



section \<open>The cleanup of a host\<close>

text \<open>C16: releasing a host of a pool creates at most one task: the cleanup task for that host, and
  only if the list of cleanup tasks of this TaskRun and platform, read in this call, is empty or could
  not be read. The task it creates is one that this very query selects, so that once it exists a
  repeated release creates no second one.\<close>

theorem HostPool_Deallocate_one_cleanup:
  "\<exists>err w' es. HostPool_Deallocate E hp tr sn host w = Some (err, w') \<and> hist w' = hist w @ es \<and>
     length (filter writes_cluster es) \<le> 1 \<and>
     (\<forall>e \<in> set es. writes_cluster e \<longrightarrow> (\<exists>h r. e = EvCreate (cleanupTask E hp tr sn h) r \<and>
        (host, h) \<in> set (hp_hosts hp) \<and>
        matches (MatchingLabels (cleanupLabels hp tr)) (cleanupTask E hp tr sn h) \<and>
        (\<forall>trs. k_list (kube E) (hist w) (MatchingLabels (cleanupLabels hp tr)) = Inr trs \<longrightarrow> trs = [])))"
proof -
  have m: "matches (MatchingLabels (cleanupLabels hp tr)) (cleanupTask E hp tr sn h)" for h
    by (simp add: cleanupTask_def cleanupLabels_def TaskTypeLabel_def UserTaskName_def UserTaskNamespace_def TargetPlatformLabel_def)
  show ?thesis
  proof (cases "map_of (hp_hosts hp) host")
    case None
    then show ?thesis by (simp add: HostPool_Deallocate_def)
  next
    case (Some h)
    from map_of_SomeD [OF this] m Some show ?thesis
      by (auto simp: HostPool_Deallocate_def bnd_Some List_def Create_def call_Some split: sum.split list.split)
  qed
qed

theorem HostPool_Deallocate_one_cleanup_witness:
  "\<exists>w'. HostPool_Deallocate agingEnv samplePool userTask ''s'' ''1'' initial = Some (Some down, w') \<and>
    filter writes_cluster (hist w') = [EvCreate (cleanupTask agingEnv samplePool userTask ''s'' (sampleHost ''1'')) (Some down)] \<and>
    matches (MatchingLabels (cleanupLabels samplePool userTask)) (cleanupTask agingEnv samplePool userTask ''s'' (sampleHost ''1''))"
proof -
  have env: "k_list (kube agingEnv) h q = Inr []" "k_create (kube agingEnv) h t = Some down" for h q t
    by (simp_all add: agingEnv_def fixture_defs)
  obtain err w' es where run: "HostPool_Deallocate agingEnv samplePool userTask ''s'' ''1'' initial = Some (err, w')"
    and es: "hist w' = hist initial @ es" and
    why: "\<And>e. e \<in> set es \<Longrightarrow> writes_cluster e \<Longrightarrow> (\<exists>h r. e = EvCreate (cleanupTask agingEnv samplePool userTask ''s'' h) r \<and>
        (''1'', h) \<in> set (hp_hosts samplePool) \<and>
        matches (MatchingLabels (cleanupLabels samplePool userTask)) (cleanupTask agingEnv samplePool userTask ''s'' h))"
    using HostPool_Deallocate_one_cleanup [of agingEnv samplePool userTask "''s''" "''1''" initial] by blast
  have m: "map_of (hp_hosts samplePool) ''1'' = Some (sampleHost ''1'')" by (simp add: samplePool_def)
  have "wp (HostPool_Deallocate agingEnv samplePool userTask ''s'' ''1'') (\<lambda>err w'. err = Some down \<and>
      hist w' = [EvList (MatchingLabels (cleanupLabels samplePool userTask)) (Inr []),
      EvCreate (cleanupTask agingEnv samplePool userTask ''s'' (sampleHost ''1'')) (Some down)]) initial"
    by (simp add: HostPool_Deallocate_def m wp List_def Create_def env) (simp add: initial_def)
  with run have w': "err = Some down" "hist w' = [EvList (MatchingLabels (cleanupLabels samplePool userTask)) (Inr []),
      EvCreate (cleanupTask agingEnv samplePool userTask ''s'' (sampleHost ''1'')) (Some down)]"
    by (simp_all add: wp_def)
  have "matches (MatchingLabels (cleanupLabels samplePool userTask)) (cleanupTask agingEnv samplePool userTask ''s'' (sampleHost ''1''))"
    using why [of "EvCreate (cleanupTask agingEnv samplePool userTask ''s'' (sampleHost ''1'')) (Some down)"] es w'(2)
    by (auto simp: initial_def simp del: matches.simps)
  with run w' show ?thesis by simp
qed

end
