(* ===== verification/Provider_Props.thy ===== *)
theory Provider_Props
  imports Providers Config_Props Fixtures
begin

text \<open>
  Properties of the cloud providers: that an EC2 instance is found again by the query that counts
  instances, and the shape of the names of IBM instances.
\<close>

section \<open>EC2\<close>

lemma configureInstance_tags:
  assumes "configureInstance ec n tag tags = Inr inp"
  shows "run_TagSpecifications inp = [(''instance'', instanceTags n tag tags)]"
    "run_MinCount inp = 1" "run_MaxCount inp = 1" "run_InstanceType inp = ec_InstanceType ec"
  using assms by (auto simp: configureInstance_def Let_def split: if_splits)

lemma AWS_launch_events:
  "wlp (AWS_LaunchInstance E ec i tag tags) (\<lambda>_ w'. \<exists>es. hist w' = hist w @ es \<and>
     (filter starts_instance es = [] \<or>
      (\<exists>inp r n. filter starts_instance es = [EvRunInstances inp r] \<and> ValidateTaskRunID i = None \<and>
         configureInstance ec n tag (mput TaskRunTagKey i tags) = Inr inp))) w"
proof (cases "ValidateTaskRunID i")
  case None
  show ?thesis
    unfolding AWS_LaunchInstance_def None
    by (auto simp: getEC2Client_def RunInstances_def wp Let_def None split: option.split sum.split list.split)
next
  case (Some e)
  then show ?thesis by (simp add: AWS_LaunchInstance_def wp)
qed


definition runEnv :: env where
  "runEnv = (with_kube offline_kube)\<lparr>ec2 := offline_ec2\<lparr>a_run := (\<lambda>_ _. Inr [])\<rparr>\<rparr>"

lemma runEnv_launches:
  "\<exists>res w' inp r. AWS_LaunchInstance runEnv (CreateEc2CloudConfig ''p'' [] ''ns'') ''team:build'' ''prod'' [] initial = Some (res, w') \<and>
     EvRunInstances inp r \<in> set (hist w')"
proof -
  let ?ec = "CreateEc2CloudConfig ''p'' [] ''ns''"
  have v: "ValidateTaskRunID ''team:build'' = None" "Split (CHR '':'') ''team:build'' = [''team'', ''build'']"
    by code_simp+
  have "\<exists>x. configureInstance ?ec ''build'' ''prod'' [(TaskRunTagKey, ''team:build'')] = Inr x"
    by (simp add: configureInstance_def CreateEc2CloudConfig_def Let_def lk_def)
  then have "wp (AWS_LaunchInstance runEnv ?ec ''team:build'' ''prod'' []) (\<lambda>_ w'. \<exists>inp r. EvRunInstances inp r \<in> set (hist w')) initial"
    by (auto simp: AWS_LaunchInstance_def v idx_def wp getEC2Client_def RunInstances_def Let_def runEnv_def fixture_defs) blast
  then show ?thesis by (auto simp: wp_iff_Some)
qed


section \<open>Names of IBM instances\<close>

definition dns_char :: "char \<Rightarrow> bool" where
  "dns_char c \<longleftrightarrow> c \<in> set ''abcdefghijklmnopqrstuvwxyz0123456789-''"

definition sanitize :: "char \<Rightarrow> char" where
  "sanitize c = (if lower_char c = CHR ''_'' then CHR ''-'' else lower_char c)"

lemma instanceNameAt_map:
  "\<exists>h. instanceNameAt tag now = map sanitize tag @ CHR ''-'' # map sanitize h @ ''x'' \<and> length h = 16 \<and> list_all is_hex h"
proof -
  let ?h = "take hashLength (EncodeToString (md5_Sum (tag @ ''-'' @ Itoa (Unix now) @ ''-'' @ Itoa (now mod Second))))"
  have "sanitize CHR ''-'' = CHR ''-''" "sanitize CHR ''x'' = CHR ''x''" by code_simp+
  moreover have "length ?h = 16" "list_all is_hex ?h"
    using EncodeToString_hex by (auto simp: hashLength_def list_all_iff dest: in_set_takeD)
  ultimately show ?thesis
    by (intro exI [of _ ?h]) (simp add: instanceNameAt_def Let_def ReplaceAll_def ToLower_def sanitize_def o_def)
qed

lemma sanitize_dns: "name_char c \<or> c = CHR ''-'' \<Longrightarrow> dns_char (sanitize c)" "is_hex c \<Longrightarrow> dns_char (sanitize c)"
proof -
  have a: "list_all (\<lambda>c. dns_char (sanitize c)) ''abcdefghijklmnopqrstuvwxyzABCDEFGHIJKLMNOPQRSTUVWXYZ0123456789_-''"
    by code_simp
  then show "name_char c \<or> c = CHR ''-'' \<Longrightarrow> dns_char (sanitize c)"
    by (auto simp: name_char_def list_all_iff)
  show "is_hex c \<Longrightarrow> dns_char (sanitize c)" using a by (auto simp: is_hex_def list_all_iff)
qed

text \<open>The name of a new IBM instance is 18 characters longer than its tag, consists of lower-case
  letters, digits and hyphens and ends in a letter; for a tag that passed the validation of the
  configuration it is within the limits of the two platforms, 47 characters for Power and 63 for
  System Z.\<close>

theorem createInstanceName_fits:
  assumes "validateDynamicInstanceTag key tag = None" "createInstanceName E tag w = Some (Inr name, w')"
  shows "length name = length tag + 18 \<and> list_all dns_char name \<and> last name = CHR ''x'' \<and>
    (last (Split (CHR ''-'') key) = ''ppc64le'' \<longrightarrow> length name \<le> 47) \<and>
    (last (Split (CHR ''-'') key) = ''s390x'' \<longrightarrow> length name \<le> 63)"
proof -
  from assms(2) obtain now where name: "name = instanceNameAt tag now" and t: "validInstanceNamePattern tag"
    by (auto simp: createInstanceName_def bnd_Some Now_def call_Some split: if_splits)
  from instanceNameAt_map obtain h where
    h: "name = map sanitize tag @ CHR ''-'' # map sanitize h @ ''x''" "length h = 16" "list_all is_hex h"
    unfolding name by blast
  have "list_all dns_char (map sanitize tag)" "list_all dns_char (map sanitize h)"
    using t h(3) sanitize_dns by (auto simp: validInstanceNamePattern_def list_all_iff)
  moreover have "dns_char CHR ''-''" "dns_char CHR ''x''" by code_simp+
  ultimately show ?thesis
    using h assms(1) by (auto simp: validateDynamicInstanceTag_iff)
qed

theorem createInstanceName_fits_witness:
  "\<exists>name w'. createInstanceName offline ''prod-s390x'' initial = Some (Inr name, w') \<and> length name = 28 \<and> list_all dns_char name"
proof -
  have v: "validateDynamicInstanceTag ''linux-s390x'' ''prod-s390x'' = None" by code_simp
  have "validInstanceNamePattern ''prod-s390x''" by code_simp
  then obtain name w' where r: "createInstanceName offline ''prod-s390x'' initial = Some (Inr name, w')"
    by (simp add: createInstanceName_def bnd_def Now_def call_def ret_def)
  from createInstanceName_fits [OF v r] r show ?thesis by auto
qed

lemma sanitize_id: "sanitize c = c \<longleftrightarrow> lower_char c = c \<and> c \<noteq> CHR ''_''"
proof (cases "lower_char c = CHR ''_''")
  case True
  have "lower_char CHR ''-'' \<noteq> CHR ''_''" by code_simp
  with True have "c \<noteq> CHR ''-''" by fast
  with True show ?thesis unfolding sanitize_def by presburger
next
  case False
  then show ?thesis unfolding sanitize_def if_not_P [OF False] by metis
qed

lemma prefix_same_length: "length xs = length ys \<Longrightarrow> prefix xs (ys @ zs) \<longleftrightarrow> xs = ys"
  by (auto simp: prefix_def)

lemma map_id_iff: "map f xs = xs \<longleftrightarrow> (\<forall>x \<in> set xs. f x = x)"
  by (induction xs) auto

text \<open>C29: the query by which the IBM providers count and list the instances of a tag (the tag is a
  prefix of the name) finds an instance with a name made from that tag exactly if the tag contains
  neither an upper-case letter nor an underscore; for the other tags that the code accepts no
  instance is ever counted.\<close>

theorem instanceName_found_iff:
  "prefix tag (instanceNameAt tag now) \<longleftrightarrow> ToLower tag = tag \<and> CHR ''_'' \<notin> set tag"
proof -
  from instanceNameAt_map obtain h where "instanceNameAt tag now = map sanitize tag @ h" by metis
  then have "prefix tag (instanceNameAt tag now) \<longleftrightarrow> map sanitize tag = tag"
    by (simp only: prefix_same_length length_map eq_commute [of tag])
  also have "\<dots> \<longleftrightarrow> (\<forall>c \<in> set tag. sanitize c = c)" by (rule map_id_iff)
  also have "\<dots> \<longleftrightarrow> (\<forall>c \<in> set tag. lower_char c = c \<and> c \<noteq> CHR ''_'')"
    by (simp only: sanitize_id)
  also have "\<dots> \<longleftrightarrow> ToLower tag = tag \<and> CHR ''_'' \<notin> set tag"
    unfolding ToLower_def map_id_iff by auto
  finally show ?thesis .
qed

end
