(* ===== verification/Provider_Loops.thy ===== *)
theory Provider_Loops
  imports Providers Fixtures
begin

text \<open>
  The goroutines of the IBM providers: the loops that delete an instance until it is gone and the
  one that resizes a volume. Each round ends with a sleep of ten seconds, and the loops give up ten
  minutes after they were started; with a clock that runs, 62 rounds of fuel are enough.
\<close>

section \<open>Clock\<close>

text \<open>The time that the sleeps of a history take, and a clock that runs: it never goes back, and a
  sleep takes at least its duration.\<close>

definition slept :: "event list \<Rightarrow> int" where
  "slept es = sum_list (map (\<lambda>e. case e of EvSleep d \<Rightarrow> max 0 d | _ \<Rightarrow> 0) es)"

definition clock_documented :: "env \<Rightarrow> bool" where
  "clock_documented E \<longleftrightarrow> (\<forall>h es. s_now (sys E) h + slept es \<le> s_now (sys E) (h @ es))"

lemma slept_nonneg: "0 \<le> slept es"
  unfolding slept_def by (rule sum_list_nonneg) (auto split: event.splits)

lemma slept_simps [simp]:
  "slept [] = 0" "slept (EvNow t # es) = slept es" "slept (EvSleep d # es) = max 0 d + slept es"
  by (simp_all add: slept_def)

text \<open>The deadline is passed after at most \<open>n\<close> more sleeps of ten seconds.\<close>

definition due :: "env \<Rightarrow> int \<Rightarrow> nat \<Rightarrow> history \<Rightarrow> bool" where
  "due E timeout n h \<longleftrightarrow> timeout < s_now (sys E) h + 10 * Second * int n"

lemma due_slept:
  assumes "clock_documented E" "due E timeout (n + k) h" "10 * Second * int k \<le> slept es"
  shows "due E timeout n (h @ es)"
proof -
  have "s_now (sys E) h + slept es \<le> s_now (sys E) (h @ es)" using assms(1) by (simp add: clock_documented_def)
  with assms(2,3) show ?thesis by (simp add: due_def algebra_simps)
qed

lemma due_grows: "clock_documented E \<Longrightarrow> due E timeout n h \<Longrightarrow> due E timeout n (h @ es)"
  using due_slept [of E timeout n 0 h es] slept_nonneg by simp

lemma due_0: "due E timeout 0 h \<longleftrightarrow> timeout < s_now (sys E) h"
  by (simp add: due_def)

lemma due_start:
  assumes "clock_documented E" "T = s_now (sys E) h + 10 * Minute"
  shows "due E T 61 (h @ es)"
proof -
  have "due E T 61 h" by (simp add: due_def assms(2) Minute_def Second_def)
  then show ?thesis by (rule due_grows [OF assms(1)])
qed

text \<open>A command that returns and only appends to the history keeps the deadline as near as it was.\<close>

lemma wp_due:
  assumes "ok P m Q" "clock_documented E" "due E timeout n (hist w)"
    and "\<And>x v. Q x \<Longrightarrow> due E timeout n (hist v) \<Longrightarrow> R x v"
  shows "wp m R w"
proof -
  from okD [OF assms(1)] obtain x v es where "m w = Some (x, v)" "hist v = hist w @ es" "Q x" by blast
  with due_grows [OF assms(2,3)] assms(4) show ?thesis by (simp add: wp_def)
qed

text \<open>The end of a round: look at the clock, give up or sleep.\<close>

lemma wp_poll:
  assumes "clock_documented E" "due E timeout n (hist w)"
    and "\<And>m v. n = Suc m \<Longrightarrow> due E timeout m (hist v) \<Longrightarrow> wp again (\<lambda>r _. r) v"
  shows "wp (bnd (Now E) (\<lambda>now. if timeout < now then ret True else bnd (Sleep (10 * Second)) (\<lambda>_. again))) (\<lambda>r _. r) w"
proof (cases n)
  case 0
  with assms(2) show ?thesis by (simp add: wp Now_def due_0)
next
  case (Suc m)
  have "due E timeout m (hist w @ [EvNow t, EvSleep (10 * Second)])" for t
    by (rule due_slept [where k = 1]) (use assms(1,2) Suc in \<open>simp_all add: Second_def\<close>)
  with assms(3) [OF Suc] show ?thesis by (simp add: wp Now_def Sleep_def)
qed

text \<open>The beginning of a round that sleeps first.\<close>

lemma wp_wait:
  assumes "clock_documented E" "due E timeout n (hist w)"
    and "\<And>m v. n = Suc m \<Longrightarrow> due E timeout m (hist v) \<Longrightarrow> wp body (\<lambda>r _. r) v"
  shows "wp (bnd (Sleep (10 * Second)) (\<lambda>_. bnd (Now E) (\<lambda>now. if timeout < now then ret True else body))) (\<lambda>r _. r) w"
proof (cases n)
  case 0
  with due_grows [OF assms(1,2)] show ?thesis by (simp add: wp Sleep_def Now_def due_0)
next
  case (Suc m)
  have "due E timeout m (hist w @ [EvSleep (10 * Second), EvNow t])" for t
    by (rule due_slept [where k = 1]) (use assms(1,2) Suc in \<open>simp_all add: Second_def\<close>)
  with assms(3) [OF Suc] show ?thesis by (simp add: wp Now_def Sleep_def)
qed

section \<open>Starting a loop\<close>

definition quiet :: "event \<Rightarrow> bool" where
  "quiet e \<longleftrightarrow> (case e of EvGo _ \<Rightarrow> False | _ \<Rightarrow> True)"

text \<open>\<open>m\<close> starts at most the goroutine \<open>g\<close>, with a deadline ten minutes after a reading of the clock.\<close>

definition starts_loop :: "env \<Rightarrow> (int \<Rightarrow> goroutine) \<Rightarrow> 'a M \<Rightarrow> bool" where
  "starts_loop E g m \<longleftrightarrow> (\<forall>w x w'. m w = Some (x, w') \<longrightarrow> (\<exists>es. hist w' = hist w @ es \<and>
     (\<forall>g'. EvGo g' \<in> set es \<longrightarrow> (\<exists>p q. hist w' = p @ q \<and> g' = g (s_now (sys E) p + 10 * Minute)))))"

lemma starts_loop_bnd:
  assumes "ok quiet m Q" "\<And>x. starts_loop E g (f x)"
  shows "starts_loop E g (bnd m f)"
  unfolding starts_loop_def
proof (intro allI impI)
  fix w y w''
  assume "bnd m f w = Some (y, w'')"
  then obtain x w' where m: "m w = Some (x, w')" and f: "f x w' = Some (y, w'')" by (auto simp: bnd_Some)
  from ok_run [OF assms(1) m] obtain es where es: "hist w' = hist w @ es" "list_all quiet es" by blast
  from assms(2) f obtain fs where fs: "hist w'' = hist w' @ fs"
    "\<forall>g'. EvGo g' \<in> set fs \<longrightarrow> (\<exists>p q. hist w'' = p @ q \<and> g' = g (s_now (sys E) p + 10 * Minute))"
    unfolding starts_loop_def by blast
  have "EvGo g' \<notin> set es" for g' using es(2) by (auto simp: list_all_iff quiet_def)
  with es fs show "\<exists>es. hist w'' = hist w @ es \<and>
      (\<forall>g'. EvGo g' \<in> set es \<longrightarrow> (\<exists>p q. hist w'' = p @ q \<and> g' = g (s_now (sys E) p + 10 * Minute)))"
    by (intro exI [of _ "es @ fs"]) auto
qed

lemma starts_loop_ret: "starts_loop E g (ret x)"
  by (simp add: starts_loop_def)

lemma starts_loop_go: "starts_loop E g (bnd (Now E) (\<lambda>now. bnd (Go (g (now + 10 * Minute))) (\<lambda>_. ret x)))"
  unfolding starts_loop_def by (auto simp: bnd_Some Now_def Go_def call_Some)

lemma starts_loop_due:
  assumes "starts_loop E g m" "clock_documented E" "m w = Some (x, w')" "hist w' = hist w @ es" "EvGo g' \<in> set es"
  shows "\<exists>T. g' = g T \<and> (\<forall>fs. due E T 61 (hist w' @ fs))"
proof -
  from assms(1,3-5) obtain p q where "hist w' = p @ q" "g' = g (s_now (sys E) p + 10 * Minute)"
    unfolding starts_loop_def by (metis same_append_eq)
  then show ?thesis using due_start [OF assms(2) refl, of p] by auto
qed

text \<open>An environment for the examples: a clock that follows the sleeps, an API key, and services that
  never forget an instance.\<close>

lemma slept_append [simp]: "slept (es @ fs) = slept es + slept fs"
  by (simp add: slept_def)

definition stuckPVM :: PVMInstance where
  "stuckPVM = \<lparr>pvm_ID = Some ''id'', pvm_ServerName = Some ''vm'', pvm_Status = Some ''ACTIVE'', pvm_Health = Some ''OK'',
     pvm_Networks = [], pvm_VolumeIDs = [''vol''], pvm_DiskSize = Some (Fin 10), pvm_CreationDate = 0\<rparr>"

definition stuckVSI :: "string \<Rightarrow> vpc_Instance" where
  "stuckVSI st = \<lparr>vi_ID = Some ''id'', vi_Name = Some ''vsi'', vi_Status = Some st, vi_LifecycleState = Some ''stable'',
     vi_CreatedAt = Some 0, vi_ResourceGroup = Some (Some ''rg''), vi_PrimaryNetworkInterface = Some (Some ''nic''),
     vi_NetworkInterfaces = []\<rparr>"

definition stuckCloud :: "string \<Rightarrow> env" where
  "stuckCloud st = offline\<lparr>sys := offline_sys\<lparr>s_now := slept\<rparr>,
     kube := offline_kube\<lparr>k_getSecret := (\<lambda>_ k. Inr \<lparr>sec_Name = snd k, sec_Namespace = fst k, sec_Labels = Map.empty,
       sec_Data = [''api-key'' \<mapsto> ''key''], sec_Owner = None\<rparr>)\<rparr>,
     power := offline_power\<lparr>p_get := (\<lambda>_ _. Inr stuckPVM)\<rparr>,
     vpc := offline_vpc\<lparr>v_get := (\<lambda>_ _. Inr (stuckVSI st))\<rparr>\<rparr>"

lemma stuckCloud_documented: "clock_documented (stuckCloud st)" "sdk_documented (stuckCloud st)"
  by (simp_all add: clock_documented_def stuckCloud_def fixture_defs sdk_documented_def ec2_documented_def
      vpc_documented_def power_documented_def vpc_instance_documented_def stuckVSI_def pvm_documented_def stuckPVM_def)

lemmas stuck_eval = stuckCloud_def fixture_defs bnd_def call_def ret_def Now_def Go_def GetSecret_def

section \<open>Power\<close>

lemma terminateLoopP_due:
  assumes sdk: "sdk_documented E" and clock: "clock_documented E" and d: "due E timeout n (hist w)"
  shows "wp (terminateLoopP (Suc n) E pw i timeout) (\<lambda>r _. r) w"
  using d
proof (induction n arbitrary: w rule: less_induct)
  case (less n)
  have poll: "wp (bnd (power_deleteInstance E pw i) (\<lambda>_. bnd (Now E) (\<lambda>now. if timeout < now then ret True
      else bnd (Sleep (10 * Second)) (\<lambda>_. terminateLoopP n E pw i timeout)))) (\<lambda>r _. r) v"
    if "due E timeout n (hist v)" for v
    unfolding wp_bnd [of "power_deleteInstance E pw i"]
    by (rule wp_due [OF ok_power_deleteInstance [where P = "\<lambda>_. True"] clock that], simp,
        rule wp_poll [OF clock], assumption) (use less.IH in auto)
  then show ?case
    unfolding terminateLoopP.simps wp_bnd [of "power_getInstance E pw i"]
    by (intro wp_due [OF ok_power_getInstance [OF sdk, where P = "\<lambda>_. True"] clock less.prems])
      (auto simp: wp_ret split: sum.split)
qed

lemma ok_power_updateVolume [ok]:
  "(\<And>rq r. P (EvPowerVolume rq r)) \<Longrightarrow> ok P (power_updateVolume E pw i) (\<lambda>_. True)"
  unfolding power_updateVolume_def by (rule ok | (auto; fail))+

lemma resizeLoop_due:
  assumes sdk: "sdk_documented E" and clock: "clock_documented E" and d: "due E timeout n (hist w)"
  shows "wp (resizeLoop (Suc n) E pw i timeout) (\<lambda>r _. r) w"
  using d
proof (induction n arbitrary: w rule: less_induct)
  case (less n)
  have again: "wp (resizeLoop n E pw i timeout) (\<lambda>r _. r) v" if "n = Suc m" "due E timeout m (hist v)" for m v
    using less.IH [of m] that by simp
  have volume: "wp (bnd (power_updateVolume E pw x) (\<lambda>err. case err of
      Some _ \<Rightarrow> resizeLoop n E pw i timeout | None \<Rightarrow> ret True)) (\<lambda>r _. r) v"
    if "n = Suc m" "due E timeout m (hist v)" for m x v
    unfolding wp_bnd
    by (rule wp_due [OF ok_power_updateVolume [where P = "\<lambda>_. True"] clock that(2)])
      (auto simp: wp_ret again [OF that(1)] split: option.split)
  show ?case
    unfolding resizeLoop.simps
  proof (rule wp_wait [OF clock less.prems], unfold wp_bnd [of "power_getInstance E pw i"])
    fix m and v :: world
    assume m: "n = Suc m" and d: "due E timeout m (hist v)"
    show "wp (power_getInstance E pw i) (\<lambda>r. wp (case r of
         Inl _ \<Rightarrow> resizeLoop n E pw i timeout
       | Inr ins \<Rightarrow> (case pvm_VolumeIDs ins of
           [] \<Rightarrow> resizeLoop n E pw i timeout
         | v # _ \<Rightarrow> must (pvm_DiskSize ins) (\<lambda>size.
             if f64_eq size (pw_Disk pw) then ret True
             else bnd (power_updateVolume E pw v) (\<lambda>err. case err of
               Some _ \<Rightarrow> resizeLoop n E pw i timeout
             | None \<Rightarrow> ret True)))) (\<lambda>r _. r)) v"
      by (rule wp_due [OF ok_power_getInstance [OF sdk, where P = "\<lambda>_. True"] clock d], simp)
        (auto simp: wp_ret wp_must volume [OF m] again [OF m] pvm_documented_def split: sum.split list.split)
  qed
qed

lemma IBMP_TerminateInstance_starts: "starts_loop E (TerminateLoopP pw i) (IBMP_TerminateInstance E pw i)"
  unfolding IBMP_TerminateInstance_def
  by (rule starts_loop_bnd [OF ok_getPowerClient], simp add: quiet_def, simp add: quiet_def)
    (auto split: option.split intro!: starts_loop_ret starts_loop_go starts_loop_bnd [OF ok_power_deleteInstance]
      simp: quiet_def)

text \<open>C25: the goroutine that \<open>TerminateInstance\<close> of the Power provider starts ends after at most 62
  rounds, whatever the service answers and whenever the goroutine is scheduled.\<close>

theorem IBMP_TerminateInstance_loop_ends:
  assumes "sdk_documented E" "clock_documented E"
    and "IBMP_TerminateInstance E pw i w = Some (res, w')"
    and "hist w' = hist w @ es" "EvGo (TerminateLoopP pw' i' T) \<in> set es"
    and "hist v = hist w' @ fs"
  shows "\<exists>v'. terminateLoopP 62 E pw' i' T v = Some (True, v')"
proof -
  from starts_loop_due [OF IBMP_TerminateInstance_starts assms(2-5)] assms(6)
  have g: "pw' = pw" "i' = i" and d: "due E T 61 (hist v)" by auto
  have "wp (terminateLoopP (Suc 61) E pw i T) (\<lambda>r _. r) v" by (rule terminateLoopP_due [OF assms(1,2) d])
  then show ?thesis unfolding g by (auto simp add: wp_iff_Some simp del: terminateLoopP.simps)
qed

theorem IBMP_TerminateInstance_loop_ends_witness:
  "\<exists>res w' pw T v'. IBMP_TerminateInstance (stuckCloud []) pw ''id'' initial = Some (res, w') \<and>
    EvGo (TerminateLoopP pw ''id'' T) \<in> set (hist w') \<and> terminateLoopP 62 (stuckCloud []) pw ''id'' T w' = Some (True, v')"
proof -
  let ?pw = "CreateIBMPowerCloudConfig offline ''p'' [] ''ns''"
  have "wp (IBMP_TerminateInstance (stuckCloud []) ?pw ''id'') (\<lambda>_ w'. \<exists>T. EvGo (TerminateLoopP ?pw ''id'' T) \<in> set (hist w')) initial"
    by (auto simp: IBMP_TerminateInstance_def getPowerClient_def createAuthenticatedBaseService_def NewBaseService_def wp
        power_deleteInstance_def Let_def GetSecret_def Now_def Go_def stuckCloud_def fixture_defs split: sum.split option.split)
  then obtain res w' T where run: "IBMP_TerminateInstance (stuckCloud []) ?pw ''id'' initial = Some (res, w')"
    and e: "EvGo (TerminateLoopP ?pw ''id'' T) \<in> set (hist w')" by (auto simp: wp_iff_Some)
  have "hist w' = hist initial @ hist w'" by (simp add: initial_def)
  from IBMP_TerminateInstance_loop_ends [OF stuckCloud_documented(2,1) run this e append_Nil2 [symmetric]] run e show ?thesis
    by blast
qed

text \<open>The goroutine that resizes the volume of a new Power instance ends after at most 62 rounds,
  also when its configured size is not a number.\<close>

theorem resizeInstanceVolume_loop_ends:
  assumes "sdk_documented E" "clock_documented E"
    and "resizeInstanceVolume E pw i w = Some (res, w')" "hist v = hist w' @ fs"
  shows "\<exists>T v'. hist w' = hist w @ [EvNow (T - 10 * Minute), EvGo (ResizeLoop pw (ToString i) T)] \<and>
    resizeLoop 62 E pw (ToString i) T v = Some (True, v')"
proof -
  let ?T = "s_now (sys E) (hist w) + 10 * Minute"
  have w': "hist w' = hist w @ [EvNow (?T - 10 * Minute), EvGo (ResizeLoop pw (ToString i) ?T)]"
    using assms(3) by (auto simp: resizeInstanceVolume_def bnd_Some Now_def Go_def call_Some)
  then have "due E ?T 61 (hist v)" using due_start [OF assms(2) refl, of "hist w"] assms(4) by simp
  from resizeLoop_due [OF assms(1,2) this, of pw "ToString i"] w' show ?thesis
    by (auto simp add: wp_iff_Some simp del: resizeLoop.simps)
qed

theorem resizeInstanceVolume_loop_ends_witness:
  "\<exists>pw w' T v'. resizeInstanceVolume (stuckCloud []) pw (Some ''id'') initial = Some ((), w') \<and>
    hist w' = [EvNow (T - 10 * Minute), EvGo (ResizeLoop pw ''id'' T)] \<and>
    resizeLoop 62 (stuckCloud []) pw ''id'' T w' = Some (True, v')"
proof -
  let ?pw = "CreateIBMPowerCloudConfig offline ''p'' [] ''ns''"
  obtain w' where run: "resizeInstanceVolume (stuckCloud []) ?pw (Some ''id'') initial = Some ((), w')"
    by (simp add: resizeInstanceVolume_def stuck_eval)
  from resizeInstanceVolume_loop_ends [OF stuckCloud_documented(2,1) run, of w' "[]"] run show ?thesis
    by (auto simp: ToString_def initial_def)
qed

section \<open>System Z\<close>

lemma terminateLoopZ_due:
  assumes sdk: "sdk_documented E" and clock: "clock_documented E" and d: "due E timeout n (hist w)"
    and settled: "\<And>h ins. v_get (vpc E) h i = Inr ins \<Longrightarrow> vi_Status ins \<noteq> Some ''pending''"
  shows "wp (terminateLoopZ (Suc n) E i timeout) (\<lambda>r _. r) w"
  using d
proof (induction n arbitrary: w rule: less_induct)
  case (less n)
  have poll: "wp (bnd (Now E) (\<lambda>now. if timeout < now then ret True
      else bnd (Sleep (10 * Second)) (\<lambda>_. terminateLoopZ n E i timeout))) (\<lambda>r _. r) v"
    if "due E timeout n (hist v)" for v
    by (rule wp_poll [OF clock that]) (use less.IH in auto)
  have delete: "wp (bnd (call (\<lambda>h. v_delete (vpc E) h (vi_ID ins)) (EvVpcDeleteInstance (vi_ID ins))) (\<lambda>err.
      bnd (case err of Some _ \<Rightarrow> must (vi_ID ins) (\<lambda>_. ret ()) | None \<Rightarrow> ret ()) (\<lambda>_. bnd (Now E) (\<lambda>now. if timeout < now then ret True
      else bnd (Sleep (10 * Second)) (\<lambda>_. terminateLoopZ n E i timeout))))) (\<lambda>r _. r) v"
    if "due E timeout n (hist v)" "vi_ID ins \<noteq> None" for v ins
    unfolding wp_bnd [of "call f ev" for f ev] wp_call
    using that due_grows [OF clock that(1)] by (auto simp: must_def intro!: poll split: option.split)
  have "ok (\<lambda>_. True) (vpcGetInstance E i) (\<lambda>r. \<forall>ins. r = Inr ins \<longrightarrow> vpc_instance_documented ins \<and> vi_Status ins \<noteq> Some ''pending'')"
    unfolding vpcGetInstance_def using sdk settled by (intro ok_call) (simp_all add: sdk_documented_def vpc_documented_def)
  from this clock less.prems show ?case
    unfolding terminateLoopZ.simps wp_bnd [of "vpcGetInstance E i"]
    by (rule wp_due)
      (auto simp: wp_ret wp_must vpc_instance_documented_def intro!: delete split: sum.split option.split)
qed

lemma IBMZ_TerminateInstance_starts: "starts_loop E (TerminateLoopZ iz i) (IBMZ_TerminateInstance E iz i)"
  unfolding IBMZ_TerminateInstance_def
  by (rule starts_loop_bnd [OF ok_getVpcClient], simp add: quiet_def, simp add: quiet_def)
    (auto split: option.split intro!: starts_loop_ret starts_loop_go)

text \<open>C26: the goroutine that \<open>TerminateInstance\<close> of the System Z provider starts ends after at most 62
  rounds, if the service never reports the instance as pending.\<close>

theorem IBMZ_TerminateInstance_loop_ends:
  assumes "sdk_documented E" "clock_documented E"
    and "\<And>h ins. v_get (vpc E) h i = Inr ins \<Longrightarrow> vi_Status ins \<noteq> Some ''pending''"
    and "IBMZ_TerminateInstance E iz i w = Some (res, w')"
    and "hist w' = hist w @ es" "EvGo (TerminateLoopZ iz' i' T) \<in> set es"
    and "hist v = hist w' @ fs"
  shows "\<exists>v'. terminateLoopZ 62 E i' T v = Some (True, v')"
proof -
  from starts_loop_due [OF IBMZ_TerminateInstance_starts assms(2,4-6)] assms(7)
  have g: "i' = i" and d: "due E T 61 (hist v)" by auto
  have "wp (terminateLoopZ (Suc 61) E i T) (\<lambda>r _. r) v" by (rule terminateLoopZ_due [OF assms(1,2) d assms(3)])
  then show ?thesis unfolding g by (auto simp add: wp_iff_Some simp del: terminateLoopZ.simps)
qed

theorem IBMZ_TerminateInstance_loop_ends_witness:
  "\<exists>res w' iz T v'. IBMZ_TerminateInstance (stuckCloud ''running'') iz ''id'' initial = Some (res, w') \<and>
    EvGo (TerminateLoopZ iz ''id'' T) \<in> set (hist w') \<and> terminateLoopZ 62 (stuckCloud ''running'') ''id'' T w' = Some (True, v')"
proof -
  let ?iz = "CreateIbmZCloudConfig ''p'' [] ''ns''" and ?E = "stuckCloud ''running''"
  have settled: "vi_Status ins \<noteq> Some ''pending''" if "v_get (vpc ?E) h ''id'' = Inr ins" for h ins
    using that by (auto simp: stuckCloud_def stuckVSI_def)
  have "wp (IBMZ_TerminateInstance ?E ?iz ''id'') (\<lambda>_ w'. \<exists>T. EvGo (TerminateLoopZ ?iz ''id'' T) \<in> set (hist w')) initial"
    by (auto simp: IBMZ_TerminateInstance_def getVpcClient_def createAuthenticatedVpcService_def NewVpcV1_def wp
        GetSecret_def Now_def Go_def stuckCloud_def fixture_defs split: sum.split option.split)
  then obtain res w' T where run: "IBMZ_TerminateInstance ?E ?iz ''id'' initial = Some (res, w')"
    and e: "EvGo (TerminateLoopZ ?iz ''id'' T) \<in> set (hist w')" by (auto simp: wp_iff_Some)
  have "hist w' = hist initial @ hist w'" by (simp add: initial_def)
  then have "\<exists>v'. terminateLoopZ 62 ?E ''id'' T w' = Some (True, v')"
    by (intro IBMZ_TerminateInstance_loop_ends [OF stuckCloud_documented(2,1) settled run _ e append_Nil2 [symmetric]])
  with run e show ?thesis by blast
qed

text \<open>C27: for an instance that stays pending the same goroutine never ends: whatever the deadline and
  however many rounds it is given, it only asks for the instance and sleeps.\<close>

theorem terminateLoopZ_pending_never_ends:
  assumes "\<And>h. \<exists>ins. v_get (vpc E) h i = Inr ins \<and> vi_Status ins = Some ''pending''"
  shows "\<exists>w' es. terminateLoopZ n E i T w = Some (False, w') \<and> hist w' = hist w @ es \<and> length es = 2 * n \<and>
    list_all (\<lambda>e. case e of EvVpcGetInstance j _ \<Rightarrow> j = i | EvSleep d \<Rightarrow> d = 10 * Second | _ \<Rightarrow> False) es"
proof (induction n arbitrary: w)
  case 0
  then show ?case by simp
next
  case (Suc n)
  obtain ins where ins: "v_get (vpc E) (hist w) i = Inr ins" "vi_Status ins = Some ''pending''" using assms by blast
  let ?v = "w\<lparr>hist := hist w @ [EvVpcGetInstance i (Inr ins), EvSleep (10 * Second)]\<rparr>"
  have "terminateLoopZ (Suc n) E i T w = terminateLoopZ n E i T ?v"
    using ins by (simp add: vpcGetInstance_def Sleep_def call_def bnd_def must_def)
  moreover from Suc [of ?v] obtain w' es where "terminateLoopZ n E i T ?v = Some (False, w')"
    "hist w' = hist ?v @ es" "length es = 2 * n"
    "list_all (\<lambda>e. case e of EvVpcGetInstance j _ \<Rightarrow> j = i | EvSleep d \<Rightarrow> d = 10 * Second | _ \<Rightarrow> False) es" by blast
  ultimately show ?case by simp
qed

theorem terminateLoopZ_pending_never_ends_witness:
  "\<exists>w' es. terminateLoopZ 1000 (stuckCloud ''pending'') ''id'' 0 initial = Some (False, w') \<and> hist w' = es \<and> length es = 2000"
proof -
  have "\<And>h. \<exists>ins. v_get (vpc (stuckCloud ''pending'')) h ''id'' = Inr ins \<and> vi_Status ins = Some ''pending''"
    by (simp add: stuckCloud_def stuckVSI_def)
  from terminateLoopZ_pending_never_ends [OF this, of 1000 0 initial] show ?thesis
    by (auto simp: initial_def)
qed

end
