(* ===== verification/OTP.thy ===== *)
theory OTP
  imports MPC_Prelude
begin

text \<open>
  The one-time password server (\<open>cmd/otp/otp.go\<close>): \<open>/store-key\<close> keeps a secret under a random token,
  \<open>/otp\<close> hands it out once. Both handlers run their whole access to the map under one mutex, so a run
  of the server is a sequence of handled requests in the order in which the mutex was taken. The
  random source is a parameter: the answers of \<open>rand.Int\<close>, one per call. The map is shown to be the
  function of the past that a reader of the protocol expects.
\<close>

section \<open>State and requests\<close>

text \<open>The package variable \<open>globalMap\<close> and the number of random numbers drawn so far.\<close>

record otp_state =
  globalMap :: strmap
  drawn :: nat

definition otp_initial :: otp_state where
  "otp_initial = \<lparr>globalMap = Map.empty, drawn = 0\<rparr>"

text \<open>A request with what its environment does: the answer of \<open>io.ReadAll\<close> for its body, and the error
  that writing the response meets, if any.\<close>

record http_request =
  rq_Body :: "goerror + string"
  rq_WriteError :: "goerror option"

datatype otp_request = StoreKey http_request | Otp http_request

text \<open>What the client sees: a body with status 200, a status alone, or a broken connection.\<close>

datatype otp_response = Written string | Status nat | Broken

section \<open>Handlers\<close>

type_synonym rng = "nat \<Rightarrow> goerror + int"

definition letters :: string where
  "letters = ''0123456789ABCDEFGHIJKLMNOPQRSTUVWXYZabcdefghijklmnopqrstuvwxyz-''"

text \<open>\<open>rand.Int(rand.Reader, max)\<close>\<close>

definition rand_Int :: "rng \<Rightarrow> (otp_state, goerror + int) go" where
  "rand_Int rnd = (\<lambda>s. Some (rnd (drawn s), s\<lparr>drawn := Suc (drawn s)\<rparr>))"

text \<open>The loop of \<open>GenerateRandomString\<close>; indexing outside the letters panics.\<close>

fun randomLetters :: "rng \<Rightarrow> nat \<Rightarrow> (otp_state, goerror + string) go" where
  "randomLetters rnd 0 = ret (Inr [])"
| "randomLetters rnd (Suc n) =
     bnd (rand_Int rnd) (\<lambda>r. case r of
       Inl e \<Rightarrow> ret (Inl e)
     | Inr num \<Rightarrow>
         if num < 0 \<or> int (length letters) \<le> num then panic
         else bnd (randomLetters rnd n) (\<lambda>r. case r of
           Inl e \<Rightarrow> ret (Inl e) | Inr cs \<Rightarrow> ret (Inr (letters ! nat num # cs))))"

definition GenerateRandomString :: "rng \<Rightarrow> nat \<Rightarrow> (otp_state, goerror + string) go" where
  "GenerateRandomString rnd n = randomLetters rnd n"

definition storekey_ServeHTTP :: "rng \<Rightarrow> http_request \<Rightarrow> (otp_state, otp_response) go" where
  "storekey_ServeHTTP rnd rq =
     (case rq_Body rq of
        Inl e \<Rightarrow> ret (Status 500)
      | Inr body \<Rightarrow> bnd (GenerateRandomString rnd 20) (\<lambda>r. case r of
          Inl e \<Rightarrow> ret (Status 500)
        | Inr otp \<Rightarrow> bnd (modify (\<lambda>s. s\<lparr>globalMap := (globalMap s)(otp \<mapsto> body)\<rparr>)) (\<lambda>_.
            case rq_WriteError rq of
              Some e \<Rightarrow> bnd (modify (\<lambda>s. s\<lparr>globalMap := (globalMap s)(otp := None)\<rparr>)) (\<lambda>_. ret Broken)
            | None \<Rightarrow> ret (Written otp))))"

definition otp_ServeHTTP :: "http_request \<Rightarrow> (otp_state, otp_response) go" where
  "otp_ServeHTTP rq =
     (case rq_Body rq of
        Inl e \<Rightarrow> ret (Status 500)
      | Inr token \<Rightarrow> bnd (reads (\<lambda>s. globalMap s token)) (\<lambda>res.
          bnd (modify (\<lambda>s. s\<lparr>globalMap := (globalMap s)(token := None)\<rparr>)) (\<lambda>_.
          case res of
            None \<Rightarrow> ret (Status 400)
          | Some key \<Rightarrow> (case rq_WriteError rq of Some e \<Rightarrow> ret Broken | None \<Rightarrow> ret (Written key)))))"

text \<open>The multiplexer of \<open>main\<close>: \<open>/store-key\<close> and \<open>/otp\<close>.\<close>

fun serve :: "rng \<Rightarrow> otp_request \<Rightarrow> (otp_state, otp_response) go" where
  "serve rnd (StoreKey rq) = storekey_ServeHTTP rnd rq"
| "serve rnd (Otp rq) = otp_ServeHTTP rq"

text \<open>A run of the server: the requests in the order of the mutex, with their responses.\<close>

fun serve_all :: "rng \<Rightarrow> otp_request list \<Rightarrow> (otp_state, otp_response list) go" where
  "serve_all rnd [] = ret []"
| "serve_all rnd (rq # rqs) = bnd (serve rnd rq) (\<lambda>x. bnd (serve_all rnd rqs) (\<lambda>xs. ret (x # xs)))"

text \<open>The server of \<open>main\<close>: its address, the least version of TLS it accepts, the time it waits for a header
  (in nanoseconds), and the callback for its certificate, which reads the files at every handshake.\<close>

record otp_server =
  srv_Addr :: string
  srv_MinVersion :: int
  srv_ReadHeaderTimeout :: int

definition CertFilePath :: string where "CertFilePath = ''/tls/tls.crt''"
definition KeyFilePath :: string where "KeyFilePath = ''/tls/tls.key''"

definition otpServer :: otp_server where
  "otpServer = \<lparr>srv_Addr = '':8443'', srv_MinVersion = 0x0303, srv_ReadHeaderTimeout = 3 * 1000000000\<rparr>"

definition GetCertificate :: "(string \<Rightarrow> string \<Rightarrow> goerror + 'c) \<Rightarrow> goerror + 'c" where
  "GetCertificate loadX509KeyPair =
     (case loadX509KeyPair CertFilePath KeyFilePath of
        Inl e \<Rightarrow> Inl (ErrWrap ''could not load TLS certs: '' e [])
      | Inr cert \<Rightarrow> Inr cert)"

section \<open>Tokens\<close>

text \<open>\<open>rand.Int\<close> as documented: a number from 0 up to, not including, the maximum.\<close>

definition rng_documented :: "rng \<Rightarrow> bool" where
  "rng_documented rnd \<longleftrightarrow> (\<forall>i num. rnd i = Inr num \<longrightarrow> 0 \<le> num \<and> num < 63)"

lemma length_letters: "length letters = 63"
  by (simp add: letters_def)

lemma distinct_letters: "distinct letters"
  by (simp add: letters_def)

lemma rand_Int_run: "rand_Int rnd s = Some (rnd (drawn s), s\<lparr>drawn := Suc (drawn s)\<rparr>)"
  by (simp add: rand_Int_def)

lemma randomLetters_run:
  assumes "rng_documented rnd"
  shows "\<exists>r k. randomLetters rnd n s = Some (r, s\<lparr>drawn := drawn s + k\<rparr>) \<and>
    (case r of Inl e \<Rightarrow> \<exists>i < n. rnd (drawn s + i) = Inl e
     | Inr t \<Rightarrow> k = n \<and> t = map (\<lambda>i. letters ! nat (projr (rnd (drawn s + i)))) [0..<n] \<and>
         (\<forall>i < n. \<not> isl (rnd (drawn s + i))))"
proof (induction n arbitrary: s)
  case 0
  then show ?case by (intro exI [of _ "Inr []"] exI [of _ 0]) (simp add: go_defs)
next
  case (Suc n)
  show ?case
  proof (cases "rnd (drawn s)")
    case (Inl e)
    then show ?thesis
      by (intro exI [of _ "Inl e"] exI [of _ 1]) (auto simp: rand_Int_run bnd_def ret_def)
  next
    case (Inr num)
    let ?s = "s\<lparr>drawn := Suc (drawn s)\<rparr>"
    have num: "0 \<le> num" "num < 63" using assms Inr by (auto simp: rng_documented_def)
    from Suc [of ?s] obtain r k where run: "randomLetters rnd n ?s = Some (r, ?s\<lparr>drawn := drawn ?s + k\<rparr>)"
      and r: "case r of Inl e \<Rightarrow> \<exists>i < n. rnd (drawn ?s + i) = Inl e
       | Inr t \<Rightarrow> k = n \<and> t = map (\<lambda>i. letters ! nat (projr (rnd (drawn ?s + i)))) [0..<n] \<and>
           (\<forall>i < n. \<not> isl (rnd (drawn ?s + i)))" by blast
    show ?thesis
    proof (cases r)
      case (Inl e)
      with r obtain i where "i < n" "rnd (drawn s + Suc i) = Inl e" by auto
      with Inl run num \<open>rnd (drawn s) = Inr num\<close> show ?thesis
        by (intro exI [of _ "Inl e"] exI [of _ "Suc k"]) (auto simp: rand_Int_run bnd_def ret_def length_letters)
    next
      case (Inr t)
      have "map f [0..<Suc n] = f 0 # map (\<lambda>i. f (Suc i)) [0..<n]" for f :: "nat \<Rightarrow> char"
        by (simp add: upt_conv_Cons map_Suc_upt [symmetric] o_def del: upt_Suc)
      moreover have "\<forall>i < Suc n. \<not> isl (rnd (drawn s + i))"
        using r Inr \<open>rnd (drawn s) = Inr num\<close> by (auto simp: less_Suc_eq_0_disj)
      ultimately show ?thesis
        using Inr run num r \<open>rnd (drawn s) = Inr num\<close>
        by (intro exI [of _ "Inr (letters ! nat num # t)"] exI [of _ "Suc n"])
          (auto simp: rand_Int_run bnd_def ret_def length_letters simp del: upt_Suc)
    qed
  qed
qed

text \<open>The token that the numbers from position \<open>p\<close> on give.\<close>

definition token :: "rng \<Rightarrow> nat \<Rightarrow> nat \<Rightarrow> string" where
  "token rnd n p = map (\<lambda>i. letters ! nat (projr (rnd (p + i)))) [0..<n]"

lemma GenerateRandomString_run:
  assumes "rng_documented rnd"
  obtains (failed) e s' where "GenerateRandomString rnd n s = Some (Inl e, s')" "globalMap s' = globalMap s" "drawn s \<le> drawn s'"
  | (ok) s' where "GenerateRandomString rnd n s = Some (Inr (token rnd n (drawn s)), s')" "globalMap s' = globalMap s"
      "drawn s' = drawn s + n" "\<forall>i < n. \<not> isl (rnd (drawn s + i))"
  using randomLetters_run [OF assms, of n s] unfolding GenerateRandomString_def token_def
  by (fastforce split: sum.splits)

lemma GenerateRandomString_Inr:
  assumes "rng_documented rnd" "GenerateRandomString rnd n s = Some (Inr t, u)"
  shows "t = token rnd n (drawn s)" "\<forall>i < n. \<not> isl (rnd (drawn s + i))" "globalMap u = globalMap s" "drawn u = drawn s + n"
  by (rule GenerateRandomString_run [OF assms(1), of n s]; use assms(2) in simp)+

lemma letters_inj: "i < 63 \<Longrightarrow> j < 63 \<Longrightarrow> letters ! i = letters ! j \<longleftrightarrow> i = j"
  using nth_eq_iff_index_eq [OF distinct_letters] by (simp add: length_letters)

text \<open>\<open>GenerateRandomString(n)\<close> gives a string of exactly \<open>n\<close> characters of the alphabet, and no two
  different sequences of random numbers give the same string: with a uniform source every string of
  that length is equally likely, and none of the randomness is lost.\<close>

theorem GenerateRandomString_injective:
  assumes "rng_documented rnd" "rng_documented rnd'"
    and "GenerateRandomString rnd n s = Some (Inr t, u)" "GenerateRandomString rnd' n s' = Some (Inr t', u')"
  shows "length t = n \<and> set t \<subseteq> set letters \<and> (t = t' \<longleftrightarrow> (\<forall>i < n. rnd (drawn s + i) = rnd' (drawn s' + i)))"
proof -
  note t = GenerateRandomString_Inr(1,2) [OF assms(1,3)] and t' = GenerateRandomString_Inr(1,2) [OF assms(2,4)]
  have num: "nat (projr (r (p + i))) < 63" "0 \<le> projr (r (p + i))"
    if "rng_documented r" "\<forall>i < n. \<not> isl (r (p + i))" "i < n" for r p i
  proof -
    from that(2,3) obtain num where "r (p + i) = Inr num" by (metis isl_def obj_sumE)
    moreover from that(1) this have "0 \<le> num" "num < 63" unfolding rng_documented_def by blast+
    ultimately show "nat (projr (r (p + i))) < 63" "0 \<le> projr (r (p + i))" by simp_all
  qed
  have "letters ! nat (projr (rnd (drawn s + i))) = letters ! nat (projr (rnd' (drawn s' + i))) \<longleftrightarrow>
      rnd (drawn s + i) = rnd' (drawn s' + i)" if "i < n" for i
    using num [OF assms(1) t(2) that] num [OF assms(2) t'(2) that] t(2) t'(2) that
    by (metis eq_nat_nat_iff letters_inj sum.expand)
  then have "t = t' \<longleftrightarrow> (\<forall>i < n. rnd (drawn s + i) = rnd' (drawn s' + i))"
    unfolding t t' token_def by auto
  moreover have "set t \<subseteq> set letters" "length t = n"
    using num(1) [OF assms(1) t(2)] unfolding t token_def by (auto simp: length_letters intro!: nth_mem)
  ultimately show ?thesis by blast
qed

theorem GenerateRandomString_injective_witness:
  "\<exists>t u t' u'. GenerateRandomString (\<lambda>_. Inr 10) 2 otp_initial = Some (Inr t, u) \<and>
     GenerateRandomString (\<lambda>i. Inr (int i mod 63)) 2 otp_initial = Some (Inr t', u') \<and> length t = 2 \<and> t \<noteq> t'"
proof -
  let ?r = "\<lambda>_. Inr 10 :: goerror + int" and ?r' = "\<lambda>i. Inr (int i mod 63) :: goerror + int"
  have d: "rng_documented ?r" "rng_documented ?r'" by (auto simp: rng_documented_def)
  have runs: "\<exists>t u. GenerateRandomString ?r 2 otp_initial = Some (Inr t, u)"
    "\<exists>t u. GenerateRandomString ?r' 2 otp_initial = Some (Inr t, u)"
    by (simp_all add: GenerateRandomString_def numeral_2_eq_2 bnd_def ret_def rand_Int_def length_letters otp_initial_def)
  then obtain t u t' u' where run: "GenerateRandomString ?r 2 otp_initial = Some (Inr t, u)"
    "GenerateRandomString ?r' 2 otp_initial = Some (Inr t', u')" by blast
  have "\<not> (\<forall>i < 2. ?r (drawn otp_initial + i) = ?r' (drawn otp_initial + i))"
    by (auto simp: otp_initial_def intro: exI [of _ 0])
  with GenerateRandomString_injective [OF d run] run show ?thesis by blast
qed

section \<open>The map as a function of the past\<close>

type_synonym otp_log = "(otp_request \<times> otp_response) list"

text \<open>What a reader of the protocol expects the server to hold: a token that was handed out holds its
  secret until somebody asks for it. The log has the latest request first.\<close>

fun held :: "otp_log \<Rightarrow> strmap" where
  "held [] = Map.empty"
| "held ((StoreKey rq, Written t) # h) = (held h)(t := (case rq_Body rq of Inl _ \<Rightarrow> None | Inr body \<Rightarrow> Some body))"
| "held ((StoreKey rq, _) # h) = held h"
| "held ((Otp rq, _) # h) = (case rq_Body rq of Inl _ \<Rightarrow> held h | Inr t \<Rightarrow> (held h)(t := None))"

text \<open>The response that this calls for.\<close>

fun expected :: "otp_log \<Rightarrow> http_request \<Rightarrow> otp_response" where
  "expected h rq = (case rq_Body rq of
     Inl _ \<Rightarrow> Status 500
   | Inr t \<Rightarrow> (case held h t of None \<Rightarrow> Status 400
       | Some body \<Rightarrow> if rq_WriteError rq = None then Written body else Broken))"

lemma storekey_run:
  assumes "rng_documented rnd"
  shows "\<exists>x s'. storekey_ServeHTTP rnd rq s = Some (x, s') \<and> drawn s \<le> drawn s' \<and>
    (case x of
       Written t \<Rightarrow> (\<exists>body. rq_Body rq = Inr body \<and> rq_WriteError rq = None \<and> globalMap s' = (globalMap s)(t \<mapsto> body)) \<and>
         t = token rnd 20 (drawn s) \<and> drawn s' = drawn s + 20
     | Status n \<Rightarrow> n = 500 \<and> globalMap s' = globalMap s
     | Broken \<Rightarrow> rq_WriteError rq \<noteq> None \<and> globalMap s' = (globalMap s)(token rnd 20 (drawn s) := None))"
proof (cases "rq_Body rq")
  case (Inl e)
  then show ?thesis by (simp add: storekey_ServeHTTP_def ret_def)
next
  case (Inr body)
  show ?thesis
    by (rule GenerateRandomString_run [OF assms, of 20 s])
      (auto simp: storekey_ServeHTTP_def Inr bnd_def ret_def modify_def split: option.split)
qed

lemma otp_run:
  "\<exists>x s'. otp_ServeHTTP rq s = Some (x, s') \<and> drawn s' = drawn s \<and>
    (case rq_Body rq of Inl _ \<Rightarrow> x = Status 500 \<and> s' = s
     | Inr t \<Rightarrow> globalMap s' = (globalMap s)(t := None) \<and>
         x = (case globalMap s t of None \<Rightarrow> Status 400 | Some body \<Rightarrow> if rq_WriteError rq = None then Written body else Broken))"
  by (auto simp: otp_ServeHTTP_def bnd_def ret_def modify_def reads_def split: sum.split option.split)

text \<open>One request keeps the map within what is expected, and equal to it unless the response to a
  store request could not be delivered.\<close>

lemma serve_step:
  assumes "rng_documented rnd" "globalMap s \<subseteq>\<^sub>m held h"
  shows "\<exists>x s'. serve rnd rq s = Some (x, s') \<and> globalMap s' \<subseteq>\<^sub>m held ((rq, x) # h) \<and>
    (globalMap s = held h \<longrightarrow> (\<nexists>q. rq = StoreKey q \<and> x = Broken) \<longrightarrow> globalMap s' = held ((rq, x) # h))"
proof (cases rq)
  case (StoreKey q)
  from storekey_run [OF assms(1), of q s] obtain x s' where run: "storekey_ServeHTTP rnd q s = Some (x, s')"
    and x: "case x of
       Written t \<Rightarrow> (\<exists>body. rq_Body q = Inr body \<and> rq_WriteError q = None \<and> globalMap s' = (globalMap s)(t \<mapsto> body)) \<and>
         t = token rnd 20 (drawn s) \<and> drawn s' = drawn s + 20
     | Status n \<Rightarrow> n = 500 \<and> globalMap s' = globalMap s
     | Broken \<Rightarrow> rq_WriteError q \<noteq> None \<and> globalMap s' = (globalMap s)(token rnd 20 (drawn s) := None)" by blast
  with assms(2) StoreKey show ?thesis
    by (cases x) (auto simp: map_le_def dom_def)
next
  case (Otp q)
  with otp_run [of q s] assms(2) show ?thesis
    by (cases "rq_Body q") (auto simp: map_le_def dom_def)
qed

lemma serve_all_log:
  assumes "rng_documented rnd" "globalMap s \<subseteq>\<^sub>m held h"
  shows "\<exists>outs s'. serve_all rnd rqs s = Some (outs, s') \<and> length outs = length rqs \<and>
    globalMap s' \<subseteq>\<^sub>m held (rev (zip rqs outs) @ h) \<and>
    (globalMap s = held h \<longrightarrow> (\<nexists>q. (StoreKey q, Broken) \<in> set (zip rqs outs)) \<longrightarrow> globalMap s' = held (rev (zip rqs outs) @ h))"
  using assms(2)
proof (induction rqs arbitrary: s h)
  case Nil
  then show ?case by (simp add: ret_def)
next
  case (Cons rq rqs)
  from serve_step [OF assms(1) Cons.prems, of rq] obtain x s1 where 1: "serve rnd rq s = Some (x, s1)"
    "globalMap s1 \<subseteq>\<^sub>m held ((rq, x) # h)"
    "globalMap s = held h \<longrightarrow> (\<nexists>q. rq = StoreKey q \<and> x = Broken) \<longrightarrow> globalMap s1 = held ((rq, x) # h)" by blast
  from Cons.IH [OF 1(2)] obtain xs s2 where "serve_all rnd rqs s1 = Some (xs, s2)" "length xs = length rqs"
    "globalMap s2 \<subseteq>\<^sub>m held (rev (zip rqs xs) @ (rq, x) # h)"
    "globalMap s1 = held ((rq, x) # h) \<longrightarrow> (\<nexists>q. (StoreKey q, Broken) \<in> set (zip rqs xs)) \<longrightarrow>
       globalMap s2 = held (rev (zip rqs xs) @ (rq, x) # h)" by blast
  with 1 show ?case by (intro exI [of _ "x # xs"] exI [of _ s2]) (auto simp: bnd_def ret_def)
qed

text \<open>C30: the server refines the protocol: after any sequence of requests it answers a request for a
  token with the secret that was last stored under it and not yet asked for, and with status 400 if
  there is none. The one deviation is status 400 instead of the secret, and only after the response to
  some store request could not be delivered.\<close>

theorem serve_all_refines:
  assumes "rng_documented rnd"
  shows "\<exists>outs s x s'. serve_all rnd rqs otp_initial = Some (outs, s) \<and> length outs = length rqs \<and>
    serve rnd (Otp rq) s = Some (x, s') \<and>
    (x = expected (rev (zip rqs outs)) rq \<or>
     x = Status 400 \<and> (\<exists>q. (StoreKey q, Broken) \<in> set (zip rqs outs)))"
proof -
  from serve_all_log [OF assms, of otp_initial "[]" rqs] obtain outs s where
    run: "serve_all rnd rqs otp_initial = Some (outs, s)" "length outs = length rqs" and
    le: "globalMap s \<subseteq>\<^sub>m held (rev (zip rqs outs))" and
    eq: "(\<nexists>q. (StoreKey q, Broken) \<in> set (zip rqs outs)) \<Longrightarrow> globalMap s = held (rev (zip rqs outs))"
    by (auto simp: otp_initial_def)
  from otp_run [of rq s] obtain x s' where x: "otp_ServeHTTP rq s = Some (x, s')"
    "case rq_Body rq of Inl _ \<Rightarrow> x = Status 500 \<and> s' = s
     | Inr t \<Rightarrow> globalMap s' = (globalMap s)(t := None) \<and>
         x = (case globalMap s t of None \<Rightarrow> Status 400 | Some body \<Rightarrow> if rq_WriteError rq = None then Written body else Broken)"
    by blast
  have "globalMap s t = None \<and> (\<exists>q. (StoreKey q, Broken) \<in> set (zip rqs outs)) \<or> globalMap s t = held (rev (zip rqs outs)) t" for t
    using le eq unfolding map_le_def dom_def by (cases "globalMap s t") (metis, simp)
  note same = this
  have "x = expected (rev (zip rqs outs)) rq \<or> x = Status 400 \<and> (\<exists>q. (StoreKey q, Broken) \<in> set (zip rqs outs))"
  proof (cases "rq_Body rq")
    case (Inl e)
    with x(2) show ?thesis by simp
  next
    case (Inr t)
    with x(2) same [of t] show ?thesis by auto
  qed
  with run x(1) show ?thesis by auto
qed

definition storeExample :: otp_request where
  "storeExample = StoreKey \<lparr>rq_Body = Inr ''key'', rq_WriteError = None\<rparr>"

lemma storeExample_run:
  "\<exists>s. serve (\<lambda>_. Inr 0) storeExample otp_initial = Some (Written (replicate 20 CHR ''0''), s) \<and> drawn s = 20"
  by (simp add: storeExample_def storekey_ServeHTTP_def GenerateRandomString_def otp_initial_def eval_nat_numeral
      bnd_def ret_def modify_def rand_Int_def letters_def)

theorem serve_all_refines_witness:
  "\<exists>outs s x s'. serve_all (\<lambda>_. Inr 0) [storeExample] otp_initial = Some (outs, s) \<and>
    serve (\<lambda>_. Inr 0) (Otp \<lparr>rq_Body = Inr (replicate 20 CHR ''0''), rq_WriteError = None\<rparr>) s = Some (x, s') \<and> x = Written ''key''"
proof -
  let ?rnd = "\<lambda>_. Inr 0 :: goerror + int" and ?q = "\<lparr>rq_Body = Inr (replicate 20 CHR ''0''), rq_WriteError = None :: goerror option\<rparr>"
  have "rng_documented ?rnd" by (simp add: rng_documented_def)
  from serve_all_refines [OF this, of "[storeExample]" ?q] obtain outs s x s' where
    r: "serve_all ?rnd [storeExample] otp_initial = Some (outs, s)" "serve ?rnd (Otp ?q) s = Some (x, s')" and
    x: "x = expected (rev (zip [storeExample] outs)) ?q \<or>
      x = Status 400 \<and> (\<exists>q. (StoreKey q, Broken) \<in> set (zip [storeExample] outs))" by blast
  have "outs = [Written (replicate 20 CHR ''0'')]"
    using r(1) storeExample_run by (auto simp: bnd_def ret_def)
  with x have "x = Written ''key''" by (simp add: storeExample_def)
  with r show ?thesis by blast
qed

section \<open>A secret is handed out once\<close>

fun asks :: "string \<Rightarrow> otp_request \<Rightarrow> bool" where
  "asks t (Otp rq) \<longleftrightarrow> rq_Body rq = Inr t"
| "asks t (StoreKey rq) \<longleftrightarrow> False"

text \<open>Later tokens differ from \<open>t\<close>.\<close>

definition fresh_after :: "rng \<Rightarrow> string \<Rightarrow> nat \<Rightarrow> bool" where
  "fresh_after rnd t p \<longleftrightarrow> (\<forall>q \<ge> p. token rnd 20 q \<noteq> t)"

lemma serve_untouched:
  assumes "rng_documented rnd" "fresh_after rnd t (drawn s)" "globalMap s t = None \<or> \<not> asks t rq"
  shows "\<exists>x s'. serve rnd rq s = Some (x, s') \<and> globalMap s' t = globalMap s t \<and> fresh_after rnd t (drawn s')"
proof (cases rq)
  case (StoreKey q)
  from storekey_run [OF assms(1), of q s] obtain x s' where "storekey_ServeHTTP rnd q s = Some (x, s')" "drawn s \<le> drawn s'"
    "globalMap s' t = globalMap s t \<or> token rnd 20 (drawn s) = t"
    by (elim exE conjE, case_tac x) auto
  with StoreKey assms(2) show ?thesis by (auto simp: fresh_after_def)
next
  case (Otp q)
  with otp_run [of q s] assms(2,3) show ?thesis
    by (cases "rq_Body q") auto
qed

lemma serve_all_untouched:
  assumes "rng_documented rnd" "fresh_after rnd t (drawn s)" "globalMap s t = None \<or> list_all (\<lambda>rq. \<not> asks t rq) rqs"
  shows "\<exists>xs s'. serve_all rnd rqs s = Some (xs, s') \<and> globalMap s' t = globalMap s t \<and> fresh_after rnd t (drawn s')"
  using assms(2,3)
proof (induction rqs arbitrary: s)
  case Nil
  then show ?case by (simp add: ret_def)
next
  case (Cons rq rqs)
  from serve_untouched [OF assms(1) Cons.prems(1), of rq] Cons.prems(2) obtain x s1 where
    1: "serve rnd rq s = Some (x, s1)" "globalMap s1 t = globalMap s t" "fresh_after rnd t (drawn s1)" by auto
  from Cons.IH [OF 1(3)] 1(2) Cons.prems(2) obtain xs s2 where "serve_all rnd rqs s1 = Some (xs, s2)"
    "globalMap s2 t = globalMap s1 t" "fresh_after rnd t (drawn s2)" by auto
  with 1 show ?case by (simp add: bnd_def ret_def)
qed

text \<open>C12: a stored secret can be fetched with its token, and only once: while nobody has asked for it,
  the first request with the token gets the secret, whatever other requests came in between, and every
  later request with the token gets status 400. This assumes that no later token is the same by
  accident.\<close>

theorem stored_key_served_once:
  assumes "rng_documented rnd"
    and "serve rnd (StoreKey rq) s = Some (Written t, s1)" "rq_Body rq = Inr body" "fresh_after rnd t (drawn s1)"
    and "list_all (\<lambda>r. \<not> asks t r) rqs" "asks t (Otp q)" "rq_WriteError q = None" "asks t (Otp q')"
  shows "\<exists>xs s2 s3 ys s4 s5. serve_all rnd rqs s1 = Some (xs, s2) \<and> serve rnd (Otp q) s2 = Some (Written body, s3) \<and>
    serve_all rnd rqs' s3 = Some (ys, s4) \<and> serve rnd (Otp q') s4 = Some (Status 400, s5)"
proof -
  have "globalMap s1 t = Some body"
    using storekey_run [OF assms(1), of rq s] assms(2,3) by auto
  then obtain xs s2 where 2: "serve_all rnd rqs s1 = Some (xs, s2)" "globalMap s2 t = Some body" "fresh_after rnd t (drawn s2)"
    using serve_all_untouched [OF assms(1,4), of rqs] assms(5) by auto
  then obtain s3 where 3: "serve rnd (Otp q) s2 = Some (Written body, s3)" "globalMap s3 t = None" "fresh_after rnd t (drawn s3)"
    using otp_run [of q s2] assms(6,7) by auto
  then obtain ys s4 where 4: "serve_all rnd rqs' s3 = Some (ys, s4)" "globalMap s4 t = None"
    using serve_all_untouched [OF assms(1) 3(3), of rqs'] by auto
  then obtain s5 where "serve rnd (Otp q') s4 = Some (Status 400, s5)"
    using otp_run [of q' s4] assms(8) by auto
  with 2 3 4 show ?thesis by blast
qed

theorem stored_key_served_once_witness:
  "\<exists>s1 xs s2 s3 ys s4 s5. serve (\<lambda>i. Inr (if i < 20 then 0 else 1)) storeExample otp_initial = Some (Written (replicate 20 CHR ''0''), s1) \<and>
    serve_all (\<lambda>i. Inr (if i < 20 then 0 else 1)) [storeExample] s1 = Some (xs, s2) \<and>
    serve (\<lambda>i. Inr (if i < 20 then 0 else 1)) (Otp \<lparr>rq_Body = Inr (replicate 20 CHR ''0''), rq_WriteError = None\<rparr>) s2 = Some (Written ''key'', s3) \<and>
    serve_all (\<lambda>i. Inr (if i < 20 then 0 else 1)) [] s3 = Some (ys, s4) \<and>
    serve (\<lambda>i. Inr (if i < 20 then 0 else 1)) (Otp \<lparr>rq_Body = Inr (replicate 20 CHR ''0''), rq_WriteError = None\<rparr>) s4 = Some (Status 400, s5)"
proof -
  let ?rnd = "\<lambda>i. Inr (if i < 20 then 0 else 1) :: goerror + int"
    and ?q = "\<lparr>rq_Body = Inr (replicate 20 CHR ''0''), rq_WriteError = None :: goerror option\<rparr>"
  have d: "rng_documented ?rnd" by (auto simp: rng_documented_def)
  have "\<exists>s. serve ?rnd storeExample otp_initial = Some (Written (replicate 20 CHR ''0''), s) \<and> drawn s = 20"
    by (simp add: storeExample_def storekey_ServeHTTP_def GenerateRandomString_def otp_initial_def eval_nat_numeral
        bnd_def ret_def modify_def rand_Int_def letters_def)
  then obtain s1 where s1: "serve ?rnd storeExample otp_initial = Some (Written (replicate 20 CHR ''0''), s1)" "drawn s1 = 20" by blast
  have "token ?rnd 20 p \<noteq> replicate 20 CHR ''0''" if "20 \<le> p" for p
  proof
    assume "token ?rnd 20 p = replicate 20 CHR ''0''"
    then have "token ?rnd 20 p ! 0 = CHR ''0''" by simp
    with that show False by (simp add: token_def letters_def)
  qed
  then have f: "fresh_after ?rnd (replicate 20 CHR ''0'') (drawn s1)" by (simp add: fresh_after_def s1(2))
  from stored_key_served_once [OF d s1(1) [unfolded storeExample_def] _ f, of "''key''" "[storeExample]" ?q ?q "[]"] s1(1)
  show ?thesis by (simp add: storeExample_def)
qed

end
