(* ===== verification/Retry.thy ===== *)
theory Retry
  imports Calls
begin

text \<open>
  The retrying Kubernetes client (\<open>pkg/util\<close>), which the reconciler uses for every call but its first
  read: a wrapper that repeats a call while it fails with an internal error of the API server. The
  wrapped client is a parameter (a record with the methods of \<open>client.Client\<close>), and so is
  \<open>retry.OnError\<close>; objects are references into the state that a method may change.
\<close>

section \<open>Interfaces\<close>

record ('w, 'o, 'p, 'a) SubResourceWriter =
  sw_Create :: "'o \<Rightarrow> 'o \<Rightarrow> 'a \<Rightarrow> ('w, goerror option) go"
  sw_Patch :: "'o \<Rightarrow> 'p \<Rightarrow> 'a \<Rightarrow> ('w, goerror option) go"
  sw_Update :: "'o \<Rightarrow> 'a \<Rightarrow> ('w, goerror option) go"

record ('w, 'o, 'p, 'a) SubResourceClient =
  sc_Create :: "'o \<Rightarrow> 'o \<Rightarrow> 'a \<Rightarrow> ('w, goerror option) go"
  sc_Get :: "'o \<Rightarrow> 'o \<Rightarrow> 'a \<Rightarrow> ('w, goerror option) go"
  sc_Patch :: "'o \<Rightarrow> 'p \<Rightarrow> 'a \<Rightarrow> ('w, goerror option) go"
  sc_Update :: "'o \<Rightarrow> 'a \<Rightarrow> ('w, goerror option) go"

record ('w, 'o, 'p, 'a) Client =
  c_Create :: "'o \<Rightarrow> 'a \<Rightarrow> ('w, goerror option) go"
  c_Delete :: "'o \<Rightarrow> 'a \<Rightarrow> ('w, goerror option) go"
  c_DeleteAllOf :: "'o \<Rightarrow> 'a \<Rightarrow> ('w, goerror option) go"
  c_Get :: "nsname \<Rightarrow> 'o \<Rightarrow> 'a \<Rightarrow> ('w, goerror option) go"
  c_GroupVersionKindFor :: "'o \<Rightarrow> goerror + string"
  c_IsObjectNamespaced :: "'o \<Rightarrow> goerror + bool"
  c_List :: "'o \<Rightarrow> 'a \<Rightarrow> ('w, goerror option) go"
  c_Patch :: "'o \<Rightarrow> 'p \<Rightarrow> 'a \<Rightarrow> ('w, goerror option) go"
  c_RESTMapper :: string
  c_Scheme :: string
  c_Status :: "('w, 'o, 'p, 'a) SubResourceWriter"
  c_SubResource :: "string \<Rightarrow> ('w, 'o, 'p, 'a) SubResourceClient"
  c_Update :: "'o \<Rightarrow> 'a \<Rightarrow> ('w, goerror option) go"

type_synonym ('w, 'b) OnError =
  "'b \<Rightarrow> (goerror \<Rightarrow> bool) \<Rightarrow> ('w, goerror option) go \<Rightarrow> ('w, goerror option) go"

section \<open>The wrapper\<close>

record ('w, 'o, 'p, 'a, 'b) retryClient =
  inner :: "('w, 'o, 'p, 'a) Client"
  backoff :: 'b

record ('w, 'o, 'p, 'a, 'b) retrySubResourceWriter =
  sw_inner :: "('w, 'o, 'p, 'a) SubResourceWriter"
  sw_backoff :: 'b

record ('w, 'o, 'p, 'a, 'b) retrySubresourceClient =
  sc_inner :: "('w, 'o, 'p, 'a) SubResourceClient"
  sc_backoff :: 'b

definition writer_Create :: "('w, 'b) OnError \<Rightarrow> ('w, 'o, 'p, 'a, 'b) retrySubResourceWriter \<Rightarrow> 'o \<Rightarrow> 'o \<Rightarrow> 'a \<Rightarrow> ('w, goerror option) go" where
  "writer_Create onError r obj subResource opts =
     onError (sw_backoff r) IsInternalError (sw_Create (sw_inner r) obj subResource opts)"

definition writer_Patch :: "('w, 'b) OnError \<Rightarrow> ('w, 'o, 'p, 'a, 'b) retrySubResourceWriter \<Rightarrow> 'o \<Rightarrow> 'p \<Rightarrow> 'a \<Rightarrow> ('w, goerror option) go" where
  "writer_Patch onError r obj patch opts = onError (sw_backoff r) IsInternalError (sw_Patch (sw_inner r) obj patch opts)"

definition writer_Update :: "('w, 'b) OnError \<Rightarrow> ('w, 'o, 'p, 'a, 'b) retrySubResourceWriter \<Rightarrow> 'o \<Rightarrow> 'a \<Rightarrow> ('w, goerror option) go" where
  "writer_Update onError r obj opts = onError (sw_backoff r) IsInternalError (sw_Update (sw_inner r) obj opts)"

definition sub_Create :: "('w, 'b) OnError \<Rightarrow> ('w, 'o, 'p, 'a, 'b) retrySubresourceClient \<Rightarrow> 'o \<Rightarrow> 'o \<Rightarrow> 'a \<Rightarrow> ('w, goerror option) go" where
  "sub_Create onError r obj subResource opts =
     onError (sc_backoff r) IsInternalError (sc_Create (sc_inner r) obj subResource opts)"

definition sub_Get :: "('w, 'b) OnError \<Rightarrow> ('w, 'o, 'p, 'a, 'b) retrySubresourceClient \<Rightarrow> 'o \<Rightarrow> 'o \<Rightarrow> 'a \<Rightarrow> ('w, goerror option) go" where
  "sub_Get onError r obj subResource opts = onError (sc_backoff r) IsInternalError (sc_Get (sc_inner r) obj subResource opts)"

definition sub_Patch :: "('w, 'b) OnError \<Rightarrow> ('w, 'o, 'p, 'a, 'b) retrySubresourceClient \<Rightarrow> 'o \<Rightarrow> 'p \<Rightarrow> 'a \<Rightarrow> ('w, goerror option) go" where
  "sub_Patch onError r obj patch opts = onError (sc_backoff r) IsInternalError (sc_Patch (sc_inner r) obj patch opts)"

definition sub_Update :: "('w, 'b) OnError \<Rightarrow> ('w, 'o, 'p, 'a, 'b) retrySubresourceClient \<Rightarrow> 'o \<Rightarrow> 'a \<Rightarrow> ('w, goerror option) go" where
  "sub_Update onError r obj opts = onError (sc_backoff r) IsInternalError (sc_Update (sc_inner r) obj opts)"

text \<open>The methods of \<open>retryClient\<close>; those that do not touch the server pass through.\<close>

definition retry_Create :: "('w, 'b) OnError \<Rightarrow> ('w, 'o, 'p, 'a, 'b) retryClient \<Rightarrow> 'o \<Rightarrow> 'a \<Rightarrow> ('w, goerror option) go" where
  "retry_Create onError r obj opts = onError (backoff r) IsInternalError (c_Create (inner r) obj opts)"

definition retry_Delete :: "('w, 'b) OnError \<Rightarrow> ('w, 'o, 'p, 'a, 'b) retryClient \<Rightarrow> 'o \<Rightarrow> 'a \<Rightarrow> ('w, goerror option) go" where
  "retry_Delete onError r obj opts = onError (backoff r) IsInternalError (c_Delete (inner r) obj opts)"

definition retry_DeleteAllOf :: "('w, 'b) OnError \<Rightarrow> ('w, 'o, 'p, 'a, 'b) retryClient \<Rightarrow> 'o \<Rightarrow> 'a \<Rightarrow> ('w, goerror option) go" where
  "retry_DeleteAllOf onError r obj opts = onError (backoff r) IsInternalError (c_DeleteAllOf (inner r) obj opts)"

definition retry_Get :: "('w, 'b) OnError \<Rightarrow> ('w, 'o, 'p, 'a, 'b) retryClient \<Rightarrow> nsname \<Rightarrow> 'o \<Rightarrow> 'a \<Rightarrow> ('w, goerror option) go" where
  "retry_Get onError r key obj opts = onError (backoff r) IsInternalError (c_Get (inner r) key obj opts)"

definition retry_GroupVersionKindFor :: "('w, 'o, 'p, 'a, 'b) retryClient \<Rightarrow> 'o \<Rightarrow> goerror + string" where
  "retry_GroupVersionKindFor r obj = c_GroupVersionKindFor (inner r) obj"

definition retry_IsObjectNamespaced :: "('w, 'o, 'p, 'a, 'b) retryClient \<Rightarrow> 'o \<Rightarrow> goerror + bool" where
  "retry_IsObjectNamespaced r obj = c_IsObjectNamespaced (inner r) obj"

definition retry_List :: "('w, 'b) OnError \<Rightarrow> ('w, 'o, 'p, 'a, 'b) retryClient \<Rightarrow> 'o \<Rightarrow> 'a \<Rightarrow> ('w, goerror option) go" where
  "retry_List onError r xs opts = onError (backoff r) IsInternalError (c_List (inner r) xs opts)"

definition retry_Patch :: "('w, 'b) OnError \<Rightarrow> ('w, 'o, 'p, 'a, 'b) retryClient \<Rightarrow> 'o \<Rightarrow> 'p \<Rightarrow> 'a \<Rightarrow> ('w, goerror option) go" where
  "retry_Patch onError r obj patch opts = onError (backoff r) IsInternalError (c_Patch (inner r) obj patch opts)"

definition retry_RESTMapper :: "('w, 'o, 'p, 'a, 'b) retryClient \<Rightarrow> string" where
  "retry_RESTMapper r = c_RESTMapper (inner r)"

definition retry_Scheme :: "('w, 'o, 'p, 'a, 'b) retryClient \<Rightarrow> string" where
  "retry_Scheme r = c_Scheme (inner r)"

definition retry_Status :: "('w, 'b) OnError \<Rightarrow> ('w, 'o, 'p, 'a, 'b) retryClient \<Rightarrow> ('w, 'o, 'p, 'a) SubResourceWriter" where
  "retry_Status onError r =
     (let w = \<lparr>sw_inner = c_Status (inner r), sw_backoff = backoff r\<rparr>
      in \<lparr>sw_Create = writer_Create onError w, sw_Patch = writer_Patch onError w, sw_Update = writer_Update onError w\<rparr>)"

definition retry_SubResource :: "('w, 'b) OnError \<Rightarrow> ('w, 'o, 'p, 'a, 'b) retryClient \<Rightarrow> string \<Rightarrow> ('w, 'o, 'p, 'a) SubResourceClient" where
  "retry_SubResource onError r subResource =
     (let c = \<lparr>sc_inner = c_SubResource (inner r) subResource, sc_backoff = backoff r\<rparr>
      in \<lparr>sc_Create = sub_Create onError c, sc_Get = sub_Get onError c, sc_Patch = sub_Patch onError c,
          sc_Update = sub_Update onError c\<rparr>)"

definition retry_Update :: "('w, 'b) OnError \<Rightarrow> ('w, 'o, 'p, 'a, 'b) retryClient \<Rightarrow> 'o \<Rightarrow> 'a \<Rightarrow> ('w, goerror option) go" where
  "retry_Update onError r obj opts = onError (backoff r) IsInternalError (c_Update (inner r) obj opts)"

definition NewRetryClient :: "('w, 'b) OnError \<Rightarrow> ('w, 'o, 'p, 'a) Client \<Rightarrow> 'b \<Rightarrow> ('w, 'o, 'p, 'a) Client" where
  "NewRetryClient onError client b =
     (let r = \<lparr>inner = client, backoff = b\<rparr>
      in \<lparr>c_Create = retry_Create onError r, c_Delete = retry_Delete onError r,
          c_DeleteAllOf = retry_DeleteAllOf onError r, c_Get = retry_Get onError r,
          c_GroupVersionKindFor = retry_GroupVersionKindFor r, c_IsObjectNamespaced = retry_IsObjectNamespaced r,
          c_List = retry_List onError r, c_Patch = retry_Patch onError r, c_RESTMapper = retry_RESTMapper r,
          c_Scheme = retry_Scheme r, c_Status = retry_Status onError r, c_SubResource = retry_SubResource onError r,
          c_Update = retry_Update onError r\<rparr>)"

lemmas retry_defs = NewRetryClient_def retry_Create_def retry_Delete_def retry_DeleteAllOf_def retry_Get_def
  retry_GroupVersionKindFor_def retry_IsObjectNamespaced_def retry_List_def retry_Patch_def retry_RESTMapper_def
  retry_Scheme_def retry_Status_def retry_SubResource_def retry_Update_def writer_Create_def writer_Patch_def
  writer_Update_def sub_Create_def sub_Get_def sub_Patch_def sub_Update_def

section \<open>What a retried call does\<close>

text \<open>\<open>k\<close> runs of a call one after the other, all but the last of which end in an internal error.\<close>

inductive attempts :: "('w, goerror option) go \<Rightarrow> nat \<Rightarrow> 'w \<Rightarrow> goerror option \<Rightarrow> 'w \<Rightarrow> bool" for fn where
  last: "fn w = Some (r, w') \<Longrightarrow> attempts fn 1 w r w'"
| again: "fn w = Some (Some e, v) \<Longrightarrow> IsInternalError e \<Longrightarrow> attempts fn k v r w' \<Longrightarrow> attempts fn (Suc k) w r w'"

definition internal :: "goerror option \<Rightarrow> bool" where
  "internal r \<longleftrightarrow> (case r of None \<Rightarrow> False | Some e \<Rightarrow> IsInternalError e)"

text \<open>The contract of a call \<open>g\<close> that retries \<open>f\<close>: its result is that of the last of at most \<open>n\<close> attempts,
  and it stops before the \<open>n\<close>-th one only with success or an error that is not internal.\<close>

definition retries :: "nat \<Rightarrow> ('w, goerror option) go \<Rightarrow> ('w, goerror option) go \<Rightarrow> bool" where
  "retries n f g \<longleftrightarrow> (\<forall>w r w'. g w = Some (r, w') \<longleftrightarrow> (\<exists>k \<le> n. attempts f k w r w' \<and> (k < n \<longrightarrow> \<not> internal r)))"

text \<open>\<open>retry.OnError\<close> for a backoff of \<open>n\<close> steps, \<open>n\<close> at least 1, as documented.\<close>

definition onError_documented :: "('w, 'b) OnError \<Rightarrow> 'b \<Rightarrow> nat \<Rightarrow> bool" where
  "onError_documented onError b n \<longleftrightarrow> 0 < n \<and> (\<forall>retriable fn. onError b retriable fn = on_error n retriable fn)"

inductive_cases attempts_elim: "attempts fn k w r w'"

lemma attempts_0: "\<not> attempts fn 0 w r w'"
  by (auto elim: attempts_elim)

lemma attempts_Suc:
  "attempts fn (Suc k) w r w' \<longleftrightarrow> k = 0 \<and> fn w = Some (r, w') \<or>
     (\<exists>e v. fn w = Some (Some e, v) \<and> IsInternalError e \<and> attempts fn k v r w')"
  by (auto elim: attempts_elim intro: attempts.intros attempts.last [simplified])

lemma on_error_attempts: "retries (Suc n) fn (on_error (Suc n) IsInternalError fn)"
proof (induction n)
  case 0
  show ?case
    unfolding retries_def
    by (auto simp: bnd_Some le_Suc_eq attempts_0 attempts_Suc split: option.splits if_splits)
next
  case (Suc n)
  let ?g = "on_error (Suc n) IsInternalError fn"
  have step: "on_error (Suc (Suc n)) IsInternalError fn w = Some (r, w') \<longleftrightarrow>
      fn w = Some (r, w') \<and> \<not> internal r \<or> (\<exists>e v. fn w = Some (Some e, v) \<and> IsInternalError e \<and> ?g v = Some (r, w'))" for w r w'
    by (simp only: on_error.simps(2) [of "Suc n"] bnd_Some)
      (auto simp: internal_def simp del: on_error.simps split: option.splits)
  have "(\<exists>k \<le> Suc (Suc n). attempts fn k w r w' \<and> (k < Suc (Suc n) \<longrightarrow> \<not> internal r)) \<longleftrightarrow>
      fn w = Some (r, w') \<and> \<not> internal r \<or>
      (\<exists>e v. fn w = Some (Some e, v) \<and> IsInternalError e \<and> (\<exists>k \<le> Suc n. attempts fn k v r w' \<and> (k < Suc n \<longrightarrow> \<not> internal r)))" for w r w'
  proof -
    have "(\<exists>k \<le> Suc (Suc n). attempts fn k w r w' \<and> (k < Suc (Suc n) \<longrightarrow> \<not> internal r)) \<longleftrightarrow>
      (\<exists>k \<le> Suc n. attempts fn (Suc k) w r w' \<and> (k < Suc n \<longrightarrow> \<not> internal r))"
      by (metis Suc_le_mono Suc_less_eq attempts_0 not0_implies_Suc)
    then show ?thesis unfolding attempts_Suc by (auto simp: attempts_0)
  qed
  with step Suc show ?case unfolding retries_def by auto
qed

lemma onError_retries:
  assumes "onError_documented onError b n"
  shows "retries n fn (onError b IsInternalError fn)"
proof -
  from assms obtain m where "n = Suc m" "onError b IsInternalError fn = on_error (Suc m) IsInternalError fn"
    by (auto simp: onError_documented_def gr0_conv_Suc)
  then show ?thesis using on_error_attempts by metis
qed

text \<open>C15: every method of the retrying client that reaches the API server, those of its status writer and
  its subresource clients included, answers with the result of the last of at most \<open>n\<close> attempts of the
  wrapped method with the same arguments, where \<open>n\<close> is the number of steps of the backoff; it gives up
  earlier only with success or with an error that is not internal. The other methods answer as the
  wrapped client does.\<close>

theorem NewRetryClient_retries:
  fixes c :: "('w, 'o, 'p, 'a) Client"
  assumes "onError_documented onError b n"
  defines "c' \<equiv> NewRetryClient onError c b"
  shows "retries n (c_Create c obj a) (c_Create c' obj a) \<and> retries n (c_Delete c obj a) (c_Delete c' obj a) \<and>
    retries n (c_DeleteAllOf c obj a) (c_DeleteAllOf c' obj a) \<and> retries n (c_Get c key obj a) (c_Get c' key obj a) \<and>
    retries n (c_List c obj a) (c_List c' obj a) \<and> retries n (c_Patch c obj p a) (c_Patch c' obj p a) \<and>
    retries n (c_Update c obj a) (c_Update c' obj a) \<and>
    retries n (sw_Create (c_Status c) obj sub a) (sw_Create (c_Status c') obj sub a) \<and>
    retries n (sw_Patch (c_Status c) obj p a) (sw_Patch (c_Status c') obj p a) \<and>
    retries n (sw_Update (c_Status c) obj a) (sw_Update (c_Status c') obj a) \<and>
    retries n (sc_Create (c_SubResource c nm) obj sub a) (sc_Create (c_SubResource c' nm) obj sub a) \<and>
    retries n (sc_Get (c_SubResource c nm) obj sub a) (sc_Get (c_SubResource c' nm) obj sub a) \<and>
    retries n (sc_Patch (c_SubResource c nm) obj p a) (sc_Patch (c_SubResource c' nm) obj p a) \<and>
    retries n (sc_Update (c_SubResource c nm) obj a) (sc_Update (c_SubResource c' nm) obj a) \<and>
    c_GroupVersionKindFor c' = c_GroupVersionKindFor c \<and> c_IsObjectNamespaced c' = c_IsObjectNamespaced c \<and>
    c_RESTMapper c' = c_RESTMapper c \<and> c_Scheme c' = c_Scheme c"
  by (simp add: c'_def retry_defs Let_def fun_eq_iff onError_retries [OF assms(1)])

text \<open>An inner client for the examples: the state is the number of objects the server has; creating
  stores the object and reports an internal error the first time.\<close>

definition flakyClient :: "(nat, unit, unit, unit) Client" where
  "flakyClient = \<lparr>c_Create = (\<lambda>_ _ n. Some (if n = 0 then Some (ErrAPI InternalError ''etcdserver: request timed out'') else None, Suc n)),
     c_Delete = (\<lambda>_ _. ret None), c_DeleteAllOf = (\<lambda>_ _. ret None), c_Get = (\<lambda>_ _ _. ret None),
     c_GroupVersionKindFor = (\<lambda>_. Inr ''TaskRun''), c_IsObjectNamespaced = (\<lambda>_. Inr True), c_List = (\<lambda>_ _. ret None),
     c_Patch = (\<lambda>_ _ _. ret None), c_RESTMapper = [], c_Scheme = [],
     c_Status = \<lparr>sw_Create = (\<lambda>_ _ _. ret None), sw_Patch = (\<lambda>_ _ _. ret None), sw_Update = (\<lambda>_ _. ret None)\<rparr>,
     c_SubResource = (\<lambda>_. \<lparr>sc_Create = (\<lambda>_ _ _. ret None), sc_Get = (\<lambda>_ _ _. ret None), sc_Patch = (\<lambda>_ _ _. ret None), sc_Update = (\<lambda>_ _. ret None)\<rparr>),
     c_Update = (\<lambda>_ _. ret None)\<rparr>"

text \<open>\<open>retry.DefaultBackoff\<close> has 4 steps.\<close>

definition default_onError :: "('w, nat) OnError" where
  "default_onError b retriable fn = on_error b retriable fn"

lemma default_onError_documented: "0 < n \<Longrightarrow> onError_documented default_onError n n"
  by (simp add: onError_documented_def default_onError_def)

theorem NewRetryClient_retries_witness:
  "retries 4 (c_Create flakyClient () ()) (c_Create (NewRetryClient default_onError flakyClient 4) () ()) \<and>
    c_Scheme (NewRetryClient default_onError flakyClient 4) = c_Scheme flakyClient"
  using NewRetryClient_retries [OF default_onError_documented [of 4], of flakyClient "()" "()"] by simp



end
