(* ===== verification/Updates.thy ===== *)
theory Updates
  imports Platforms Fixtures
begin

text \<open>
  The periodic update of the static hosts (\<open>updates.go\<close>): \<open>UpdateHostPools\<close> collects the hosts of the
  configuration and starts one goroutine per host, which waits for its turn and creates an update
  task. A \<open>range\<close> over a Go map may visit its entries in any order: the order is a parameter.
\<close>

section \<open>Collecting the hosts\<close>

definition zeroHost :: Host where
  "zeroHost = \<lparr>h_Address = [], h_Name = [], h_User = [], h_Concurrency = 0, h_Platform = [], h_Secret = [], h_StartTime = None\<rparr>"

text \<open>One entry of the configuration: the hosts so far and the texts of their concurrencies.\<close>

fun updateEntry :: "(string \<times> string) \<Rightarrow> (string \<times> Host) list \<times> gomap \<Rightarrow> (string \<times> Host) list \<times> gomap" where
  "updateEntry (k0, v) (hosts, hostsConcurrency) =
     (if \<not> prefix ''host.'' k0 then (hosts, hostsConcurrency)
      else let k = drop 5 k0;
               pos = LastIndex k (CHR ''.'')
        in if pos = - 1 then (hosts, hostsConcurrency)
           else let name = slice k 0 pos;
                    key = slice_from k (pos + 1);
                    host = (case map_of hosts name of None \<Rightarrow> zeroHost\<lparr>h_Name := name\<rparr> | Some h \<Rightarrow> h)
             in if key = ''address'' then (hput name (host\<lparr>h_Address := v\<rparr>) hosts, hostsConcurrency)
                else if key = ''user'' then (hput name (host\<lparr>h_User := v\<rparr>) hosts, hostsConcurrency)
                else if key = ''platform'' then (hput name (host\<lparr>h_Platform := v\<rparr>) hosts, hostsConcurrency)
                else if key = ''secret'' then (hput name (host\<lparr>h_Secret := v\<rparr>) hosts, hostsConcurrency)
                else if key = ''concurrency''
                then (hput name host hosts, if v \<noteq> [] then mput (h_Name host) v hostsConcurrency else hostsConcurrency)
                else (hput name host hosts, hostsConcurrency))"

definition updateHosts :: "gomap \<Rightarrow> (string \<times> Host) list \<times> gomap" where
  "updateHosts data = foldl (\<lambda>s kv. updateEntry kv s) ([], []) data"

section \<open>Updating them\<close>

definition updateTask :: "env \<Rightarrow> string \<Rightarrow> Host \<Rightarrow> gomap \<Rightarrow> TaskRun" where
  "updateTask E realHostName host hostsConcurrency =
     emptyTaskRun\<lparr>tr_GenerateName := ''update-task'', tr_Namespace := operatorNamespace (lib E),
       tr_Labels := Some [TaskTypeLabel \<mapsto> TaskTypeUpdate, AssignedHost \<mapsto> realHostName],
       tr_TaskRef := Some ''update-host'', tr_Workspaces := [(''ssh'', h_Secret host)],
       tr_Requests := [(''cpu'', ''100m''), (''memory'', ''256Mi'')],
       tr_Limits := [(''cpu'', ''100m''), (''memory'', ''256Mi'')],
       tr_ServiceAccountName := TaskRunnerServiceAccountName,
       tr_Params := Some [(''HOST'', h_Address host), (''USER'', h_User host), (''PLATFORM'', h_Platform host),
         (''CONCURRENCY'', lk hostsConcurrency (h_Name host))]\<rparr>"

text \<open>The goroutine: wait for the timer, create the task, drop the error.\<close>

definition hostUpdate :: "env \<Rightarrow> int \<Rightarrow> TaskRun \<Rightarrow> unit M" where
  "hostUpdate E delay provision = bnd (Sleep delay) (\<lambda>_. bnd (Create E provision) (\<lambda>_. ret ()))"

text \<open>One round of the loop over the hosts, with the number of hosts scheduled so far.\<close>

fun startUpdate :: "env \<Rightarrow> gomap \<Rightarrow> string \<times> Host \<Rightarrow> int \<Rightarrow> int M" where
  "startUpdate E hostsConcurrency (hostName, host) delay =
     bnd (Go (HostUpdate (i64 (Minute * delay * 10)) (updateTask E hostName host hostsConcurrency))) (\<lambda>_.
     ret (i64 (delay + 1)))"

definition UpdateHostPools :: "env \<Rightarrow> ((string \<times> Host) list \<Rightarrow> (string \<times> Host) list) \<Rightarrow> unit M" where
  "UpdateHostPools E order =
     bnd (GetConfigMap E (operatorNamespace (lib E), HostConfig)) (\<lambda>r. case r of
       Inl e \<Rightarrow> ret ()
     | Inr cm \<Rightarrow>
         let (hosts, hostsConcurrency) = updateHosts (cm_Data cm)
         in bnd (foreach (startUpdate E hostsConcurrency) (order hosts) 0) (\<lambda>_. ret ()))"

section \<open>Keys of hosts\<close>

definition hostKey :: "string \<Rightarrow> string \<Rightarrow> string" where
  "hostKey name field = ''host.'' @ name @ CHR ''.'' # field"

lemma hostKey_inj:
  assumes "CHR ''.'' \<notin> set f" "CHR ''.'' \<notin> set f'"
  shows "hostKey n f = hostKey n' f' \<longleftrightarrow> n = n' \<and> f = f'"
proof
  assume "hostKey n f = hostKey n' f'"
  then have eq: "n @ CHR ''.'' # f = n' @ CHR ''.'' # f'" by (simp add: hostKey_def)
  then have "rev f @ CHR ''.'' # rev n = rev f' @ CHR ''.'' # rev n'" by (metis append_Cons append_Nil append_assoc rev.simps(2) rev_append)
  then have "rev f = rev f'" using assms by (metis Index_first append_eq_append_conv nat_int set_rev)
  with eq show "n = n' \<and> f = f'" by simp
qed simp

lemma hostKey_cases:
  obtains (other) "\<And>s. updateEntry (k, v) s = s" "\<And>n f. CHR ''.'' \<notin> set f \<Longrightarrow> k \<noteq> hostKey n f" "hostNameOfKey k = None"
  | (host) n f where "k = hostKey n f" "CHR ''.'' \<notin> set f" "hostNameOfKey k = Some n"
proof (cases "\<exists>n f. k = hostKey n f \<and> CHR ''.'' \<notin> set f")
  case True
  then obtain n f where k: "k = hostKey n f" "CHR ''.'' \<notin> set f" by blast
  then have "hostNameOfKey k = Some n"
    by (simp add: hostNameOfKey_def hostKey_def LastIndex_last slice_def)
  with k that(2) show thesis by blast
next
  case False
  have no: "LastIndex (drop 5 k) (CHR ''.'') = - 1" if "prefix ''host.'' k"
  proof (rule ccontr)
    assume "LastIndex (drop 5 k) (CHR ''.'') \<noteq> - 1"
    then have "CHR ''.'' \<in> set (drop 5 k)" by (simp add: LastIndex_absent)
    then obtain n f where "drop 5 k = n @ CHR ''.'' # f" "CHR ''.'' \<notin> set f" by (meson split_list_last)
    moreover from that obtain r where "k = ''host.'' @ r" by (auto simp: prefix_def)
    ultimately show False using False by (simp add: hostKey_def)
  qed
  have "updateEntry (k, v) s = s" for s by (cases s) (auto simp: no Let_def)
  moreover have "hostNameOfKey k = None" by (auto simp: hostNameOfKey_def no Let_def)
  ultimately show thesis using that(1) False by blast
qed

lemma updateEntry_hostKey:
  assumes "CHR ''.'' \<notin> set f"
  defines "host \<equiv> \<lambda>hosts n. case map_of hosts n of None \<Rightarrow> zeroHost\<lparr>h_Name := n\<rparr> | Some h \<Rightarrow> h"
  shows "updateEntry (hostKey n f, v) (hosts, conc) =
    (if f = ''address'' then (hput n ((host hosts n)\<lparr>h_Address := v\<rparr>) hosts, conc)
     else if f = ''user'' then (hput n ((host hosts n)\<lparr>h_User := v\<rparr>) hosts, conc)
     else if f = ''platform'' then (hput n ((host hosts n)\<lparr>h_Platform := v\<rparr>) hosts, conc)
     else if f = ''secret'' then (hput n ((host hosts n)\<lparr>h_Secret := v\<rparr>) hosts, conc)
     else if f = ''concurrency''
     then (hput n (host hosts n) hosts, if v \<noteq> [] then mput (h_Name (host hosts n)) v conc else conc)
     else (hput n (host hosts n) hosts, conc))"
  using assms by (simp add: hostKey_def Let_def LastIndex_last slice_def slice_from_def nat_add_distrib)

section \<open>What the configuration says about a host\<close>

definition configured :: "gomap \<Rightarrow> string \<Rightarrow> string \<Rightarrow> string" where
  "configured data name field = lk data (hostKey name field)"

lemma configured_snoc:
  assumes "k \<notin> fst ` set data"
  shows "configured (data @ [(k, v)]) n f = (if k = hostKey n f then v else configured data n f)"
proof -
  have "map_of data k = None" using assms by (simp add: map_of_eq_None_iff)
  then show ?thesis by (auto simp: configured_def lk_def map_add_def split: option.split)
qed

definition hostOf :: "gomap \<Rightarrow> string \<Rightarrow> Host" where
  "hostOf data n = \<lparr>h_Address = configured data n ''address'', h_Name = n, h_User = configured data n ''user'', h_Concurrency = 0,
     h_Platform = configured data n ''platform'', h_Secret = configured data n ''secret'', h_StartTime = None\<rparr>"

text \<open>The hosts collected from a part of the configuration are those it names, with their fields.\<close>

definition collected :: "gomap \<Rightarrow> (string \<times> Host) list \<times> gomap \<Rightarrow> bool" where
  "collected data s \<longleftrightarrow> distinct (map fst (fst s)) \<and>
     (\<forall>n. map_of (fst s) n = (if n \<in> set (hostNames data) then Some (hostOf data n) else None)) \<and>
     (\<forall>n. lk (snd s) n = configured data n ''concurrency'')"

lemma hostNames_snoc: "set (hostNames (data @ [(k, v)])) = set (hostNames data) \<union> set_option (hostNameOfKey k)"
  by (auto simp: hostNames_def List.map_filter_def split: option.splits)

lemma configured_absent:
  assumes "n \<notin> set (hostNames data)" "CHR ''.'' \<notin> set f"
  shows "configured data n f = []"
proof -
  have "hostNameOfKey (hostKey n f) = Some n"
    using assms(2) by (simp add: hostNameOfKey_def hostKey_def LastIndex_last slice_def)
  then have "hostKey n f \<notin> fst ` set data"
    using assms(1) by (force simp: hostNames_def List.map_filter_def)
  then have "map_of data (hostKey n f) = None" by (simp add: map_of_eq_None_iff)
  then show ?thesis by (simp add: configured_def lk_def)
qed

lemma host_so_far:
  assumes "collected data (hosts, conc)"
  shows "(case map_of hosts n of None \<Rightarrow> zeroHost\<lparr>h_Name := n\<rparr> | Some h \<Rightarrow> h) = hostOf data n"
  using assms configured_absent [of n data] by (auto simp: collected_def hostOf_def zeroHost_def)

lemma distinct_hput: "distinct (map fst m) \<Longrightarrow> distinct (map fst (hput k v m))"
  by (simp add: keys_hput)

lemma hostOf_snoc_other:
  assumes "k \<notin> fst ` set data" "\<And>f. CHR ''.'' \<notin> set f \<Longrightarrow> k \<noteq> hostKey n f"
  shows "hostOf (data @ [(k, v)]) n = hostOf data n"
  using assms by (simp add: hostOf_def configured_snoc)

lemma collected_hput:
  assumes "collected data (hosts, conc)" "set (hostNames data') = insert n (set (hostNames data))" "h = hostOf data' n"
    and "\<And>m. m \<noteq> n \<Longrightarrow> hostOf data' m = hostOf data m" "\<And>m. lk conc' m = configured data' m ''concurrency''"
  shows "collected data' (hput n h hosts, conc')"
  using assms by (auto simp: collected_def distinct_hput map_of_hput)

lemma collected_step:
  assumes c: "collected data s" and k: "k \<notin> fst ` set data"
  shows "collected (data @ [(k, v)]) (updateEntry (k, v) s)"
proof (rule hostKey_cases [of k v])
  assume o: "\<And>s. updateEntry (k, v) s = s" "\<And>n f. CHR ''.'' \<notin> set f \<Longrightarrow> k \<noteq> hostKey n f" "hostNameOfKey k = None"
  have "hostOf (data @ [(k, v)]) n = hostOf data n" for n by (rule hostOf_snoc_other [OF k o(2)])
  moreover have "configured (data @ [(k, v)]) n ''concurrency'' = configured data n ''concurrency''" for n
    using o(2) by (simp add: configured_snoc [OF k])
  ultimately show ?thesis using c o by (simp add: collected_def hostNames_snoc)
next
  fix n f
  assume h: "k = hostKey n f" "CHR ''.'' \<notin> set f" "hostNameOfKey k = Some n"
  obtain hosts conc where s: "s = (hosts, conc)" by (cases s)
  have names: "set (hostNames (data @ [(k, v)])) = insert n (set (hostNames data))"
    using h(3) by (simp add: hostNames_snoc)
  have new: "configured (data @ [(k, v)]) m g = (if m = n \<and> g = f then v else configured data m g)" if "CHR ''.'' \<notin> set g" for m g
    unfolding configured_snoc [OF k] unfolding h(1) hostKey_inj [OF h(2) that] by auto
  have "hostOf (data @ [(k, v)]) m = hostOf data m" if "m \<noteq> n" for m
    using that by (simp add: hostOf_def new)
  note put = collected_hput [OF c [unfolded s] names _ this]
  have conc: "lk conc m = configured data m ''concurrency''" for m using c by (simp add: collected_def s)
  have upd: "f = ''address'' \<Longrightarrow> (hostOf data n)\<lparr>h_Address := v\<rparr> = hostOf (data @ [(k, v)]) n"
    "f = ''user'' \<Longrightarrow> (hostOf data n)\<lparr>h_User := v\<rparr> = hostOf (data @ [(k, v)]) n"
    "f = ''platform'' \<Longrightarrow> (hostOf data n)\<lparr>h_Platform := v\<rparr> = hostOf (data @ [(k, v)]) n"
    "f = ''secret'' \<Longrightarrow> (hostOf data n)\<lparr>h_Secret := v\<rparr> = hostOf (data @ [(k, v)]) n"
    "f \<notin> {''address'', ''user'', ''platform'', ''secret''} \<Longrightarrow> hostOf data n = hostOf (data @ [(k, v)]) n"
    by (auto simp: hostOf_def new)
  let ?conc = "if f = ''concurrency'' \<and> v \<noteq> [] then mput n v conc else conc"
  have "h_Name (hostOf d n) = n" for d by (simp add: hostOf_def)
  with upd have "updateEntry (k, v) s = (hput n (hostOf (data @ [(k, v)]) n) hosts, ?conc)"
    unfolding s h(1) updateEntry_hostKey [OF h(2)] host_so_far [OF c [unfolded s]] by simp
  moreover have "lk ?conc m = configured (data @ [(k, v)]) m ''concurrency''" for m
  proof (cases "f = ''concurrency'' \<and> m = n")
    case True
    then have "map_of data (hostKey n ''concurrency'') = None" using k by (simp add: h(1) map_of_eq_None_iff)
    then have "configured data n ''concurrency'' = []" by (simp add: configured_def lk_def)
    with True conc [of n] new [of "''concurrency''" n] show ?thesis by (auto simp: lk_def map_of_mput)
  next
    case False
    with conc [of m] new [of "''concurrency''" m] show ?thesis by (auto simp: lk_def map_of_mput)
  qed
  ultimately show ?thesis by (simp add: put)
qed

lemma updateHosts_collected:
  assumes "distinct (map fst data)"
  shows "collected data (updateHosts data)"
  using assms unfolding updateHosts_def
proof (induction data rule: rev_induct)
  case Nil
  then show ?case by (simp add: collected_def hostNames_def List.map_filter_def configured_def lk_def)
next
  case (snoc kv data)
  obtain k v where "kv = (k, v)" by (cases kv)
  with snoc show ?case by (auto intro: collected_step)
qed

section \<open>The schedule\<close>

text \<open>The tasks that the configuration calls for: one per host it names, with the host's fields.\<close>

definition hostUpdateTask :: "env \<Rightarrow> gomap \<Rightarrow> string \<Rightarrow> TaskRun" where
  "hostUpdateTask E data n =
     emptyTaskRun\<lparr>tr_GenerateName := ''update-task'', tr_Namespace := operatorNamespace (lib E),
       tr_Labels := Some [TaskTypeLabel \<mapsto> TaskTypeUpdate, AssignedHost \<mapsto> n], tr_TaskRef := Some ''update-host'',
       tr_Workspaces := [(''ssh'', configured data n ''secret'')],
       tr_Requests := [(''cpu'', ''100m''), (''memory'', ''256Mi'')], tr_Limits := [(''cpu'', ''100m''), (''memory'', ''256Mi'')],
       tr_ServiceAccountName := TaskRunnerServiceAccountName,
       tr_Params := Some [(''HOST'', configured data n ''address''), (''USER'', configured data n ''user''),
         (''PLATFORM'', configured data n ''platform''), (''CONCURRENCY'', configured data n ''concurrency'')]\<rparr>"

lemma foreach_updates:
  assumes "0 \<le> d" "d + int (length hosts) \<le> 10 ^ 6"
  shows "foreach (startUpdate E conc) hosts d w =
    Some (d + int (length hosts), w\<lparr>hist := hist w @
      map (\<lambda>i. EvGo (HostUpdate (10 * Minute * (d + int i)) (updateTask E (fst (hosts ! i)) (snd (hosts ! i)) conc))) [0..<length hosts]\<rparr>)"
  using assms
proof (induction hosts arbitrary: d w)
  case Nil
  then show ?case by (simp add: ret_def)
next
  case (Cons x hosts)
  obtain n h where x: "x = (n, h)" by (cases x)
  have i: "i64 (Minute * d * 10) = 10 * Minute * d" "i64 (d + 1) = d + 1"
    using Cons.prems by (subst i64_id; simp add: fits_def Minute_def Second_def)+
  have m: "map f [0..<length (x # hosts)] = f 0 # map (\<lambda>i. f (Suc i)) [0..<length hosts]" for f :: "nat \<Rightarrow> event"
    by (simp add: upt_conv_Cons map_Suc_upt [symmetric] o_def del: upt_Suc)
  from Cons.prems have "0 \<le> d + 1" "d + 1 + int (length hosts) \<le> 10 ^ 6" by simp_all
  from Cons.IH [OF this, of "w\<lparr>hist := hist w @ [EvGo (HostUpdate (10 * Minute * d) (updateTask E n h conc))]\<rparr>"]
  have "foreach (startUpdate E conc) hosts (d + 1) (w\<lparr>hist := hist w @ [EvGo (HostUpdate (10 * Minute * d) (updateTask E n h conc))]\<rparr>) =
    Some (d + int (length (x # hosts)), w\<lparr>hist := hist w @ EvGo (HostUpdate (10 * Minute * d) (updateTask E n h conc)) #
      map (\<lambda>i. EvGo (HostUpdate (10 * Minute * (d + int (Suc i))) (updateTask E (fst (hosts ! i)) (snd (hosts ! i)) conc))) [0..<length hosts]\<rparr>)"
    by (simp add: add.commute add.left_commute)
  then show ?case unfolding m by (simp add: x i bnd_def ret_def Go_def call_def)
qed

text \<open>C32: the update of the hosts starts exactly one goroutine for every host that the configuration
  names, whatever the order in which the maps are visited; the goroutines wait 0, 10, 20, ... minutes,
  so that no two hosts are updated at once, and each of them then creates the task with the address,
  user, platform, secret and concurrency that the configuration has for its host. When the
  configuration cannot be read nothing is started.\<close>

theorem UpdateHostPools_staggers:
  assumes "\<And>hosts. mset (order hosts) = mset hosts"
    and "\<And>cm. k_getConfigMap (kube E) (hist w) (operatorNamespace (lib E), HostConfig) = Inr cm \<Longrightarrow>
      distinct (map fst (cm_Data cm)) \<and> length (cm_Data cm) \<le> 10 ^ 6"
  shows "\<exists>w'. UpdateHostPools E order w = Some ((), w') \<and>
    (case k_getConfigMap (kube E) (hist w) (operatorNamespace (lib E), HostConfig) of
       Inl e \<Rightarrow> hist w' = hist w @ [EvGetConfigMap (operatorNamespace (lib E), HostConfig) (Inl e)]
     | Inr cm \<Rightarrow> (\<exists>names. distinct names \<and> set names = set (hostNames (cm_Data cm)) \<and>
         hist w' = hist w @ EvGetConfigMap (operatorNamespace (lib E), HostConfig) (Inr cm) #
           map (\<lambda>i. EvGo (HostUpdate (10 * Minute * int i) (hostUpdateTask E (cm_Data cm) (names ! i)))) [0..<length names]))"
proof (cases "k_getConfigMap (kube E) (hist w) (operatorNamespace (lib E), HostConfig)")
  case (Inl e)
  then show ?thesis by (simp add: UpdateHostPools_def GetConfigMap_def call_def bnd_def ret_def)
next
  case (Inr cm)
  let ?k = "(operatorNamespace (lib E), HostConfig)"
  note cfg = assms(2) [OF Inr]
  obtain hosts conc where u: "updateHosts (cm_Data cm) = (hosts, conc)" by (cases "updateHosts (cm_Data cm)")
  have c: "collected (cm_Data cm) (hosts, conc)" using updateHosts_collected cfg by (metis u)
  define hs where "hs = order hosts"
  have perm: "set hs = set hosts" "length hs = length hosts" "distinct (map fst hs)"
    using assms(1) [of hosts] c unfolding hs_def collected_def
    by (metis mset_eq_setD, metis size_mset, metis fst_conv mset_eq_imp_distinct_iff mset_map)
  have "dom (map_of hosts) = set (hostNames (cm_Data cm))" using c by (auto simp: collected_def dom_def)
  then have names: "set (map fst hs) = set (hostNames (cm_Data cm))" by (simp add: dom_map_of_conv_image_fst perm(1))
  have task: "updateTask E n h conc = hostUpdateTask E (cm_Data cm) n" if "(n, h) \<in> set hs" for n h
  proof -
    have "map_of hosts n = Some h"
      by (rule map_of_is_SomeI) (use that c perm(1) in \<open>simp_all add: collected_def\<close>)
    with c have "h = hostOf (cm_Data cm) n" "lk conc n = configured (cm_Data cm) n ''concurrency''"
      by (auto simp: collected_def split: if_splits)
    then show ?thesis by (simp add: updateTask_def hostUpdateTask_def hostOf_def)
  qed
  have "length hs = card (set (hostNames (cm_Data cm)))" using distinct_card [OF perm(3)] names by simp
  also have "\<dots> \<le> length (cm_Data cm)"
    by (rule order_trans [OF card_length]) (simp add: hostNames_def List.map_filter_def order_trans [OF length_remdups_leq])
  finally have small: "0 + int (length hs) \<le> 10 ^ 6" using cfg by simp
  have "map (\<lambda>i. EvGo (HostUpdate (10 * Minute * (0 + int i)) (updateTask E (fst (hs ! i)) (snd (hs ! i)) conc))) [0..<length hs] =
      map (\<lambda>i. EvGo (HostUpdate (10 * Minute * int i) (hostUpdateTask E (cm_Data cm) (map fst hs ! i)))) [0..<length (map fst hs)]"
    by (simp add: task)
  with foreach_updates [OF order_refl small, of E conc] perm(3) names Inr u show ?thesis
    by (auto simp add: UpdateHostPools_def GetConfigMap_def call_def bnd_def ret_def hs_def [symmetric] intro!: exI [of _ "map fst hs"])
qed

definition hostsConfig :: ConfigMap where
  "hostsConfig = \<lparr>cm_ResourceVersion = ''7'', cm_Data = [(''local-platforms'', ''linux/x86_64''), (''host.a.address'', ''10.0.0.1''),
     (''host.b.address'', ''10.0.0.2''), (''host.a.user'', ''root''), (''host.b.concurrency'', ''4'')]\<rparr>"

definition hostsEnv :: env where
  "hostsEnv = with_kube (offline_kube\<lparr>k_getConfigMap := (\<lambda>_ _. Inr hostsConfig)\<rparr>)"

theorem UpdateHostPools_staggers_witness:
  "\<exists>w' names. UpdateHostPools hostsEnv rev initial = Some ((), w') \<and> distinct names \<and> set names = {''a'', ''b''} \<and>
     hist w' = EvGetConfigMap (''multi-platform-controller'', HostConfig) (Inr hostsConfig) #
       map (\<lambda>i. EvGo (HostUpdate (10 * Minute * int i) (hostUpdateTask hostsEnv (cm_Data hostsConfig) (names ! i)))) [0..<2]"
proof -
  have g: "k_getConfigMap (kube hostsEnv) (hist initial) (operatorNamespace (lib hostsEnv), HostConfig) = Inr hostsConfig"
    by (simp add: hostsEnv_def)
  have ns: "operatorNamespace (lib hostsEnv) = ''multi-platform-controller''" by (simp add: hostsEnv_def std_libs_def)
  have n: "set (hostNames (cm_Data hostsConfig)) = {''a'', ''b''}" by code_simp
  have d: "distinct (map fst (cm_Data hostsConfig)) \<and> length (cm_Data hostsConfig) \<le> 10 ^ 6" by (simp add: hostsConfig_def)
  have h0: "hist initial = []" by (simp add: initial_def)
  have "\<exists>w'. UpdateHostPools hostsEnv rev initial = Some ((), w') \<and>
    (case k_getConfigMap (kube hostsEnv) (hist initial) (operatorNamespace (lib hostsEnv), HostConfig) of
       Inl e \<Rightarrow> hist w' = hist initial @ [EvGetConfigMap (operatorNamespace (lib hostsEnv), HostConfig) (Inl e)]
     | Inr cm \<Rightarrow> (\<exists>names. distinct names \<and> set names = set (hostNames (cm_Data cm)) \<and>
         hist w' = hist initial @ EvGetConfigMap (operatorNamespace (lib hostsEnv), HostConfig) (Inr cm) #
           map (\<lambda>i. EvGo (HostUpdate (10 * Minute * int i) (hostUpdateTask hostsEnv (cm_Data cm) (names ! i)))) [0..<length names]))"
    by (rule UpdateHostPools_staggers) (simp, use g d in auto)
  then have "\<exists>w' names. UpdateHostPools hostsEnv rev initial = Some ((), w') \<and> distinct names \<and> set names = {''a'', ''b''} \<and>
     hist w' = EvGetConfigMap (''multi-platform-controller'', HostConfig) (Inr hostsConfig) #
       map (\<lambda>i. EvGo (HostUpdate (10 * Minute * int i) (hostUpdateTask hostsEnv (cm_Data hostsConfig) (names ! i)))) [0..<length names]"
    unfolding g sum.case unfolding ns n h0 append_Nil by (elim exE conjE) (intro exI conjI; assumption)
  then obtain w' names where run: "UpdateHostPools hostsEnv rev initial = Some ((), w')" "distinct names" "set names = {''a'', ''b''}"
    and h: "hist w' = EvGetConfigMap (''multi-platform-controller'', HostConfig) (Inr hostsConfig) #
       map (\<lambda>i. EvGo (HostUpdate (10 * Minute * int i) (hostUpdateTask hostsEnv (cm_Data hostsConfig) (names ! i)))) [0..<length names]"
    by (elim exE conjE)
  have "length names = 2" using distinct_card [OF run(2)] run(3) by simp
  from h [unfolded this] run show ?thesis by (intro exI conjI)
qed

end
