(* ===== verification/Reconcile_Props.thy ===== *)
theory Reconcile_Props
  imports Reconcile Fixtures
begin

text \<open>
  Properties of the reconciler as a whole: it never panics, and what it writes to the cluster is
  confined to the task it was called for; the release of a host; the wake-up of waiting tasks; the
  memory of failed hosts; the retention of internal tasks.
\<close>

section \<open>Commands that may change the configuration cache\<close>

named_theorems safe \<open>rules for commands that return and only add permitted events\<close>

text \<open>As \<open>ok\<close>, but the configuration cache may change, if it stays valid.\<close>

definition keeps_cache :: "env \<Rightarrow> world \<Rightarrow> world \<Rightarrow> bool" where
  "keeps_cache E w w' \<longleftrightarrow> (\<forall>content. versions_documented E content \<longrightarrow> cache_valid E content w \<longrightarrow> cache_valid E content w')"

definition safe :: "env \<Rightarrow> (event \<Rightarrow> bool) \<Rightarrow> 'a M \<Rightarrow> ('a \<Rightarrow> bool) \<Rightarrow> bool" where
  "safe E P m Q \<longleftrightarrow> (\<forall>w. wp m (\<lambda>x w'. (\<exists>es. hist w' = hist w @ es \<and> list_all P es) \<and> keeps_cache E w w' \<and> Q x) w)"

lemma keeps_cache_refl [simp]: "keeps_cache E w w"
  by (simp add: keeps_cache_def)

lemma keeps_cache_trans: "keeps_cache E u v \<Longrightarrow> keeps_cache E v w \<Longrightarrow> keeps_cache E u w"
  by (simp add: keeps_cache_def)

lemma same_cache_keeps: "same_cache w w' \<Longrightarrow> keeps_cache E w w'"
  by (simp add: keeps_cache_def cache_valid_def same_cache_def)

lemma safeD:
  "safe E P m Q \<Longrightarrow> \<exists>x w' es. m w = Some (x, w') \<and> hist w' = hist w @ es \<and> list_all P es \<and> keeps_cache E w w' \<and> Q x"
  unfolding safe_def wp_iff_Some by blast

lemma ok_safe: "ok P m Q \<Longrightarrow> safe E P m Q"
  unfolding ok_def safe_def by (blast intro: wp_mono same_cache_keeps)

lemma safe_events: "safe E P m Q \<Longrightarrow> (\<And>e. P e \<Longrightarrow> P' e) \<Longrightarrow> safe E P' m Q"
  unfolding safe_def by (rule allI, erule allE, erule wp_mono) (auto simp: list_all_iff)

lemma safe_bnd [safe]:
  assumes "safe E P m R" "\<And>x. R x \<Longrightarrow> safe E P (f x) Q"
  shows "safe E P (bnd m f) Q"
  unfolding safe_def wp_iff_Some
proof (rule allI)
  fix w
  from safeD [OF assms(1)] obtain x w' es where m: "m w = Some (x, w')" "hist w' = hist w @ es" "list_all P es"
    "keeps_cache E w w'" "R x" by blast
  from safeD [OF assms(2) [OF m(5)]] obtain y w'' fs where "f x w' = Some (y, w'')" "hist w'' = hist w' @ fs" "list_all P fs"
    "keeps_cache E w' w''" "Q y" by blast
  with m show "\<exists>x w'. bnd m f w = Some (x, w') \<and> (\<exists>es. hist w' = hist w @ es \<and> list_all P es) \<and> keeps_cache E w w' \<and> Q x"
    by (auto simp: bnd_def intro: keeps_cache_trans)
qed

lemma safe_rules [safe]:
  "Q x \<Longrightarrow> safe E P (ret x) Q"
  "(b \<Longrightarrow> safe E P m Q) \<Longrightarrow> (\<not> b \<Longrightarrow> safe E P n Q) \<Longrightarrow> safe E P (if b then m else n) Q"
  "(y = None \<Longrightarrow> safe E P m Q) \<Longrightarrow> (\<And>v. y = Some v \<Longrightarrow> safe E P (f v) Q) \<Longrightarrow> safe E P (case y of None \<Rightarrow> m | Some v \<Rightarrow> f v) Q"
  "(\<And>e. z = Inl e \<Longrightarrow> safe E P (g e) Q) \<Longrightarrow> (\<And>v. z = Inr v \<Longrightarrow> safe E P (h v) Q) \<Longrightarrow> safe E P (case z of Inl e \<Rightarrow> g e | Inr v \<Rightarrow> h v) Q"
  "(\<And>a b. p = (a, b) \<Longrightarrow> safe E P (k a b) Q) \<Longrightarrow> safe E P (case p of (a, b) \<Rightarrow> k a b) Q"
  "(\<And>x. x = t \<Longrightarrow> safe E P (l x) Q) \<Longrightarrow> safe E P (let x = t in l x) Q"
  "y \<noteq> None \<Longrightarrow> (\<And>v. y = Some v \<Longrightarrow> safe E P (f v) Q) \<Longrightarrow> safe E P (must y f) Q"
  by (auto simp: safe_def wp split: option.split sum.split prod.split)

text \<open>The events of a resolution, cached or not.\<close>

lemma emits_getPlatformConfig:
  assumes "\<And>k r. P (EvGetConfigMap k r)" "\<And>m l r. P (EvRegister m l r)"
  shows "emits P (getPlatformConfig E p ns)"
proof -
  have "emits P (resolvePlatform E data p)" for data
    unfolding emits_def
  proof (intro allI impI)
    fix w r w'
    assume "resolvePlatform E data p w = Some (r, w')"
    with wp_resolvePlatform [of E data p w] obtain es where "hist w' = hist w @ es"
      "list_all (\<lambda>e. \<exists>m l x. e = EvRegister m l x) es" by (auto simp: wp_def resolves_def registers_def)
    moreover from this(2) have "list_all P es" by (rule list.pred_mono_strong) (use assms(2) in blast)
    ultimately show "\<exists>es. hist w' = hist w @ es \<and> list_all P es" by blast
  qed
  then show ?thesis unfolding getPlatformConfig_def GetConfigMap_def by (intro emits assms(1)) simp_all
qed

lemma wp_getPlatformConfig_total: "wp (getPlatformConfig E p ns) (\<lambda>_ _. True) w"
  by (auto simp: getPlatformConfig_def GetConfigMap_def wp split: sum.split option.split intro!: wp_mono [OF wp_resolvePlatform])

lemma safe_getPlatformConfig:
  assumes "\<And>k r. P (EvGetConfigMap k r)" "\<And>m l r. P (EvRegister m l r)"
  shows "safe E P (getPlatformConfig E p ns) (\<lambda>_. True)"
  unfolding safe_def
proof (rule allI)
  fix w
  obtain r w' where run: "getPlatformConfig E p ns w = Some (r, w')"
    using wp_getPlatformConfig_total [of E p ns w] by (auto simp: wp_iff_Some)
  have "keeps_cache E w w'"
    unfolding keeps_cache_def using wp_getPlatformConfig [of E _ w p ns] run by (auto simp: wp_def)
  with emitsD [OF emits_getPlatformConfig [OF assms] run]
  show "wp (getPlatformConfig E p ns) (\<lambda>x w'. (\<exists>es. hist w' = hist w @ es \<and> list_all P es) \<and> keeps_cache E w w' \<and> True) w"
    using run by (simp add: wp_def)
qed

section \<open>What each kind of task allows\<close>

text \<open>A user's task: what \<open>permitted\<close> says for it and its secret; besides, its secret may be deleted, and
  a task that waits for its platform may be told that the waiting is over.\<close>

definition user_event :: "env \<Rightarrow> TaskRun \<Rightarrow> event \<Rightarrow> bool" where
  "user_event E tr e \<longleftrightarrow>
     permitted E (objKey tr) (SecretPrefix @ tr_Name tr) e \<or>
     (\<exists>s r. e = EvDeleteSecret s r \<and> sec_Namespace s = tr_Namespace tr \<and> sec_Name s = SecretPrefix @ tr_Name tr) \<or>
     (\<exists>x r p. e = EvUpdate x r \<and> ExtractPlatform tr = Inr p \<and>
        label x WaitingForPlatformLabel = platformLabel p \<and> label x FinishedWaitingLabel = ''true'')"

text \<open>A cleanup task: it is deleted itself, once it is complete; nothing else is written.\<close>

definition clean_event :: "TaskRun \<Rightarrow> event \<Rightarrow> bool" where
  "clean_event tr e = (case e of
       EvDelete x _ \<Rightarrow> x = tr \<and> tr_CompletionTime tr \<noteq> None \<and> IsZeroTime (tr_DeletionTimestamp tr)
     | EvNow _ \<Rightarrow> True
     | _ \<Rightarrow> False)"

text \<open>A provisioning task: it is updated or deleted itself; the task of the user it works for is updated
  or gets a secret, and the pods of that task are annotated.\<close>

definition provision_event :: "TaskRun \<Rightarrow> event \<Rightarrow> bool" where
  "provision_event tr e =
     (let key = (label tr UserTaskNamespace, label tr UserTaskName)
      in case e of
           EvDelete x _ \<Rightarrow> objKey x = objKey tr
         | EvUpdate x _ \<Rightarrow> objKey x = objKey tr \<or> objKey x = key
         | EvCreateSecret s _ \<Rightarrow> (sec_Namespace s, sec_Name s) = (fst key, secretParam tr) \<and>
             sec_Labels s MultiPlatformSecretLabel = Some ''true''
         | EvUpdatePod pod _ \<Rightarrow> snd key \<in> set (pod_OwnerReferences pod)
         | _ \<Rightarrow> \<not> writes_cluster e \<and> \<not> starts_instance e \<and> \<not> stops_instance e)"

definition task_event :: "env \<Rightarrow> TaskRun \<Rightarrow> event \<Rightarrow> bool" where
  "task_event E tr =
     (if label tr TaskTypeLabel = TaskTypeClean then clean_event tr
      else if label tr TaskTypeLabel = TaskTypeProvision then provision_event tr
      else if label tr TaskTypeLabel = [] \<and> isUserTask tr then user_event E tr
      else (\<lambda>_. False))"

section \<open>Handlers of internal tasks\<close>

lemma ok_retentionOver [ok]:
  "(\<And>t. P (EvNow t)) \<Longrightarrow> ok P (retentionOver E b c) (\<lambda>_. True)"
  unfolding retentionOver_def by (rule ok | (simp; fail))+

lemma ok_handleCleanTask: "ok (clean_event tr) (handleCleanTask E tr) (\<lambda>_. True)"
  unfolding handleCleanTask_def
  by (rule ok_bnd [where R = "\<lambda>_. True"] | rule ok TrueI | (auto simp: clean_event_def; fail))+

text \<open>The parts of the provisioning handler, for an object \<open>tr'\<close> that differs from \<open>tr\<close> only in its
  annotations.\<close>

lemma provision_event_simps [simp]:
  "provision_event tr (EvNow t)" "provision_event tr (EvGet k r1)" "provision_event tr (EvApiGet k r1)"
  "provision_event tr (EvGetSecret k r2)" "provision_event tr (EvListPods ns r3)" "provision_event tr (EvRecord x a b c)"
  "provision_event tr (EvDelete x r4) \<longleftrightarrow> objKey x = objKey tr"
  "provision_event tr (EvUpdate x r1) \<longleftrightarrow> objKey x = objKey tr \<or> objKey x = (label tr UserTaskNamespace, label tr UserTaskName)"
  by (simp_all add: provision_event_def Let_def)

lemma ok_Get_keys:
  assumes "documented E" "\<And>r. P (EvGet k r)"
  shows "ok P (Get E k) (\<lambda>r. \<forall>x. r = Inr x \<longrightarrow> objKey x = k)"
  unfolding Get_def by (rule ok_call) (auto intro: assms documented_keys [OF assms(1)])

lemma ok_provisionFailed:
  assumes d: "documented E"
  shows "ok (provision_event tr) (provisionFailed E host (label tr UserTaskNamespace, label tr UserTaskName)) (\<lambda>_. True)"
proof -
  have u: "ok (provision_event tr) (UpdateTaskRunWithRetry E x) (\<lambda>_. True)"
    if "objKey x = (label tr UserTaskNamespace, label tr UserTaskName)" for x
    by (rule ok_mono [OF ok_UpdateTaskRunWithRetry [OF d]]) (simp_all add: that)
  show ?thesis
    unfolding provisionFailed_def
    by (rule ok_bnd [OF ok_Get_keys [OF d]] u | rule ok | (auto simp: objKey_set; fail))+
qed

lemma ok_createErrorSecret:
  assumes d: "documented E" and "\<And>x r. objKey x = objKey tr \<Longrightarrow> P (EvUpdate x r)"
    and "\<And>s r. sec_Namespace s = tr_Namespace tr \<Longrightarrow> sec_Name s = sn \<Longrightarrow>
      sec_Labels s MultiPlatformSecretLabel = Some ''true'' \<Longrightarrow> P (EvCreateSecret s r)"
  shows "ok P (createErrorSecret E line tr platform sn msg) (\<lambda>(err, tr'). objKey tr' = objKey tr)"
proof -
  obtain changed tr1 where a: "AddFinalizer E tr PipelineFinalizer = (changed, tr1)" by force
  then have k1: "objKey tr1 = objKey tr" using objKey_simps(5) [of E tr PipelineFinalizer] by simp
  have u: "ok P (if changed then Update E tr1 else ret (None, tr1)) (\<lambda>(err, tr'). objKey tr' = objKey tr)"
    using ok_Update [OF d, of P tr1] k1 assms(2) by (auto intro: ok)
  show ?thesis
    unfolding createErrorSecret_def a prod.case Let_def
    by (rule ok_bnd [OF u]) (auto intro!: ok assms(3) simp: owner_keeps [OF d] objKey_def)
qed

lemma ok_verifySecret:
  assumes d: "documented E"
  shows "ok (provision_event tr) (verifySecret E (label tr UserTaskNamespace, label tr UserTaskName) (secretParam tr) p) (\<lambda>_. True)"
proof -
  have e: "ok (provision_event tr) (createErrorSecret E line x platform (secretParam tr) msg) (\<lambda>_. True)"
    if "objKey x = (label tr UserTaskNamespace, label tr UserTaskName)" for x line platform msg
    by (rule ok_mono [OF ok_createErrorSecret [OF d]])
      (use that in \<open>auto simp: provision_event_def objKey_def Let_def\<close>)
  show ?thesis
    unfolding verifySecret_def
    by (rule ok_bnd [OF ok_Get_keys [OF d]] e | rule ok | (auto; fail))+
qed

lemma ok_bumpPods: "ok (provision_event tr) (bumpPods E (label tr UserTaskNamespace, label tr UserTaskName) host) (\<lambda>_. True)"
  unfolding bumpPods_def
  by (rule ok | (auto simp: provision_event_def Let_def annotatePod_def; fail))+

lemma ok_processProvision:
  assumes d: "documented E" and k: "objKey tr' = objKey tr" and l: "\<And>k. label tr' k = label tr k" "tr_Params tr' = tr_Params tr"
  shows "ok (provision_event tr) (processProvision E tr') (\<lambda>_. True)"
proof -
  have u: "ok (provision_event tr) (UpdateTaskRunWithRetry E tr') (\<lambda>_. True)"
    by (rule ok_mono [OF ok_UpdateTaskRunWithRetry [OF d]]) (simp_all add: k)
  have p: "secretParam tr' = secretParam tr" by (simp add: secretParam_def l(2))
  show ?thesis
    unfolding processProvision_def Let_def l p
    by (rule ok_bnd [where R = "\<lambda>_. True"] ok_provisionFailed [OF d] ok_verifySecret [OF d] ok_bumpPods u | rule ok TrueI
      | (simp; fail))+
qed

lemma ok_handleProvisionTask:
  assumes d: "documented E"
  shows "ok (provision_event tr) (handleProvisionTask E tr) (\<lambda>_. True)"
proof -
  have a: "ok (provision_event tr) (processProvision E tr') (\<lambda>_. True)"
    if "setAnnotation ProvisionTaskProcessed v (ensureAnnotations tr) = Some tr'" for tr' v
  proof (rule ok_processProvision [OF d])
    show "objKey tr' = objKey tr" using objKey_set(2) [OF that] by simp
    show "label tr' k = label tr k" for k using that by (simp add: label_setAnnotation)
    show "tr_Params tr' = tr_Params tr"
      using that by (auto simp: setAnnotation_Some ensureAnnotations_def split: option.splits)
  qed
  show ?thesis
    unfolding handleProvisionTask_def
    by (rule a ok_bnd [where R = "\<lambda>_. True"] | rule ok TrueI | (auto; fail))+
qed

section \<open>Handlers of user tasks\<close>

lemma oldestTask_in: "oldestTask o' trs = Some x \<Longrightarrow> x \<in> set trs \<or> o' = Some x"
  by (induction o' trs rule: oldestTask.induct) (auto split: option.splits if_splits)

lemma ok_List_matches:
  assumes "documented E" "\<And>r. P (EvList s r)"
  shows "ok P (List E s) (\<lambda>r. \<forall>items. r = Inr items \<longrightarrow> list_all (matches s) items)"
  unfolding List_def
  by (rule ok_call) (use assms in \<open>auto simp: documented_def list_documented_def\<close>)

lemma ok_handleWaitingTasks:
  assumes d: "documented E" and "\<And>r. P (EvList (MatchingLabels [(WaitingForPlatformLabel, platformLabel p)]) r)"
    and "\<And>x r. label x WaitingForPlatformLabel = platformLabel p \<Longrightarrow> label x FinishedWaitingLabel = ''true'' \<Longrightarrow> P (EvUpdate x r)"
  shows "ok P (handleWaitingTasks E p) (\<lambda>_. True)"
proof -
  let ?s = "MatchingLabels [(WaitingForPlatformLabel, platformLabel p)]"
  have m: "matches ?s x" if "list_all (matches ?s) items" "oldestTask None items = Some x" for items x
    using oldestTask_in [OF that(2)] that(1) by (auto simp: list_all_iff)
  have lab: "tr_Labels x \<noteq> None" "label x WaitingForPlatformLabel = platformLabel p" if "matches ?s x" for x
    using that by (auto simp: label_def split: option.splits)
  have u: "ok P (Update E x') (\<lambda>_. True)" if "matches ?s x" "setLabel FinishedWaitingLabel ''true'' x = Some x'" for x x'
  proof (rule ok_mono [OF ok_Update [OF d]])
    have "label x' WaitingForPlatformLabel = platformLabel p" "label x' FinishedWaitingLabel = ''true''"
      using lab [OF that(1)] by (simp_all add: label_setLabel [OF that(2)])
    then show "P (EvUpdate x' r)" for r by (rule assms(3))
  qed simp
  show ?thesis
    unfolding handleWaitingTasks_def
    by (rule ok_bnd [OF ok_List_matches [OF d]] ok_bnd [OF u] | rule ok TrueI | (use m lab assms(2) in \<open>auto simp: setLabel_None\<close>; fail)
      | (use m in blast))+
qed

lemma user_event_simps [simp]:
  "user_event E tr (EvGetSecret k r1)" "user_event E tr (EvNow t)" "user_event E tr (EvGetConfigMap k r2)"
  "user_event E tr (EvRegister a b r3)" "user_event E tr (EvList sel r4)"
  by (simp_all add: user_event_def permitted_def)

lemma permitted_user: "permitted E (objKey tr) (SecretPrefix @ tr_Name tr) e \<Longrightarrow> user_event E tr e"
  by (simp add: user_event_def)

lemma safe_permitted:
  "ok (permitted E (objKey tr) (SecretPrefix @ tr_Name tr)) m Q \<Longrightarrow> safe E (user_event E tr) m Q"
  by (rule ok_safe, erule ok_events) (rule permitted_user)

lemma safe_wakeUp:
  assumes d: "documented E" and p: "ExtractPlatform tr = Inr p"
  shows "safe E (user_event E tr) (bnd (handleWaitingTasks E p) (\<lambda>(result, err). case err of
      Some _ \<Rightarrow> ret (noRequeue, None) | None \<Rightarrow> ret (result, None))) (\<lambda>_. True)"
proof -
  have "ok (user_event E tr) (handleWaitingTasks E p) (\<lambda>_. True)"
    by (rule ok_handleWaitingTasks [OF d]) (use p in \<open>auto simp: user_event_def permitted_def\<close>)
  then show ?thesis by (intro ok_safe) (auto intro!: ok_bnd ok)
qed

lemma safe_handleHostAssigned:
  assumes d: "documented E" and sdk: "sdk_documented E"
  shows "safe E (user_event E tr) (handleHostAssigned E tr (SecretPrefix @ tr_Name tr)) (\<lambda>_. True)"
proof -
  let ?sn = "SecretPrefix @ tr_Name tr"
  have de: "safe E (user_event E tr) (Deallocate (platform_impl E pc) tr ?sn host) (\<lambda>(_, tr'). objKey tr' = objKey tr)" for pc host
    by (rule safe_permitted, rule plat.deallocate_ok [OF d sdk refl])
  have u: "safe E (user_event E tr) (UpdateTaskRunWithRetry E x) (\<lambda>(_, tr'). objKey tr' = objKey tr)" if "objKey x = objKey tr" for x
    by (rule safe_permitted, rule permitted_UpdateTaskRunWithRetry [OF d that])
  have g: "safe E (user_event E tr) (GetSecret E k) (\<lambda>r. \<forall>s. r = Inr s \<longrightarrow> (sec_Namespace s, sec_Name s) = k)" for k
    unfolding GetSecret_def by (rule ok_safe, rule ok_call) (auto dest: documented_keys [OF d])
  have ds: "safe E (user_event E tr) (DeleteSecret E s) (\<lambda>_. True)"
    if "(sec_Namespace s, sec_Name s) = (tr_Namespace tr, ?sn)" for s
    by (rule ok_safe, rule ok) (use that in \<open>auto simp: user_event_def\<close>)
  have n: "safe E (user_event E tr) (Now E) (\<lambda>_. True)" by (rule ok_safe, rule ok) simp
  have hm: "safe E (user_event E tr) (HandleMetrics q f) (\<lambda>_. True)" for q f by (rule ok_safe, rule ok) simp
  have gp: "safe E (user_event E tr) (getPlatformConfig E q ns) (\<lambda>_. True)" for q ns
    by (rule safe_getPlatformConfig) simp_all
  show ?thesis
    unfolding handleHostAssigned_def
    by (rule safe_bnd [OF gp] safe_bnd [OF de] safe_bnd [OF u] safe_bnd [OF n] safe_bnd [OF hm] safe_bnd [OF g] safe_bnd [OF ds]
        safe_wakeUp [OF d] safe_rules TrueI | (auto; fail) | (auto simp: objKey_def; fail))+
qed

lemma ok_HandleMetricsNow: "(\<And>t. P (EvNow t)) \<Longrightarrow> ok P (HandleMetricsNow E q f) (\<lambda>_. True)"
  unfolding HandleMetricsNow_def
  by (rule ok_bnd [where R = "\<lambda>_. True"] | rule ok TrueI | (simp; fail))+

lemma safe_handleHostAllocation:
  assumes d: "documented E" and sdk: "sdk_documented E" and k: "objKey tr' = objKey tr" and l: "tr_Labels tr' \<noteq> None"
  shows "safe E (user_event E tr) (handleHostAllocation E tr' (SecretPrefix @ tr_Name tr) p) (\<lambda>(_, _, x). objKey x = objKey tr)"
proof -
  let ?sn = "SecretPrefix @ tr_Name tr"
  have g: "safe E (user_event E tr) (GetSecret E q) (\<lambda>_. True)" for q by (rule ok_safe, rule ok) simp
  have n: "safe E (user_event E tr) (Now E) (\<lambda>_. True)" by (rule ok_safe, rule ok) simp
  have hm: "safe E (user_event E tr) (HandleMetrics q f) (\<lambda>_. True)" for q f by (rule ok_safe, rule ok) simp
  have hn: "safe E (user_event E tr) (if b then HandleMetricsNow E q f else ret ()) (\<lambda>_. True)" for b q f
    by (rule ok_safe) (simp add: ok_HandleMetricsNow ok_ret)
  have gp: "safe E (user_event E tr) (getPlatformConfig E q ns) (\<lambda>_. True)" for q ns
    by (rule safe_getPlatformConfig) simp_all
  have es: "safe E (user_event E tr) (createErrorSecret E line tr' q ?sn msg) (\<lambda>(_, x). objKey x = objKey tr)" for line q msg
    by (rule safe_permitted, rule permitted_createErrorSecret [OF d k])
  have al: "safe E (user_event E tr) (Allocate (platform_impl E pc) (ensureAnnotations tr') ?sn) (\<lambda>(_, _, x). objKey x = objKey tr)" for pc
    by (rule safe_permitted, rule plat.allocate_ok [OF d sdk]) (simp add: k, use l in \<open>simp add: ensureAnnotations_def split: option.splits\<close>)
  show ?thesis
    unfolding handleHostAllocation_def Let_def
    by (rule safe_bnd [OF g] safe_bnd [OF gp] safe_bnd [OF hm] safe_bnd [OF es] safe_bnd [OF n] safe_bnd [OF al] safe_bnd [OF hn]
        safe_rules | (use k in auto; fail))+
qed

lemma safe_handleUserTask:
  assumes d: "documented E" and sdk: "sdk_documented E"
  shows "safe E (user_event E tr) (handleUserTask E tr) (\<lambda>_. True)"
proof -
  let ?sn = "SecretPrefix @ tr_Name tr"
  have es: "safe E (user_event E tr) (createErrorSecret E line x q ?sn msg) (\<lambda>_. True)" if "objKey x = objKey tr" for line x q msg
    by (rule safe_permitted, rule ok_mono [OF permitted_createErrorSecret [OF d that]]) simp
  have hm: "safe E (user_event E tr) (HandleMetrics q f) (\<lambda>_. True)" for q f by (rule ok_safe, rule ok) simp
  have lab: "objKey tr2 = objKey tr \<and> tr_Labels tr2 \<noteq> None"
    if "(if b then setLabel TargetPlatformLabel v (ensureLabels tr) else Some (ensureLabels tr)) = Some tr2" for b v tr2
    using that by (auto simp: setLabel_Some objKey_def ensureLabels_def split: if_splits option.splits)
  show ?thesis
    unfolding handleUserTask_def Let_def
    by (rule safe_handleHostAssigned [OF d sdk] safe_bnd [OF es] safe_bnd [OF hm] safe_bnd [OF safe_handleHostAllocation [OF d sdk]]
        safe_rules TrueI | (use lab in auto; fail) | (use lab in blast))+
qed

lemma safe_handleTaskRunReceived:
  assumes "documented E" "sdk_documented E"
  shows "safe E (task_event E tr) (handleTaskRunReceived E tr) (\<lambda>_. True)"
  using ok_safe [OF ok_handleCleanTask] ok_safe [OF ok_handleProvisionTask [OF assms(1)]] safe_handleUserTask [OF assms]
  by (auto simp: handleTaskRunReceived_def task_event_def Let_def intro: safe_rules dest: sym)

lemma Reconcile_keeps_cache:
  assumes "documented E" "sdk_documented E" "Reconcile E req w = Some (res, w')"
  shows "keeps_cache E w w'"
proof -
  have a: "safe E (\<lambda>_. True) (ApiGet E req) (\<lambda>_. True)" by (rule ok_safe, rule ok) simp
  have h: "safe E (\<lambda>_. True) (handleTaskRunReceived E tr) (\<lambda>_. True)" for tr
    by (rule safe_events [OF safe_handleTaskRunReceived [OF assms(1,2)]]) simp
  have "safe E (\<lambda>_. True) (Reconcile E req) (\<lambda>_. True)"
    unfolding Reconcile_def by (rule a h safe TrueI)+
  from safeD [OF this, of w] assms(3) show ?thesis by auto
qed


definition oneTask :: "TaskRun \<Rightarrow> env" where
  "oneTask tr = with_kube (offline_kube\<lparr>k_apiGet := (\<lambda>_ k. if k = objKey tr then Inr tr else Inl (ErrAPI NotFound ''not found''))\<rparr>)"

lemma oneTask_documented: "documented (oneTask tr)" "sdk_documented (oneTask tr)"
  by (auto simp: documented_def oneTask_def std_libs_documented list_documented_def objects_documented_def offline_kube_def
      owner_std_libs sdk_documented_def ec2_documented_def vpc_documented_def power_documented_def with_kube_def fixture_defs
      retry_documented_def finalizers_documented_def)


section \<open>Waiting tasks\<close>

lemma oldestTask_minimal:
  "oldestTask o' trs = Some x \<Longrightarrow>
     (\<forall>y \<in> set trs. tr_CreationTimestamp x \<le> tr_CreationTimestamp y) \<and>
     (\<forall>y. o' = Some y \<longrightarrow> tr_CreationTimestamp x \<le> tr_CreationTimestamp y)"
  by (induction o' trs rule: oldestTask.induct) (fastforce split: option.splits if_splits)+

lemma oldestTask_None: "oldestTask o' trs = None \<longleftrightarrow> o' = None \<and> trs = []"
  by (induction o' trs rule: oldestTask.induct) (auto split: option.splits if_splits)

text \<open>C13: when a host is released and tasks wait for its platform, exactly one of them is woken, and it is
  one that has waited longest: among the tasks that the API server lists for the platform none is older
  than the one whose update, with the mark that its waiting is over, is sent. An error is reported
  exactly if that update was refused.\<close>

theorem handleWaitingTasks_wakes_oldest:
  assumes "documented E"
    and "k_list (kube E) (hist w) (MatchingLabels [(WaitingForPlatformLabel, platformLabel p)]) = Inr items" "items \<noteq> []"
  shows "\<exists>x x' r err w'. x \<in> set items \<and> (\<forall>y \<in> set items. tr_CreationTimestamp x \<le> tr_CreationTimestamp y) \<and>
    setLabel FinishedWaitingLabel ''true'' x = Some x' \<and>
    handleWaitingTasks E p w = Some ((noRequeue, err), w') \<and> (err = None \<longleftrightarrow> \<not> isl r) \<and>
    hist w' = hist w @ [EvList (MatchingLabels [(WaitingForPlatformLabel, platformLabel p)]) (Inr items), EvUpdate x' r]"
proof -
  let ?s = "MatchingLabels [(WaitingForPlatformLabel, platformLabel p)]"
  obtain x where x: "oldestTask None items = Some x" using oldestTask_None [of None items] assms(3) by auto
  have "list_all (matches ?s) items" using assms(1,2) unfolding documented_def list_documented_def by blast
  with oldestTask_in [OF x] have m: "x \<in> set items" "matches ?s x" by (auto simp: list_all_iff)
  then have "tr_Labels x \<noteq> None" by (auto split: option.splits)
  then obtain x' where x': "setLabel FinishedWaitingLabel ''true'' x = Some x'" using set_ex(1) by blast
  let ?r = "k_update (kube E) (hist w @ [EvList ?s (Inr items)]) x'"
  have "\<exists>err w'. handleWaitingTasks E p w = Some ((noRequeue, err), w') \<and> (err = None \<longleftrightarrow> \<not> isl ?r) \<and>
      hist w' = hist w @ [EvList ?s (Inr items), EvUpdate x' ?r]"
    by (auto simp: handleWaitingTasks_def List_def Update_def UpdateObj_def call_def bnd_def ret_def assms(2) x x' must_def
        split: sum.split)
  with m(1) x' oldestTask_minimal [OF x] show ?thesis by blast
qed

definition waitingTask :: "string \<Rightarrow> int \<Rightarrow> TaskRun" where
  "waitingTask n t = userTask\<lparr>tr_Name := n, tr_CreationTimestamp := t, tr_Labels := Some [WaitingForPlatformLabel \<mapsto> ''linux-arm64'']\<rparr>"

definition waitingEnv :: env where
  "waitingEnv = with_kube (offline_kube\<lparr>k_list := (\<lambda>_ s. Inr (filter (matches s) [waitingTask ''late'' 9, waitingTask ''early'' 3])),
     k_update := (\<lambda>_ x. Inr x)\<rparr>)"

lemma waitingEnv_documented: "documented waitingEnv"
  by (auto simp: documented_def waitingEnv_def list_documented_def objects_documented_def list_all_iff with_kube_def fixture_defs
      retry_documented_def finalizers_documented_def)

theorem handleWaitingTasks_wakes_oldest_witness:
  "\<exists>x' w' h r. setLabel FinishedWaitingLabel ''true'' (waitingTask ''early'' 3) = Some x' \<and>
    handleWaitingTasks waitingEnv ''linux/arm64'' initial = Some ((noRequeue, None), w') \<and> hist w' = [h, EvUpdate x' r]"
proof -
  let ?s = "MatchingLabels [(WaitingForPlatformLabel, platformLabel ''linux/arm64'')]"
  have pl: "platformLabel ''linux/arm64'' = ''linux-arm64''" by code_simp
  have l: "k_list (kube waitingEnv) (hist initial) ?s = Inr [waitingTask ''late'' 9, waitingTask ''early'' 3]"
    by (simp add: waitingEnv_def waitingTask_def pl)
  from handleWaitingTasks_wakes_oldest [OF waitingEnv_documented l list.distinct(2)] obtain x x' r err w' where
    x: "x \<in> set [waitingTask ''late'' 9, waitingTask ''early'' 3]"
      "\<forall>y \<in> set [waitingTask ''late'' 9, waitingTask ''early'' 3]. tr_CreationTimestamp x \<le> tr_CreationTimestamp y"
      "setLabel FinishedWaitingLabel ''true'' x = Some x'"
    and run: "handleWaitingTasks waitingEnv ''linux/arm64'' initial = Some ((noRequeue, err), w')"
    and h: "hist w' = hist initial @ [EvList ?s (Inr [waitingTask ''late'' 9, waitingTask ''early'' 3]), EvUpdate x' r]"
    by blast
  have e: "x = waitingTask ''early'' 3" using x(1,2) by (auto simp: waitingTask_def)
  have k: "k_update (kube waitingEnv) v y = Inr y" for v y by (simp add: waitingEnv_def)
  have "wp (handleWaitingTasks waitingEnv ''linux/arm64'') (\<lambda>(_, err) _. err = None) initial"
    by (auto simp: handleWaitingTasks_def List_def Update_def UpdateObj_def wp l k waitingTask_def setLabel_def)
  with run have "err = None" by (simp add: wp_def)
  with run h x(3) show ?thesis unfolding e by (auto simp: initial_def)
qed

section \<open>Releasing a host\<close>

text \<open>The end of \<open>handleHostAssigned\<close>, once the TaskRun is updated.\<close>

definition finishRelease :: "env \<Rightarrow> string \<Rightarrow> TaskRun \<Rightarrow> string \<Rightarrow> recon M" where
  "finishRelease E platform tr3 secretName =
     bnd (Now E) (\<lambda>now.
     bnd (HandleMetrics platform (observeTaskRunTime (of_int (now - tr_CreationTimestamp tr3) / of_int Second))) (\<lambda>_.
     bnd (GetSecret E (tr_Namespace tr3, secretName)) (\<lambda>s.
     case s of
       Inl e \<Rightarrow> if IsNotFound e then bnd (handleWaitingTasks E platform) (\<lambda>(result, err). case err of
                    Some _ \<Rightarrow> ret (noRequeue, None)
                  | None \<Rightarrow> ret (result, None))
                else ret (noRequeue, Some (ErrWrap ''error checking secret: '' e []))
     | Inr secret \<Rightarrow> bnd (DeleteSecret E secret) (\<lambda>_. bnd (handleWaitingTasks E platform) (\<lambda>(result, err). case err of
                    Some _ \<Rightarrow> ret (noRequeue, None)
                  | None \<Rightarrow> ret (result, None))))))"

text \<open>What the end of the release leaves in the history.\<close>

definition released :: "string \<Rightarrow> nsname \<Rightarrow> event list \<Rightarrow> bool" where
  "released platform key es \<longleftrightarrow>
     (\<exists>r l. EvGetSecret key r \<in> set es \<and> EvList (MatchingLabels [(WaitingForPlatformLabel, platformLabel platform)]) l \<in> set es \<and>
        (case r of Inl e \<Rightarrow> IsNotFound e | Inr s \<Rightarrow> \<exists>x. EvDeleteSecret s x \<in> set es))"

lemma handleWaitingTasks_lists:
  "wlp (handleWaitingTasks E p) (\<lambda>_ v. \<exists>l es. hist v = hist w @ EvList (MatchingLabels [(WaitingForPlatformLabel, platformLabel p)]) l # es) w"
  by (auto simp: handleWaitingTasks_def List_def Update_def UpdateObj_def wp split: sum.split option.split)

lemma finishRelease_released:
  "wlp (finishRelease E p tr sn) (\<lambda>(res, err) v. \<exists>es. hist v = hist w @ es \<and> (err = None \<longrightarrow> released p (tr_Namespace tr, sn) es)) w"
proof -
  have wake: "wlp (bnd (handleWaitingTasks E p) (\<lambda>(result, err). case err of
      Some _ \<Rightarrow> ret (noRequeue, None) | None \<Rightarrow> ret (result, None)))
      (\<lambda>(res, err) v. \<exists>es. hist v = hist w @ es \<and> (err = None \<longrightarrow> released p (tr_Namespace tr, sn) es)) u"
    if u: "hist u = hist w @ ds" and s: "EvGetSecret (tr_Namespace tr, sn) r \<in> set ds"
      "case r of Inl e \<Rightarrow> IsNotFound e | Inr s \<Rightarrow> \<exists>x. EvDeleteSecret s x \<in> set ds" for u ds r
    unfolding wlp_bnd
  proof (rule wlp_mono [OF handleWaitingTasks_lists])
    fix x v
    assume "\<exists>l es. hist v = hist u @ EvList (MatchingLabels [(WaitingForPlatformLabel, platformLabel p)]) l # es"
    then obtain l es where v: "hist v = hist w @ ds @ EvList (MatchingLabels [(WaitingForPlatformLabel, platformLabel p)]) l # es"
      using u by auto
    have "released p (tr_Namespace tr, sn) (ds @ EvList (MatchingLabels [(WaitingForPlatformLabel, platformLabel p)]) l # es)"
      unfolding released_def using s by (intro exI [of _ r] exI [of _ l]) (auto split: sum.splits)
    with v show "wlp (case x of (result, err) \<Rightarrow> case err of Some _ \<Rightarrow> ret (noRequeue, None) | None \<Rightarrow> ret (result, None))
      (\<lambda>(res, err) v. \<exists>es. hist v = hist w @ es \<and> (err = None \<longrightarrow> released p (tr_Namespace tr, sn) es)) v"
      by (auto simp: wp split: prod.split option.split)
  qed
  show ?thesis
    unfolding finishRelease_def Now_def GetSecret_def DeleteSecret_def
    by (auto simp: wp_HandleMetrics wlp_bnd [of "call f g" for f g] wlp_bnd [of "HandleMetrics q f" for q f] wlp_call wlp_ret
        split: sum.split option.split intro!: wake)
qed

lemma managed_label: "managed_from tr sent \<Longrightarrow> k \<in> set managedLabels \<Longrightarrow> label sent k = label tr k"
  and managed_annotation: "managed_from tr sent \<Longrightarrow> k \<in> set managedAnnotations \<Longrightarrow> annotation sent k = annotation tr k"
proof -
  have "label x k = (case or_empty (tr_Labels x) k of None \<Rightarrow> [] | Some v \<Rightarrow> v)"
    "annotation x k = (case or_empty (tr_Annotations x) k of None \<Rightarrow> [] | Some v \<Rightarrow> v)" for x
    by (auto simp: label_def annotation_def mget_def split: option.split)
  then show "managed_from tr sent \<Longrightarrow> k \<in> set managedLabels \<Longrightarrow> label sent k = label tr k"
    "managed_from tr sent \<Longrightarrow> k \<in> set managedAnnotations \<Longrightarrow> annotation sent k = annotation tr k"
    by (simp_all add: managed_from_def)
qed

lemma case_run:
  "(case x of Inl e \<Rightarrow> f e | Inr v \<Rightarrow> g v) w = Some yw \<longleftrightarrow> (\<exists>e. x = Inl e \<and> f e w = Some yw) \<or> (\<exists>v. x = Inr v \<and> g v w = Some yw)"
  "(case z of None \<Rightarrow> m | Some v \<Rightarrow> h v) w = Some yw \<longleftrightarrow> z = None \<and> m w = Some yw \<or> (\<exists>v. z = Some v \<and> h v w = Some yw)"
  "(case q of (a, b) \<Rightarrow> k a b) w = Some yw \<longleftrightarrow> (\<exists>a b. q = (a, b) \<and> k a b w = Some yw)"
  by (cases x; simp) ((cases z; simp), (cases q; simp))

lemma handleHostAssigned_run:
  assumes "handleHostAssigned E tr sn w = Some ((res, None), w')" "tr_CompletionTime tr \<noteq> None \<or> tr_DeletionTimestamp tr \<noteq> None"
  obtains p pc w1 x tr1 w2 tr3 w3 where "ExtractPlatform tr = Inr p" "getPlatformConfig E p (tr_Namespace tr) w = Some (Inr pc, w1)"
    "Deallocate (platform_impl E pc) tr sn (label tr AssignedHost) w1 = Some ((x, tr1), w2)"
    "UpdateTaskRunWithRetry E (delLabel AssignedHost (snd (RemoveFinalizer E tr1 PipelineFinalizer))) w2 = Some ((None, tr3), w3)"
    "finishRelease E p tr3 sn w3 = Some ((res, None), w')"
proof -
  have "\<exists>p pc w1 x tr1 w2 tr3 w3. ExtractPlatform tr = Inr p \<and> getPlatformConfig E p (tr_Namespace tr) w = Some (Inr pc, w1) \<and>
    Deallocate (platform_impl E pc) tr sn (label tr AssignedHost) w1 = Some ((x, tr1), w2) \<and>
    UpdateTaskRunWithRetry E (delLabel AssignedHost (snd (RemoveFinalizer E tr1 PipelineFinalizer))) w2 = Some ((None, tr3), w3) \<and>
    finishRelease E p tr3 sn w3 = Some ((res, None), w')"
    using assms unfolding handleHostAssigned_def Let_def finishRelease_def [symmetric]
    by (auto simp: bnd_Some [of "getPlatformConfig E p q" for p q] bnd_Some [of "Deallocate i t n h" for i t n h]
        bnd_Some [of "UpdateTaskRunWithRetry E t" for t] case_run split: if_splits)
  then show thesis using that by blast
qed

text \<open>C5: when the release of a finished task reports success, the API server has accepted an update of the
  TaskRun without the assigned host and without the controller's finalizer, so that the slot is free
  again and the TaskRun can be deleted; afterwards its secret was looked up and, if it was there,
  deleted, and the tasks that wait for the platform were listed to wake one of them.\<close>

theorem handleHostAssigned_releases:
  assumes "documented E" "sdk_documented E" "tr_CompletionTime tr \<noteq> None \<or> tr_DeletionTimestamp tr \<noteq> None"
    and "handleHostAssigned E tr sn w = Some ((res, None), w')"
  shows "\<exists>p pre sent answer post. ExtractPlatform tr = Inr p \<and> hist w' = hist w @ pre @ EvUpdate sent (Inr answer) # post \<and>
    label sent AssignedHost = [] \<and> PipelineFinalizer \<notin> set (tr_Finalizers sent) \<and>
    released p (tr_Namespace tr, sn) post"
proof -
  from handleHostAssigned_run [OF assms(4,3)] obtain p pc w1 x tr1 w2 tr3 w3 where p: "ExtractPlatform tr = Inr p"
    and 1: "getPlatformConfig E p (tr_Namespace tr) w = Some (Inr pc, w1)"
    and 2: "Deallocate (platform_impl E pc) tr sn (label tr AssignedHost) w1 = Some ((x, tr1), w2)"
    and 3: "UpdateTaskRunWithRetry E (delLabel AssignedHost (snd (RemoveFinalizer E tr1 PipelineFinalizer))) w2 = Some ((None, tr3), w3)"
    and 4: "finishRelease E p tr3 sn w3 = Some ((res, None), w')" by blast
  let ?tr2 = "delLabel AssignedHost (snd (RemoveFinalizer E tr1 PipelineFinalizer))"
  have doc: "retry_documented E" "finalizers_documented E" using assms(1) by (simp_all add: documented_def)
  from safeD [OF safe_getPlatformConfig [where P = "\<lambda>_. True" and E = E and p = p and ns = "tr_Namespace tr"], of w] 1
  obtain e1 where h1: "hist w1 = hist w @ e1" by auto
  from ok_run [OF plat.deallocate_ok [OF assms(1,2) refl] 2] obtain e2 where h2: "hist w2 = hist w1 @ e2" and k1: "objKey tr1 = objKey tr"
    by auto
  from accepted_update_sent [OF doc 3] obtain e3 sent answer where
    h3: "hist w3 = hist w2 @ e3 @ [EvUpdate sent (Inr answer)]" and m: "managed_from ?tr2 sent" by blast
  have "ok (\<lambda>_. True) (UpdateTaskRunWithRetry E ?tr2) (\<lambda>(err, tr'). objKey tr' = objKey ?tr2)"
    by (rule ok_UpdateTaskRunWithRetry [OF assms(1)]) simp_all
  from ok_run [OF this 3] k1 have k3: "tr_Namespace tr3 = tr_Namespace tr" by (auto simp: objKey_def [of tr3] objKey_def [of tr])
  from wlpD [OF finishRelease_released 4] obtain e4 where h4: "hist w' = hist w3 @ e4" and r: "released p (tr_Namespace tr, sn) e4"
    by (auto simp: k3)
  have l: "label sent AssignedHost = []" using managed_label [OF m, of AssignedHost] by (simp add: managedLabels_def)
  have "PipelineFinalizer \<notin> set (tr_Finalizers ?tr2)"
    using doc(2) by (simp add: RemoveFinalizer_def finalizers_documented_def delLabel_def)
  with m have f: "PipelineFinalizer \<notin> set (tr_Finalizers sent)" by (simp add: managed_from_def)
  from p h1 h2 h3 h4 l f r show ?thesis
    by (intro exI [of _ p] exI [of _ "e1 @ e2 @ e3"] exI [of _ sent] exI [of _ answer] exI [of _ e4]) simp
qed

definition finishedTask :: TaskRun where
  "finishedTask = userTask\<lparr>tr_Labels := Some [AssignedHost \<mapsto> ''localhost''], tr_CompletionTime := Some 5, tr_Finalizers := [PipelineFinalizer]\<rparr>"

definition releaseEnv :: env where
  "releaseEnv = with_kube (offline_kube\<lparr>k_getConfigMap := (\<lambda>_ _. Inr \<lparr>cm_ResourceVersion = ''1'', cm_Data = [(LocalPlatforms, ''linux/arm64'')]\<rparr>),
     k_update := (\<lambda>_ x. Inr x), k_getSecret := (\<lambda>_ _. Inl (ErrAPI NotFound ''no secret'')), k_list := (\<lambda>_ _. Inr [])\<rparr>)"

lemma releaseEnv_documented: "documented releaseEnv" "sdk_documented releaseEnv"
  by (auto simp: documented_def releaseEnv_def list_documented_def objects_documented_def with_kube_def fixture_defs
      retry_documented_def finalizers_documented_def sdk_documented_def ec2_documented_def vpc_documented_def power_documented_def)

lemma releaseEnv_simps:
  "k_update (kube releaseEnv) h x = Inr x" "k_list (kube releaseEnv) h s = Inr []"
  "k_getSecret (kube releaseEnv) h k = Inl (ErrAPI NotFound ''no secret'')"
  "k_getConfigMap (kube releaseEnv) h k = Inr \<lparr>cm_ResourceVersion = ''1'', cm_Data = [(LocalPlatforms, ''linux/arm64'')]\<rparr>"
  "l_dns (lib releaseEnv) = (\<lambda>_. [])"
  by (simp_all add: releaseEnv_def std_libs_def)

theorem handleHostAssigned_releases_witness:
  "\<exists>res w' pre sent answer post. handleHostAssigned releaseEnv finishedTask ''s'' initial = Some ((res, None), w') \<and>
    hist w' = pre @ EvUpdate sent (Inr answer) # post \<and> label sent AssignedHost = []"
proof -
  have c: "tr_CompletionTime finishedTask \<noteq> None \<or> tr_DeletionTimestamp finishedTask \<noteq> None" by (simp add: finishedTask_def)
  have e: "ExtractPlatform finishedTask = Inr ''linux/arm64''" by code_simp
  have pl: "ParsePlatformList (\<lambda>_. []) ''linux/arm64'' PlatformTypeLocal = Inr [''linux/arm64'']" by code_simp
  have "wp (handleHostAssigned releaseEnv finishedTask ''s'') (\<lambda>(_, err) _. err = None) initial"
    unfolding handleHostAssigned_def
    by (auto simp: c e wp getPlatformConfig_def GetConfigMap_def releaseEnv_simps initial_def resolvePlatform_def lk_def pl Let_def
        local_ops_def Local_Deallocate_def UpdateTaskRunWithRetry_def Update_def UpdateObj_def Now_def GetSecret_def
        IsNotFound_def handleWaitingTasks_def List_def split: if_splits)
  then obtain res w' where run: "handleHostAssigned releaseEnv finishedTask ''s'' initial = Some ((res, None), w')"
    by (auto simp: wp_iff_Some)
  from handleHostAssigned_releases [OF releaseEnv_documented c run] obtain p pre sent answer post where
    "hist w' = hist initial @ pre @ EvUpdate sent (Inr answer) # post" "label sent AssignedHost = []" by blast
  with run show ?thesis by (auto simp: initial_def)
qed

end
