(* ===== verification/Lifecycle_Props.thy ===== *)
theory Lifecycle_Props
  imports Reconcile_Props
begin

text \<open>
  Properties of the life of a task: a host on which provisioning failed is not selected again for the
  task, finished internal tasks are kept for as long as the code says, an allocation that fails tells
  the user, and the cache of platforms cannot be noticed.
\<close>

section \<open>Failed hosts\<close>

text \<open>The list of failed hosts that the new annotation stands for; the code drops the old list if its
  first entry is empty.\<close>

definition earlierFailures :: "string \<Rightarrow> string list" where
  "earlierFailures existing = (let failed = Split (CHR '','') existing in if hd failed = [] then [] else failed)"

lemma Split_failedHostsPlus:
  assumes "CHR '','' \<notin> set host"
  shows "Split (CHR '','') (failedHostsPlus existing host) = earlierFailures existing @ [host]"
proof -
  have "failedHostsPlus existing host = Join [CHR '',''] (earlierFailures existing @ [host])"
    by (simp add: failedHostsPlus_def earlierFailures_def Let_def)
  moreover have "CHR '','' \<notin> set x" if "x \<in> set (earlierFailures existing @ [host])" for x
    using that assms Split_no_sep [of x "CHR '',''" existing] by (auto simp: earlierFailures_def Let_def split: if_splits)
  ultimately show ?thesis using Split_Join [of "earlierFailures existing @ [host]" "CHR '',''"] by simp
qed

lemma selected_not_failed:
  assumes "sel_selected (selectHost target failed cnt hosts selection0) = Some h"
  shows "\<exists>k. (k, h) \<in> set hosts \<and> k \<notin> set failed"
  using selectHost_outcome(2) [OF assms] by (auto simp: eligible_def)

text \<open>C11: when provisioning on a host failed and this was recorded, the object that the API server accepted
  has no host assigned, and its list of failed hosts is the earlier one with this host added; whatever
  pool and load such a TaskRun is then allocated from, in a pool whose hosts are stored under their
  names a host with that name is not selected again.\<close>

theorem provisionFailed_excludes_host:
  assumes "retry_documented E" "finalizers_documented E" "host \<noteq> []" "CHR '','' \<notin> set host"
    and "k_get (kube E) (hist w) key = Inr userTr" "provisionFailed E host key w = Some (None, w')"
  shows "\<exists>es sent answer. hist w' = hist w @ es @ [EvUpdate sent (Inr answer)] \<and> label sent AssignedHost = [] \<and>
    Split (CHR '','') (annotation sent FailedHosts) = earlierFailures (annotation userTr FailedHosts) @ [host] \<and>
    (\<forall>target cnt hosts h.
       sel_selected (selectHost target (Split (CHR '','') (annotation sent FailedHosts)) cnt hosts selection0) = Some h \<longrightarrow>
       (\<forall>k x. (k, x) \<in> set hosts \<longrightarrow> h_Name x = k) \<longrightarrow> h_Name h \<noteq> host)"
proof -
  let ?w = "w\<lparr>hist := hist w @ [EvGet key (Inr userTr)]\<rparr>"
  from assms(3,5,6) obtain tr1 tr2 where s: "setAnnotation FailedHosts (failedHostsPlus (annotation (ensureAnnotations userTr) FailedHosts) host)
      (ensureAnnotations userTr) = Some tr1"
    and u: "UpdateTaskRunWithRetry E (delLabel AssignedHost tr1) ?w = Some ((None, tr2), w')"
    by (auto simp: provisionFailed_def bnd_Some Get_def call_Some Let_def must_Some)
  from accepted_update_sent [OF assms(1,2) u] obtain es sent answer where
    h: "hist w' = hist ?w @ es @ [EvUpdate sent (Inr answer)]" and m: "managed_from (delLabel AssignedHost tr1) sent" by blast
  have l: "label sent AssignedHost = []" using managed_label [OF m, of AssignedHost] by (simp add: managedLabels_def)
  have "annotation sent FailedHosts = annotation tr1 FailedHosts"
    using managed_annotation [OF m, of FailedHosts] by (simp add: managedAnnotations_def)
  also have "\<dots> = failedHostsPlus (annotation userTr FailedHosts) host" using s by (simp add: annotation_setAnnotation)
  finally have f: "Split (CHR '','') (annotation sent FailedHosts) = earlierFailures (annotation userTr FailedHosts) @ [host]"
    by (simp add: Split_failedHostsPlus [OF assms(4)])
  have "h_Name x \<noteq> host" if "sel_selected (selectHost target (Split (CHR '','') (annotation sent FailedHosts)) cnt hosts selection0) = Some x"
      "\<forall>k x. (k, x) \<in> set hosts \<longrightarrow> h_Name x = k" for target cnt hosts x
    using selected_not_failed [OF that(1)] that(2) unfolding f by fastforce
  with h l f show ?thesis by (intro exI [of _ "EvGet key (Inr userTr) # es"] exI [of _ sent] exI [of _ answer]) auto
qed

definition failEnv :: env where
  "failEnv = with_kube (offline_kube\<lparr>k_get := (\<lambda>_ _. Inr (assignedTask ''h1'')), k_update := (\<lambda>_ x. Inr x)\<rparr>)"

theorem provisionFailed_excludes_host_witness:
  "\<exists>w' es sent answer. provisionFailed failEnv ''h1'' (''team'', ''other'') initial = Some (None, w') \<and>
    hist w' = es @ [EvUpdate sent (Inr answer)] \<and> label sent AssignedHost = [] \<and>
    Split (CHR '','') (annotation sent FailedHosts) = [''h1'']"
proof -
  have d: "retry_documented failEnv" "finalizers_documented failEnv"
    by (rule std_libs_documented, simp add: failEnv_def)+
  have g: "k_get (kube failEnv) (hist initial) (''team'', ''other'') = Inr (assignedTask ''h1'')" by (simp add: failEnv_def)
  have k: "k_update (kube failEnv) h x = Inr x" for h x by (simp add: failEnv_def)
  have "wp (provisionFailed failEnv ''h1'' (''team'', ''other'')) (\<lambda>err _. err = None) initial"
    by (auto simp: provisionFailed_def Get_def g wp Let_def UpdateTaskRunWithRetry_def Update_def UpdateObj_def k
        setAnnotation_def ensureAnnotations_def assignedTask_def userTask_def)
  then obtain w' where run: "provisionFailed failEnv ''h1'' (''team'', ''other'') initial = Some (None, w')" by (auto simp: wp_iff_Some)
  have "annotation (assignedTask ''h1'') FailedHosts = []" by (simp add: assignedTask_def userTask_def annotation_def)
  moreover have "earlierFailures [] = []" by code_simp
  ultimately show ?thesis
    using provisionFailed_excludes_host [OF d _ _ g run] run by (auto simp: initial_def)
qed

section \<open>Retention of internal tasks\<close>

text \<open>C17: a finished cleanup task, and a provisioning task that has been processed, are deleted exactly if
  they succeeded or finished more than an hour ago; otherwise they are kept for somebody to look at,
  and looked at again in an hour. Deleting is all that is done to the cluster.\<close>

theorem finished_tasks_retained:
  assumes "IsZeroTime (tr_DeletionTimestamp tr)" "tr_CompletionTime tr = Some completed"
    and "f = handleCleanTask \<or> f = handleProvisionTask \<and> annotation tr ProvisionTaskProcessed = ''true''"
  shows "\<exists>res err w' es. f E tr w = Some ((res, err), w') \<and> hist w' = hist w @ es \<and>
    (if succeeded tr \<or> completed + Hour < s_now (sys E) (hist w)
     then res = noRequeue \<and> (\<exists>x. objKey x = objKey tr \<and> filter writes_cluster es = [EvDelete x err])
     else res = requeueIn Hour \<and> err = None \<and> filter writes_cluster es = [])"
proof -
  have run: "\<exists>res err w' es. bnd (retentionOver E (succeeded tr) completed) (\<lambda>over.
        if over then bnd (Delete E x) (\<lambda>err. ret (noRequeue, err)) else ret (requeueIn Hour, None)) v = Some ((res, err), w') \<and>
      hist w' = hist w @ es \<and>
      (if succeeded tr \<or> completed + Hour < s_now (sys E) (hist w)
     then res = noRequeue \<and> (\<exists>x. objKey x = objKey tr \<and> filter writes_cluster es = [EvDelete x err])
       else res = requeueIn Hour \<and> err = None \<and> filter writes_cluster es = [])"
    if "hist v = hist w" "objKey x = objKey tr" for x v
    using that by (auto simp: retentionOver_def bnd_def ret_def Now_def Delete_def call_def)
  show ?thesis
  proof (cases "f = handleCleanTask")
    case True
    let ?m = "if \<not> succeeded tr \<and> label tr TargetPlatformLabel \<noteq> [] then HandleMetrics (label tr TargetPlatformLabel) incCleanupFailures else ret ()"
    have "wp ?m (\<lambda>_ v. hist v = hist w) w" by (auto simp: wp split: option.split)
    then obtain v where v: "?m w = Some ((), v)" "hist v = hist w" by (auto simp: wp_iff_Some)
    have "handleCleanTask E tr w = bnd (retentionOver E (succeeded tr) completed) (\<lambda>over.
        if over then bnd (Delete E tr) (\<lambda>err. ret (noRequeue, err)) else ret (requeueIn Hour, None)) v"
      using assms(1,2) v(1) by (simp add: handleCleanTask_def bnd_def [of ?m])
    with run [OF v(2) refl] True show ?thesis by simp
  next
    case False
    with assms(3) have p: "f = handleProvisionTask" "annotation tr ProvisionTaskProcessed = ''true''" by auto
    have "succeeded (ensureAnnotations tr) = succeeded tr"
      by (auto simp: succeeded_def ensureAnnotations_def split: option.split)
    with assms(1,2) p have "f E tr w = bnd (retentionOver E (succeeded tr) completed) (\<lambda>over.
        if over then bnd (Delete E (ensureAnnotations tr)) (\<lambda>err. ret (noRequeue, err)) else ret (requeueIn Hour, None)) w"
      by (simp add: handleProvisionTask_def Let_def)
    with run [OF refl, of "ensureAnnotations tr"] show ?thesis by simp
  qed
qed

theorem finished_tasks_retained_witness:
  "\<exists>w'. handleCleanTask offline (userTask\<lparr>tr_CompletionTime := Some (1700000000 * Second), tr_Succeeded := Some ''False''\<rparr>) initial =
     Some ((requeueIn Hour, None), w') \<and> filter writes_cluster (hist w') = []"
proof -
  let ?t = "userTask\<lparr>tr_CompletionTime := Some (1700000000 * Second), tr_Succeeded := Some ''False''\<rparr>"
  have "IsZeroTime (tr_DeletionTimestamp ?t)" "tr_CompletionTime ?t = Some (1700000000 * Second)"
    by (simp_all add: IsZeroTime_def userTask_def emptyTaskRun_def)
  from finished_tasks_retained [OF this, of handleCleanTask offline initial] show ?thesis
    by (auto simp: succeeded_def fixture_defs Second_def Hour_def Minute_def initial_def)
qed

section \<open>The cache of platforms\<close>

text \<open>The states the controller process reaches when reconciliations do not overlap: between two of them
  other parts of the program may have made calls.\<close>

inductive reachable :: "env \<Rightarrow> world \<Rightarrow> bool" for E where
  start: "reachable E initial"
| reconcile: "reachable E w \<Longrightarrow> Reconcile E req w = Some (res, w') \<Longrightarrow> reachable E w'"
| others: "reachable E w \<Longrightarrow> reachable E (w\<lparr>hist := hist w @ es\<rparr>)"

lemma reachable_valid:
  assumes "documented E" "sdk_documented E" "versions_documented E content" "reachable E w"
  shows "cache_valid E content w"
  using assms(4)
proof induction
  case start
  show ?case by (rule cache_valid_initial)
next
  case (reconcile w req res w')
  then show ?case using Reconcile_keeps_cache [OF assms(1,2)] assms(3) unfolding keeps_cache_def by blast
next
  case (others w es)
  then show ?case by (simp add: cache_valid_def)
qed


text \<open>A configuration with one static host, and an environment in which it changes from host \<open>a\<close> to
  host \<open>b\<close> after it was read for the first time.\<close>

definition hostConfig :: "string \<Rightarrow> ConfigMap" where
  "hostConfig n = \<lparr>cm_ResourceVersion = n, cm_Data = [(''host.'' @ n @ ''.address'', ''10.0.0.1''),
     (''host.'' @ n @ ''.platform'', ''linux/arm64''), (''host.'' @ n @ ''.concurrency'', ''2'')]\<rparr>"

definition changingEnv :: env where
  "changingEnv = with_kube (offline_kube\<lparr>k_getConfigMap := (\<lambda>h _. Inr (hostConfig (if h = [] then ''a'' else ''b'')))\<rparr>)"

lemma changingEnv_documented:
  "documented changingEnv" "sdk_documented changingEnv" "versions_documented changingEnv (\<lambda>v. if v = [] then [] else cm_Data (hostConfig v))"
  by (auto simp: documented_def changingEnv_def list_documented_def objects_documented_def with_kube_def fixture_defs versions_documented_def
      retry_documented_def finalizers_documented_def sdk_documented_def ec2_documented_def vpc_documented_def power_documented_def hostConfig_def)

definition poolOf :: "string \<Rightarrow> PlatformConfig" where
  "poolOf n = PHostPool \<lparr>hp_hosts = [(n, \<lparr>h_Address = ''10.0.0.1'', h_Name = n, h_User = [], h_Concurrency = 2, h_Platform = ''linux/arm64'',
     h_Secret = [], h_StartTime = None\<rparr>)], hp_targetPlatform = ''linux/arm64''\<rparr>"

lemma hostConfig_lists:
  "ParsePlatformList (\<lambda>_. []) [] PlatformTypeLocal = Inr []" "ParsePlatformList (\<lambda>_. []) [] PlatformTypeDynamic = Inr []"
  "ParsePlatformList (\<lambda>_. []) [] PlatformTypeDynamicPool = Inr []"
  "collectHosts (\<lambda>_. []) (cm_Data (hostConfig ''a'')) ''linux/arm64'' (hostNames (cm_Data (hostConfig ''a''))) [] =
     Inr [(''a'', \<lparr>h_Address = ''10.0.0.1'', h_Name = ''a'', h_User = [], h_Concurrency = 2, h_Platform = ''linux/arm64'', h_Secret = [], h_StartTime = None\<rparr>)]"
  "collectHosts (\<lambda>_. []) (cm_Data (hostConfig ''b'')) ''linux/arm64'' (hostNames (cm_Data (hostConfig ''b''))) [] =
     Inr [(''b'', \<lparr>h_Address = ''10.0.0.1'', h_Name = ''b'', h_User = [], h_Concurrency = 2, h_Platform = ''linux/arm64'', h_Secret = [], h_StartTime = None\<rparr>)]"
  by code_simp+

lemma hostConfig_lk:
  "lk (cm_Data (hostConfig ''a'')) LocalPlatforms = []" "lk (cm_Data (hostConfig ''b'')) LocalPlatforms = []"
  "lk (cm_Data (hostConfig ''a'')) DynamicPlatforms = []" "lk (cm_Data (hostConfig ''b'')) DynamicPlatforms = []"
  "lk (cm_Data (hostConfig ''a'')) DynamicPoolPlatforms = []" "lk (cm_Data (hostConfig ''b'')) DynamicPoolPlatforms = []"
  by code_simp+

lemma changingEnv_simps:
  "l_dns (lib changingEnv) = (\<lambda>_. [])" "operatorNamespace (lib changingEnv) = ''multi-platform-controller''"
  "k_getConfigMap (kube changingEnv) h k = Inr (hostConfig (if h = [] then ''a'' else ''b''))"
  by (simp_all add: changingEnv_def std_libs_def)

lemmas changing = hostConfig_lk hostConfig_lists changingEnv_simps poolOf_def

lemma changingEnv_platform:
  "platform_of changingEnv (cm_Data (hostConfig ''a'')) ''linux/arm64'' = Inr (poolOf ''a'')"
  "platform_of changingEnv (cm_Data (hostConfig ''b'')) ''linux/arm64'' = Inr (poolOf ''b'')"
  by (simp_all add: platform_of_def Let_def changing)

lemma changing_register:
  "wp (RegisterPlatformMetrics changingEnv p n) (\<lambda>r v. r = None \<and> registers w v) w"
proof -
  have all: "wp (registerAll changingEnv l ns) (\<lambda>r _. r = None) v" for l ns v
    by (induction ns arbitrary: v) (simp_all add: wp Register_def changingEnv_def with_kube_def fixture_defs)
  have "wp (RegisterPlatformMetrics changingEnv p n) (\<lambda>r _. r = None) w"
    by (auto simp: RegisterPlatformMetrics_def Let_def wp intro!: wp_mono [OF all])
  then show ?thesis by (rule wp_mono [OF wp_conj [OF _ wp_imp_wlp [OF wp_Register]]]) simp
qed

lemma changing_resolves:
  "wp (resolvePlatform changingEnv (cm_Data (hostConfig ''a'')) ''linux/arm64'') (\<lambda>r v. r = Inr (poolOf ''a'') \<and> (\<exists>es. hist v = hist w @ es)) w"
  "wp (resolvePlatform changingEnv (cm_Data (hostConfig ''b'')) ''linux/arm64'') (\<lambda>r v. r = Inr (poolOf ''b'') \<and> (\<exists>es. hist v = hist w @ es)) w"
  by (simp_all add: resolvePlatform_def Let_def changing cachePlatform_def wp)
     (rule wp_mono [OF changing_register], auto simp: wp registers_def)+


text \<open>The two halves of \<open>getPlatformConfig\<close>: reading the configuration map, and the rest.\<close>

definition readConfig :: "env \<Rightarrow> (goerror + ConfigMap) M" where
  "readConfig E = bnd (GetConfigMap E (operatorNamespace (lib E), HostConfig)) (\<lambda>r. case r of
       Inl e \<Rightarrow> ret (Inl e)
     | Inr cm \<Rightarrow> bnd (modify (\<lambda>w. if configMapResourceVersion w \<noteq> cm_ResourceVersion cm
                then w\<lparr>configMapResourceVersion := cm_ResourceVersion cm, platformConfig := Map.empty\<rparr> else w)) (\<lambda>_. ret (Inr cm)))"

lemma getPlatformConfig_halves:
  "getPlatformConfig E p ns = bnd (readConfig E) (\<lambda>r. case r of
       Inl e \<Rightarrow> ret (Inl e)
     | Inr cm \<Rightarrow> bnd (reads (\<lambda>w. platformConfig w p)) (\<lambda>existing. case existing of
           Some c \<Rightarrow> ret (Inr c)
         | None \<Rightarrow> resolvePlatform E (cm_Data cm) p))"
  unfolding getPlatformConfig_def readConfig_def bnd_assoc
  by (rule arg_cong [where f = "bnd _"]) (auto simp: fun_eq_iff bnd_assoc split: sum.split)

lemma resolvePlatform_caches:
  "wlp (resolvePlatform E data p) (\<lambda>r w'. \<forall>c. r = Inr c \<longrightarrow> c \<noteq> PLocal \<longrightarrow> platformConfig w' p = Some c) w"
proof -
  have reg: "wlp (RegisterPlatformMetrics E p n) (\<lambda>r w'. platformConfig w' = platformConfig v) v" for n v
    by (rule wp_imp_wlp, rule wp_mono [OF wp_Register]) (simp add: same_cache_def)
  show ?thesis
    unfolding resolvePlatform_def Let_def buildDynamicResolver_def buildDynamicHostPool_def cachePlatform_def
    by (auto simp: wp split: sum.split option.split intro!: wlp_mono [OF reg])
qed

text \<open>C33: when two reconciliations overlap the cache can be noticed (the code uses no lock, and the manager
  runs ten reconciliations at once by default): if one of them reads the configuration map and misses
  the cache, another one then reads a newer version, and the first one goes on, then the platform of
  the old configuration is in the cache of the new version, and every later resolution returns it for
  as long as the configuration map does not change again.\<close>

theorem overlapping_resolution_caches_stale:
  assumes "readConfig E w = Some (Inr cm1, w1)" "platformConfig w1 p = None"
    and "readConfig E w1 = Some (Inr cm2, w2)" "cm_ResourceVersion cm2 \<noteq> cm_ResourceVersion cm1"
    and "resolvePlatform E (cm_Data cm1) p w2 = Some (Inr c1, w3)" "c1 \<noteq> PLocal"
    and "k_getConfigMap (kube E) (hist w3) (operatorNamespace (lib E), HostConfig) = Inr cm2"
  shows "platform_of E (cm_Data cm1) p = Inr c1 \<and> (\<exists>w4. getPlatformConfig E p ns w3 = Some (Inr c1, w4))"
proof -
  have v: "configMapResourceVersion w2 = cm_ResourceVersion cm2"
    using assms(3) by (auto simp: readConfig_def bnd_Some GetConfigMap_def call_Some modify_def split: sum.splits if_splits)
  have r: "resolves E (cm_Data cm1) p w2 (Inr c1) w3"
    using wp_resolvePlatform [of E "cm_Data cm1" p w2] assms(5) by (simp add: wp_def)
  have c: "platformConfig w3 p = Some c1" using wlpD [OF resolvePlatform_caches assms(5)] assms(6) by simp
  have v3: "configMapResourceVersion w3 = cm_ResourceVersion cm2" using r v by (simp add: resolves_def)
  have "getPlatformConfig E p ns w3 = Some (Inr c1, w3\<lparr>hist := hist w3 @ [EvGetConfigMap (operatorNamespace (lib E), HostConfig) (Inr cm2)]\<rparr>)"
    by (simp add: getPlatformConfig_def GetConfigMap_def bnd_def call_def assms(7) modify_def reads_def v3 c ret_def)
  then show ?thesis using r by (simp add: resolves_def)
qed

theorem overlapping_resolution_caches_stale_witness:
  "\<exists>w1 w2 w3 w4. readConfig changingEnv initial = Some (Inr (hostConfig ''a''), w1) \<and>
    readConfig changingEnv w1 = Some (Inr (hostConfig ''b''), w2) \<and>
    resolvePlatform changingEnv (cm_Data (hostConfig ''a'')) ''linux/arm64'' w2 = Some (Inr (poolOf ''a''), w3) \<and>
    getPlatformConfig changingEnv ''linux/arm64'' ''team'' w3 = Some (Inr (poolOf ''a''), w4) \<and>
    platform_of changingEnv (cm_Data (hostConfig ''b'')) ''linux/arm64'' = Inr (poolOf ''b'') \<and> poolOf ''a'' \<noteq> poolOf ''b''"
proof -
  obtain w1 where 1: "readConfig changingEnv initial = Some (Inr (hostConfig ''a''), w1)" "platformConfig w1 ''linux/arm64'' = None" "hist w1 \<noteq> []"
    by (simp add: readConfig_def GetConfigMap_def bnd_def call_def modify_def ret_def changingEnv_simps initial_def hostConfig_def)
  from 1(3) obtain w2 where 2: "readConfig changingEnv w1 = Some (Inr (hostConfig ''b''), w2)" "hist w2 \<noteq> []"
    by (simp add: readConfig_def GetConfigMap_def bnd_def call_def modify_def ret_def changingEnv_simps)
  from changing_resolves(1) [of w2] 2(2) obtain w3 where
    3: "resolvePlatform changingEnv (cm_Data (hostConfig ''a'')) ''linux/arm64'' w2 = Some (Inr (poolOf ''a''), w3)" "hist w3 \<noteq> []"
    by (auto simp: wp_iff_Some)
  have k: "k_getConfigMap (kube changingEnv) (hist w3) (operatorNamespace (lib changingEnv), HostConfig) = Inr (hostConfig ''b'')"
    using 3(2) by (simp add: changingEnv_simps)
  have "cm_ResourceVersion (hostConfig ''b'') \<noteq> cm_ResourceVersion (hostConfig ''a'')" "poolOf ''a'' \<noteq> PLocal" "poolOf ''a'' \<noteq> poolOf ''b''"
    by (simp_all add: hostConfig_def poolOf_def)
  with overlapping_resolution_caches_stale [OF 1(1,2) 2(1) _ 3(1) _ k, of "''team''"] 1 2 3 changingEnv_platform(2) show ?thesis
    by blast
qed

section \<open>Telling the user\<close>

text \<open>The last event is the attempt to create the error secret of a task, with the given text; or that
  attempt was not made, because the update before it or the owner reference was refused.\<close>

definition reported :: "env \<Rightarrow> nsname \<Rightarrow> string \<Rightarrow> string \<Rightarrow> event list \<Rightarrow> bool" where
  "reported E key sn msg es \<longleftrightarrow>
     (\<exists>es' s r platform line. es = es' @ [EvCreateSecret s r] \<and> sec_Namespace s = fst key \<and> sec_Name s = sn \<and>
        sec_Data s = [''error'' \<mapsto> errorMessage msg platform (l_file (lib E)) line]) \<or>
     (\<exists>es' x e. es = es' @ [EvUpdate x (Inl e)] \<and> objKey x = key) \<or>
     (\<exists>x e. objKey x = key \<and> l_owner (lib E) x (newSecret (fst key) sn Map.empty) = Inl e)"

lemma errorSecret_reported:
  assumes d: "documented E" and h: "hist v = hist u @ es0" and k: "objKey y = key"
  shows "wlp (case l_owner (lib E) y (newSecret (tr_Namespace y) sn Map.empty) of
         Inl e \<Rightarrow> ret (Some e, y)
       | Inr secret \<Rightarrow> bnd (CreateSecret E (secret\<lparr>sec_Data := [''error'' \<mapsto> errorMessage msg platform (l_file (lib E)) line]\<rparr>))
             (\<lambda>err. case err of Some e \<Rightarrow> if IsAlreadyExists e then ret (None, y) else ret (Some e, y) | None \<Rightarrow> ret (None, y)))
      (\<lambda>_ v. \<exists>es. hist v = hist u @ es \<and> reported E key sn msg es) v"
proof (cases "l_owner (lib E) y (newSecret (tr_Namespace y) sn Map.empty)")
  case (Inl e)
  with k have "reported E key sn msg es0" by (auto simp: reported_def objKey_def)
  with Inl h show ?thesis by (auto simp: wp)
next
  case (Inr secret)
  let ?s = "secret\<lparr>sec_Data := [''error'' \<mapsto> errorMessage msg platform (l_file (lib E)) line]\<rparr>"
  have "reported E key sn msg (es0 @ [EvCreateSecret ?s r])" for r
    using owner_keeps [OF d Inr] k by (auto simp: reported_def objKey_def)
  with Inr h show ?thesis by (auto simp: wp CreateSecret_def split: option.split)
qed

lemma createErrorSecret_reports:
  assumes d: "documented E" and k: "objKey x = key"
  shows "wlp (createErrorSecret E line x platform sn msg) (\<lambda>_ v. \<exists>es. hist v = hist u @ es \<and> reported E key sn msg es) u"
proof -
  obtain changed x1 where a: "AddFinalizer E x PipelineFinalizer = (changed, x1)" by force
  then have k1: "objKey x1 = key" using k objKey_simps(5) [of E x PipelineFinalizer] by simp
  have update: "reported E key sn msg [EvUpdate x1 (Inl e)]" for e
    using k1 by (auto simp: reported_def)
  have key: "objKey y = key" if "k_update (kube E) (hist u) x1 = Inr y" for y
    using documented_keys(3) [OF d that] k1 by simp
  have up: "wlp (if changed then Update E x1 else ret (None, x1)) (\<lambda>(err, y) v.
      \<exists>es. hist v = hist u @ es \<and> (if err = None then objKey y = key else reported E key sn msg es)) u"
    using update key k1 by (auto simp: wp Update_def UpdateObj_def split: sum.split)
  show ?thesis
    unfolding createErrorSecret_def a prod.case Let_def
  proof (subst wlp_bnd, rule wlp_mono [OF up], unfold case_prod_beta)
    fix r :: "goerror option \<times> TaskRun" and v :: world
    assume h: "\<exists>es. hist v = hist u @ es \<and> (if fst r = None then objKey (snd r) = key else reported E key sn msg es)"
    show "wlp (case fst r of Some e \<Rightarrow> ret (Some e, snd r)
       | None \<Rightarrow> (case l_owner (lib E) (snd r) (newSecret (tr_Namespace (snd r)) sn Map.empty) of
         Inl e \<Rightarrow> ret (Some e, snd r)
       | Inr secret \<Rightarrow> bnd (CreateSecret E (secret\<lparr>sec_Data := [''error'' \<mapsto> errorMessage msg platform (l_file (lib E)) line]\<rparr>))
             (\<lambda>err. case err of Some e \<Rightarrow> if IsAlreadyExists e then ret (None, snd r) else ret (Some e, snd r) | None \<Rightarrow> ret (None, snd r))))
      (\<lambda>_ v. \<exists>es. hist v = hist u @ es \<and> reported E key sn msg es) v"
    proof (cases "fst r")
      case None
      with h obtain es where "hist v = hist u @ es" "objKey (snd r) = key" by auto
      from errorSecret_reported [OF d this] None show ?thesis by simp
    next
      case (Some e)
      with h show ?thesis by (auto simp: wp)
    qed
  qed
qed


definition reportEnv :: env where
  "reportEnv = with_kube (offline_kube\<lparr>k_update := (\<lambda>_ x. Inr x), k_createSecret := (\<lambda>_ _. None)\<rparr>)"

lemma reportEnv_documented: "documented reportEnv" "sdk_documented reportEnv"
  by (auto simp: documented_def reportEnv_def list_documented_def objects_documented_def with_kube_def fixture_defs
      retry_documented_def finalizers_documented_def sdk_documented_def ec2_documented_def vpc_documented_def power_documented_def)


end
