(* ===== verification/Devsetup.thy ===== *)
theory Devsetup
  imports Calls Go_Digest
begin

text \<open>
  The development tool \<open>cmd/devsetup/main.go\<close>: \<open>deploy\<close> and the three cleanup commands. Its world is
  not the controller's: a file system, \<open>kubectl\<close>, and the EC2, STS and S3 services, which answer from
  the history of the calls so far. What the tool prints is not modelled.
\<close>

section \<open>Strings and paths\<close>

text \<open>\<open>strings.ReplaceAll\<close> and \<open>strings.Replace\<close> with a count of one, for a text to replace that is not
  empty (the tool only passes constants).\<close>

function ReplaceAllStr :: "string \<Rightarrow> string \<Rightarrow> string \<Rightarrow> string" where
  "ReplaceAllStr old new s =
     (if old = [] \<or> s = [] then s
      else if prefix old s then new @ ReplaceAllStr old new (drop (length old) s)
      else hd s # ReplaceAllStr old new (tl s))"
  by pat_completeness auto
termination
  by (relation "measure (\<lambda>(old, new, s). length s)") auto

declare ReplaceAllStr.simps [simp del]

fun ReplaceFirst :: "string \<Rightarrow> string \<Rightarrow> string \<Rightarrow> string" where
  "ReplaceFirst old new [] = []"
| "ReplaceFirst old new (c # cs) =
     (if prefix old (c # cs) then new @ drop (length old) (c # cs) else c # ReplaceFirst old new cs)"

definition TrimSuffix :: "string \<Rightarrow> string \<Rightarrow> string" where
  "TrimSuffix s t = (if suffix t s then take (length s - length t) s else s)"

text \<open>\<open>filepath.Join(dir, name)\<close> for a clean absolute directory.\<close>

definition JoinPath :: "string \<Rightarrow> string \<Rightarrow> string" where
  "JoinPath dir name = (if dir = ''/'' then dir @ name else dir @ ''/'' @ name)"

definition below :: "string \<Rightarrow> string \<Rightarrow> bool" where
  "below dir p \<longleftrightarrow> p = dir \<or> prefix (JoinPath dir []) p"

section \<open>The world of the tool\<close>

text \<open>The entries of the file system: a path with the content of a file, or with \<open>None\<close> for a directory;
  in the order in which \<open>filepath.WalkDir\<close> visits them.\<close>

type_synonym filesystem = "(string \<times> string option) list"

datatype fileop = OpStat string | OpLstat string | OpReadDir string | OpReadFile string

record s3_page =
  pg_Contents :: "string option list"
  pg_next :: "string option"

text \<open>The fields of \<open>corev1.Secret\<close> that the tool sets.\<close>

record secret_manifest =
  sm_APIVersion :: string
  sm_Kind :: string
  sm_Name :: string
  sm_Type :: string
  sm_StringData :: gomap

datatype ds_event =
    DsKubectl "string list" "string option" "goerror option \<times> string"
  | DsAwsConfig "goerror option"
  | DsDeleteKeyPair string "goerror option"
  | DsCreateKeyPair string "gomap option" "goerror + string option"
  | DsCallerIdentity "goerror + string option"
  | DsDescribeInstances DescribeInstancesInput "goerror + ec2_Instance list list"
  | DsTerminateInstances "string list" "goerror option"
  | DsListObjects string string "string option" "goerror + s3_page"
  | DsDeleteObjects string "string list" "goerror + string list"
  | DsGetwd "goerror + string"
  | DsRand nat "goerror + string"
  | DsFile fileop "goerror option"
  | DsWriteFile string string "(goerror \<times> nat option) option"
  | DsRemoveAll string "(goerror \<times> string list) option"
  | DsCopyFS string string "(goerror \<times> nat) option"

type_synonym ds_history = "ds_event list"

record ds_world =
  ds_hist :: ds_history
  fs :: filesystem

type_synonym 'a D = "(ds_world, 'a) go"

text \<open>The environment. A failing write may not have opened the file or may have written a part of the
  content, a failing removal may have removed some paths, a failing copy may have copied some entries.
  \<open>o_listObjects\<close> is \<open>NextPage\<close> of the paginator: its argument is the position the paginator has
  reached, \<open>None\<close> before the first page, and the page says where the next one starts, \<open>None\<close> if
  there is none. \<open>o_marshal\<close> is the JSON of a secret.\<close>

record ds_env =
  o_getenv :: "string \<Rightarrow> string"
  o_getwd :: "ds_history \<Rightarrow> goerror + string"
  o_fault :: "ds_history \<Rightarrow> fileop \<Rightarrow> goerror option"
  o_write :: "ds_history \<Rightarrow> string \<Rightarrow> string \<Rightarrow> (goerror \<times> nat option) option"
  o_remove :: "ds_history \<Rightarrow> string \<Rightarrow> (goerror \<times> string list) option"
  o_copy :: "ds_history \<Rightarrow> string \<Rightarrow> string \<Rightarrow> (goerror \<times> nat) option"
  o_rand :: "ds_history \<Rightarrow> nat \<Rightarrow> goerror + string"
  o_marshal :: "secret_manifest \<Rightarrow> goerror + string"
  o_kubectl :: "ds_history \<Rightarrow> string list \<Rightarrow> string option \<Rightarrow> goerror option \<times> string"
  o_awsConfig :: "ds_history \<Rightarrow> goerror option"
  o_deleteKeyPair :: "ds_history \<Rightarrow> string \<Rightarrow> goerror option"
  o_createKeyPair :: "ds_history \<Rightarrow> string \<Rightarrow> gomap option \<Rightarrow> goerror + string option"
  o_callerIdentity :: "ds_history \<Rightarrow> goerror + string option"
  o_describe :: "ds_history \<Rightarrow> DescribeInstancesInput \<Rightarrow> goerror + ec2_Instance list list"
  o_terminate :: "ds_history \<Rightarrow> string list \<Rightarrow> goerror option"
  o_listObjects :: "ds_history \<Rightarrow> string \<Rightarrow> string \<Rightarrow> string option \<Rightarrow> goerror + s3_page"
  o_deleteObjects :: "ds_history \<Rightarrow> string \<Rightarrow> string list \<Rightarrow> goerror + string list"

definition dcall :: "(ds_history \<Rightarrow> 'r) \<Rightarrow> ('r \<Rightarrow> ds_event) \<Rightarrow> 'r D" where
  "dcall f ev = (\<lambda>w. Some (f (ds_hist w), w\<lparr>ds_hist := ds_hist w @ [ev (f (ds_hist w))]\<rparr>))"

text \<open>\<open>cmd.Run()\<close>, and \<open>cmd.Output()\<close> with the standard output.\<close>

definition Output :: "ds_env \<Rightarrow> string list \<Rightarrow> string option \<Rightarrow> (goerror option \<times> string) D" where
  "Output T args stdin = dcall (\<lambda>h. o_kubectl T h args stdin) (DsKubectl args stdin)"

definition Run :: "ds_env \<Rightarrow> string list \<Rightarrow> string option \<Rightarrow> goerror option D" where
  "Run T args stdin = bnd (Output T args stdin) (\<lambda>r. ret (fst r))"

definition LoadDefaultConfig :: "ds_env \<Rightarrow> goerror option D" where
  "LoadDefaultConfig T = dcall (o_awsConfig T) DsAwsConfig"

definition fault :: "ds_env \<Rightarrow> fileop \<Rightarrow> goerror option D" where
  "fault T p = dcall (\<lambda>h. o_fault T h p) (DsFile p)"

text \<open>\<open>os.ReadFile\<close>: the file may be missing, or reading fails for another reason.\<close>

definition ReadFile :: "ds_env \<Rightarrow> string \<Rightarrow> (goerror + string) D" where
  "ReadFile T path =
     bnd (fault T (OpReadFile path)) (\<lambda>e. case e of
       Some e' \<Rightarrow> ret (Inl e')
     | None \<Rightarrow> bnd (reads (\<lambda>w. map_of (fs w) path)) (\<lambda>c. case c of
         Some (Some content) \<Rightarrow> ret (Inr content)
       | _ \<Rightarrow> ret (Inl (ErrExt ''file does not exist''))))"

fun fsput :: "string \<Rightarrow> string \<Rightarrow> filesystem \<Rightarrow> filesystem" where
  "fsput p c [] = [(p, Some c)]"
| "fsput p c ((q, d) # es) = (if q = p then (p, Some c) # es else (q, d) # fsput p c es)"

definition WriteFile :: "ds_env \<Rightarrow> string \<Rightarrow> string \<Rightarrow> goerror option D" where
  "WriteFile T path content =
     bnd (dcall (\<lambda>h. o_write T h path content) (DsWriteFile path content)) (\<lambda>r. case r of
       None \<Rightarrow> bnd (modify (\<lambda>w. w\<lparr>fs := fsput path content (fs w)\<rparr>)) (\<lambda>_. ret None)
     | Some (e, None) \<Rightarrow> ret (Some e)
     | Some (e, Some n) \<Rightarrow> bnd (modify (\<lambda>w. w\<lparr>fs := fsput path (take n content) (fs w)\<rparr>)) (\<lambda>_. ret (Some e)))"

definition RemoveAll :: "ds_env \<Rightarrow> string \<Rightarrow> goerror option D" where
  "RemoveAll T path =
     bnd (dcall (\<lambda>h. o_remove T h path) (DsRemoveAll path)) (\<lambda>r. case r of
       None \<Rightarrow> bnd (modify (\<lambda>w. w\<lparr>fs := filter (\<lambda>(p, _). \<not> below path p) (fs w)\<rparr>)) (\<lambda>_. ret None)
     | Some (e, gone) \<Rightarrow>
         bnd (modify (\<lambda>w. w\<lparr>fs := filter (\<lambda>(p, _). \<not> (below path p \<and> p \<in> set gone)) (fs w)\<rparr>)) (\<lambda>_. ret (Some e)))"

text \<open>\<open>os.CopyFS(dst, os.DirFS(src))\<close>: directories that are there already are kept, a file that is
  there already is an error.\<close>

definition renamed :: "string \<Rightarrow> string \<Rightarrow> string \<Rightarrow> string" where
  "renamed dst src p = dst @ drop (length src) p"

fun copyEntries :: "string \<Rightarrow> string \<Rightarrow> filesystem \<Rightarrow> filesystem \<Rightarrow> goerror option \<times> filesystem" where
  "copyEntries dst src [] es = (None, es)"
| "copyEntries dst src ((p, None) # ps) es =
     (let q = renamed dst src p
      in copyEntries dst src ps (if map_of es q = None then es @ [(q, None)] else es))"
| "copyEntries dst src ((p, Some c) # ps) es =
     (let q = renamed dst src p
      in if map_of es q = None then copyEntries dst src ps (es @ [(q, Some c)])
         else (Some (ErrExt ''file already exists''), es))"

definition CopyFS :: "ds_env \<Rightarrow> string \<Rightarrow> string \<Rightarrow> goerror option D" where
  "CopyFS T dst src =
     bnd (dcall (\<lambda>h. o_copy T h dst src) (DsCopyFS dst src)) (\<lambda>r.
     bnd (reads fs) (\<lambda>es. let todo = filter (below src \<circ> fst) es in
       if map_of es src = None then ret (Some (ErrExt ''file does not exist''))
       else case r of
         None \<Rightarrow> (case copyEntries dst src todo es of (e, es') \<Rightarrow> bnd (modify (\<lambda>w. w\<lparr>fs := es'\<rparr>)) (\<lambda>_. ret e))
       | Some (e, n) \<Rightarrow> (case copyEntries dst src (take n todo) es of
           (e', es') \<Rightarrow> bnd (modify (\<lambda>w. w\<lparr>fs := es'\<rparr>)) (\<lambda>_. ret (Some (case e' of None \<Rightarrow> e | Some x \<Rightarrow> x))))))"

text \<open>\<open>if err := ...; err != nil { return fmt.Errorf("ctx: %w", err) }\<close>, and with \<open>return err\<close>.\<close>

definition chk :: "string \<Rightarrow> goerror option D \<Rightarrow> goerror option D \<Rightarrow> goerror option D" where
  "chk ctx m k = bnd m (\<lambda>e. case e of Some e' \<Rightarrow> ret (Some (ErrWrap (ctx @ '': '') e' [])) | None \<Rightarrow> k)"

definition chk0 :: "goerror option D \<Rightarrow> goerror option D \<Rightarrow> goerror option D" where
  "chk0 m k = bnd m (\<lambda>e. case e of Some e' \<Rightarrow> ret (Some e') | None \<Rightarrow> k)"

section \<open>Configuration\<close>

record ds_Config =
  cfg_QuayUsername :: string
  cfg_InstanceTag :: string
  cfg_AWSSSHKeyName :: string
  cfg_IDRSAKeyPath :: string
  cfg_AWSAccessKeyID :: string
  cfg_AWSSecretAccessKey :: string
  cfg_AWSSessionToken :: string
  cfg_IBMCloudAPIKey :: string
  cfg_GithubRunID :: string
  cfg_DeployDir :: string

definition loadConfig :: "ds_env \<Rightarrow> (goerror + ds_Config) D" where
  "loadConfig T =
     bnd (dcall (o_getwd T) DsGetwd) (\<lambda>r. case r of
       Inl e \<Rightarrow> ret (Inl (ErrWrap ''getting working directory: '' e []))
     | Inr wd \<Rightarrow> let deployDir = JoinPath wd ''deploy'' in
         bnd (fault T (OpStat deployDir)) (\<lambda>e.
         bnd (reads (\<lambda>w. map_of (fs w) deployDir)) (\<lambda>entry.
           if e = None \<and> entry = None then ret (Inl (ErrNew (''deploy directory not found: '' @ deployDir)))
           else ret (Inr \<lparr>cfg_QuayUsername = o_getenv T ''QUAY_USERNAME'',
             cfg_InstanceTag = o_getenv T ''INSTANCE_TAG'',
             cfg_AWSSSHKeyName = o_getenv T ''AWS_SSH_KEY_NAME'',
             cfg_IDRSAKeyPath = o_getenv T ''ID_RSA_KEY_PATH'',
             cfg_AWSAccessKeyID = o_getenv T ''AWS_ACCESS_KEY_ID'',
             cfg_AWSSecretAccessKey = o_getenv T ''AWS_SECRET_ACCESS_KEY'',
             cfg_AWSSessionToken = o_getenv T ''AWS_SESSION_TOKEN'',
             cfg_IBMCloudAPIKey = o_getenv T ''IBM_CLOUD_API_KEY'',
             cfg_GithubRunID = o_getenv T ''GITHUB_RUN_ID'',
             cfg_DeployDir = deployDir\<rparr>))))"

definition validateAWSCredentials :: "ds_env \<Rightarrow> goerror option" where
  "validateAWSCredentials T =
     (if o_getenv T ''AWS_ACCESS_KEY_ID'' = [] then Some (ErrNew ''AWS_ACCESS_KEY_ID is not set'')
      else if o_getenv T ''AWS_SECRET_ACCESS_KEY'' = [] then Some (ErrNew ''AWS_SECRET_ACCESS_KEY is not set'')
      else if o_getenv T ''AWS_SESSION_TOKEN'' = [] then Some (ErrNew ''AWS_SESSION_TOKEN is not set'')
      else None)"

definition validatePrerequisites :: "ds_env \<Rightarrow> ds_Config \<Rightarrow> goerror option" where
  "validatePrerequisites T cfg =
     (if cfg_QuayUsername cfg = [] then Some (ErrNew ''QUAY_USERNAME is not set'') else validateAWSCredentials T)"

section \<open>Cleaning up\<close>

definition runCleanupKeypair :: "ds_env \<Rightarrow> string \<Rightarrow> goerror option D" where
  "runCleanupKeypair T sfx =
     chk0 (ret (validateAWSCredentials T))
       (let keyName = ''multi-platform-controller-'' @ sfx in
        chk ''loading AWS config'' (LoadDefaultConfig T)
          (chk ''deleting key pair'' (dcall (\<lambda>h. o_deleteKeyPair T h keyName) (DsDeleteKeyPair keyName))
             (ret None)))"

definition cleanupQuery :: "string \<Rightarrow> DescribeInstancesInput" where
  "cleanupQuery instanceTag = \<lparr>desc_Filters =
     [(''tag:multi-platform-instance'', [instanceTag]), (''tag:MultiPlatformManaged'', [''true'']),
      (''instance-state-name'', [''running'', ''pending'', ''stopped'', ''stopping''])],
     desc_InstanceIds = []\<rparr>"

definition instanceIDs :: "ec2_Instance list list \<Rightarrow> string list" where
  "instanceIDs reservations = List.map_filter ins_InstanceId (concat reservations)"

fun terminateEach :: "ds_env \<Rightarrow> string list \<Rightarrow> unit D" where
  "terminateEach T [] = ret ()"
| "terminateEach T (i # is) =
     bnd (dcall (\<lambda>h. o_terminate T h [i]) (DsTerminateInstances [i])) (\<lambda>_. terminateEach T is)"

definition runCleanupInstances :: "ds_env \<Rightarrow> string \<Rightarrow> goerror option D" where
  "runCleanupInstances T instanceTag =
     chk0 (ret (validateAWSCredentials T))
       (chk ''loading AWS config'' (LoadDefaultConfig T)
          (let q = cleanupQuery instanceTag in
           bnd (dcall (\<lambda>h. o_describe T h q) (DsDescribeInstances q)) (\<lambda>r. case r of
             Inl e \<Rightarrow> ret (Some (ErrWrap ''describing instances: '' e []))
           | Inr reservations \<Rightarrow>
               if instanceIDs reservations = [] then ret None
               else bnd (terminateEach T (instanceIDs reservations)) (\<lambda>_. ret None))))"

definition logsBucketName :: "ds_env \<Rightarrow> goerror + string" where
  "logsBucketName T =
     (let value = TrimSpace (o_getenv T ''S3_LOGS_BUCKET'') in
      if value = [] then Inl (ErrNew ''S3_LOGS_BUCKET is required for cleanup-s3-logs'') else Inr value)"

definition resolveRunID :: "ds_env \<Rightarrow> string \<Rightarrow> string" where
  "resolveRunID T input =
     (if TrimSpace input \<noteq> [] then TrimSpace input
      else let tag = TrimSpace (o_getenv T ''INSTANCE_TAG'') in
        if tag \<noteq> [] then TrimSuffix tag ''-development'' else ''local'')"

text \<open>The loop over the pages; \<open>tok\<close> is where the paginator stands. It ends when there is no further
  page; with a service that always announces another one it does not end, hence the fuel: without
  any left the result is \<open>None\<close>.\<close>

fun cleanupPages :: "nat \<Rightarrow> ds_env \<Rightarrow> string \<Rightarrow> string \<Rightarrow> string option \<Rightarrow> goerror option option D" where
  "cleanupPages 0 T bucket pre tok = ret None"
| "cleanupPages (Suc n) T bucket pre tok =
     bnd (dcall (\<lambda>h. o_listObjects T h bucket pre tok) (DsListObjects bucket pre tok)) (\<lambda>r. case r of
       Inl e \<Rightarrow> ret (Some (Some (ErrWrap (''listing S3 objects with prefix '' @ pre @ '': '') e [])))
     | Inr page \<Rightarrow>
         let more = (case pg_next page of None \<Rightarrow> ret (Some None) | Some t \<Rightarrow> cleanupPages n T bucket pre (Some t));
             objects = List.map_filter id (pg_Contents page)
         in if pg_Contents page = [] then more
            else if objects = [] then more
            else bnd (dcall (\<lambda>h. o_deleteObjects T h bucket objects) (DsDeleteObjects bucket objects)) (\<lambda>out. case out of
              Inl e \<Rightarrow> ret (Some (Some (ErrWrap (''deleting S3 objects with prefix '' @ pre @ '': '') e [])))
            | Inr errs \<Rightarrow>
                if errs \<noteq> [] then ret (Some (Some (ErrNew
                  (''failed deleting some S3 objects with prefix '' @ pre @ '': ['' @ Join '' '' errs @ '']''))))
                else more))"

definition cleanupS3LogsPrefix :: "nat \<Rightarrow> ds_env \<Rightarrow> string \<Rightarrow> string \<Rightarrow> goerror option option D" where
  "cleanupS3LogsPrefix fuel T bucket pre = cleanupPages fuel T bucket pre None"

definition runCleanupS3Logs :: "nat \<Rightarrow> ds_env \<Rightarrow> string \<Rightarrow> goerror option option D" where
  "runCleanupS3Logs fuel T githubRunId = (case validateAWSCredentials T of
     Some e \<Rightarrow> ret (Some (Some e))
   | None \<Rightarrow> let runID = resolveRunID T githubRunId in
       bnd (LoadDefaultConfig T) (\<lambda>r. case r of
         Some e \<Rightarrow> ret (Some (Some (ErrWrap ''loading AWS config: '' e [])))
       | None \<Rightarrow> (case logsBucketName T of
           Inl e \<Rightarrow> ret (Some (Some e))
         | Inr logsBucket \<Rightarrow> cleanupS3LogsPrefix fuel T logsBucket (''mpc/'' @ runID @ ''/''))))"

text \<open>The command \<open>cleanup-s3-logs\<close> takes at most one argument (\<open>None\<close> if it has none).\<close>

definition cleanupS3LogsCmd :: "nat \<Rightarrow> ds_env \<Rightarrow> string option \<Rightarrow> goerror option option D" where
  "cleanupS3LogsCmd fuel T arg = runCleanupS3Logs fuel T (case arg of None \<Rightarrow> [] | Some a \<Rightarrow> a)"

section \<open>Deploying\<close>

definition setupNamespace :: "ds_env \<Rightarrow> goerror option D" where
  "setupNamespace T =
     bnd (Output T [''create'', ''namespace'', ''-o'', ''yaml'', ''--dry-run=client'', ''multi-platform-controller''] None)
       (\<lambda>r. case fst r of
         Some e \<Rightarrow> ret (Some (ErrWrap ''generating namespace yaml: '' e []))
       | None \<Rightarrow> chk ''applying namespace'' (Run T [''apply'', ''-f'', ''-''] (Some (snd r)))
           (Run T [''config'', ''set-context'', ''--current'', ''--namespace=multi-platform-controller''] None))"

definition roleOf :: "string \<Rightarrow> string" where
  "roleOf arn0 =
     (if \<not> sublist '':assumed-role/'' arn0 then arn0
      else let arn = ReplaceFirst '':sts:'' '':iam:'' arn0;
               parts = Split (CHR ''/'') arn
        in if 2 \<le> length parts then ReplaceFirst '':assumed-role'' '':role'' (parts ! 0) @ ''/'' @ parts ! 1 else arn)"

definition getCreatorRoleARN :: "ds_env \<Rightarrow> string D" where
  "getCreatorRoleARN T =
     bnd (dcall (o_callerIdentity T) DsCallerIdentity) (\<lambda>r. case r of
       Inl e \<Rightarrow> ret []
     | Inr arn \<Rightarrow> must arn (\<lambda>a. ret (roleOf a)))"

definition createKeyPair :: "ds_env \<Rightarrow> ds_Config \<Rightarrow> (goerror option \<times> ds_Config) D" where
  "createKeyPair T cfg =
     bnd (getCreatorRoleARN T) (\<lambda>creatorRoleARN.
       let tags = (if creatorRoleARN \<noteq> [] then Some [(''CreatorRole'', creatorRoleARN)] else None) in
       bnd (dcall (\<lambda>h. o_createKeyPair T h (cfg_AWSSSHKeyName cfg) tags) (DsCreateKeyPair (cfg_AWSSSHKeyName cfg) tags)) (\<lambda>r. case r of
         Inl e \<Rightarrow> ret (Some (ErrWrap ''creating key pair: '' e []), cfg)
       | Inr material \<Rightarrow> must material (\<lambda>m.
           bnd (WriteFile T (cfg_IDRSAKeyPath cfg) m) (\<lambda>e. case e of
             Some e' \<Rightarrow> ret (Some (ErrWrap ''writing key file: '' e' []), cfg)
           | None \<Rightarrow> ret (None, cfg)))))"

definition withKeyName :: "string \<Rightarrow> ds_Config \<Rightarrow> ds_Config" where
  "withKeyName name cfg = cfg\<lparr>cfg_AWSSSHKeyName := name, cfg_IDRSAKeyPath := ''/tmp/'' @ name @ ''.pem''\<rparr>"

definition setupSSHKey :: "ds_env \<Rightarrow> ds_Config \<Rightarrow> (goerror option \<times> ds_Config) D" where
  "setupSSHKey T cfg =
     (if cfg_IDRSAKeyPath cfg \<noteq> [] then ret (None, cfg)
      else bnd (LoadDefaultConfig T) (\<lambda>r. case r of
        Some e \<Rightarrow> ret (Some (ErrWrap ''loading AWS config: '' e []), cfg)
      | None \<Rightarrow>
          if cfg_GithubRunID cfg \<noteq> []
          then createKeyPair T (withKeyName (''multi-platform-controller-'' @ cfg_GithubRunID cfg) cfg)
          else bnd (dcall (\<lambda>h. o_rand T h 4) (DsRand 4)) (\<lambda>b. case b of
            Inl e \<Rightarrow> ret (Some (ErrWrap ''generating random bytes: '' e []), cfg)
          | Inr randomBytes \<Rightarrow>
              createKeyPair T (withKeyName (''multi-platform-controller-'' @ EncodeToString randomBytes) cfg))))"

definition generateSecretJSON :: "ds_env \<Rightarrow> string \<Rightarrow> gomap \<Rightarrow> goerror + string" where
  "generateSecretJSON T name data =
     (case o_marshal T \<lparr>sm_APIVersion = ''v1'', sm_Kind = ''Secret'', sm_Name = name, sm_Type = ''Opaque'', sm_StringData = data\<rparr> of
        Inl e \<Rightarrow> Inl (ErrWrap ''marshaling secret to json: '' e [])
      | Inr jsonBytes \<Rightarrow> Inr jsonBytes)"

definition createSecretFromLiterals :: "ds_env \<Rightarrow> string \<Rightarrow> gomap \<Rightarrow> goerror option D" where
  "createSecretFromLiterals T name data = (case generateSecretJSON T name data of
     Inl e \<Rightarrow> ret (Some e)
   | Inr secretJSON \<Rightarrow> Run T [''apply'', ''-f'', ''-''] (Some secretJSON))"

fun labelSecrets :: "ds_env \<Rightarrow> string list \<Rightarrow> goerror option D" where
  "labelSecrets T [] = ret None"
| "labelSecrets T (secret # rest) =
     chk (''labeling secret '' @ secret)
       (Run T [''label'', ''secrets'', secret, ''build.appstudio.redhat.com/multi-platform-secret=true''] None)
       (labelSecrets T rest)"

definition createKubernetesSecrets :: "ds_env \<Rightarrow> ds_Config \<Rightarrow> goerror option D" where
  "createKubernetesSecrets T cfg =
     (if cfg_IDRSAKeyPath cfg = [] then ret (Some (ErrNew ''ID_RSA_KEY_PATH is not set''))
      else bnd (Run T [''delete'', ''--ignore-not-found'', ''secret'', ''awskeys'', ''awsiam'', ''ibmiam''] None) (\<lambda>_.
        chk ''creating awskeys secret''
          (Run T [''create'', ''secret'', ''generic'', ''awskeys'', ''--from-file=id_rsa='' @ cfg_IDRSAKeyPath cfg] None)
       (chk ''creating awsiam secret''
          (createSecretFromLiterals T ''awsiam'' [(''access-key-id'', cfg_AWSAccessKeyID cfg),
             (''secret-access-key'', cfg_AWSSecretAccessKey cfg), (''session-token'', cfg_AWSSessionToken cfg)])
       (chk ''creating ibmiam secret'' (createSecretFromLiterals T ''ibmiam'' [(''api-key'', cfg_IBMCloudAPIKey cfg)])
          (labelSecrets T [''awsiam'', ''ibmiam'', ''awskeys''])))))"

text \<open>The function that \<open>replaceInFiles\<close> passes to \<open>filepath.WalkDir\<close>, on a file; and the walk, which
  ends with the first error. A directory is visited before it is read.\<close>

definition replaceInFile :: "ds_env \<Rightarrow> string \<Rightarrow> string \<Rightarrow> string \<Rightarrow> goerror option D" where
  "replaceInFile T old new path =
     (if \<not> suffix ''.yaml'' path then ret None
      else bnd (ReadFile T path) (\<lambda>r. case r of
        Inl e \<Rightarrow> ret (Some e)
      | Inr data \<Rightarrow>
          if ReplaceAllStr old new data \<noteq> data then WriteFile T path (ReplaceAllStr old new data) else ret None))"

fun walkEntries :: "ds_env \<Rightarrow> string \<Rightarrow> string \<Rightarrow> filesystem \<Rightarrow> goerror option D" where
  "walkEntries T old new [] = ret None"
| "walkEntries T old new ((p, None) # es) = chk0 (fault T (OpReadDir p)) (walkEntries T old new es)"
| "walkEntries T old new ((p, Some c) # es) = chk0 (replaceInFile T old new p) (walkEntries T old new es)"

definition replaceInFiles :: "ds_env \<Rightarrow> string \<Rightarrow> string \<Rightarrow> string \<Rightarrow> goerror option D" where
  "replaceInFiles T dir old new =
     chk0 (fault T (OpLstat dir))
       (bnd (reads fs) (\<lambda>es.
          if map_of es dir = None then ret (Some (ErrExt ''file does not exist''))
          else walkEntries T old new (filter (below dir \<circ> fst) es)))"

fun pullPolicies :: "ds_env \<Rightarrow> string \<Rightarrow> string list \<Rightarrow> goerror option D" where
  "pullPolicies T deployDir [] = ret None"
| "pullPolicies T deployDir (subdir # rest) =
     chk (''replacing imagePullPolicy in '' @ subdir)
       (replaceInFiles T (JoinPath deployDir subdir) ''imagePullPolicy: Always'' ''imagePullPolicy: IfNotPresent'')
       (pullPolicies T deployDir rest)"

definition developmentDir :: "ds_Config \<Rightarrow> string" where
  "developmentDir cfg = JoinPath (JoinPath (cfg_DeployDir cfg) ''overlays'') ''development''"

definition deployTag :: "ds_Config \<Rightarrow> string" where
  "deployTag cfg =
     (if cfg_InstanceTag cfg = []
      then (if cfg_GithubRunID cfg \<noteq> [] then cfg_GithubRunID cfg else cfg_QuayUsername cfg) @ ''-development''
      else cfg_InstanceTag cfg)"

definition prepareDeploymentOverlays :: "ds_env \<Rightarrow> ds_Config \<Rightarrow> goerror option D" where
  "prepareDeploymentOverlays T cfg =
     (let dir = developmentDir cfg;
          devTemplateDir = JoinPath (JoinPath (cfg_DeployDir cfg) ''overlays'') ''dev-template''
      in chk ''removing development overlay'' (RemoveAll T dir)
        (chk ''copying dev-template'' (CopyFS T dir devTemplateDir)
        (chk ''replacing QUAY_USERNAME'' (replaceInFiles T dir ''QUAY_USERNAME'' (cfg_QuayUsername cfg))
        (chk0 (pullPolicies T (cfg_DeployDir cfg) [''operator'', ''otp''])
        (chk ''replacing INSTANCE_TAG'' (replaceInFiles T dir ''INSTANCE_TAG'' (deployTag cfg))
        (chk ''replacing GITHUB_RUN_ID'' (replaceInFiles T dir ''GITHUB_RUN_ID'' (resolveRunID T (cfg_GithubRunID cfg)))
        (if cfg_AWSSSHKeyName cfg = [] then ret (Some (ErrNew ''AWS_SSH_KEY_NAME is not set''))
         else chk ''replacing AWS_SSH_KEY_NAME'' (replaceInFiles T dir ''AWS_SSH_KEY_NAME'' (cfg_AWSSSHKeyName cfg))
           (ret None))))))))"

definition deployOperator :: "ds_env \<Rightarrow> ds_Config \<Rightarrow> goerror option D" where
  "deployOperator T cfg =
     chk ''applying kustomization'' (Run T [''apply'', ''-k'', developmentDir cfg] None)
       (Run T [''rollout'', ''restart'', ''deployment'', ''-n'', ''multi-platform-controller'', ''multi-platform-controller''] None)"

text \<open>The steps of \<open>runDeploy\<close> after the key is set up, from there on with the key, and all of them.\<close>

definition deployConfigured :: "ds_env \<Rightarrow> ds_Config \<Rightarrow> goerror option D" where
  "deployConfigured T cfg =
     chk ''creating kubernetes secrets'' (createKubernetesSecrets T cfg)
    (chk ''preparing deployment overlays'' (prepareDeploymentOverlays T cfg)
    (chk ''deploying operator'' (deployOperator T cfg) (ret None)))"

definition deployWithKey :: "ds_env \<Rightarrow> ds_Config \<Rightarrow> goerror option D" where
  "deployWithKey T cfg0 = bnd (setupSSHKey T cfg0) (\<lambda>(e, cfg). case e of
     Some e' \<Rightarrow> ret (Some (ErrWrap ''setting up SSH key: '' e' []))
   | None \<Rightarrow> deployConfigured T cfg)"

definition runDeploy :: "ds_env \<Rightarrow> goerror option D" where
  "runDeploy T =
     bnd (loadConfig T) (\<lambda>r. case r of
       Inl e \<Rightarrow> ret (Some e)
     | Inr cfg \<Rightarrow> chk0 (ret (validatePrerequisites T cfg))
        (chk ''setting up namespace'' (setupNamespace T) (deployWithKey T cfg)))"

section \<open>The command line\<close>

text \<open>The commands with what they accept as arguments; \<open>deploy\<close> has no rule and ignores its arguments. The
  fuel is that of \<open>runCleanupS3Logs\<close>, which is the only command that may go on for ever. Indexing
  the arguments out of range is a panic.\<close>

datatype args_rule = ArbitraryArgs | ExactArgs nat | MaximumNArgs nat

fun args_accepted :: "args_rule \<Rightarrow> string list \<Rightarrow> bool" where
  "args_accepted ArbitraryArgs args = True"
| "args_accepted (ExactArgs n) args = (length args = n)"
| "args_accepted (MaximumNArgs n) args = (length args \<le> n)"

record ds_command =
  cmd_Name :: string
  cmd_Args :: args_rule
  cmd_RunE :: "nat \<Rightarrow> ds_env \<Rightarrow> string list \<Rightarrow> goerror option option D"

definition firstArg :: "string list \<Rightarrow> string option" where
  "firstArg args = (case args of [] \<Rightarrow> None | a # _ \<Rightarrow> Some a)"

definition newDeployCmd :: ds_command where
  "newDeployCmd = \<lparr>cmd_Name = ''deploy'', cmd_Args = ArbitraryArgs,
     cmd_RunE = (\<lambda>fuel T args. bnd (runDeploy T) (\<lambda>err. ret (Some err)))\<rparr>"

definition newCleanupKeypairCmd :: ds_command where
  "newCleanupKeypairCmd = \<lparr>cmd_Name = ''cleanup-keypair'', cmd_Args = ExactArgs 1,
     cmd_RunE = (\<lambda>fuel T args. must (firstArg args) (\<lambda>a. bnd (runCleanupKeypair T a) (\<lambda>err. ret (Some err))))\<rparr>"

definition newCleanupInstancesCmd :: ds_command where
  "newCleanupInstancesCmd = \<lparr>cmd_Name = ''cleanup-instances'', cmd_Args = ExactArgs 1,
     cmd_RunE = (\<lambda>fuel T args. must (firstArg args) (\<lambda>a. bnd (runCleanupInstances T a) (\<lambda>err. ret (Some err))))\<rparr>"

definition newCleanupS3LogsCmd :: ds_command where
  "newCleanupS3LogsCmd = \<lparr>cmd_Name = ''cleanup-s3-logs'', cmd_Args = MaximumNArgs 1,
     cmd_RunE = (\<lambda>fuel T args. runCleanupS3Logs fuel T (case args of [] \<Rightarrow> [] | a # _ \<Rightarrow> a))\<rparr>"

definition newRootCmd :: "ds_command list" where
  "newRootCmd = [newDeployCmd, newCleanupKeypairCmd, newCleanupInstancesCmd, newCleanupS3LogsCmd]"

text \<open>\<open>main\<close>: the exit code, from the outcome of \<open>Execute\<close> of the command library (\<open>None\<close> if it does not end
  within the fuel).\<close>

definition devsetup_main :: "(ds_command list \<Rightarrow> string list \<Rightarrow> goerror option option D) \<Rightarrow> string list \<Rightarrow> int option D" where
  "devsetup_main execute args =
     bnd (execute newRootCmd args) (\<lambda>r. ret (map_option (\<lambda>err. case err of Some _ \<Rightarrow> 1 | None \<Rightarrow> 0) r))"

text \<open>\<open>Execute\<close> as documented: the command with the name is run with the other arguments if it accepts that
  many; otherwise there is an error and nothing is run.\<close>

definition execute_documented :: "nat \<Rightarrow> ds_env \<Rightarrow> (ds_command list \<Rightarrow> string list \<Rightarrow> goerror option option D) \<Rightarrow> bool" where
  "execute_documented fuel T execute \<longleftrightarrow>
     (\<forall>cmds name args. case find (\<lambda>c. cmd_Name c = name) cmds of
        None \<Rightarrow> (\<exists>e. execute cmds (name # args) = ret (Some (Some e)))
      | Some c \<Rightarrow> if args_accepted (cmd_Args c) args then execute cmds (name # args) = cmd_RunE c fuel T args
                  else \<exists>e. execute cmds (name # args) = ret (Some (Some e)))"

lemmas command_defs = newDeployCmd_def newCleanupKeypairCmd_def newCleanupInstancesCmd_def newCleanupS3LogsCmd_def

text \<open>No index is out of range: a command that is run has the argument it takes.\<close>

lemma devsetup_main_dispatch:
  assumes "execute_documented fuel T execute"
  shows "devsetup_main execute (name # args) =
    (let exit = (\<lambda>m. bnd m (\<lambda>r. ret (map_option (\<lambda>err. case err of Some _ \<Rightarrow> 1 | None \<Rightarrow> 0) r))) in
     if name = ''deploy'' then exit (bnd (runDeploy T) (\<lambda>err. ret (Some err)))
     else if name = ''cleanup-keypair'' \<and> length args = 1 then exit (bnd (runCleanupKeypair T (hd args)) (\<lambda>err. ret (Some err)))
     else if name = ''cleanup-instances'' \<and> length args = 1 then exit (bnd (runCleanupInstances T (hd args)) (\<lambda>err. ret (Some err)))
     else if name = ''cleanup-s3-logs'' \<and> length args \<le> 1 then exit (runCleanupS3Logs fuel T (if args = [] then [] else hd args))
     else ret (Some 1))"
proof -
  have e: "bnd (ret (Some (Some e))) (\<lambda>r. ret (map_option (\<lambda>err. case err of Some _ \<Rightarrow> 1 | None \<Rightarrow> 0) r)) = ret (Some 1)" for e :: goerror
    by (simp add: bnd_def ret_def fun_eq_iff)
  from assms have x: "case find (\<lambda>c. cmd_Name c = name) newRootCmd of
        None \<Rightarrow> (\<exists>e. execute newRootCmd (name # args) = ret (Some (Some e)))
      | Some c \<Rightarrow> if args_accepted (cmd_Args c) args then execute newRootCmd (name # args) = cmd_RunE c fuel T args
                  else \<exists>e. execute newRootCmd (name # args) = ret (Some (Some e))"
    unfolding execute_documented_def by blast
  have find: "find (\<lambda>c. cmd_Name c = name) newRootCmd =
    (if name = ''deploy'' then Some newDeployCmd else if name = ''cleanup-keypair'' then Some newCleanupKeypairCmd
     else if name = ''cleanup-instances'' then Some newCleanupInstancesCmd
     else if name = ''cleanup-s3-logs'' then Some newCleanupS3LogsCmd else None)"
    by (auto simp: newRootCmd_def command_defs)
  consider (deploy) "name = ''deploy''" | (keypair) "name = ''cleanup-keypair''" | (instances) "name = ''cleanup-instances''"
    | (logs) "name = ''cleanup-s3-logs''"
    | (other) "name \<noteq> ''deploy''" "name \<noteq> ''cleanup-keypair''" "name \<noteq> ''cleanup-instances''" "name \<noteq> ''cleanup-s3-logs''"
    by blast
  then show ?thesis
  proof cases
    case deploy
    with x find show ?thesis by (simp add: devsetup_main_def command_defs)
  next
    case keypair
    with x find show ?thesis by (cases args) (auto simp: devsetup_main_def command_defs firstArg_def must_def e)
  next
    case instances
    with x find show ?thesis by (cases args) (auto simp: devsetup_main_def command_defs firstArg_def must_def e)
  next
    case logs
    with x find show ?thesis by (cases args) (auto simp: devsetup_main_def command_defs e)
  next
    case other
    with x find show ?thesis by (auto simp: devsetup_main_def e)
  qed
qed

end
