(* ===== verification/Devsetup_Overlay.thy ===== *)
theory Devsetup_Overlay
  imports Devsetup
begin

text \<open>
  The file system under the development tool: what \<open>replaceInFiles\<close>, removing and copying do to it, and
  what a deployment writes into the development overlay.
\<close>

section \<open>Calls\<close>

lemma wp_dcall [wp]: "wp (dcall f ev) Q w = Q (f (ds_hist w)) (w\<lparr>ds_hist := ds_hist w @ [ev (f (ds_hist w))]\<rparr>)"
  by (simp add: dcall_def wp_def)

lemma dcall_Some:
  "dcall f ev w = Some (y, w') \<longleftrightarrow> y = f (ds_hist w) \<and> w' = w\<lparr>ds_hist := ds_hist w @ [ev (f (ds_hist w))]\<rparr>"
  by (auto simp: dcall_def)

lemma wp_chk0 [wp]:
  "wp (chk0 m k) Q w = wp m (\<lambda>e w'. case e of Some e' \<Rightarrow> Q (Some e') w' | None \<Rightarrow> wp k Q w') w"
  unfolding chk0_def wp_bnd by (rule arg_cong [where f = "\<lambda>R. wp m R w"]) (auto simp: fun_eq_iff wp split: option.split)

lemma wp_chk [wp]:
  "wp (chk ctx m k) Q w =
     wp m (\<lambda>e w'. case e of Some e' \<Rightarrow> Q (Some (ErrWrap (ctx @ '': '') e' [])) w' | None \<Rightarrow> wp k Q w') w"
  unfolding chk_def wp_bnd by (rule arg_cong [where f = "\<lambda>R. wp m R w"]) (auto simp: fun_eq_iff wp split: option.split)

section \<open>Files\<close>

text \<open>\<open>touches X F F'\<close>: the paths are the same, and only the contents of files that satisfy \<open>X\<close> may
  differ.\<close>

definition touches :: "(string \<Rightarrow> bool) \<Rightarrow> filesystem \<Rightarrow> filesystem \<Rightarrow> bool" where
  "touches X F F' \<longleftrightarrow> list_all2 (\<lambda>e e'. fst e' = fst e \<and>
     (snd e' = snd e \<or> X (fst e) \<and> snd e \<noteq> None \<and> snd e' \<noteq> None)) F F'"

lemma touches_refl [simp]: "touches X F F"
  by (simp add: touches_def list.rel_refl)

lemma touches_trans: "touches X F G \<Longrightarrow> touches X G H \<Longrightarrow> touches X F H"
  unfolding touches_def by (rule list_all2_trans [of _ _ _ F G H]) auto

lemma touches_mono: "touches X F G \<Longrightarrow> (\<And>p. X p \<Longrightarrow> Y p) \<Longrightarrow> touches Y F G"
  unfolding touches_def by (erule list_all2_mono) auto

lemma touches_keys: "touches X F G \<Longrightarrow> map fst G = map fst F"
  unfolding touches_def by (induction F G rule: list_all2_induct) auto

lemma touches_map_of: "touches X F G \<Longrightarrow> \<not> X p \<Longrightarrow> map_of G p = map_of F p"
  unfolding touches_def by (induction F G rule: list_all2_induct) auto

text \<open>Writing a file that is there.\<close>

lemma fsput_map:
  assumes "p \<in> fst ` set F" "distinct (map fst F)"
  shows "fsput p c F = map (\<lambda>e. if fst e = p then (p, Some c) else e) F"
  using assms by (induction p c F rule: fsput.induct) (force intro!: map_idI [symmetric])+

lemma touches_fsput:
  assumes "(p, Some d) \<in> set F" "distinct (map fst F)" "X p"
  shows "touches X F (fsput p c F)"
proof -
  have "snd e = Some d" if "e \<in> set F" "fst e = p" for e
    using that assms(1,2) by (metis eq_key_imp_eq_value prod.collapse)
  moreover have "p \<in> fst ` set F" using assms(1) by force
  ultimately show ?thesis
    using assms(2,3) by (auto simp: fsput_map touches_def list_all2_conv_all_nth)
qed

text \<open>One file: what success means, and what may have changed in any case.\<close>

definition rewritten :: "string \<Rightarrow> string \<Rightarrow> (string \<Rightarrow> bool) \<Rightarrow> string \<times> string option \<Rightarrow> string \<times> string option" where
  "rewritten old new X e = (fst e, if X (fst e) then map_option (ReplaceAllStr old new) (snd e) else snd e)"

lemma touches_rewritten [simp]: "touches X F (map (rewritten old new X) F)"
  by (auto simp: touches_def rewritten_def list_all2_conv_all_nth)

lemma wp_ReadFile [wp]:
  "wp (ReadFile T path) Q w =
     (let w' = w\<lparr>ds_hist := ds_hist w @ [DsFile (OpReadFile path) (o_fault T (ds_hist w) (OpReadFile path))]\<rparr> in
      case o_fault T (ds_hist w) (OpReadFile path) of
        Some e \<Rightarrow> Q (Inl e) w'
      | None \<Rightarrow> (case map_of (fs w) path of
          Some (Some content) \<Rightarrow> Q (Inr content) w'
        | _ \<Rightarrow> Q (Inl (ErrExt ''file does not exist'')) w'))"
  by (auto simp: ReadFile_def fault_def wp Let_def split: option.split)

lemma wp_WriteFile [wp]:
  "wp (WriteFile T path content) Q w =
     (let w' = w\<lparr>ds_hist := ds_hist w @ [DsWriteFile path content (o_write T (ds_hist w) path content)]\<rparr> in
      case o_write T (ds_hist w) path content of
        None \<Rightarrow> Q None (w'\<lparr>fs := fsput path content (fs w)\<rparr>)
      | Some (e, None) \<Rightarrow> Q (Some e) w'
      | Some (e, Some n) \<Rightarrow> Q (Some e) (w'\<lparr>fs := fsput path (take n content) (fs w)\<rparr>))"
  by (auto simp: WriteFile_def wp Let_def split: option.split)

lemma replaceInFile_spec:
  assumes "(p, Some c) \<in> set F" "fs w = F" "distinct (map fst F)"
  shows "wp (replaceInFile T old new p) (\<lambda>r w'. touches (\<lambda>q. q = p \<and> suffix ''.yaml'' q) F (fs w') \<and>
           (r = None \<longrightarrow> fs w' = map (rewritten old new (\<lambda>q. q = p \<and> suffix ''.yaml'' q)) F)) w"
proof -
  have c: "map_of F p = Some (Some c)" using assms by (simp add: map_of_is_SomeI)
  have key: "p \<in> fst ` set F" using assms(1) by force
  have only: "e = (p, Some c)" if "e \<in> set F" "fst e = p" for e
    using that assms(1,3) by (metis eq_key_imp_eq_value prod.collapse)
  have same: "map (rewritten old new (\<lambda>q. q = p \<and> suffix ''.yaml'' q)) F = F"
    if "\<not> suffix ''.yaml'' p \<or> ReplaceAllStr old new c = c"
    using that by (intro map_idI) (auto simp: rewritten_def dest: only intro!: prod_eqI)
  have upd: "fsput p (ReplaceAllStr old new c) F = map (rewritten old new (\<lambda>q. q = p \<and> suffix ''.yaml'' q)) F"
    if "suffix ''.yaml'' p"
    using that by (auto simp: fsput_map [OF key assms(3)] rewritten_def dest: only intro!: prod_eqI)
  have touch: "touches (\<lambda>q. q = p \<and> suffix ''.yaml'' q) F (fsput p d F)" if "suffix ''.yaml'' p" for d
    using that by (intro touches_fsput [OF assms(1,3)]) simp
  show ?thesis
    unfolding replaceInFile_def using assms(2)
    by (simp add: wp Let_def c same upd touch split: option.split)
qed

text \<open>The walk over the entries, and the whole function.\<close>

lemma rewritten_compose:
  assumes "\<And>e. e \<in> set F \<Longrightarrow> Z (fst e) \<longleftrightarrow> X (fst e) \<or> Y (fst e)" "\<And>e. e \<in> set F \<Longrightarrow> \<not> (X (fst e) \<and> Y (fst e))"
  shows "map (rewritten old new Y) (map (rewritten old new X) F) = map (rewritten old new Z) F"
  using assms by (auto simp: rewritten_def)

lemma rewritten_keys [simp]: "map fst (map (rewritten old new X) F) = map fst F"
  by (simp add: rewritten_def)

text \<open>A file, followed by the rest of the walk.\<close>

lemma walkEntries_file:
  assumes "set ((p, Some c) # es) \<subseteq> set F" "fs w = F" "distinct (map fst F)" "distinct (map fst ((p, Some c) # es))"
    and IH: "\<And>w G. set es \<subseteq> set G \<Longrightarrow> fs w = G \<Longrightarrow> distinct (map fst G) \<Longrightarrow> distinct (map fst es) \<Longrightarrow>
      wp (walkEntries T old new es) (\<lambda>r w'. touches (\<lambda>q. q \<in> fst ` set es \<and> suffix ''.yaml'' q) G (fs w') \<and>
           (r = None \<longrightarrow> fs w' = map (rewritten old new (\<lambda>q. q \<in> fst ` set es \<and> suffix ''.yaml'' q)) G)) w"
  defines "Z \<equiv> \<lambda>q. q \<in> fst ` set ((p, Some c) # es) \<and> suffix ''.yaml'' q"
  shows "wp (walkEntries T old new ((p, Some c) # es)) (\<lambda>r w'. touches Z F (fs w') \<and>
           (r = None \<longrightarrow> fs w' = map (rewritten old new Z) F)) w"
proof -
  let ?X = "\<lambda>q. q = p \<and> suffix ''.yaml'' q"
  let ?Y = "\<lambda>q. q \<in> fst ` set es \<and> suffix ''.yaml'' q"
  let ?G = "map (rewritten old new ?X) F"
  have p: "p \<notin> fst ` set es" using assms(4) by simp
  have sub: "set es \<subseteq> set ?G"
  proof
    fix e assume e: "e \<in> set es"
    with p have "fst e \<noteq> p" by auto
    then have eq: "rewritten old new ?X e = e" by (simp add: rewritten_def)
    from e assms(1) have "e \<in> set F" by auto
    then have "rewritten old new ?X e \<in> set ?G" by simp
    with eq show "e \<in> set ?G" by simp
  qed
  have comp: "map (rewritten old new ?Y) ?G = map (rewritten old new Z) F"
    using p by (intro rewritten_compose) (auto simp: Z_def)
  have tail: "wp (walkEntries T old new es) (\<lambda>r w'. touches Z F (fs w') \<and>
      (r = None \<longrightarrow> fs w' = map (rewritten old new Z) F)) w'" if w': "fs w' = ?G" for w'
  proof -
    have "wp (walkEntries T old new es) (\<lambda>r w''. touches ?Y ?G (fs w'') \<and>
        (r = None \<longrightarrow> fs w'' = map (rewritten old new ?Y) ?G)) w'"
      using sub w' assms(3,4) by (intro IH) (auto simp del: map_map)
    moreover have "touches Z F ?G"
      using touches_rewritten by (rule touches_mono) (auto simp: Z_def)
    ultimately show ?thesis unfolding comp
      by (elim wp_mono) (auto simp: Z_def elim!: touches_trans elim: touches_mono)
  qed
  have "wp (replaceInFile T old new p) (\<lambda>r w'. touches ?X F (fs w') \<and> (r = None \<longrightarrow> fs w' = ?G)) w"
    using assms(1-3) by (intro replaceInFile_spec) auto
  then show ?thesis
    by (simp add: wp del: list.map_comp) (erule wp_mono, auto simp: Z_def split: option.split elim: touches_mono dest: tail [unfolded Z_def])
qed

lemma walkEntries_spec:
  assumes "set es \<subseteq> set F" "fs w = F" "distinct (map fst F)" "distinct (map fst es)"
  shows "wp (walkEntries T old new es) (\<lambda>r w'.
           touches (\<lambda>q. q \<in> fst ` set es \<and> suffix ''.yaml'' q) F (fs w') \<and>
           (r = None \<longrightarrow> fs w' = map (rewritten old new (\<lambda>q. q \<in> fst ` set es \<and> suffix ''.yaml'' q)) F)) w"
  using assms
proof (induction T old new es arbitrary: w F rule: walkEntries.induct)
  case (1 T old new)
  then show ?case by (simp add: wp rewritten_def)
next
  case (2 T old new p es)
  have only: "snd e = None" if "e \<in> set F" "fst e = p" for e
    using that 2(2,4) by (metis eq_key_imp_eq_value list.set_intros(1) prod.collapse subsetD)
  have eq: "map (rewritten old new (\<lambda>q. (q = p \<or> q \<in> fst ` set es) \<and> suffix ''.yaml'' q)) F
      = map (rewritten old new (\<lambda>q. q \<in> fst ` set es \<and> suffix ''.yaml'' q)) F"
    by (auto simp: rewritten_def dest: only)
  show ?case
  proof (cases "o_fault T (ds_hist w) (OpReadDir p)")
    case None
    let ?w = "w\<lparr>ds_hist := ds_hist w @ [DsFile (OpReadDir p) None]\<rparr>"
    from 2 have "wp (walkEntries T old new es) (\<lambda>r w'.
           touches (\<lambda>q. q \<in> fst ` set es \<and> suffix ''.yaml'' q) F (fs w') \<and>
           (r = None \<longrightarrow> fs w' = map (rewritten old new (\<lambda>q. q \<in> fst ` set es \<and> suffix ''.yaml'' q)) F)) ?w"
      by (intro "2.IH") auto
    then show ?thesis
      by (simp add: wp fault_def None) (erule wp_mono, auto simp: eq elim: touches_mono)
  next
    case (Some e)
    with 2 show ?thesis by (simp add: wp fault_def)
  qed
next
  case (3 T old new p c es)
  show ?case by (rule walkEntries_file [OF 3(2-5,1)])
qed

lemma replaceInFiles_spec:
  assumes "distinct (map fst (fs w))"
  shows "wp (replaceInFiles T dir old new) (\<lambda>r w'.
           touches (\<lambda>q. below dir q \<and> suffix ''.yaml'' q) (fs w) (fs w') \<and>
           (r = None \<longrightarrow> fs w' = map (rewritten old new (\<lambda>q. below dir q \<and> suffix ''.yaml'' q)) (fs w))) w"
proof -
  let ?es = "filter (below dir \<circ> fst) (fs w)"
  let ?w = "w\<lparr>ds_hist := ds_hist w @ [DsFile (OpLstat dir) None]\<rparr>"
  have eq: "map (rewritten old new (\<lambda>q. q \<in> fst ` set ?es \<and> suffix ''.yaml'' q)) (fs w)
      = map (rewritten old new (\<lambda>q. below dir q \<and> suffix ''.yaml'' q)) (fs w)"
    by (rule map_cong [OF refl]) (auto simp: rewritten_def)
  have "wp (walkEntries T old new ?es) (\<lambda>r w'.
           touches (\<lambda>q. q \<in> fst ` set ?es \<and> suffix ''.yaml'' q) (fs w) (fs w') \<and>
           (r = None \<longrightarrow> fs w' = map (rewritten old new (\<lambda>q. q \<in> fst ` set ?es \<and> suffix ''.yaml'' q)) (fs w))) ?w"
    using assms by (intro walkEntries_spec) (auto simp: distinct_map_filter)
  then have "wp (walkEntries T old new ?es) (\<lambda>r w'.
           touches (\<lambda>q. below dir q \<and> suffix ''.yaml'' q) (fs w) (fs w') \<and>
           (r = None \<longrightarrow> fs w' = map (rewritten old new (\<lambda>q. below dir q \<and> suffix ''.yaml'' q)) (fs w))) ?w"
    unfolding eq by (rule wp_mono) (auto elim: touches_mono)
  then show ?thesis
    by (auto simp: replaceInFiles_def fault_def wp split: option.split)
qed

section \<open>The development overlay\<close>

abbreviation wf_files :: "ds_world \<Rightarrow> bool" where
  "wf_files w \<equiv> distinct (map fst (fs w))"

abbreviation entry :: "ds_world \<Rightarrow> string \<Rightarrow> string option option" where
  "entry w \<equiv> map_of (fs w)"

lemma replaceInFiles_entries:
  assumes "wf_files w"
  shows "wp (replaceInFiles T dir old new) (\<lambda>r w'. wf_files w' \<and>
           (\<forall>q. \<not> (below dir q \<and> suffix ''.yaml'' q) \<longrightarrow> entry w' q = entry w q) \<and>
           (r = None \<longrightarrow> (\<forall>q. below dir q \<and> suffix ''.yaml'' q \<longrightarrow>
              entry w' q = map_option (map_option (ReplaceAllStr old new)) (entry w q)))) w"
proof -
  have look: "map_of (map (rewritten old new X) F) q = map_option (map_option (ReplaceAllStr old new)) (map_of F q)"
    if "X q" for X F q
    using that by (induction F) (auto simp: rewritten_def)
  show ?thesis
    by (rule wp_mono [OF replaceInFiles_spec [OF assms]])
      (use assms in \<open>auto simp: look dest: touches_keys touches_map_of simp del: map_map\<close>)
qed

lemma RemoveAll_entries:
  assumes "wf_files w"
  shows "wp (RemoveAll T path) (\<lambda>r w'. wf_files w' \<and> (\<forall>q. \<not> below path q \<longrightarrow> entry w' q = entry w q) \<and>
           (r = None \<longrightarrow> (\<forall>q. below path q \<longrightarrow> entry w' q = None))) w"
proof -
  have look: "map_of (filter (\<lambda>(p, _). P p) F) q = (if P q then map_of F q else None)" for P F q
    by (induction F) auto
  have "distinct (map fst (filter P (fs w)))" for P
    using assms by (simp add: distinct_map_filter)
  then show ?thesis
    by (auto simp: RemoveAll_def wp look split: option.split)
qed

text \<open>Copying to a place where nothing is.\<close>

lemma copyEntries_fresh:
  assumes "distinct (map (renamed dst src \<circ> fst) ps)" "\<forall>e \<in> set ps. map_of es (renamed dst src (fst e)) = None"
  shows "copyEntries dst src ps es = (None, es @ map (\<lambda>e. (renamed dst src (fst e), snd e)) ps)"
  using assms by (induction dst src ps es rule: copyEntries.induct) (fastforce simp: Let_def map_add_def image_iff)+

lemma below_prefix: "below dir p \<Longrightarrow> prefix dir p"
  by (auto simp: below_def JoinPath_def prefix_def split: if_splits)

lemma renamed_inj: "below src p \<Longrightarrow> below src q \<Longrightarrow> renamed dst src p = renamed dst src q \<longleftrightarrow> p = q"
  by (auto simp: renamed_def prefix_def dest!: below_prefix)

lemma below_renamed: "src \<noteq> ''/'' \<Longrightarrow> dst \<noteq> ''/'' \<Longrightarrow> below src p \<Longrightarrow> below dst (renamed dst src p)"
  by (auto simp: below_def JoinPath_def renamed_def prefix_def)

text \<open>The entries of a copy beside the others.\<close>

definition copied :: "string \<Rightarrow> string \<Rightarrow> filesystem \<Rightarrow> filesystem" where
  "copied dst src ps = map (\<lambda>e. (renamed dst src (fst e), snd e)) ps"

lemma keys_copied: "map fst (copied dst src ps) = map (renamed dst src \<circ> fst) ps"
  by (simp add: copied_def)

lemma copied_lookup:
  "\<forall>e \<in> set ps. below src (fst e) \<Longrightarrow> below src p \<Longrightarrow> map_of (copied dst src ps) (renamed dst src p) = map_of ps p"
  unfolding copied_def by (induction ps) (auto simp: renamed_inj)

lemma copied_below:
  assumes "src \<noteq> ''/''" "dst \<noteq> ''/''" "\<forall>e \<in> set ps. below src (fst e)"
  shows "e \<in> set (copied dst src ps) \<Longrightarrow> below dst (fst e)"
  using assms below_renamed by (auto simp: copied_def)

lemma copied_fresh:
  assumes "src \<noteq> ''/''" "dst \<noteq> ''/''" "\<forall>e \<in> set ps. below src (fst e)"
    and "distinct (map fst F)" "distinct (map fst ps)" "\<And>q. below dst q \<Longrightarrow> map_of F q = None"
  shows "copyEntries dst src ps F = (None, F @ copied dst src ps)"
    and "distinct (map fst (F @ copied dst src ps))"
    and "\<not> below dst q \<Longrightarrow> map_of (F @ copied dst src ps) q = map_of F q"
proof -
  have "inj_on (renamed dst src) (fst ` set ps)"
    using assms(3) by (auto simp: inj_on_def renamed_inj)
  then have dist: "distinct (map (renamed dst src \<circ> fst) ps)"
    using assms(5) by (simp add: distinct_map comp_inj_on)
  note below = copied_below [OF assms(1-3)]
  show "copyEntries dst src ps F = (None, F @ copied dst src ps)"
    unfolding copied_def using assms(3)
    by (intro copyEntries_fresh [OF dist]) (auto intro!: assms(6) below_renamed [OF assms(1,2)])
  have "fst e \<notin> fst ` set F" if "e \<in> set (copied dst src ps)" for e
    using assms(6) [OF below [OF that]] by (simp add: map_of_eq_None_iff)
  then have "set (map fst F) \<inter> set (map fst (copied dst src ps)) = {}"
    unfolding disjoint_iff set_map by blast
  then show "distinct (map fst (F @ copied dst src ps))"
    using assms(4) dist by (simp only: map_append distinct_append keys_copied)
  show "map_of (F @ copied dst src ps) q = map_of F q" if "\<not> below dst q"
  proof -
    have "q \<notin> fst ` set (copied dst src ps)" using that below by auto
    then show ?thesis by (simp add: map_add_def map_of_eq_None_iff split: option.split)
       (metis domI domIff map_of_eq_None_iff)
  qed
qed

lemma CopyFS_entries:
  assumes w: "wf_files w" and fresh: "\<And>q. below dst q \<Longrightarrow> entry w q = None"
    and dirs: "src \<noteq> ''/''" "dst \<noteq> ''/''"
  shows "wp (CopyFS T dst src) (\<lambda>r w'. wf_files w' \<and> (\<forall>q. \<not> below dst q \<longrightarrow> entry w' q = entry w q) \<and>
           (r = None \<longrightarrow> (\<forall>p. below src p \<longrightarrow> entry w' (renamed dst src p) = entry w p))) w"
proof -
  define todo where "todo = filter (below src \<circ> fst) (fs w)"
  have src: "\<forall>e \<in> set todo. below src (fst e)" and dist: "distinct (map fst todo)"
    using w by (auto simp: todo_def distinct_map_filter)
  have src': "\<forall>e \<in> set (take n todo). below src (fst e)" and dist': "distinct (map fst (take n todo))" for n
    using src dist by (auto simp: take_map [symmetric] dest: in_set_takeD simp del: take_map)
  note part = copied_fresh [OF dirs src' w dist' fresh] and all = copied_fresh [OF dirs src w dist fresh]
  have inside: "map_of (fs w @ copied dst src todo) (renamed dst src p) = entry w p" if p: "below src p" for p
  proof -
    have "map_of (filter (below src \<circ> fst) F) p = map_of F p" for F :: filesystem
      using p by (induction F) auto
    then have "map_of todo p = entry w p" by (simp only: todo_def)
    moreover have "entry w (renamed dst src p) = None" using fresh below_renamed [OF dirs p] by blast
    ultimately show ?thesis using copied_lookup [OF src p] by (simp add: map_add_def split: option.split)
  qed
  show ?thesis
    using w part(2,3) all(2,3) inside
    by (auto simp: CopyFS_def wp Let_def part(1) all(1) todo_def [symmetric] split: option.split)
qed

text \<open>The contents of a file of the overlay: the placeholders of the template, replaced one after
  the other.\<close>

definition fillTemplate :: "ds_env \<Rightarrow> ds_Config \<Rightarrow> string \<Rightarrow> string" where
  "fillTemplate T cfg =
     ReplaceAllStr ''AWS_SSH_KEY_NAME'' (cfg_AWSSSHKeyName cfg) \<circ>
     ReplaceAllStr ''GITHUB_RUN_ID'' (resolveRunID T (cfg_GithubRunID cfg)) \<circ>
     ReplaceAllStr ''INSTANCE_TAG'' (deployTag cfg) \<circ>
     ReplaceAllStr ''QUAY_USERNAME'' (cfg_QuayUsername cfg)"

definition templateDir :: "ds_Config \<Rightarrow> string" where
  "templateDir cfg = JoinPath (JoinPath (cfg_DeployDir cfg) ''overlays'') ''dev-template''"

text \<open>The places that preparing a deployment may change: the overlay, and the YAML files of the operator
  and of the password server.\<close>

definition overlayPlaces :: "ds_Config \<Rightarrow> string \<Rightarrow> bool" where
  "overlayPlaces cfg q \<longleftrightarrow> below (developmentDir cfg) q \<or>
     suffix ''.yaml'' q \<and> (below (JoinPath (cfg_DeployDir cfg) ''operator'') q \<or> below (JoinPath (cfg_DeployDir cfg) ''otp'') q)"

lemma below_comparable: "below x q \<Longrightarrow> below y q \<Longrightarrow> prefix x y \<or> prefix y x"
  by (meson below_prefix prefix_same_cases)

lemma JoinPath_JoinPath: "n \<noteq> [] \<Longrightarrow> JoinPath (JoinPath d n) m = JoinPath d (n @ ''/'' @ m)"
  by (auto simp: JoinPath_def append_eq_Cons_conv)

lemma prefix_JoinPath: "prefix (JoinPath d a) (JoinPath d b) = prefix a b"
  by (auto simp: JoinPath_def)

lemmas overlay_dirs = developmentDir_def templateDir_def JoinPath_JoinPath prefix_JoinPath

lemma overlay_apart:
  "below (templateDir cfg) q \<Longrightarrow> \<not> below (developmentDir cfg) q"
  "below (JoinPath (cfg_DeployDir cfg) ''operator'') q \<Longrightarrow> \<not> below (developmentDir cfg) q"
  "below (JoinPath (cfg_DeployDir cfg) ''otp'') q \<Longrightarrow> \<not> below (developmentDir cfg) q"
  by (auto simp: overlay_dirs dest: below_comparable)

lemma overlay_not_root: "developmentDir cfg \<noteq> ''/''" "templateDir cfg \<noteq> ''/''"
  by (auto simp: overlay_dirs JoinPath_def)

text \<open>\<open>stage w f w'\<close>: from \<open>w\<close> to \<open>w'\<close> the overlay was filled with the template, rewritten by \<open>f\<close>.\<close>

definition overlay_frame :: "ds_Config \<Rightarrow> ds_world \<Rightarrow> ds_world \<Rightarrow> bool" where
  "overlay_frame cfg w w' \<longleftrightarrow> wf_files w' \<and> (\<forall>q. \<not> overlayPlaces cfg q \<longrightarrow> entry w' q = entry w q)"

definition overlay_stage :: "ds_Config \<Rightarrow> ds_world \<Rightarrow> (string \<Rightarrow> string) \<Rightarrow> ds_world \<Rightarrow> bool" where
  "overlay_stage cfg w f w' \<longleftrightarrow> overlay_frame cfg w w' \<and>
     (\<forall>p. below (templateDir cfg) p \<longrightarrow>
        (let q = renamed (developmentDir cfg) (templateDir cfg) p in
         entry w' q = map_option (\<lambda>c. if suffix ''.yaml'' q then map_option f c else c) (entry w p)))"

lemma wp_chk_stage:
  assumes "wp m (\<lambda>r w'. F w' \<and> (r = None \<longrightarrow> S w')) w" "\<And>w'. S w' \<Longrightarrow> wp k Q w'" "\<And>e w'. F w' \<Longrightarrow> Q (Some e) w'"
  shows "wp (chk ctx m k) Q w" and "wp (chk0 m k) Q w"
  using assms(2,3) by (auto simp: wp intro!: wp_mono [OF assms(1)] split: option.split)

lemma overlay_replaced:
  assumes "overlay_stage cfg w f w1" "overlay_frame cfg w w'"
    and "\<forall>q. \<not> (below (developmentDir cfg) q \<and> suffix ''.yaml'' q) \<longrightarrow> entry w' q = entry w1 q"
    and "\<forall>q. below (developmentDir cfg) q \<and> suffix ''.yaml'' q \<longrightarrow> entry w' q = map_option (map_option g) (entry w1 q)"
  shows "overlay_stage cfg w (g \<circ> f) w'"
  unfolding overlay_stage_def Let_def
proof (intro conjI allI impI)
  fix p assume p: "below (templateDir cfg) p"
  let ?q = "renamed (developmentDir cfg) (templateDir cfg) p"
  from p have q: "below (developmentDir cfg) ?q" by (rule below_renamed [OF overlay_not_root(2,1)])
  from assms(1) p have "entry w1 ?q = map_option (\<lambda>c. if suffix ''.yaml'' ?q then map_option f c else c) (entry w p)"
    by (simp add: overlay_stage_def Let_def)
  with q assms(3,4) show "entry w' ?q = map_option (\<lambda>c. if suffix ''.yaml'' ?q then map_option (g \<circ> f) c else c) (entry w p)"
    by (cases "suffix ''.yaml'' ?q") (simp_all add: option.map_comp o_def)
qed (rule assms(2))

lemma overlay_replace:
  assumes "overlay_stage cfg w f w1"
  shows "wp (replaceInFiles T (developmentDir cfg) old new)
           (\<lambda>r w'. overlay_frame cfg w w' \<and> (r = None \<longrightarrow> overlay_stage cfg w (ReplaceAllStr old new \<circ> f) w')) w1"
proof -
  from assms have "wf_files w1" by (simp add: overlay_stage_def overlay_frame_def)
  from replaceInFiles_entries [OF this] show ?thesis
  proof (rule wp_mono, elim conjE, intro conjI impI)
    fix w' assume w': "wf_files w'"
      "\<forall>q. \<not> (below (developmentDir cfg) q \<and> suffix ''.yaml'' q) \<longrightarrow> entry w' q = entry w1 q"
    with assms show "overlay_frame cfg w w'"
      by (simp add: overlay_stage_def overlay_frame_def overlayPlaces_def)
    with w' assms show "overlay_stage cfg w (ReplaceAllStr old new \<circ> f) w'" if "r = None"
      "r = None \<longrightarrow> (\<forall>q. below (developmentDir cfg) q \<and> suffix ''.yaml'' q \<longrightarrow>
         entry w' q = map_option (map_option (ReplaceAllStr old new)) (entry w1 q))" for r :: "goerror option"
      using that by (intro overlay_replaced) auto
  qed
qed

text \<open>The two other directories are apart from the overlay.\<close>

lemma overlay_untouched:
  assumes "overlay_stage cfg w f w1" "overlay_frame cfg w w'"
    and "\<forall>q. below (developmentDir cfg) q \<longrightarrow> entry w' q = entry w1 q"
  shows "overlay_stage cfg w f w'"
  using assms below_renamed [OF overlay_not_root(2,1)] by (simp add: overlay_stage_def Let_def)

lemma pullPolicies_entries:
  assumes "wf_files w"
  shows "wp (pullPolicies T d subs) (\<lambda>r w'. wf_files w' \<and>
           (\<forall>q. \<not> (suffix ''.yaml'' q \<and> (\<exists>s \<in> set subs. below (JoinPath d s) q)) \<longrightarrow> entry w' q = entry w q)) w"
  using assms
proof (induction subs arbitrary: w)
  case Nil
  then show ?case by (simp add: wp)
next
  case (Cons s subs)
  show ?case
    unfolding pullPolicies.simps
  proof (rule wp_chk_stage(1), rule wp_mono [OF replaceInFiles_entries [OF Cons.prems]])
    fix w' assume "wf_files w' \<and> (\<forall>q. \<not> (below (JoinPath d s) q \<and> suffix ''.yaml'' q) \<longrightarrow> entry w' q = entry w q)"
    with Cons.IH [of w'] show "wp (pullPolicies T d subs) (\<lambda>r w'. wf_files w' \<and>
        (\<forall>q. \<not> (suffix ''.yaml'' q \<and> (\<exists>s \<in> set (s # subs). below (JoinPath d s) q)) \<longrightarrow> entry w' q = entry w q)) w'"
      by (auto elim!: wp_mono)
  qed auto
qed

lemma overlay_pull:
  assumes "overlay_stage cfg w f w1"
  shows "wp (pullPolicies T (cfg_DeployDir cfg) [''operator'', ''otp'']) (\<lambda>r w'. overlay_frame cfg w w' \<and> overlay_stage cfg w f w') w1"
proof -
  from assms have "wf_files w1" by (simp add: overlay_stage_def overlay_frame_def)
  from pullPolicies_entries [OF this] show ?thesis
  proof (rule wp_mono)
    fix w' assume w': "wf_files w' \<and> (\<forall>q. \<not> (suffix ''.yaml'' q \<and>
      (\<exists>s \<in> set [''operator'', ''otp'']. below (JoinPath (cfg_DeployDir cfg) s) q)) \<longrightarrow> entry w' q = entry w1 q)"
    with assms have "overlay_frame cfg w w'"
      by (simp add: overlay_stage_def overlay_frame_def overlayPlaces_def)
    moreover have "entry w' q = entry w1 q" if "below (developmentDir cfg) q" for q
      using that w' overlay_apart [of cfg q] by auto
    ultimately show "overlay_frame cfg w w' \<and> overlay_stage cfg w f w'"
      using overlay_untouched [OF assms] by simp
  qed
qed

lemma overlay_chk:
  assumes "overlay_stage cfg w f w1" "\<And>e w'. overlay_frame cfg w w' \<Longrightarrow> Q (Some e) w'"
  shows "(\<And>w'. overlay_stage cfg w (ReplaceAllStr old new \<circ> f) w' \<Longrightarrow> wp k Q w') \<Longrightarrow>
      wp (chk ctx (replaceInFiles T (developmentDir cfg) old new) k) Q w1"
    and "(\<And>w'. overlay_stage cfg w f w' \<Longrightarrow> wp k Q w') \<Longrightarrow>
      wp (chk0 (pullPolicies T (cfg_DeployDir cfg) [''operator'', ''otp'']) k) Q w1"
  subgoal using overlay_replace [OF assms(1)] _ assms(2) by (rule wp_chk_stage(1))
  subgoal using wp_mono [OF overlay_pull [OF assms(1)]] _ assms(2)
    by (rule wp_chk_stage(2) [where F = "overlay_frame cfg w" and S = "overlay_stage cfg w f"]) auto
  done

lemma overlay_copied:
  assumes wf: "wf_files w" and follow: "\<And>w'. overlay_stage cfg w id w' \<Longrightarrow> wp k Q w'"
    and error: "\<And>e w'. overlay_frame cfg w w' \<Longrightarrow> Q (Some e) w'"
  shows "wp (chk ctx (RemoveAll T (developmentDir cfg)) (chk ctx' (CopyFS T (developmentDir cfg) (templateDir cfg)) k)) Q w"
proof (rule wp_chk_stage(1), rule wp_mono [OF RemoveAll_entries [OF wf]])
  fix r w1 assume "wf_files w1 \<and> (\<forall>q. \<not> below (developmentDir cfg) q \<longrightarrow> entry w1 q = entry w q) \<and>
    (r = None \<longrightarrow> (\<forall>q. below (developmentDir cfg) q \<longrightarrow> entry w1 q = None))"
  then show "overlay_frame cfg w w1 \<and> (r = None \<longrightarrow> overlay_frame cfg w w1 \<and>
     (\<forall>q. \<not> below (developmentDir cfg) q \<longrightarrow> entry w1 q = entry w q) \<and>
     (\<forall>q. below (developmentDir cfg) q \<longrightarrow> entry w1 q = None))"
    by (simp add: overlay_frame_def overlayPlaces_def)
next
  fix w1 assume w1: "overlay_frame cfg w w1 \<and> (\<forall>q. \<not> below (developmentDir cfg) q \<longrightarrow> entry w1 q = entry w q) \<and>
     (\<forall>q. below (developmentDir cfg) q \<longrightarrow> entry w1 q = None)"
  then have "wf_files w1" by (simp add: overlay_frame_def)
  then have copy: "wp (CopyFS T (developmentDir cfg) (templateDir cfg)) (\<lambda>r w'. wf_files w' \<and>
      (\<forall>q. \<not> below (developmentDir cfg) q \<longrightarrow> entry w' q = entry w1 q) \<and>
      (r = None \<longrightarrow> (\<forall>p. below (templateDir cfg) p \<longrightarrow>
         entry w' (renamed (developmentDir cfg) (templateDir cfg) p) = entry w1 p))) w1"
    using w1 by (intro CopyFS_entries overlay_not_root) auto
  have id: "map_option (\<lambda>c. if b then map_option id c else c) x = x" for b and x :: "string option option"
    by (cases x; cases b) (simp_all add: option.map_id)
  have "wp (CopyFS T (developmentDir cfg) (templateDir cfg)) (\<lambda>r w'. overlay_frame cfg w w' \<and>
      (r = None \<longrightarrow> overlay_stage cfg w id w')) w1"
    by (rule wp_mono [OF copy]) (use w1 overlay_apart(1) in
      \<open>auto simp: overlay_frame_def overlay_stage_def overlayPlaces_def Let_def id\<close>)
  then show "wp (chk ctx' (CopyFS T (developmentDir cfg) (templateDir cfg)) k) Q w1"
    using follow error by (rule wp_chk_stage(1))
qed (rule error)

text \<open>C34: preparing a deployment changes nothing but the development overlay and the YAML files of the
  operator and of the password server, whether it succeeds or not. If it succeeds, the overlay is a
  copy of the template in which, in YAML files, the four placeholders were replaced one after the
  other: user name, instance tag, run identifier and the name of the key, which is not empty.\<close>

theorem prepareDeploymentOverlays_fills_template:
  assumes "wf_files w"
  shows "\<exists>r w'. prepareDeploymentOverlays T cfg w = Some (r, w') \<and>
    (\<forall>q. \<not> overlayPlaces cfg q \<longrightarrow> entry w' q = entry w q) \<and>
    (r = None \<longrightarrow> cfg_AWSSSHKeyName cfg \<noteq> [] \<and>
      (\<forall>p. below (templateDir cfg) p \<longrightarrow>
         (let q = renamed (developmentDir cfg) (templateDir cfg) p in
          entry w' q = map_option (\<lambda>c. if suffix ''.yaml'' q then map_option (fillTemplate T cfg) c else c) (entry w p))))"
proof -
  define Q where "Q = (\<lambda>(r :: goerror option) w'. overlay_frame cfg w w' \<and>
    (r = None \<longrightarrow> cfg_AWSSSHKeyName cfg \<noteq> [] \<and> overlay_stage cfg w (fillTemplate T cfg) w'))"
  have err: "overlay_frame cfg w w' \<Longrightarrow> Q (Some e) w'" for e w' by (simp add: Q_def)
  have last: "wp (if cfg_AWSSSHKeyName cfg = [] then ret (Some (ErrNew ''AWS_SSH_KEY_NAME is not set''))
      else chk ''replacing AWS_SSH_KEY_NAME'' (replaceInFiles T (developmentDir cfg) ''AWS_SSH_KEY_NAME'' (cfg_AWSSSHKeyName cfg))
        (ret None)) Q w1"
    if "overlay_stage cfg w (ReplaceAllStr ''GITHUB_RUN_ID'' (resolveRunID T (cfg_GithubRunID cfg)) \<circ>
      (ReplaceAllStr ''INSTANCE_TAG'' (deployTag cfg) \<circ> (ReplaceAllStr ''QUAY_USERNAME'' (cfg_QuayUsername cfg) \<circ> id))) w1" for w1
  proof (cases "cfg_AWSSSHKeyName cfg = []")
    case True
    with that show ?thesis by (simp add: wp overlay_stage_def Q_def)
  next
    case False
    then show ?thesis
      by (simp only: if_False, intro overlay_chk(1) [where Q = Q, OF that err])
        (simp_all add: wp Q_def fillTemplate_def overlay_stage_def o_assoc)
  qed
  have "wp (prepareDeploymentOverlays T cfg) Q w"
    unfolding prepareDeploymentOverlays_def Let_def templateDir_def [symmetric]
    by (rule overlay_copied [where Q = Q, OF assms _ err], erule overlay_chk(1) [where Q = Q, OF _ err], assumption,
        erule overlay_chk(2) [where Q = Q, OF _ err], assumption,
        erule overlay_chk(1) [where Q = Q, OF _ err], assumption,
        erule overlay_chk(1) [where Q = Q, OF _ err], assumption, erule last)
  then show ?thesis
    by (auto simp: Q_def wp_iff_Some overlay_frame_def overlay_stage_def)
qed

section \<open>Examples\<close>

text \<open>A run in which every call succeeds: a template of one file, and logs of two runs.\<close>

definition toolEnv :: ds_env where
  "toolEnv = \<lparr>o_getenv = lk [(''QUAY_USERNAME'', ''me''), (''AWS_SSH_KEY_NAME'', ''k''), (''ID_RSA_KEY_PATH'', ''/k''),
       (''AWS_ACCESS_KEY_ID'', ''a''), (''AWS_SECRET_ACCESS_KEY'', ''s''), (''AWS_SESSION_TOKEN'', ''t''),
       (''S3_LOGS_BUCKET'', ''logs'')],
     o_getwd = (\<lambda>_. Inr ''/w''), o_fault = (\<lambda>_ _. None), o_write = (\<lambda>_ _ _. None), o_remove = (\<lambda>_ _. None),
     o_copy = (\<lambda>_ _ _. None), o_rand = (\<lambda>_ n. Inr (replicate n (CHR ''x''))), o_marshal = (\<lambda>m. Inr (sm_Name m)),
     o_kubectl = (\<lambda>_ _ _. (None, [])), o_awsConfig = (\<lambda>_. None), o_deleteKeyPair = (\<lambda>_ _. None),
     o_createKeyPair = (\<lambda>_ _ _. Inr (Some ''pem'')), o_callerIdentity = (\<lambda>_. Inr (Some ''arn'')),
     o_describe = (\<lambda>_ _. Inr []), o_terminate = (\<lambda>_ _. None),
     o_listObjects = (\<lambda>_ _ _ _. Inr \<lparr>pg_Contents = [], pg_next = None\<rparr>), o_deleteObjects = (\<lambda>_ _ _. Inr [])\<rparr>"

definition toolFiles :: filesystem where
  "toolFiles = [(''/w/deploy'', None), (''/w/deploy/operator'', None), (''/w/deploy/otp'', None),
     (''/w/deploy/overlays'', None), (''/w/deploy/overlays/dev-template'', None),
     (''/w/deploy/overlays/dev-template/k.yaml'', Some ''quay.io/QUAY_USERNAME'')]"

definition toolConfig :: ds_Config where
  "toolConfig = \<lparr>cfg_QuayUsername = ''me'', cfg_InstanceTag = [], cfg_AWSSSHKeyName = ''k'', cfg_IDRSAKeyPath = ''/k'',
     cfg_AWSAccessKeyID = ''a'', cfg_AWSSecretAccessKey = ''s'', cfg_AWSSessionToken = ''t'', cfg_IBMCloudAPIKey = [],
     cfg_GithubRunID = [], cfg_DeployDir = ''/w/deploy''\<rparr>"

definition toolStart :: ds_world where
  "toolStart = \<lparr>ds_hist = [], fs = toolFiles\<rparr>"

theorem prepareDeploymentOverlays_fills_template_witness:
  "wf_files toolStart \<and> (\<exists>w'. prepareDeploymentOverlays toolEnv toolConfig toolStart = Some (None, w') \<and>
     entry w' ''/w/deploy/overlays/development/k.yaml'' = Some (Some ''quay.io/me'') \<and>
     entry w' ''/w/deploy'' = Some None)"
proof -
  have wf: "wf_files toolStart" by code_simp
  have ok: "map_option fst (prepareDeploymentOverlays toolEnv toolConfig toolStart) = Some None" by code_simp
  have vals: "developmentDir toolConfig = ''/w/deploy/overlays/development''" "templateDir toolConfig = ''/w/deploy/overlays/dev-template''"
    "renamed ''/w/deploy/overlays/development'' ''/w/deploy/overlays/dev-template'' ''/w/deploy/overlays/dev-template/k.yaml'' =
       ''/w/deploy/overlays/development/k.yaml''"
    "below ''/w/deploy/overlays/dev-template'' ''/w/deploy/overlays/dev-template/k.yaml''"
    "suffix ''.yaml'' ''/w/deploy/overlays/development/k.yaml''" "\<not> overlayPlaces toolConfig ''/w/deploy''"
    "entry toolStart ''/w/deploy/overlays/dev-template/k.yaml'' = Some (Some ''quay.io/QUAY_USERNAME'')"
    "entry toolStart ''/w/deploy'' = Some None" "fillTemplate toolEnv toolConfig ''quay.io/QUAY_USERNAME'' = ''quay.io/me''"
    by code_simp+
  from prepareDeploymentOverlays_fills_template [OF wf, of toolEnv toolConfig] ok obtain w' where
    run: "prepareDeploymentOverlays toolEnv toolConfig toolStart = Some (None, w')"
    and frame: "\<forall>q. \<not> overlayPlaces toolConfig q \<longrightarrow> entry w' q = entry toolStart q"
    and filled: "\<forall>p. below (templateDir toolConfig) p \<longrightarrow>
      (let q = renamed (developmentDir toolConfig) (templateDir toolConfig) p in entry w' q =
         map_option (\<lambda>c. if suffix ''.yaml'' q then map_option (fillTemplate toolEnv toolConfig) c else c) (entry toolStart p))"
    by auto
  from filled [rule_format, of "''/w/deploy/overlays/dev-template/k.yaml''"] vals
  have "entry w' ''/w/deploy/overlays/development/k.yaml'' = Some (Some ''quay.io/me'')"
    by (simp only: Let_def if_True option.map)
  moreover from frame vals(6,8) have "entry w' ''/w/deploy'' = Some None" by (simp only: simp_thms)
  ultimately show ?thesis using wf run by blast
qed

end
