(* ===== verification/Devsetup_Props.thy ===== *)
theory Devsetup_Props
  imports Devsetup_Overlay Provider_Props
begin

text \<open>
  Properties of the development tool: that credentials do not appear on command lines, that the
  cleanup of S3 logs ends and removes what is below its prefix and nothing else, and that the cleanup
  of instances asks for the instances the controller starts.
\<close>

section \<open>Deleting the logs of a run\<close>

text \<open>
  What S3 documents, for a bucket that nobody else changes: \<open>content\<close> are the keys in the bucket after
  a history, \<open>rest tok k\<close> says that key \<open>k\<close> comes after position \<open>tok\<close> of a listing, and \<open>rank\<close> how
  many pages there are at most after a position. A page holds only keys with the prefix; a key ahead
  is on the page or ahead of the next one; deleting removes none but the given keys, and all of them
  if no error is reported.
\<close>

definition s3_documented ::
  "ds_env \<Rightarrow> string \<Rightarrow> (ds_history \<Rightarrow> string set) \<Rightarrow> (string option \<Rightarrow> string \<Rightarrow> bool) \<Rightarrow> (string option \<Rightarrow> nat) \<Rightarrow> bool" where
  "s3_documented T bucket content rest rank \<longleftrightarrow>
     (\<forall>k. rest None k) \<and>
     (\<forall>h pre tok page. o_listObjects T h bucket pre tok = Inr page \<longrightarrow>
        (\<forall>k. Some k \<in> set (pg_Contents page) \<longrightarrow> prefix pre k) \<and>
        (\<forall>k \<in> content h. prefix pre k \<and> rest tok k \<longrightarrow>
           Some k \<in> set (pg_Contents page) \<or> (\<exists>t. pg_next page = Some t \<and> rest (Some t) k)) \<and>
        (\<forall>t. pg_next page = Some t \<longrightarrow> rank (Some t) < rank tok)) \<and>
     (\<forall>h pre tok a. content (h @ [DsListObjects bucket pre tok a]) = content h) \<and>
     (\<forall>h e. content (h @ [DsAwsConfig e]) = content h) \<and>
     (\<forall>h ks a. content (h @ [DsDeleteObjects bucket ks a]) \<subseteq> content h \<and>
        content h - set ks \<subseteq> content (h @ [DsDeleteObjects bucket ks a])) \<and>
     (\<forall>h ks. content (h @ [DsDeleteObjects bucket ks (Inr [])]) \<inter> set ks = {})"

lemma s3_page:
  assumes "s3_documented T bucket content rest rank" "o_listObjects T h bucket pre tok = Inr page"
  shows "Some k \<in> set (pg_Contents page) \<Longrightarrow> prefix pre k"
    and "k \<in> content h \<Longrightarrow> prefix pre k \<Longrightarrow> rest tok k \<Longrightarrow>
      Some k \<in> set (pg_Contents page) \<or> (\<exists>t. pg_next page = Some t \<and> rest (Some t) k)"
    and "pg_next page = Some t \<Longrightarrow> rank (Some t) < rank tok"
proof -
  have "(\<forall>k. Some k \<in> set (pg_Contents page) \<longrightarrow> prefix pre k) \<and>
      (\<forall>k \<in> content h. prefix pre k \<and> rest tok k \<longrightarrow>
         Some k \<in> set (pg_Contents page) \<or> (\<exists>t. pg_next page = Some t \<and> rest (Some t) k)) \<and>
      (\<forall>t. pg_next page = Some t \<longrightarrow> rank (Some t) < rank tok)"
    using assms(1) [unfolded s3_documented_def, THEN conjunct2, THEN conjunct1, rule_format, OF assms(2)]
    by (intro conjI allI ballI impI) auto
  then show "Some k \<in> set (pg_Contents page) \<Longrightarrow> prefix pre k"
    and "k \<in> content h \<Longrightarrow> prefix pre k \<Longrightarrow> rest tok k \<Longrightarrow>
      Some k \<in> set (pg_Contents page) \<or> (\<exists>t. pg_next page = Some t \<and> rest (Some t) k)"
    and "pg_next page = Some t \<Longrightarrow> rank (Some t) < rank tok"
    by blast+
qed

lemma s3_delete:
  assumes "s3_documented T bucket content rest rank"
  shows "content (h @ [DsDeleteObjects bucket ks a]) \<subseteq> content h"
    and "content h - set ks \<subseteq> content (h @ [DsDeleteObjects bucket ks a])"
    and "a = Inr [] \<Longrightarrow> content (h @ [DsDeleteObjects bucket ks a]) \<inter> set ks = {}"
  using assms by (simp_all add: s3_documented_def)

lemma set_present [simp]: "set (List.map_filter id xs) = {k. Some k \<in> set xs}"
  by (force simp: List.map_filter_def)

lemma present_Nil: "List.map_filter id xs = [] \<longleftrightarrow> (\<forall>k. Some k \<notin> set xs)"
proof -
  have "List.map_filter id xs = [] \<longleftrightarrow> set (List.map_filter id xs) = {}" by (simp only: set_empty)
  then show ?thesis by simp
qed

definition spares :: "string \<Rightarrow> string set \<Rightarrow> string set \<Rightarrow> bool" where
  "spares pre C C' \<longleftrightarrow> C' \<subseteq> C \<and> (\<forall>k \<in> C. \<not> prefix pre k \<longrightarrow> k \<in> C')"

lemma spares_refl [simp]: "spares pre C C"
  by (simp add: spares_def)

lemma spares_trans: "spares pre C D \<Longrightarrow> spares pre D D' \<Longrightarrow> spares pre C D'"
  by (auto simp: spares_def)

text \<open>What a cleanup from the content \<open>C\<close> leaves.\<close>

definition emptied :: "(ds_event list \<Rightarrow> string set) \<Rightarrow> string \<Rightarrow> string set \<Rightarrow> goerror option option \<Rightarrow> ds_world \<Rightarrow> bool" where
  "emptied content pre C r w' \<longleftrightarrow> r \<noteq> None \<and> spares pre C (content (ds_hist w')) \<and>
     (r = Some None \<longrightarrow> (\<forall>k \<in> content (ds_hist w'). \<not> prefix pre k))"

lemma emptied_trans: "spares pre C D \<Longrightarrow> emptied content pre D r w' \<Longrightarrow> emptied content pre C r w'"
  by (auto simp: emptied_def intro: spares_trans)

text \<open>One page: what comes after it starts from a content without the keys of the page.\<close>

lemma cleanupPages_page:
  fixes w :: ds_world
  defines "h \<equiv> ds_hist w"
  assumes s3: "s3_documented T bucket content rest rank" and page: "o_listObjects T h bucket pre tok = Inr page"
    and more: "\<And>w2. spares pre (content h) (content (ds_hist w2)) \<Longrightarrow> \<forall>k \<in> content (ds_hist w2). Some k \<notin> set (pg_Contents page) \<Longrightarrow>
      wp (case pg_next page of None \<Rightarrow> ret (Some None) | Some t \<Rightarrow> cleanupPages n T bucket pre (Some t)) (emptied content pre (content h)) w2"
  shows "wp (cleanupPages (Suc n) T bucket pre tok) (emptied content pre (content h)) w"
proof -
  let ?w1 = "w\<lparr>ds_hist := h @ [DsListObjects bucket pre tok (Inr page)]\<rparr>"
  let ?ks = "List.map_filter id (pg_Contents page)"
  have w1: "content (ds_hist ?w1) = content h" using s3 by (simp add: s3_documented_def)
  have keys: "prefix pre k" if "Some k \<in> set (pg_Contents page)" for k
    using s3_page(1) [OF s3 page] that by blast
  show ?thesis
  proof (cases "?ks = []")
    case True
    with page w1 more [of ?w1] show ?thesis
      by (simp add: wp present_Nil Let_def h_def del: option.case_distrib)
  next
    case False
    then have ne: "pg_Contents page \<noteq> []" by (auto simp: List.map_filter_def)
    define out where "out = o_deleteObjects T (ds_hist ?w1) bucket ?ks"
    define w2 where "w2 = w\<lparr>ds_hist := ds_hist ?w1 @ [DsDeleteObjects bucket ?ks out]\<rparr>"
    note del = s3_delete [OF s3, where h = "ds_hist ?w1" and ks = "?ks" and a = out]
    have sp: "spares pre (content h) (content (ds_hist w2))"
      using del(1,2) w1 keys by (auto simp: spares_def w2_def)
    have "\<forall>k \<in> content (ds_hist w2). Some k \<notin> set (pg_Contents page)" if "out = Inr []"
      using del(3) [OF that] by (auto simp: w2_def)
    note m2 = more [OF sp this]
    show ?thesis
      by (cases out) (use False ne page sp m2 in \<open>auto simp: wp Let_def w2_def out_def h_def emptied_def\<close>)
  qed
qed

lemma cleanupPages_empties:
  assumes s3: "s3_documented T bucket content rest rank"
    and "rank tok < n" "\<forall>k \<in> content (ds_hist w). prefix pre k \<longrightarrow> rest tok k"
  shows "wp (cleanupPages n T bucket pre tok) (emptied content pre (content (ds_hist w))) w"
  using assms(2,3)
proof (induction n arbitrary: tok w)
  case 0
  then show ?case by simp
next
  case (Suc n)
  let ?h = "ds_hist w"
  show ?case
  proof (cases "o_listObjects T ?h bucket pre tok")
    case (Inl e)
    then show ?thesis using s3 by (simp add: wp emptied_def s3_documented_def)
  next
    case (Inr page)
    show ?thesis
    proof (rule cleanupPages_page [OF s3 Inr])
      fix w2 :: ds_world
      assume w2: "spares pre (content ?h) (content (ds_hist w2))" "\<forall>k \<in> content (ds_hist w2). Some k \<notin> set (pg_Contents page)"
      have ahead: "Some k \<in> set (pg_Contents page) \<or> (\<exists>t. pg_next page = Some t \<and> rest (Some t) k)"
        if "k \<in> content ?h" "prefix pre k" for k
        using s3_page(2) [OF s3 Inr] that Suc.prems(2) by blast
      show "wp (case pg_next page of None \<Rightarrow> ret (Some None) | Some t \<Rightarrow> cleanupPages n T bucket pre (Some t))
        (emptied content pre (content ?h)) w2"
      proof (cases "pg_next page")
        case None
        with w2 ahead show ?thesis by (fastforce simp: wp spares_def emptied_def)
      next
        case (Some t)
        have "rank (Some t) < rank tok" using s3_page(3) [OF s3 Inr Some] .
        moreover have "\<forall>k \<in> content (ds_hist w2). prefix pre k \<longrightarrow> rest (Some t) k"
          using w2 ahead Some unfolding spares_def by fastforce
        ultimately have "wp (cleanupPages n T bucket pre (Some t)) (emptied content pre (content (ds_hist w2))) w2"
          using Suc.prems(1) by (intro Suc.IH) auto
        then show ?thesis unfolding Some option.case by (rule wp_mono) (rule emptied_trans [OF w2(1)])
      qed
    qed
  qed
qed

text \<open>C35: with S3 as documented, the command that deletes the logs of a run comes to an end, at the
  latest when it has seen all pages, and it deletes no object outside the prefix of that run; if it
  reports no error, no object with that prefix is left.\<close>

theorem runCleanupS3Logs_empties_prefix:
  assumes "s3_documented T bucket content rest rank" "logsBucketName T = Inr bucket" "rank None < fuel"
  shows "\<exists>r w'. runCleanupS3Logs fuel T arg w = Some (Some r, w') \<and>
    (let pre = ''mpc/'' @ resolveRunID T arg @ ''/'' in
       content (ds_hist w') \<subseteq> content (ds_hist w) \<and>
       (\<forall>k \<in> content (ds_hist w). \<not> prefix pre k \<longrightarrow> k \<in> content (ds_hist w')) \<and>
       (r = None \<longrightarrow> (\<forall>k \<in> content (ds_hist w'). \<not> prefix pre k)))"
proof -
  let ?pre = "''mpc/'' @ resolveRunID T arg @ ''/''"
  let ?Q = "emptied content ?pre (content (ds_hist w))"
  let ?w1 = "w\<lparr>ds_hist := ds_hist w @ [DsAwsConfig (o_awsConfig T (ds_hist w))]\<rparr>"
  have w1: "content (ds_hist ?w1) = content (ds_hist w)" using assms(1) by (simp add: s3_documented_def)
  have "\<forall>k. rest None k" using assms(1) by (simp add: s3_documented_def)
  then have "wp (cleanupPages fuel T bucket ?pre None) ?Q ?w1"
    using cleanupPages_empties [OF assms(1,3), of ?w1 ?pre] w1 by simp
  then have "wp (runCleanupS3Logs fuel T arg) ?Q w"
    using assms(2) w1 by (auto simp: runCleanupS3Logs_def cleanupS3LogsPrefix_def LoadDefaultConfig_def wp Let_def emptied_def
      split: option.split)
  then show ?thesis by (auto simp: wp_iff_Some emptied_def spares_def Let_def)
qed

section \<open>Command lines\<close>

text \<open>\<open>dlogs P m\<close>: every event that \<open>m\<close> adds to the history satisfies \<open>P\<close>.\<close>

definition dlogs :: "(ds_event \<Rightarrow> bool) \<Rightarrow> 'a D \<Rightarrow> bool" where
  "dlogs P m \<longleftrightarrow> (\<forall>w x w'. m w = Some (x, w') \<longrightarrow> (\<exists>es. ds_hist w' = ds_hist w @ es \<and> list_all P es))"

lemma dlogsD: "dlogs P m \<Longrightarrow> m w = Some (x, w') \<Longrightarrow> \<exists>es. ds_hist w' = ds_hist w @ es \<and> list_all P es"
  by (simp add: dlogs_def)

lemma dlogs_bnd: "dlogs P m \<Longrightarrow> (\<And>x. dlogs P (f x)) \<Longrightarrow> dlogs P (bnd m f)"
  unfolding dlogs_def bnd_Some
proof (intro allI impI)
  fix w y w'
  assume m: "\<forall>w x w'. m w = Some (x, w') \<longrightarrow> (\<exists>es. ds_hist w' = ds_hist w @ es \<and> list_all P es)"
    and f: "\<And>x. \<forall>w y w'. f x w = Some (y, w') \<longrightarrow> (\<exists>es. ds_hist w' = ds_hist w @ es \<and> list_all P es)"
  assume "\<exists>x w1. m w = Some (x, w1) \<and> f x w1 = Some (y, w')"
  then obtain x w1 where "m w = Some (x, w1)" "f x w1 = Some (y, w')" by blast
  with m f obtain es fs' where "ds_hist w1 = ds_hist w @ es" "list_all P es" "ds_hist w' = ds_hist w1 @ fs'" "list_all P fs'"
    by metis
  then show "\<exists>es. ds_hist w' = ds_hist w @ es \<and> list_all P es"
    by (intro exI [of _ "es @ fs'"]) simp
qed

lemma dlogs_basic:
  "dlogs P (ret x)" "dlogs P panic" "dlogs P (reads r)"
  "dlogs P (modify (\<lambda>w. w\<lparr>fs := g w\<rparr>))"
  by (auto simp: dlogs_def go_defs)

lemma dlogs_dcall: "(\<And>r. P (ev r)) \<Longrightarrow> dlogs P (dcall f ev)"
  by (auto simp: dlogs_def dcall_def)

lemma dlogs_must: "(\<And>v. x = Some v \<Longrightarrow> dlogs P (f v)) \<Longrightarrow> dlogs P (must x f)"
  by (cases x) (simp_all add: must_def dlogs_basic)

lemma dlogs_chk: "dlogs P m \<Longrightarrow> dlogs P k \<Longrightarrow> dlogs P (chk ctx m k)" "dlogs P m \<Longrightarrow> dlogs P k \<Longrightarrow> dlogs P (chk0 m k)"
  unfolding chk_def chk0_def by (auto intro!: dlogs_bnd dlogs_basic split: option.split)

lemma dlogs_Run:
  assumes "\<And>r. P (DsKubectl args stdin r)"
  shows "dlogs P (Output T args stdin)" "dlogs P (Run T args stdin)"
  using assms by (auto simp: Output_def Run_def intro!: dlogs_bnd dlogs_basic dlogs_dcall)

lemmas dlogs = dlogs_basic dlogs_bnd dlogs_must dlogs_chk dlogs_Run dlogs_dcall

text \<open>The commands that a deployment runs, for a key file and an overlay directory.\<close>

definition deployCommands :: "string \<Rightarrow> string \<Rightarrow> string list list" where
  "deployCommands key dir =
    [[''create'', ''namespace'', ''-o'', ''yaml'', ''--dry-run=client'', ''multi-platform-controller''],
     [''apply'', ''-f'', ''-''],
     [''config'', ''set-context'', ''--current'', ''--namespace=multi-platform-controller''],
     [''delete'', ''--ignore-not-found'', ''secret'', ''awskeys'', ''awsiam'', ''ibmiam''],
     [''create'', ''secret'', ''generic'', ''awskeys'', ''--from-file=id_rsa='' @ key],
     [''label'', ''secrets'', ''awsiam'', ''build.appstudio.redhat.com/multi-platform-secret=true''],
     [''label'', ''secrets'', ''ibmiam'', ''build.appstudio.redhat.com/multi-platform-secret=true''],
     [''label'', ''secrets'', ''awskeys'', ''build.appstudio.redhat.com/multi-platform-secret=true''],
     [''apply'', ''-k'', dir],
     [''rollout'', ''restart'', ''deployment'', ''-n'', ''multi-platform-controller'', ''multi-platform-controller'']]"

fun runs :: "string list list \<Rightarrow> ds_event \<Rightarrow> bool" where
  "runs cs (DsKubectl args stdin r) = (args \<in> set cs)"
| "runs cs _ = True"

lemma runs_mono: "runs cs e \<Longrightarrow> set cs \<subseteq> set ds \<Longrightarrow> runs ds e"
  by (cases e) auto

lemma dlogs_files:
  assumes "\<And>p r. P (DsFile p r)" "\<And>p c r. P (DsWriteFile p c r)" "\<And>p r. P (DsRemoveAll p r)" "\<And>d s r. P (DsCopyFS d s r)"
  shows "dlogs P (fault T p)" "dlogs P (WriteFile T path content)" "dlogs P (RemoveAll T path)" "dlogs P (CopyFS T dst src)"
    "dlogs P (replaceInFiles T dir old new)" "dlogs P (pullPolicies T dir subs)"
proof -
  have fault: "dlogs P (fault T p)" for p
    using assms by (simp add: fault_def dlogs)
  then show "dlogs P (fault T p)" .
  have writes: "dlogs P (WriteFile T path content)" for path content
    unfolding WriteFile_def using assms by (auto intro!: dlogs split: option.split)
  then show "dlogs P (WriteFile T path content)" .
  show "dlogs P (RemoveAll T path)"
    unfolding RemoveAll_def using assms by (auto intro!: dlogs split: option.split)
  show "dlogs P (CopyFS T dst src)"
    unfolding CopyFS_def Let_def using assms by (auto intro!: dlogs split: option.split prod.split)
  have read: "dlogs P (ReadFile T path)" for path
    unfolding ReadFile_def using fault by (auto intro!: dlogs split: option.split)
  have one: "dlogs P (replaceInFile T old new path)" for old new path
    unfolding replaceInFile_def using read writes by (auto intro!: dlogs split: sum.split)
  have "dlogs P (walkEntries T old new es)" for old new es
  proof (induction es)
    case (Cons e es)
    then show ?case by (cases e; cases "snd e") (auto intro!: dlogs fault one)
  qed (simp add: dlogs)
  then have replace: "dlogs P (replaceInFiles T dir old new)" for dir old new
    unfolding replaceInFiles_def using fault by (auto intro!: dlogs)
  then show "dlogs P (replaceInFiles T dir old new)" .
  show "dlogs P (pullPolicies T dir subs)"
    by (induction subs) (auto intro!: dlogs replace)
qed

lemma setupNamespace_runs: "dlogs (runs (deployCommands key dir)) (setupNamespace T)"
  unfolding setupNamespace_def by (auto intro!: dlogs simp: deployCommands_def split: option.split)

lemma createKubernetesSecrets_runs:
  "dlogs (runs (deployCommands (cfg_IDRSAKeyPath cfg) dir)) (createKubernetesSecrets T cfg)"
  unfolding createKubernetesSecrets_def createSecretFromLiterals_def
  by (auto intro!: dlogs simp: deployCommands_def split: sum.split)

lemma prepareDeploymentOverlays_runs: "dlogs (runs cs) (prepareDeploymentOverlays T cfg)"
  unfolding prepareDeploymentOverlays_def Let_def by (auto intro!: dlogs dlogs_files)

lemma deployOperator_runs: "dlogs (runs (deployCommands key (developmentDir cfg))) (deployOperator T cfg)"
  unfolding deployOperator_def by (auto intro!: dlogs simp: deployCommands_def)

lemma createKeyPair_runs: "dlogs (runs cs) (createKeyPair T cfg)"
  unfolding createKeyPair_def getCreatorRoleARN_def Let_def
  by (auto intro!: dlogs dlogs_files split: sum.split option.split)

text \<open>The key file: the one of the environment, or a new one whose name is made from the run identifier or
  from random bytes.\<close>

definition keyFile :: "ds_env \<Rightarrow> ds_history \<Rightarrow> string \<Rightarrow> bool" where
  "keyFile T es key \<longleftrightarrow> key = o_getenv T ''ID_RSA_KEY_PATH'' \<or>
     (\<exists>sfx. key = ''/tmp/multi-platform-controller-'' @ sfx @ ''.pem'' \<and>
        (sfx = o_getenv T ''GITHUB_RUN_ID'' \<or> (\<exists>b. DsRand 4 (Inr b) \<in> set es \<and> sfx = EncodeToString b)))"

lemma wlp_bndI: "(\<And>x v. wlp (f x) Q v) \<Longrightarrow> wlp (bnd m f) Q w"
  by (rule wlpI) (auto simp: bnd_Some dest: wlpD)

lemma createKeyPair_cfg: "createKeyPair T cfg w = Some ((r, cfg'), w') \<Longrightarrow> cfg' = cfg"
proof -
  have "wlp (createKeyPair T cfg) (\<lambda>x _. snd x = cfg) w"
    unfolding createKeyPair_def Let_def
    by (rule wlp_bndI, rule wlp_bndI) (auto simp: wlp_ret wlp_must intro!: wlp_bndI split: sum.split option.split)
  then show "createKeyPair T cfg w = Some ((r, cfg'), w') \<Longrightarrow> cfg' = cfg"
    by (auto dest: wlpD)
qed

lemma createKeyPair_named:
  assumes "createKeyPair T (withKeyName (''multi-platform-controller-'' @ sfx) cfg) w2 = Some ((r, cfg'), w')"
    "ds_hist w2 = ds_hist w @ es" "list_all (runs cs) es"
    "sfx = o_getenv T ''GITHUB_RUN_ID'' \<or> (\<exists>b. DsRand 4 (Inr b) \<in> set es \<and> sfx = EncodeToString b)"
  shows "cfg_DeployDir cfg' = cfg_DeployDir cfg \<and>
    (\<exists>es. ds_hist w' = ds_hist w @ es \<and> list_all (runs cs) es \<and> keyFile T es (cfg_IDRSAKeyPath cfg'))"
proof -
  from dlogsD [OF createKeyPair_runs assms(1)] obtain es' where es': "ds_hist w' = ds_hist w2 @ es'" "list_all (runs cs) es'"
    by blast
  have cfg': "cfg' = withKeyName (''multi-platform-controller-'' @ sfx) cfg" using assms(1) by (rule createKeyPair_cfg)
  with assms es' have "ds_hist w' = ds_hist w @ (es @ es') \<and> list_all (runs cs) (es @ es') \<and>
      keyFile T (es @ es') (cfg_IDRSAKeyPath cfg')"
    by (auto simp: withKeyName_def keyFile_def)
  with cfg' show ?thesis unfolding withKeyName_def by auto
qed

lemma setupSSHKey_runs:
  assumes "setupSSHKey T cfg w = Some ((r, cfg'), w')" "cfg_IDRSAKeyPath cfg = o_getenv T ''ID_RSA_KEY_PATH''"
    "cfg_GithubRunID cfg = o_getenv T ''GITHUB_RUN_ID''"
  shows "cfg_DeployDir cfg' = cfg_DeployDir cfg \<and>
    (\<exists>es. ds_hist w' = ds_hist w @ es \<and> list_all (runs cs) es \<and> keyFile T es (cfg_IDRSAKeyPath cfg'))"
proof (cases "cfg_IDRSAKeyPath cfg = []")
  case False
  with assms show ?thesis by (auto simp: setupSSHKey_def keyFile_def)
next
  case True
  let ?w1 = "w\<lparr>ds_hist := ds_hist w @ [DsAwsConfig (o_awsConfig T (ds_hist w))]\<rparr>"
  show ?thesis
  proof (cases "o_awsConfig T (ds_hist w)")
    case (Some e)
    with True assms show ?thesis
      by (auto simp: setupSSHKey_def LoadDefaultConfig_def bnd_Some dcall_Some keyFile_def)
  next
    case None
    show ?thesis
    proof (cases "cfg_GithubRunID cfg = []")
      case False
      with True None assms show ?thesis
        by (intro createKeyPair_named [of T "cfg_GithubRunID cfg" cfg ?w1 r cfg' w' w "[DsAwsConfig None]"])
          (auto simp: setupSSHKey_def LoadDefaultConfig_def bnd_Some dcall_Some)
    next
      case nil: True
      let ?b = "o_rand T (ds_hist ?w1) 4"
      let ?w2 = "?w1\<lparr>ds_hist := ds_hist ?w1 @ [DsRand 4 ?b]\<rparr>"
      show ?thesis
      proof (cases ?b)
        case (Inl e)
        with True None nil assms show ?thesis
          by (auto simp: setupSSHKey_def LoadDefaultConfig_def bnd_Some dcall_Some keyFile_def)
      next
        case (Inr b)
        with True None nil assms show ?thesis
          by (intro createKeyPair_named [of T "EncodeToString b" cfg ?w2 r cfg' w' w "[DsAwsConfig None, DsRand 4 (Inr b)]"])
            (auto simp: setupSSHKey_def LoadDefaultConfig_def bnd_Some dcall_Some)
      qed
    qed
  qed
qed

lemma loadConfig_fields:
  assumes "loadConfig T w = Some (Inr cfg, w')"
  shows "\<exists>es wd. ds_hist w' = ds_hist w @ es \<and> list_all (runs cs) es \<and> DsGetwd (Inr wd) \<in> set es \<and>
    cfg_DeployDir cfg = JoinPath wd ''deploy'' \<and> cfg_QuayUsername cfg = o_getenv T ''QUAY_USERNAME'' \<and>
    cfg_IDRSAKeyPath cfg = o_getenv T ''ID_RSA_KEY_PATH'' \<and> cfg_GithubRunID cfg = o_getenv T ''GITHUB_RUN_ID''"
  using assms
  by (cases "o_getwd T (ds_hist w)")
    (auto simp: loadConfig_def bnd_Some dcall_Some fault_def reads_def Let_def split: if_splits)

lemma loadConfig_runs: "dlogs (runs cs) (loadConfig T)"
  unfolding loadConfig_def fault_def Let_def by (auto intro!: dlogs split: sum.split)

text \<open>What is said of the commands of a history.\<close>

definition commandsSafe :: "ds_env \<Rightarrow> ds_history \<Rightarrow> bool" where
  "commandsSafe T es \<longleftrightarrow> (\<forall>args stdin a. DsKubectl args stdin a \<in> set es \<longrightarrow>
     o_getenv T ''QUAY_USERNAME'' \<noteq> [] \<and> validateAWSCredentials T = None \<and>
     (\<exists>key wd. keyFile T es key \<and> DsGetwd (Inr wd) \<in> set es \<and>
        args \<in> set (deployCommands key (JoinPath (JoinPath (JoinPath wd ''deploy'') ''overlays'') ''development''))))"

lemma keyFile_mono: "keyFile T es key \<Longrightarrow> set es \<subseteq> set es' \<Longrightarrow> keyFile T es' key"
  by (auto simp: keyFile_def)

lemma runs_Nil_safe: "list_all (runs []) es \<Longrightarrow> commandsSafe T es"
  by (auto simp: commandsSafe_def list_all_iff)

lemma commandsSafe_append:
  assumes "commandsSafe T es" "list_all (runs (deployCommands key (developmentDir cfg))) es'"
    and "DsGetwd (Inr wd) \<in> set es" "cfg_DeployDir cfg = JoinPath wd ''deploy''" "keyFile T es key"
    and "o_getenv T ''QUAY_USERNAME'' \<noteq> []" "validateAWSCredentials T = None"
  shows "commandsSafe T (es @ es')"
  unfolding commandsSafe_def
proof (intro allI impI conjI)
  fix args stdin a
  assume "DsKubectl args stdin a \<in> set (es @ es')"
  then consider "DsKubectl args stdin a \<in> set es" | "args \<in> set (deployCommands key (developmentDir cfg))"
    using assms(2) by (auto simp: list_all_iff)
  then show "\<exists>key wd. keyFile T (es @ es') key \<and> DsGetwd (Inr wd) \<in> set (es @ es') \<and>
      args \<in> set (deployCommands key (JoinPath (JoinPath (JoinPath wd ''deploy'') ''overlays'') ''development''))"
  proof cases
    case 1
    with assms(1) obtain key' wd' where "keyFile T es key'" "DsGetwd (Inr wd') \<in> set es"
      "args \<in> set (deployCommands key' (JoinPath (JoinPath (JoinPath wd' ''deploy'') ''overlays'') ''development''))"
      unfolding commandsSafe_def by blast
    then show ?thesis
      by (intro exI [of _ key'] exI [of _ wd']) (auto elim: keyFile_mono)
  next
    case 2
    with assms(3-5) show ?thesis
      by (intro exI [of _ key] exI [of _ wd]) (auto simp: developmentDir_def elim: keyFile_mono)
  qed
qed (use assms in auto)

lemma deployConfigured_runs:
  "dlogs (runs (deployCommands (cfg_IDRSAKeyPath cfg) (developmentDir cfg))) (deployConfigured T cfg)"
  unfolding deployConfigured_def
  by (intro dlogs_chk dlogs_basic createKubernetesSecrets_runs prepareDeploymentOverlays_runs deployOperator_runs)

lemma deployWithKey_commands:
  assumes run: "deployWithKey T cfg0 w = Some (r, w')" and es: "commandsSafe T es" "DsGetwd (Inr wd) \<in> set es"
    and cfg0: "cfg_DeployDir cfg0 = JoinPath wd ''deploy''" "cfg_IDRSAKeyPath cfg0 = o_getenv T ''ID_RSA_KEY_PATH''"
      "cfg_GithubRunID cfg0 = o_getenv T ''GITHUB_RUN_ID''"
    and pre: "o_getenv T ''QUAY_USERNAME'' \<noteq> []" "validateAWSCredentials T = None"
  shows "\<exists>es'. ds_hist w' = ds_hist w @ es' \<and> commandsSafe T (es @ es')"
proof -
  from run obtain e cfg w1 where key: "setupSSHKey T cfg0 w = Some ((e, cfg), w1)"
    and rest: "(case e of Some e' \<Rightarrow> ret (Some (ErrWrap ''setting up SSH key: '' e' [])) | None \<Rightarrow> deployConfigured T cfg) w1
      = Some (r, w')"
    unfolding deployWithKey_def bnd_Some by auto
  from setupSSHKey_runs [OF key cfg0(2,3), of "[]"] obtain es1 where es1: "ds_hist w1 = ds_hist w @ es1"
    "list_all (runs []) es1" "keyFile T es1 (cfg_IDRSAKeyPath cfg)" "cfg_DeployDir cfg = cfg_DeployDir cfg0" by blast
  have "dlogs (runs (deployCommands (cfg_IDRSAKeyPath cfg) (developmentDir cfg)))
      (case e of Some e' \<Rightarrow> ret (Some (ErrWrap ''setting up SSH key: '' e' [])) | None \<Rightarrow> deployConfigured T cfg)"
    by (cases e) (simp_all only: option.case dlogs_basic deployConfigured_runs)
  from dlogsD [OF this rest] obtain es2 where es2: "ds_hist w' = ds_hist w1 @ es2"
    "list_all (runs (deployCommands (cfg_IDRSAKeyPath cfg) (developmentDir cfg))) es2" by blast
  have "list_all (runs (deployCommands (o_getenv T ''ID_RSA_KEY_PATH'') (developmentDir cfg0))) es1"
    using es1(2) by (auto simp: list_all_iff intro: runs_mono [of "[]"])
  with es cfg0(1) pre have "commandsSafe T (es @ es1)"
    by (intro commandsSafe_append) (auto simp: keyFile_def)
  then have "commandsSafe T ((es @ es1) @ es2)"
    by (rule commandsSafe_append [where wd = wd]) (use es2(2) es(2) es1(3,4) cfg0(1) pre in \<open>auto elim: keyFile_mono\<close>)
  with es1(1) es2(1) show ?thesis by auto
qed

text \<open>C36: the secrets of the environment never appear on a command line: every \<open>kubectl\<close> command of a
  deployment is one of ten, of which one names the key file and one the overlay directory; and no
  command is run unless the user name and the AWS credentials are set.\<close>

theorem runDeploy_commands:
  assumes "runDeploy T w = Some (r, w')"
  shows "\<exists>es. ds_hist w' = ds_hist w @ es \<and> commandsSafe T es"
proof -
  from assms obtain lr w1 where load: "loadConfig T w = Some (lr, w1)"
    and rest: "(case lr of Inl e \<Rightarrow> ret (Some e) | Inr cfg \<Rightarrow> chk0 (ret (validatePrerequisites T cfg))
        (chk ''setting up namespace'' (setupNamespace T) (deployWithKey T cfg))) w1 = Some (r, w')"
    unfolding runDeploy_def bnd_Some by blast
  show ?thesis
  proof (cases lr)
    case (Inl e)
    with rest dlogsD [OF loadConfig_runs load, of "[]"] show ?thesis by (auto dest: runs_Nil_safe)
  next
    case (Inr cfg)
    from loadConfig_fields [OF load [unfolded Inr], of "[]"] obtain es wd where es:
      "ds_hist w1 = ds_hist w @ es" "list_all (runs []) es" "DsGetwd (Inr wd) \<in> set es" "cfg_DeployDir cfg = JoinPath wd ''deploy''"
      and fields: "cfg_QuayUsername cfg = o_getenv T ''QUAY_USERNAME''" "cfg_IDRSAKeyPath cfg = o_getenv T ''ID_RSA_KEY_PATH''"
      "cfg_GithubRunID cfg = o_getenv T ''GITHUB_RUN_ID''" by blast
    show ?thesis
    proof (cases "validatePrerequisites T cfg")
      case (Some e)
      with rest Inr es runs_Nil_safe show ?thesis by (auto simp: chk0_def)
    next
      case None
      then have pre: "o_getenv T ''QUAY_USERNAME'' \<noteq> []" "validateAWSCredentials T = None"
        using fields(1) by (auto simp: validatePrerequisites_def split: if_splits)
      from rest Inr None obtain e2 w2 where ns: "setupNamespace T w1 = Some (e2, w2)"
        and rest2: "(case e2 of Some e' \<Rightarrow> ret (Some (ErrWrap ''setting up namespace: '' e' []))
          | None \<Rightarrow> deployWithKey T cfg) w2 = Some (r, w')"
        by (auto simp: chk0_def chk_def bnd_Some)
      from dlogsD [OF setupNamespace_runs ns] obtain es2 where es2: "ds_hist w2 = ds_hist w @ es @ es2"
        "list_all (runs (deployCommands (o_getenv T ''ID_RSA_KEY_PATH'') (developmentDir cfg))) es2"
        using es(1) by (metis append.assoc)
      have safe: "commandsSafe T (es @ es2)"
        using runs_Nil_safe [OF es(2)] es2(2) es(3,4) pre by (intro commandsSafe_append) (auto simp: keyFile_def)
      show ?thesis
      proof (cases e2)
        case (Some e')
        with rest2 es2 safe show ?thesis by auto
      next
        case None
        with rest2 deployWithKey_commands [OF _ safe _ es(4) fields(2,3) pre] es(3) es2(1) show ?thesis by fastforce
      qed
    qed
  qed
qed

section \<open>Terminating the instances of a tag\<close>

lemma terminateEach_events:
  "wp (terminateEach T ids) (\<lambda>_ w'. \<exists>ts. ds_hist w' = ds_hist w @ ts \<and>
     list_all2 (\<lambda>i e. \<exists>a. e = DsTerminateInstances [i] a) ids ts) w"
proof (induction ids arbitrary: w)
  case Nil
  then show ?case by (simp add: wp)
next
  case (Cons i ids)
  show ?case
    by (simp add: wp, rule wp_mono [OF Cons.IH])
      (fastforce simp: list_all2_Cons1)
qed

text \<open>C37: the command that cleans up the instances of a tag asks EC2 for exactly the tags that the
  controller gives every instance it starts with that tag; and if it reports no error, it has asked
  for the termination of each instance that was found, one by one, whether or not the others could
  be terminated, and of no other.\<close>

theorem runCleanupInstances_reaches_launched:
  assumes "AWS_LaunchInstance E ec i tag tags w = Some (res, w1)" "hist w1 = hist w @ es" "EvRunInstances inp a \<in> set es"
    and "runCleanupInstances T tag d = Some (None, d')"
  shows "(\<exists>t. run_TagSpecifications inp = [(''instance'', t)] \<and>
      (\<forall>k vs. (''tag:'' @ k, vs) \<in> set (desc_Filters (cleanupQuery tag)) \<longrightarrow> (\<exists>v \<in> set vs. map_of t k = Some v))) \<and>
    (\<exists>reservations ts. ds_hist d' = ds_hist d @ [DsAwsConfig None, DsDescribeInstances (cleanupQuery tag) (Inr reservations)] @ ts \<and>
       list_all2 (\<lambda>i e. \<exists>a. e = DsTerminateInstances [i] a) (instanceIDs reservations) ts)"
proof
  from wlpD [OF AWS_launch_events assms(1)] assms(2)
  have "filter starts_instance es = [] \<or> (\<exists>inp r n. filter starts_instance es = [EvRunInstances inp r] \<and>
      configureInstance ec n tag (mput TaskRunTagKey i tags) = Inr inp)" by auto
  moreover have "EvRunInstances inp a \<in> set (filter starts_instance es)" using assms(3) by simp
  ultimately obtain n where "configureInstance ec n tag (mput TaskRunTagKey i tags) = Inr inp"
    by (metis empty_iff event.inject(23) empty_set list.set(1) set_ConsD)
  from configureInstance_tags(1) [OF this]
  show "\<exists>t. run_TagSpecifications inp = [(''instance'', t)] \<and>
      (\<forall>k vs. (''tag:'' @ k, vs) \<in> set (desc_Filters (cleanupQuery tag)) \<longrightarrow> (\<exists>v \<in> set vs. map_of t k = Some v))"
    by (auto simp: cleanupQuery_def instanceTags_def InstanceTag_def MultiPlatformManaged_def)
next
  let ?w = "\<lambda>u. d\<lparr>ds_hist := ds_hist d @ [DsAwsConfig None, DsDescribeInstances (cleanupQuery tag) (Inr u)]\<rparr>"
  from assms(4) obtain u where
    run: "(if instanceIDs u = [] then ret None else bnd (terminateEach T (instanceIDs u)) (\<lambda>_. ret None)) (?w u) =
      Some (None :: goerror option, d')"
    by (auto simp: runCleanupInstances_def chk0_def chk_def LoadDefaultConfig_def bnd_Some dcall_Some Let_def
        split: option.splits sum.splits)
  show "\<exists>reservations ts. ds_hist d' = ds_hist d @ [DsAwsConfig None, DsDescribeInstances (cleanupQuery tag) (Inr reservations)] @ ts \<and>
       list_all2 (\<lambda>i e. \<exists>a. e = DsTerminateInstances [i] a) (instanceIDs reservations) ts"
  proof (cases "instanceIDs u = []")
    case True
    with run show ?thesis by auto
  next
    case False
    with run obtain x where "terminateEach T (instanceIDs u) (?w u) = Some (x, d')" by (auto simp: bnd_Some)
    from wlpD [OF wp_imp_wlp [OF terminateEach_events] this] show ?thesis by auto
  qed
qed

section \<open>Examples\<close>

text \<open>The bucket of the example, after a history, and the listing of it.\<close>

definition logKeys :: "ds_history \<Rightarrow> string list" where
  "logKeys h = foldl (\<lambda>ks e. case e of
       DsDeleteObjects b gone (Inr []) \<Rightarrow> if b = ''logs'' then filter (\<lambda>k. k \<notin> set gone) ks else ks
     | _ \<Rightarrow> ks) [''mpc/7/a'', ''mpc/8/b'', ''mpc/7/c''] h"

definition logsEnv :: ds_env where
  "logsEnv = toolEnv\<lparr>o_listObjects := (\<lambda>h b pre tok.
     Inr \<lparr>pg_Contents = map Some (filter (prefix pre) (logKeys h)), pg_next = None\<rparr>)\<rparr>"

lemma logsEnv_documented: "s3_documented logsEnv ''logs'' (set \<circ> logKeys) (\<lambda>_ _. True) (\<lambda>_. 0)"
  by (auto simp: s3_documented_def logsEnv_def logKeys_def split: sum.splits list.splits)

theorem runCleanupS3Logs_empties_prefix_witness:
  "\<exists>w'. runCleanupS3Logs 1 logsEnv ''7'' toolStart = Some (Some None, w') \<and> set (logKeys (ds_hist w')) = {''mpc/8/b''}"
proof -
  have bucket: "logsBucketName logsEnv = Inr ''logs''" by code_simp
  have ok: "map_option fst (runCleanupS3Logs 1 logsEnv ''7'' toolStart) = Some (Some None)" by code_simp
  have pre: "''mpc/'' @ resolveRunID logsEnv ''7'' @ ''/'' = ''mpc/7/''" by code_simp
  have start: "set (logKeys (ds_hist toolStart)) = {''mpc/7/a'', ''mpc/8/b'', ''mpc/7/c''}"
    by (simp add: logKeys_def toolStart_def)
  have fuel: "(\<lambda>_ :: string option. 0 :: nat) None < 1" by simp
  from runCleanupS3Logs_empties_prefix [OF logsEnv_documented bucket fuel, of "''7''" toolStart]
  obtain r w' where run': "runCleanupS3Logs 1 logsEnv ''7'' toolStart = Some (Some r, w')"
    and all: "let pre = ''mpc/'' @ resolveRunID logsEnv ''7'' @ ''/'' in
       (set \<circ> logKeys) (ds_hist w') \<subseteq> (set \<circ> logKeys) (ds_hist toolStart) \<and>
       (\<forall>k \<in> (set \<circ> logKeys) (ds_hist toolStart). \<not> prefix pre k \<longrightarrow> k \<in> (set \<circ> logKeys) (ds_hist w')) \<and>
       (r = None \<longrightarrow> (\<forall>k \<in> (set \<circ> logKeys) (ds_hist w'). \<not> prefix pre k))" by blast
  from run' ok have r: "r = None" by simp
  note run = run' [unfolded r] and facts = all [unfolded Let_def pre o_def r, THEN conjunct2]
  note sub = all [unfolded Let_def pre o_def r, THEN conjunct1] and kept = facts [THEN conjunct1]
    and gone = facts [THEN conjunct2, THEN mp, OF refl]
  have "set (logKeys (ds_hist w')) = {''mpc/8/b''}"
  proof -
    have "\<not> prefix ''mpc/7/'' ''mpc/8/b''" "prefix ''mpc/7/'' ''mpc/7/a''" "prefix ''mpc/7/'' ''mpc/7/c''" by simp_all
    with sub kept gone show ?thesis unfolding start by blast
  qed
  with run show ?thesis by blast
qed

text \<open>A deployment that stops because the first command fails.\<close>

theorem runDeploy_commands_witness:
  "\<exists>r w'. runDeploy (toolEnv\<lparr>o_kubectl := (\<lambda>_ _ _. (Some (ErrExt ''refused''), []))\<rparr>) toolStart = Some (r, w') \<and>
     (\<exists>args a. DsKubectl args None a \<in> set (ds_hist w')) \<and>
     commandsSafe (toolEnv\<lparr>o_kubectl := (\<lambda>_ _ _. (Some (ErrExt ''refused''), []))\<rparr>) (ds_hist w')"
proof -
  let ?T = "toolEnv\<lparr>o_kubectl := (\<lambda>_ _ _. (Some (ErrExt ''refused''), []))\<rparr>"
  have "wp (runDeploy ?T) (\<lambda>r w'. \<exists>args a. DsKubectl args None a \<in> set (ds_hist w')) toolStart"
    by (simp add: runDeploy_def loadConfig_def fault_def validatePrerequisites_def validateAWSCredentials_def
        setupNamespace_def Output_def wp toolEnv_def toolStart_def toolFiles_def JoinPath_def lk_def Let_def)
  then obtain r w' where run: "runDeploy ?T toolStart = Some (r, w')" and k: "\<exists>args a. DsKubectl args None a \<in> set (ds_hist w')"
    unfolding wp_iff_Some by blast
  from runDeploy_commands [OF run] have "commandsSafe ?T (ds_hist w')" by (simp add: toolStart_def)
  with run k show ?thesis by blast
qed

theorem runCleanupInstances_reaches_launched_witness:
  "\<exists>d' (inp :: RunInstancesInput) t. runCleanupInstances toolEnv ''prod'' toolStart = Some (None, d') \<and>
     run_TagSpecifications inp = [(''instance'', t)] \<and> map_of t ''multi-platform-instance'' = Some ''prod'' \<and>
     DsDescribeInstances (cleanupQuery ''prod'') (Inr []) \<in> set (ds_hist d')"
proof -
  from runEnv_launches obtain res w' inp r where
    run: "AWS_LaunchInstance runEnv (CreateEc2CloudConfig ''p'' [] ''ns'') ''team:build'' ''prod'' [] initial = Some (res, w')"
    and e: "EvRunInstances inp r \<in> set (hist w')" by blast
  have h: "hist w' = hist initial @ hist w'" by (simp add: initial_def)
  let ?d = "\<lparr>ds_hist = [DsAwsConfig None, DsDescribeInstances (cleanupQuery ''prod'') (Inr [])], fs = toolFiles\<rparr>"
  have clean: "runCleanupInstances toolEnv ''prod'' toolStart = Some (None, ?d)"
    by (simp add: runCleanupInstances_def chk0_def chk_def LoadDefaultConfig_def validateAWSCredentials_def toolEnv_def
        toolStart_def lk_def dcall_def bnd_def ret_def Let_def instanceIDs_def List.map_filter_def)
  from runCleanupInstances_reaches_launched [OF run h e clean] obtain t where
    "run_TagSpecifications inp = [(''instance'', t)]"
    "\<forall>k vs. (''tag:'' @ k, vs) \<in> set (desc_Filters (cleanupQuery ''prod'')) \<longrightarrow> (\<exists>v \<in> set vs. map_of t k = Some v)" by blast
  moreover from this(2) [rule_format, of "''multi-platform-instance''" "[''prod'']"]
  have "map_of t ''multi-platform-instance'' = Some ''prod''" by (simp add: cleanupQuery_def)
  moreover have "DsDescribeInstances (cleanupQuery ''prod'') (Inr []) \<in> set (ds_hist ?d)" by simp
  ultimately show ?thesis using clean by blast
qed

end
