(* ===== verification/Instance_Names.thy ===== *)
theory Instance_Names
  imports Providers
begin

text \<open>
  The identifiers under which the cloud providers know their instances: whatever holds of every
  identifier that the SDKs answer with holds of the identifiers that launching and listing return.
  The contract of \<open>cloud.CloudProvider\<close> is extended accordingly, and the three providers meet it.
\<close>

section \<open>Facts about results\<close>

named_theorems yields \<open>rules for facts about the result of a command\<close>

text \<open>\<open>yields m Q\<close>: if \<open>m\<close> returns, from whatever state, its result satisfies \<open>Q\<close>.\<close>

definition yields :: "'a M \<Rightarrow> ('a \<Rightarrow> bool) \<Rightarrow> bool" where
  "yields m Q \<longleftrightarrow> (\<forall>w. wlp m (\<lambda>x _. Q x) w)"

lemma yieldsD: "yields m Q \<Longrightarrow> m w = Some (x, w') \<Longrightarrow> Q x"
  unfolding yields_def by (blast dest: wlpD)

lemma yields_bnd: "yields m R \<Longrightarrow> (\<And>x. R x \<Longrightarrow> yields (f x) Q) \<Longrightarrow> yields (bnd m f) Q"
  unfolding yields_def wlp_bnd by (blast intro: wlp_mono)

lemma yields_any: "yields m (\<lambda>_. True)"
  by (simp add: yields_def)

lemma yields_rest [yields]: "(\<And>x. yields (f x) Q) \<Longrightarrow> yields (bnd m f) Q"
  by (rule yields_bnd [OF yields_any])

lemma yields_rules [yields]:
  "Q x \<Longrightarrow> yields (ret x) Q"
  "(b \<Longrightarrow> yields m Q) \<Longrightarrow> (\<not> b \<Longrightarrow> yields n Q) \<Longrightarrow> yields (if b then m else n) Q"
  "(y = None \<Longrightarrow> yields m Q) \<Longrightarrow> (\<And>v. y = Some v \<Longrightarrow> yields (f v) Q) \<Longrightarrow> yields (case y of None \<Rightarrow> m | Some v \<Rightarrow> f v) Q"
  "(\<And>e. z = Inl e \<Longrightarrow> yields (g e) Q) \<Longrightarrow> (\<And>v. z = Inr v \<Longrightarrow> yields (h v) Q) \<Longrightarrow> yields (case z of Inl e \<Rightarrow> g e | Inr v \<Rightarrow> h v) Q"
  "(l = [] \<Longrightarrow> yields m Q) \<Longrightarrow> (\<And>u us. l = u # us \<Longrightarrow> yields (k u us) Q) \<Longrightarrow> yields (case l of [] \<Rightarrow> m | u # us \<Rightarrow> k u us) Q"
  "(\<And>v. y = Some v \<Longrightarrow> yields (f v) Q) \<Longrightarrow> yields (must y f) Q"
  "(\<And>a b. p = (a, b) \<Longrightarrow> yields (q a b) Q) \<Longrightarrow> yields (case p of (a, b) \<Rightarrow> q a b) Q"
  "(\<And>x. x = t \<Longrightarrow> yields (j x) Q) \<Longrightarrow> yields (let x = t in j x) Q"
  by (auto simp: yields_def wp split: option.split sum.split list.split prod.split)

lemma yields_call: "(\<And>h. Q (f h)) \<Longrightarrow> yields (call f ev) Q"
  by (simp add: yields_def wp)

lemma yields_foreach:
  assumes "\<And>x b. x \<in> set xs \<Longrightarrow> Q b \<Longrightarrow> yields (f x b) Q" "Q a"
  shows "yields (foreach f xs a) Q"
  using assms
proof (induction xs arbitrary: a)
  case Nil
  then show ?case by (simp add: yields)
next
  case (Cons x xs)
  show ?case
    unfolding foreach.simps by (rule yields_bnd [where R = Q]) (simp_all add: Cons)
qed

text \<open>The loops that collect instances: what is added has an identifier of an instance that is visited.\<close>

lemma yields_collect:
  assumes "\<And>x b. x \<in> set xs \<Longrightarrow> \<forall>vm \<in> set b. D (vm_InstanceId vm) \<Longrightarrow> yields (f x b) (\<lambda>b. \<forall>vm \<in> set b. D (vm_InstanceId vm))"
  shows "yields (bnd (foreach f xs []) (\<lambda>vms. ret (Inr vms))) (\<lambda>r. \<forall>vms. r = Inr vms \<longrightarrow> (\<forall>vm \<in> set vms. D (vm_InstanceId vm)))"
  by (rule yields_bnd [OF yields_foreach [where Q = "\<lambda>b. \<forall>vm \<in> set b. D (vm_InstanceId vm)"]]) (auto intro: assms yields)

section \<open>The extended contract\<close>

text \<open>Every identifier of an instance in an answer of the SDKs satisfies \<open>D\<close>.\<close>

definition instance_names :: "env \<Rightarrow> (string \<Rightarrow> bool) \<Rightarrow> bool" where
  "instance_names E D \<longleftrightarrow>
     (\<forall>h i xs. a_run (ec2 E) h i = Inr xs \<longrightarrow> (\<forall>x \<in> set xs. \<forall>n. ins_InstanceId x = Some n \<longrightarrow> D n)) \<and>
     (\<forall>h i rs. a_describe (ec2 E) h i = Inr rs \<longrightarrow> (\<forall>x \<in> set (concat rs). \<forall>n. ins_InstanceId x = Some n \<longrightarrow> D n)) \<and>
     (\<forall>h p x. v_create (vpc E) h p = Inr x \<longrightarrow> (\<forall>n. vi_ID x = Some n \<longrightarrow> D n)) \<and>
     (\<forall>h g s xs. v_list (vpc E) h g s = Inr xs \<longrightarrow> (\<forall>x \<in> set xs. \<forall>n. vi_ID x = Some n \<longrightarrow> D n)) \<and>
     (\<forall>h r xs. p_launch (power E) h r = Inr xs \<longrightarrow> (\<forall>x \<in> set xs. \<forall>n. pvm_ID x = Some n \<longrightarrow> D n)) \<and>
     (\<forall>h r xs. p_list (power E) h r = Inr xs \<longrightarrow> (\<forall>x \<in> set xs. \<forall>n. pvm_ID x = Some n \<longrightarrow> D n))"

locale naming_provider = cloud_provider +
  assumes launch_names: "instance_names E D \<Longrightarrow> yields (LaunchInstance impl i tag tags) (\<lambda>r. \<forall>x. r = Inr x \<longrightarrow> D x)"
    and list_names: "instance_names E D \<Longrightarrow>
      yields (ListInstances impl tag) (\<lambda>r. \<forall>vms. r = Inr vms \<longrightarrow> (\<forall>vm \<in> set vms. D (vm_InstanceId vm)))"

lemma yields_sdk:
  assumes "instance_names E D"
  shows "yields (RunInstances E i) (\<lambda>r. \<forall>xs. r = Inr xs \<longrightarrow> (\<forall>x \<in> set xs. \<forall>n. ins_InstanceId x = Some n \<longrightarrow> D n))"
    and "yields (DescribeInstances E j) (\<lambda>r. \<forall>rs. r = Inr rs \<longrightarrow> (\<forall>x \<in> set (concat rs). \<forall>n. ins_InstanceId x = Some n \<longrightarrow> D n))"
    and "yields (call (\<lambda>h. v_create (vpc E) h p) ev1) (\<lambda>r. \<forall>x. r = Inr x \<longrightarrow> (\<forall>n. vi_ID x = Some n \<longrightarrow> D n))"
    and "yields (call (\<lambda>h. v_list (vpc E) h g s) ev2) (\<lambda>r. \<forall>xs. r = Inr xs \<longrightarrow> (\<forall>x \<in> set xs. \<forall>n. vi_ID x = Some n \<longrightarrow> D n))"
    and "yields (call (\<lambda>h. p_launch (power E) h rq) ev3) (\<lambda>r. \<forall>xs. r = Inr xs \<longrightarrow> (\<forall>x \<in> set xs. \<forall>n. pvm_ID x = Some n \<longrightarrow> D n))"
    and "yields (call (\<lambda>h. p_list (power E) h rq) ev4) (\<lambda>r. \<forall>xs. r = Inr xs \<longrightarrow> (\<forall>x \<in> set xs. \<forall>n. pvm_ID x = Some n \<longrightarrow> D n))"
  using assms unfolding instance_names_def
  by (auto simp: yields_def wp RunInstances_def DescribeInstances_def; blast)+

section \<open>The providers meet it\<close>

lemma aws_launch_names:
  "instance_names E D \<Longrightarrow> yields (AWS_LaunchInstance E ec i tag tags) (\<lambda>r. \<forall>x. r = Inr x \<longrightarrow> D x)"
  unfolding AWS_LaunchInstance_def
  by (rule yields_bnd [OF yields_sdk(1)] yields | (assumption | (auto; fail)))+

lemma ibmz_launch_names:
  "instance_names E D \<Longrightarrow> yields (IBMZ_LaunchInstance E iz i tag tags) (\<lambda>r. \<forall>x. r = Inr x \<longrightarrow> D x)"
  unfolding IBMZ_LaunchInstance_def
  by (rule yields_bnd [OF yields_sdk(3)] yields | (assumption | (auto; fail)))+

lemma power_launch_names:
  "instance_names E D \<Longrightarrow> yields (power_launchInstance E pw info) (\<lambda>r. \<forall>x. r = Inr x \<longrightarrow> D x)"
  unfolding power_launchInstance_def
  by (rule yields_bnd [OF yields_sdk(5)] yields | (assumption | (auto simp: idx_def split: if_splits; fail)))+

lemma ibmp_launch_names:
  "instance_names E D \<Longrightarrow> yields (IBMP_LaunchInstance E pw i tag tags) (\<lambda>r. \<forall>x. r = Inr x \<longrightarrow> D x)"
  unfolding IBMP_LaunchInstance_def
  by (rule yields_bnd [OF power_launch_names] yields | (assumption | (auto; fail)))+

lemma aws_list_names:
  "instance_names E D \<Longrightarrow> yields (AWS_ListInstances E ec tag) (\<lambda>r. \<forall>vms. r = Inr vms \<longrightarrow> (\<forall>vm \<in> set vms. D (vm_InstanceId vm)))"
  unfolding AWS_ListInstances_def
  by (rule yields_bnd [OF yields_sdk(2)] yields_collect yields | (assumption | (auto; fail)))+

lemma ibmz_list_names:
  "instance_names E D \<Longrightarrow> yields (IBMZ_ListInstances E iz tag) (\<lambda>r. \<forall>vms. r = Inr vms \<longrightarrow> (\<forall>vm \<in> set vms. D (vm_InstanceId vm)))"
  unfolding IBMZ_ListInstances_def
  by (rule yields_bnd [OF yields_sdk(4)] yields_collect yields | (assumption | (auto; fail)))+

lemma power_list_names:
  "instance_names E D \<Longrightarrow> yields (power_listInstances E pw) (\<lambda>r. \<forall>xs. r = Inr xs \<longrightarrow> (\<forall>x \<in> set xs. \<forall>n. pvm_ID x = Some n \<longrightarrow> D n))"
  unfolding power_listInstances_def
  by (rule yields_bnd [OF yields_sdk(6)] yields | (assumption | (auto; fail)))+

lemma ibmp_list_names:
  "instance_names E D \<Longrightarrow> yields (IBMP_ListInstances E pw tag) (\<lambda>r. \<forall>vms. r = Inr vms \<longrightarrow> (\<forall>vm \<in> set vms. D (vm_InstanceId vm)))"
  unfolding IBMP_ListInstances_def
  by (rule yields_bnd [OF power_list_names] yields_collect yields | (assumption | (auto; fail)))+

interpretation named: naming_provider E "provider E cp" for E cp
  by unfold_locales
     (cases cp; simp add: aws_ops_def ibmz_ops_def ibmp_ops_def aws_launch_names ibmz_launch_names ibmp_launch_names
        aws_list_names ibmz_list_names ibmp_list_names)+

end
