(* ===== verification/Capacity.thy ===== *)
theory Capacity
  imports Instance_Names Reconcile_Props
begin

text \<open>
  The capacity of the static hosts, as a statement about the cluster and not about one call: what the
  API server stores is a function \<open>content\<close> of the history, and a number of slots is fixed per host.
  The theory states what is assumed of the API server, defines the assertion that no host has more
  user tasks than slots even if the TaskRun at hand is written as it is, and shows that every
  operation of a platform keeps it.
\<close>

section \<open>What the cluster holds\<close>

type_synonym store = "nsname \<rightharpoonup> TaskRun"

text \<open>The user tasks assigned to a host, by key, in the store; and the slot that a TaskRun takes if it
  is written.\<close>

definition user_of :: "string \<Rightarrow> TaskRun \<Rightarrow> bool" where
  "user_of k tr \<longleftrightarrow> label tr TaskTypeLabel = [] \<and> label tr AssignedHost = k"

definition users :: "store \<Rightarrow> string \<Rightarrow> nsname set" where
  "users C k = {key. \<exists>x. C key = Some x \<and> user_of k x}"

definition own :: "TaskRun \<Rightarrow> string \<Rightarrow> nsname set" where
  "own tr k = (if user_of k tr then {objKey tr} else {})"

text \<open>The three marks of a TaskRun that matter here.\<close>

definition marks :: "TaskRun \<Rightarrow> string \<times> string \<times> string" where
  "marks tr = (label tr TaskTypeLabel, label tr AssignedHost, annotation tr CloudInstanceId)"

section \<open>Documented behaviour of the API server\<close>

text \<open>Reads answer with what is stored, a list with all that matches, each once; an accepted update is
  answered with the marks that were sent. For the cached reads (\<open>k_get\<close>, \<open>k_list\<close>) this says that the
  cache has caught up.\<close>

definition reads_current :: "env \<Rightarrow> (history \<Rightarrow> store) \<Rightarrow> bool" where
  "reads_current E content \<longleftrightarrow>
     (\<forall>h. finite (dom (content h))) \<and>
     (\<forall>h k x. k_apiGet (kube E) h k = Inr x \<longrightarrow> content h k = Some x) \<and>
     (\<forall>h k x. k_get (kube E) h k = Inr x \<longrightarrow> content h k = Some x) \<and>
     (\<forall>h s xs. k_list (kube E) h s = Inr xs \<longrightarrow>
        distinct (map objKey xs) \<and> (\<forall>k x. content h k = Some x \<and> matches s x \<longleftrightarrow> x \<in> set xs \<and> objKey x = k)) \<and>
     (\<forall>h x y. k_update (kube E) h x = Inr y \<longrightarrow> marks y = marks x)"

text \<open>An object that others write names no host with slots.\<close>

definition foreign :: "(string \<rightharpoonup> int) \<Rightarrow> TaskRun \<Rightarrow> bool" where
  "foreign cap x \<longleftrightarrow> cap (label x AssignedHost) = None \<and> cap (annotation x CloudInstanceId) = None"

text \<open>How the store changes from one call of the controller to the next: a stored object has its marks
  from before, or from somebody else, or from the update or the creation that was accepted.\<close>

definition writes_accounted :: "(history \<Rightarrow> store) \<Rightarrow> (string \<rightharpoonup> int) \<Rightarrow> bool" where
  "writes_accounted content cap \<longleftrightarrow>
     (\<forall>h e k x. content (h @ [e]) k = Some x \<longrightarrow>
        (\<exists>y. content h k = Some y \<and> marks y = marks x) \<or> foreign cap x \<or>
        (\<exists>s a. e = EvUpdate s (Inr a) \<and> objKey s = k \<and> marks x = marks s) \<or>
        (\<exists>s. e = EvCreate s None \<and> marks x = marks s))"

text \<open>No version of the configuration gives a host more slots than \<open>cap\<close> says.\<close>

definition config_bounded :: "env \<Rightarrow> (string \<rightharpoonup> int) \<Rightarrow> bool" where
  "config_bounded E cap \<longleftrightarrow>
     (\<forall>h k cm name hc c. k_getConfigMap (kube E) h k = Inr cm \<longrightarrow>
        ParseStaticHostConfig (l_dns (lib E)) (cm_Data cm) name = Inr hc \<longrightarrow> cap name = Some c \<longrightarrow> hc_Concurrency hc \<le> c)"

text \<open>All that is assumed: besides, the names of the static hosts are neither empty nor \<open>localhost\<close>, and
  no cloud instance has one of them as its identifier.\<close>

definition capacity_documented :: "env \<Rightarrow> (history \<Rightarrow> store) \<Rightarrow> (string \<rightharpoonup> int) \<Rightarrow> bool" where
  "capacity_documented E content cap \<longleftrightarrow>
     documented E \<and> sdk_documented E \<and> reads_current E content \<and> writes_accounted content cap \<and>
     config_bounded E cap \<and> instance_names E (\<lambda>n. cap n = None) \<and> cap [] = None \<and> cap ''localhost'' = None"

section \<open>The assertion\<close>

text \<open>The hosts of a pool are stored under their names and have at most the slots of \<open>cap\<close>.\<close>

definition pool_fits :: "(string \<rightharpoonup> int) \<Rightarrow> HostPool \<Rightarrow> bool" where
  "pool_fits cap hp \<longleftrightarrow> (\<forall>(k, h) \<in> set (hp_hosts hp). h_Name h = k \<and> (\<forall>c. cap k = Some c \<longrightarrow> h_Concurrency h \<le> c))"

definition platform_fits :: "(string \<rightharpoonup> int) \<Rightarrow> PlatformConfig \<Rightarrow> bool" where
  "platform_fits cap pc \<longleftrightarrow> (case pc of PHostPool hp \<Rightarrow> pool_fits cap hp | _ \<Rightarrow> True)"

text \<open>No host has more users than slots, and would not if \<open>tr\<close> were written; no identifier of an instance
  is the name of a host; the cached pools fit.\<close>

definition slots_ok :: "env \<Rightarrow> (history \<Rightarrow> store) \<Rightarrow> (string \<rightharpoonup> int) \<Rightarrow> TaskRun \<Rightarrow> world \<Rightarrow> bool" where
  "slots_ok E content cap tr w \<longleftrightarrow> capacity_documented E content cap \<and>
     (\<forall>k c. cap k = Some c \<longrightarrow> int (card (users (content (hist w)) k \<union> own tr k)) \<le> c) \<and>
     (\<forall>k x. content (hist w) k = Some x \<longrightarrow> cap (annotation x CloudInstanceId) = None) \<and>
     cap (annotation tr CloudInstanceId) = None \<and>
     (\<forall>p pc. platformConfig w p = Some pc \<longrightarrow> platform_fits cap pc)"

lemma slots_okD:
  assumes "slots_ok E content cap tr w"
  shows "documented E" "sdk_documented E" "reads_current E content" "writes_accounted content cap" "config_bounded E cap"
    "instance_names E (\<lambda>n. cap n = None)" "cap [] = None" "cap ''localhost'' = None"
    "retry_documented E" "finalizers_documented E" "cap (annotation tr CloudInstanceId) = None"
  using assms by (simp_all add: slots_ok_def capacity_documented_def documented_def)

lemma slots_ok_card:
  "slots_ok E content cap tr w \<Longrightarrow> cap k = Some c \<Longrightarrow> int (card (users (content (hist w)) k \<union> own tr k)) \<le> c"
  unfolding slots_ok_def by blast

lemma slots_ok_id:
  "slots_ok E content cap tr w \<Longrightarrow> content (hist w) k = Some x \<Longrightarrow> cap (annotation x CloudInstanceId) = None"
  unfolding slots_ok_def by blast

lemma slots_ok_other:
  assumes "slots_ok E content cap tr w" "cap (annotation x CloudInstanceId) = None"
    and "\<And>k c. cap k = Some c \<Longrightarrow> int (card (users (content (hist w)) k \<union> own x k)) \<le> c"
  shows "slots_ok E content cap x w"
  using assms unfolding slots_ok_def by blast

lemma finite_users: "reads_current E content \<Longrightarrow> finite (users (content h) k)"
  by (rule finite_subset [of _ "dom (content h)"]) (auto simp: users_def reads_current_def)

lemma own_subset: "own tr k \<subseteq> {objKey tr}"
  by (simp add: own_def)

lemma own_marks: "objKey x = objKey tr \<Longrightarrow> marks x = marks tr \<Longrightarrow> own x = own tr"
  by (auto simp: own_def user_of_def marks_def fun_eq_iff)

text \<open>Only key and marks of the TaskRun matter; one that names no host with slots can be put in its
  place.\<close>

lemma slots_ok_marks:
  assumes "slots_ok E content cap tr w" "objKey x = objKey tr" "marks x = marks tr"
  shows "slots_ok E content cap x w"
proof -
  have "annotation x CloudInstanceId = annotation tr CloudInstanceId" using assms(3) by (simp add: marks_def)
  with assms(1) show ?thesis unfolding slots_ok_def own_marks [OF assms(2,3)] by simp
qed

lemma slots_ok_foreign:
  assumes "slots_ok E content cap tr w" "foreign cap x"
  shows "slots_ok E content cap x w"
proof (rule slots_ok_other [OF assms(1)])
  fix k c
  assume k: "cap k = Some c"
  with assms(2) have "own x k = {}" by (auto simp: own_def user_of_def foreign_def)
  moreover have "card (users (content (hist w)) k) \<le> card (users (content (hist w)) k \<union> own tr k)"
    using finite_users [OF slots_okD(3) [OF assms(1)]] by (intro card_mono) (auto simp: own_def)
  ultimately show "int (card (users (content (hist w)) k \<union> own x k)) \<le> c"
    using slots_ok_card [OF assms(1) k] by simp
qed (use assms(2) in \<open>simp add: foreign_def\<close>)

text \<open>A TaskRun that is stored can be put in its place.\<close>

lemma slots_ok_stored:
  assumes "slots_ok E content cap tr w" "content (hist w) k = Some x" "objKey x = k"
  shows "slots_ok E content cap x w"
proof (rule slots_ok_other [OF assms(1) slots_ok_id [OF assms(1,2)]])
  fix j c
  assume "cap j = Some c"
  moreover have "users (content (hist w)) j \<union> own x j \<subseteq> users (content (hist w)) j \<union> own tr j"
    using assms(2,3) by (auto simp: own_def users_def)
  then have "card (users (content (hist w)) j \<union> own x j) \<le> card (users (content (hist w)) j \<union> own tr j)"
    using finite_users [OF slots_okD(3) [OF assms(1)]] by (intro card_mono) (auto simp: own_def)
  ultimately show "int (card (users (content (hist w)) j \<union> own x j)) \<le> c"
    using slots_ok_card [OF assms(1), of j c] by linarith
qed

section \<open>Events that keep it\<close>

text \<open>Everything but an update, or the creation of a task that is not an internal one.\<close>

definition harmless :: "event \<Rightarrow> bool" where
  "harmless e = (case e of
       EvUpdate _ _ \<Rightarrow> False
     | EvCreate p _ \<Rightarrow> label p TaskTypeLabel \<noteq> [] \<and> annotation p CloudInstanceId = []
     | _ \<Rightarrow> True)"

text \<open>Also an update that writes the TaskRun at hand, as far as its marks go.\<close>

definition fitting :: "TaskRun \<Rightarrow> event \<Rightarrow> bool" where
  "fitting tr e \<longleftrightarrow> harmless e \<or> (\<exists>s r. e = EvUpdate s r \<and> objKey s = objKey tr \<and> marks s = marks tr)"

lemma harmless_fitting: "harmless e \<Longrightarrow> fitting tr e"
  by (simp add: fitting_def)

lemma quiet_harmless: "\<not> writes_cluster e \<Longrightarrow> harmless e"
  by (cases e) (simp_all add: harmless_def)

lemma accounted_cases:
  assumes "writes_accounted content cap" "content (h @ [e]) k = Some x" "fitting tr e"
  obtains (same) y where "content h k = Some y" "marks y = marks x" | (foreign) "foreign cap x"
    | (update) "k = objKey tr" "marks x = marks tr" | (create) "label x TaskTypeLabel \<noteq> []" "annotation x CloudInstanceId = []"
proof -
  from assms(1,2) consider "\<exists>y. content h k = Some y \<and> marks y = marks x" | "foreign cap x"
    | s a where "e = EvUpdate s (Inr a)" "objKey s = k" "marks x = marks s" | s where "e = EvCreate s None" "marks x = marks s"
    unfolding writes_accounted_def by blast
  then show thesis
  proof cases
    case 3
    with assms(3) show thesis by (intro update) (auto simp: fitting_def harmless_def)
  next
    case 4
    with assms(3) show thesis by (intro create) (auto simp: fitting_def harmless_def marks_def)
  qed (use same foreign in blast)+
qed

lemma slots_ok_event:
  assumes i: "slots_ok E content cap tr w" and e: "fitting tr e"
  shows "slots_ok E content cap tr (w\<lparr>hist := hist w @ [e]\<rparr>)"
  unfolding slots_ok_def
proof (intro conjI allI impI)
  let ?h = "hist w" and ?w = "w\<lparr>hist := hist w @ [e]\<rparr>"
  note acc = accounted_cases [OF slots_okD(4) [OF i] _ e]
  fix k c
  assume k: "cap k = Some c"
  have "key \<in> users (content ?h) k \<union> own tr k" if "key \<in> users (content (?h @ [e])) k" for key
  proof -
    from that obtain x where x: "content (?h @ [e]) key = Some x" "user_of k x" by (auto simp: users_def)
    from x(1) show ?thesis
      by (cases rule: acc) (use x(2) k in \<open>auto simp: users_def own_def user_of_def foreign_def marks_def\<close>)
  qed
  then have "users (content (?h @ [e])) k \<union> own tr k \<subseteq> users (content ?h) k \<union> own tr k" by blast
  then have "card (users (content (?h @ [e])) k \<union> own tr k) \<le> card (users (content ?h) k \<union> own tr k)"
    using finite_users [OF slots_okD(3) [OF i]] by (intro card_mono) (auto simp: own_def)
  with slots_ok_card [OF i k] show "int (card (users (content (hist ?w)) k \<union> own tr k)) \<le> c" by simp
next
  note acc = accounted_cases [OF slots_okD(4) [OF i] _ e]
  fix k x
  assume "content (hist (w\<lparr>hist := hist w @ [e]\<rparr>)) k = Some x"
  then have "content (hist w @ [e]) k = Some x" by simp
  then show "cap (annotation x CloudInstanceId) = None"
    by (cases rule: acc)
       (use slots_okD(7,11) [OF i] slots_ok_id [OF i] in \<open>fastforce simp: foreign_def marks_def\<close>)+
qed (use i in \<open>simp_all add: slots_ok_def\<close>)

text \<open>The rest of the state matters only through the cache.\<close>

lemma slots_ok_same:
  assumes "slots_ok E content cap tr w" "hist w' = hist w" "platformConfig w' = platformConfig w"
  shows "slots_ok E content cap tr w'"
  using assms by (simp add: slots_ok_def)

lemma slots_ok_events:
  assumes "slots_ok E content cap tr w" "hist w' = hist w @ es" "list_all (fitting tr) es" "platformConfig w' = platformConfig w"
  shows "slots_ok E content cap tr w'"
  using assms
proof (induction es arbitrary: w' rule: rev_induct)
  case Nil
  then show ?case by (auto intro: slots_ok_same)
next
  case (snoc e es)
  let ?v = "w'\<lparr>hist := hist w @ es\<rparr>"
  from snoc have "slots_ok E content cap tr ?v" by auto
  from slots_ok_event [OF this, of e] snoc.prems have "slots_ok E content cap tr (?v\<lparr>hist := hist ?v @ [e]\<rparr>)" by simp
  with snoc.prems show ?case by (auto intro: slots_ok_same)
qed

section \<open>Triples\<close>

named_theorems triple \<open>rules for commands between two assertions\<close>

text \<open>From a state with \<open>P\<close>, if \<open>m\<close> returns, the result and the state satisfy \<open>Q\<close>.\<close>

definition triple :: "(world \<Rightarrow> bool) \<Rightarrow> 'a M \<Rightarrow> ('a \<Rightarrow> world \<Rightarrow> bool) \<Rightarrow> bool" where
  "triple P m Q \<longleftrightarrow> (\<forall>w. P w \<longrightarrow> wlp m Q w)"

lemma tripleD: "triple P m Q \<Longrightarrow> P w \<Longrightarrow> m w = Some (x, w') \<Longrightarrow> Q x w'"
  unfolding triple_def by (blast dest: wlpD)

lemma triple_pre: "triple P' m Q \<Longrightarrow> (\<And>w. P w \<Longrightarrow> P' w) \<Longrightarrow> triple P m Q"
  by (simp add: triple_def)

lemma triple_post: "triple P m R \<Longrightarrow> (\<And>x w. R x w \<Longrightarrow> Q x w) \<Longrightarrow> triple P m Q"
  unfolding triple_def by (blast intro: wlp_mono)

lemma triple_pure: "(b \<Longrightarrow> triple P m Q) \<Longrightarrow> triple (\<lambda>w. P w \<and> b) m Q"
  by (simp add: triple_def)

lemma triple_bnd [triple]: "triple P m R \<Longrightarrow> (\<And>x. triple (R x) (f x) Q) \<Longrightarrow> triple P (bnd m f) Q"
  unfolding triple_def wlp_bnd by (blast intro: wlp_mono)

lemma triple_cases [triple]:
  "(\<And>a b. p = (a, b) \<Longrightarrow> triple (P' a b) (q a b) Q) \<Longrightarrow> triple (case p of (a, b) \<Rightarrow> P' a b) (case p of (a, b) \<Rightarrow> q a b) Q"
  "(\<And>a b. p = (a, b) \<Longrightarrow> triple P (q a b) Q) \<Longrightarrow> triple P (case p of (a, b) \<Rightarrow> q a b) Q"
  "(\<And>w. P w \<Longrightarrow> Q x w) \<Longrightarrow> triple P (ret x) Q"
  "(b \<Longrightarrow> triple P m Q) \<Longrightarrow> (\<not> b \<Longrightarrow> triple P n Q) \<Longrightarrow> triple P (if b then m else n) Q"
  "(y = None \<Longrightarrow> triple P m Q) \<Longrightarrow> (\<And>v. y = Some v \<Longrightarrow> triple P (f v) Q) \<Longrightarrow> triple P (case y of None \<Rightarrow> m | Some v \<Rightarrow> f v) Q"
  "(\<And>e. z = Inl e \<Longrightarrow> triple P (g e) Q) \<Longrightarrow> (\<And>v. z = Inr v \<Longrightarrow> triple P (h v) Q) \<Longrightarrow> triple P (case z of Inl e \<Rightarrow> g e | Inr v \<Rightarrow> h v) Q"
  "(\<And>v. y = Some v \<Longrightarrow> triple P (f v) Q) \<Longrightarrow> triple P (must y f) Q"
  "(\<And>x. x = t \<Longrightarrow> triple P (j x) Q) \<Longrightarrow> triple P (let x = t in j x) Q"
  "(bb \<Longrightarrow> triple P m Q) \<Longrightarrow> (\<not> bb \<Longrightarrow> triple P n Q) \<Longrightarrow> triple P (case bb of True \<Rightarrow> m | False \<Rightarrow> n) Q"
  "(l = [] \<Longrightarrow> triple P m Q) \<Longrightarrow> (\<And>u us. l = u # us \<Longrightarrow> triple P (k u us) Q) \<Longrightarrow> triple P (case l of [] \<Rightarrow> m | u # us \<Rightarrow> k u us) Q"
  by (auto simp: triple_def wp split: option.split sum.split list.split prod.split bool.split)

lemma triple_foreach:
  assumes "\<And>x b. x \<in> set xs \<Longrightarrow> triple (R b) (f x b) R"
  shows "triple (R a) (foreach f xs a) R"
  using assms
proof (induction xs arbitrary: a)
  case Nil
  then show ?case by (simp add: triple)
next
  case (Cons x xs)
  then show ?case
    unfolding foreach.simps by (intro triple_bnd [of "R a" _ R]) simp_all
qed

lemma triple_on_error:
  assumes "triple P fn (\<lambda>_. P)"
  shows "triple P (on_error n c fn) (\<lambda>_. P)"
proof (induction n)
  case (Suc n)
  show ?case
    unfolding on_error.simps by (rule triple_bnd [OF assms]) (rule triple Suc | simp; fail)+
qed (simp add: assms)

text \<open>Commands whose events fit keep the assertion for the TaskRun at hand.\<close>

lemma triple_ok:
  assumes "ok A m Q" "\<And>e. A e \<Longrightarrow> fitting tr e"
  shows "triple (slots_ok E content cap tr) m (\<lambda>x w. slots_ok E content cap tr w \<and> Q x)"
  unfolding triple_def
proof (intro allI impI)
  fix w
  assume i: "slots_ok E content cap tr w"
  show "wlp m (\<lambda>x w. slots_ok E content cap tr w \<and> Q x) w"
  proof (rule wlpI)
    fix x w'
    assume "m w = Some (x, w')"
    from ok_run [OF assms(1) this] obtain es where "hist w' = hist w @ es" "list_all A es" "same_cache w w'" "Q x" by blast
    moreover from this(2) have "list_all (fitting tr) es" by (auto simp: list_all_iff assms(2))
    ultimately show "slots_ok E content cap tr w' \<and> Q x"
      using slots_ok_events [OF i] by (simp add: same_cache_def)
  qed
qed

lemma triple_quiet:
  assumes "ok harmless m (\<lambda>_. True)"
  shows "triple (slots_ok E content cap tr) m (\<lambda>_. slots_ok E content cap tr)"
  using triple_ok [OF assms harmless_fitting] by (rule triple_post) simp_all

text \<open>The same under a hypothesis that the assertion contains.\<close>

lemma triple_doc:
  assumes "documented E \<Longrightarrow> sdk_documented E \<Longrightarrow> retry_documented E \<Longrightarrow> finalizers_documented E \<Longrightarrow>
    instance_names E (\<lambda>n. cap n = None) \<Longrightarrow> cap [] = None \<Longrightarrow> cap ''localhost'' = None \<Longrightarrow>
    cap (annotation tr CloudInstanceId) = None \<Longrightarrow> triple (slots_ok E content cap tr) m Q"
  shows "triple (slots_ok E content cap tr) m Q"
  unfolding triple_def
proof (intro allI impI)
  fix w
  assume i: "slots_ok E content cap tr w"
  from assms [OF slots_okD(1,2,9,10,6,7,8,11) [OF i]] i show "wlp m Q w" unfolding triple_def by blast
qed

section \<open>Updates\<close>

lemma triple_Update:
  "triple (slots_ok E content cap tr) (Update E tr) (\<lambda>(err, tr'). slots_ok E content cap tr')"
  unfolding triple_def Update_def UpdateObj_def wp
proof (intro allI impI)
  fix w
  assume i: "slots_ok E content cap tr w"
  let ?r = "k_update (kube E) (hist w) tr"
  let ?w = "w\<lparr>hist := hist w @ [EvUpdate tr ?r]\<rparr>"
  have j: "slots_ok E content cap tr ?w"
    by (rule slots_ok_event [OF i]) (auto simp: fitting_def)
  have "slots_ok E content cap y ?w" if "?r = Inr y" for y
  proof (rule slots_ok_marks [OF j])
    show "objKey y = objKey tr" using documented_keys(3) [OF slots_okD(1) [OF i] that] .
    show "marks y = marks tr" using slots_okD(3) [OF i] that unfolding reads_current_def by blast
  qed
  with j show "wlp (case ?r of Inl e \<Rightarrow> ret (Some e, tr) | Inr tr' \<Rightarrow> ret (None, tr')) (\<lambda>(err, tr'). slots_ok E content cap tr') ?w"
    by (auto simp: wp split: sum.split)
qed

lemma marks_merged:
  assumes "finalizers_documented E"
  shows "marks (mergedTaskRun E latest tr) = marks tr"
proof -
  note m = mergedTaskRun_merges(1) [OF assms, of tr latest]
  show ?thesis
    using managed_label [OF m, of TaskTypeLabel] managed_label [OF m, of AssignedHost] managed_annotation [OF m, of CloudInstanceId]
    by (simp add: marks_def managedLabels_def managedAnnotations_def)
qed

lemma triple_updateTaskRun:
  "triple (slots_ok E content cap tr) (updateTaskRun E tr) (\<lambda>_. slots_ok E content cap tr)"
proof (rule triple_doc)
  assume d: "documented E" "finalizers_documented E"
  have g: "ok harmless (ApiGet E (objKey tr)) (\<lambda>r. \<forall>x. r = Inr x \<longrightarrow> objKey x = objKey tr)"
    unfolding ApiGet_def by (rule ok_call) (auto simp: harmless_def dest: documented_keys(1) [OF d(1)])
  have u: "triple (slots_ok E content cap tr) (bnd (Update E (mergedTaskRun E latest tr)) (\<lambda>(err, _). ret err)) (\<lambda>_. slots_ok E content cap tr)"
    if "objKey latest = objKey tr" for latest
  proof -
    let ?m = "mergedTaskRun E latest tr"
    have key: "objKey tr = objKey ?m" using that by simp
    have "ok (fitting tr) (Update E ?m) (\<lambda>_. True)"
      by (rule ok_mono [OF ok_Update [OF d(1)]]) (simp_all add: fitting_def marks_merged [OF d(2)] that)
    from triple_ok [OF this, of tr] have "triple (slots_ok E content cap tr) (Update E ?m) (\<lambda>_. slots_ok E content cap tr)"
      by (rule triple_post) simp_all
    then show ?thesis by (rule triple_bnd) (rule triple | simp)+
  qed
  show "triple (slots_ok E content cap tr) (updateTaskRun E tr) (\<lambda>_. slots_ok E content cap tr)"
    unfolding updateTaskRun_def
    by (rule triple_bnd [OF triple_ok [OF g harmless_fitting]]) (auto intro!: triple_pure triple_cases u)
qed

lemma triple_UpdateTaskRunWithRetry:
  "triple (slots_ok E content cap tr) (UpdateTaskRunWithRetry E tr) (\<lambda>(err, tr'). slots_ok E content cap tr')"
proof (rule triple_doc)
  assume "retry_documented E"
  then have r: "l_retryOnConflict (lib E) fn = on_error 5 IsConflict fn" for fn by (simp add: retry_documented_def)
  show "triple (slots_ok E content cap tr) (UpdateTaskRunWithRetry E tr) (\<lambda>(err, tr'). slots_ok E content cap tr')"
    unfolding UpdateTaskRunWithRetry_def r
    by (rule triple_Update triple_on_error [OF triple_updateTaskRun] triple | (simp; fail))+
qed

text \<open>For a TaskRun that the assertion at hand covers.\<close>

lemma triple_update [triple]:
  assumes "\<And>w. P w \<Longrightarrow> slots_ok E content cap tr w"
  shows "triple P (UpdateTaskRunWithRetry E tr) (\<lambda>(err, tr'). slots_ok E content cap tr')"
    and "triple P (Update E tr) (\<lambda>(err, tr'). slots_ok E content cap tr')"
  by (rule triple_pre [OF triple_UpdateTaskRunWithRetry assms] triple_pre [OF triple_Update assms], assumption)+

end
