(* ===== verification/Capacity_Platforms.thy ===== *)
theory Capacity_Platforms
  imports Capacity
begin

text \<open>
  Every kind of platform keeps within the slots of the static hosts: the contract of the interface
  \<open>PlatformConfig\<close> for capacity as a locale, and its interpretation on the four kinds. The static pool
  is the one that uses slots: the list of assigned tasks that it counts shows a free one.
\<close>

section \<open>Changes of a TaskRun\<close>

lemma edit_simps [simp]:
  "label (snd (AddFinalizer E tr f)) k = label tr k"
  "label (snd (RemoveFinalizer E tr f)) k = label tr k"
  "annotation (snd (AddFinalizer E tr f)) k = annotation tr k"
  "annotation (snd (RemoveFinalizer E tr f)) k = annotation tr k"
  "annotation (ensureLabels tr) k = annotation tr k"
  by (simp_all add: label_def annotation_def ensureLabels_def split: option.split)

text \<open>A change that leaves the type alone, and each of the two other marks alone or without the name of a
  host.\<close>

lemma slots_ok_change:
  assumes "slots_ok E content cap tr w" "objKey x = objKey tr" "label x TaskTypeLabel = label tr TaskTypeLabel"
    and "label x AssignedHost = label tr AssignedHost \<or> cap (label x AssignedHost) = None"
    and "annotation x CloudInstanceId = annotation tr CloudInstanceId \<or> cap (annotation x CloudInstanceId) = None"
  shows "slots_ok E content cap x w"
proof (rule slots_ok_other [OF assms(1)])
  show "cap (annotation x CloudInstanceId) = None" using assms(5) slots_okD(11) [OF assms(1)] by auto
  fix k c
  assume k: "cap k = Some c"
  then have "own x k = own tr k \<or> own x k = {}" using assms(2-4) by (auto simp: own_def user_of_def)
  moreover have "card (users (content (hist w)) k) \<le> card (users (content (hist w)) k \<union> own tr k)"
    using finite_users [OF slots_okD(3) [OF assms(1)]] by (intro card_mono) (auto simp: own_def)
  ultimately show "int (card (users (content (hist w)) k \<union> own x k)) \<le> c"
    using slots_ok_card [OF assms(1) k] by auto
qed

lemmas label_edits = label_setLabel annotation_setLabel objKey_set(1)

lemmas annotation_edits = label_setAnnotation annotation_setAnnotation objKey_set(2)

text \<open>Taking a TaskRun off its host, and forgetting its instance.\<close>

lemma slots_ok_unassign:
  assumes "slots_ok E content cap tr w"
  shows "slots_ok E content cap (delLabel AssignedHost tr) w"
    and "slots_ok E content cap (delAnnotation CloudInstanceId tr) w"
    and "slots_ok E content cap (snd (RemoveFinalizer E (delLabel AssignedHost tr) f)) w"
    and "slots_ok E content cap (delLabel AssignedHost (snd (RemoveFinalizer E tr f))) w"
    and "slots_ok E content cap (snd (AddFinalizer E tr f)) w"
    and "slots_ok E content cap (ensureAnnotations tr) w"
    and "slots_ok E content cap (ensureLabels tr) w"
    and "slots_ok E content cap (delLabel WaitingForPlatformLabel tr) w"
    and "slots_ok E content cap (delAnnotation CloudDynamicPlatform tr) w"
    and "slots_ok E content cap (delLabel CloudDynamicPlatform tr) w"
  by (rule slots_ok_change [OF assms]; simp add: slots_okD(7) [OF assms])+

text \<open>Setting a mark of no interest, or to something that is not the name of a host.\<close>

lemma slots_ok_setLabel:
  assumes "setLabel k v tr = Some tr'" "slots_ok E content cap tr w" "k \<noteq> TaskTypeLabel" "k = AssignedHost \<Longrightarrow> cap v = None"
  shows "slots_ok E content cap tr' w"
  by (rule slots_ok_change [OF assms(2)]) (use assms(3,4) in \<open>auto simp: label_edits [OF assms(1)]\<close>)

lemma slots_ok_setAnnotation:
  assumes "setAnnotation k v tr = Some tr'" "slots_ok E content cap tr w" "k = CloudInstanceId \<Longrightarrow> cap v = None"
  shows "slots_ok E content cap tr' w"
  by (rule slots_ok_change [OF assms(2)]) (use assms(3) in \<open>auto simp: annotation_edits [OF assms(1)]\<close>)

section \<open>Shared commands\<close>

lemma triple_calls [triple]:
  "triple (slots_ok E content cap tr) (Get E k) (\<lambda>_. slots_ok E content cap tr)"
  "triple (slots_ok E content cap tr) (GetSecret E k) (\<lambda>_. slots_ok E content cap tr)"
  "triple (slots_ok E content cap tr) (CreateSecret E s) (\<lambda>_. slots_ok E content cap tr)"
  "triple (slots_ok E content cap tr) (DeleteSecret E s) (\<lambda>_. slots_ok E content cap tr)"
  "triple (slots_ok E content cap tr) (GetConfigMap E k) (\<lambda>_. slots_ok E content cap tr)"
  "triple (slots_ok E content cap tr) (ListPods E ns) (\<lambda>_. slots_ok E content cap tr)"
  "triple (slots_ok E content cap tr) (UpdatePod E pod) (\<lambda>_. slots_ok E content cap tr)"
  "triple (slots_ok E content cap tr) (Event x ty re msg) (\<lambda>_. slots_ok E content cap tr)"
  "triple (slots_ok E content cap tr) (Now E) (\<lambda>_. slots_ok E content cap tr)"
  "triple (slots_ok E content cap tr) (RandRead E n) (\<lambda>_. slots_ok E content cap tr)"
  "triple (slots_ok E content cap tr) (Delete E x) (\<lambda>_. slots_ok E content cap tr)"
  "triple (slots_ok E content cap tr) (List E sl) (\<lambda>_. slots_ok E content cap tr)"
  "triple (slots_ok E content cap tr) (HandleMetrics p f) (\<lambda>_. slots_ok E content cap tr)"
  by (rule triple_quiet, (rule ok | simp add: harmless_def)+)+

lemma triple_Create [triple]:
  "label p TaskTypeLabel \<noteq> [] \<Longrightarrow> annotation p CloudInstanceId = [] \<Longrightarrow>
     triple (slots_ok E content cap tr) (Create E p) (\<lambda>_. slots_ok E content cap tr)"
  by (rule triple_quiet, rule ok) (simp add: harmless_def)

lemma triple_createErrorSecret [triple]:
  assumes "\<And>w. P w \<Longrightarrow> slots_ok E content cap tr w"
  shows "triple P (createErrorSecret E line tr p sn msg) (\<lambda>(err, tr'). slots_ok E content cap tr')"
proof -
  obtain changed tr1 where a: "AddFinalizer E tr PipelineFinalizer = (changed, tr1)" by force
  have c: "slots_ok E content cap tr1 w" if "P w" for w
    using slots_ok_unassign(5) [OF assms [OF that], of PipelineFinalizer] a by simp
  show ?thesis
    unfolding createErrorSecret_def a prod.case Let_def
    by (rule triple | (use c in \<open>auto\<close>; fail))+
qed

lemma triple_createUserTaskSecret [triple]:
  "triple (slots_ok E content cap tr) (createUserTaskSecret E x sn d) (\<lambda>_. slots_ok E content cap tr)"
  unfolding createUserTaskSecret_def by (rule triple | (simp; fail))+

lemma triple_getRandomString [triple]:
  "triple (slots_ok E content cap tr) (getRandomString E n) (\<lambda>_. slots_ok E content cap tr)"
  unfolding getRandomString_def by (rule triple | (simp; fail))+

lemma triple_launchProvisioningTask [triple]:
  assumes "\<And>w. P w \<Longrightarrow> slots_ok E content cap tr w"
  shows "triple P (launchProvisioningTask E tr sn ss a u p sc) (\<lambda>(err, tr'). slots_ok E content cap tr')"
proof (rule triple_pre [OF _ assms])
  have l: "label (provisionTask E tr sn ss a u p sc tag) TaskTypeLabel \<noteq> []"
    "annotation (provisionTask E tr sn ss a u p sc tag) CloudInstanceId = []" for tag
    by (simp_all add: provisionTask_def label_def annotation_def emptyTaskRun_def)
  show "triple (slots_ok E content cap tr) (launchProvisioningTask E tr sn ss a u p sc) (\<lambda>(err, tr'). slots_ok E content cap tr')"
    unfolding launchProvisioningTask_def by (rule triple l | (auto; fail))+
qed

section \<open>The static pool\<close>

text \<open>The number of users of a host in the store is what the loop of the pool counts in a complete list.\<close>

lemma assigned_users:
  assumes "reads_current E content" "k_list (kube E) h (HasLabels AssignedHost) = Inr trs" "k \<noteq> []"
  shows "assigned trs k = int (card (users (content h) k))"
proof -
  from assms(1,2) have l: "distinct (map objKey trs)"
    "\<And>key x. content h key = Some x \<and> matches (HasLabels AssignedHost) x \<longleftrightarrow> x \<in> set trs \<and> objKey x = key"
    unfolding reads_current_def by blast+
  have m: "matches (HasLabels AssignedHost) x" if "user_of k x" for x
    using that assms(3) by (auto simp: user_of_def label_def mget_def split: option.splits)
  have "key \<in> users (content h) k \<longleftrightarrow> (\<exists>x \<in> set trs. user_of k x \<and> objKey x = key)" for key
    unfolding users_def using l(2) m by blast
  then have "users (content h) k = objKey ` set (filter (user_of k) trs)"
    unfolding set_eq_iff image_iff set_filter by (simp del: split_paired_All) blast
  moreover have "inj_on objKey (set (filter (user_of k) trs))" "distinct (filter (user_of k) trs)"
    using l(1) by (auto simp: distinct_map intro: inj_on_subset)
  ultimately have "card (users (content h) k) = length (filter (user_of k) trs)"
    using distinct_card [of "filter (user_of k) trs"] by (simp add: card_image)
  then show ?thesis by (simp add: assigned_def user_of_def [abs_def])
qed

text \<open>A host that the pool selects has room for the task at hand.\<close>

lemma selected_has_room:
  assumes i: "slots_ok E content cap tr w" and l: "k_list (kube E) (hist w) (HasLabels AssignedHost) = Inr trs"
    and f: "pool_fits cap hp"
    and s: "sel_selected (selectHost t failed (countHosts trs (\<lambda>_. 0)) (hp_hosts hp) selection0) = Some h"
    and tr1: "setLabel AssignedHost (h_Name h) tr = Some tr1"
  shows "slots_ok E content cap tr1 w"
proof (rule slots_ok_other [OF i])
  show "cap (annotation tr1 CloudInstanceId) = None"
    using slots_okD(11) [OF i] by (simp add: annotation_setLabel [OF tr1])
  fix k c
  assume k: "cap k = Some c"
  show "int (card (users (content (hist w)) k \<union> own tr1 k)) \<le> c"
  proof (cases "k = h_Name h")
    case True
    from selectHost_outcome(2) [OF s] obtain j where j: "(j, h) \<in> set (hp_hosts hp)"
      "0 < free_slots (countHosts trs (\<lambda>_. 0)) (j, h)" by blast
    with f True k have "j = k" "h_Concurrency h \<le> c" by (auto simp: pool_fits_def)
    moreover have "k \<noteq> []" using k slots_okD(7) [OF i] by auto
    ultimately have "int (card (users (content (hist w)) k)) < c"
      using j(2) assigned_users [OF slots_okD(3) [OF i] l, of k] by (simp add: free_slots_def countHosts_assigned)
    moreover have "card (users (content (hist w)) k \<union> own tr1 k) \<le> card (users (content (hist w)) k) + 1"
      by (rule order_trans [OF card_Un_le]) (simp add: own_def)
    ultimately show ?thesis by linarith
  next
    case False
    then have "own tr1 k = {}" by (simp add: own_def user_of_def label_setLabel [OF tr1])
    moreover have "card (users (content (hist w)) k) \<le> card (users (content (hist w)) k \<union> own tr k)"
      using finite_users [OF slots_okD(3) [OF i]] by (intro card_mono) (auto simp: own_def)
    ultimately show ?thesis using slots_ok_card [OF i k] by simp
  qed
qed

lemma triple_waitForHost:
  "triple (slots_ok E content cap tr) (waitForHost E hp tr) (\<lambda>(_, _, tr'). slots_ok E content cap tr')"
  unfolding waitForHost_def
  by (rule triple | erule slots_ok_setLabel | (simp; fail))+

lemma triple_assignHost:
  assumes "\<And>w tr1. P w \<Longrightarrow> setLabel AssignedHost (h_Name h) tr = Some tr1 \<Longrightarrow> slots_ok E content cap tr1 w"
  shows "triple P (assignHost E hp tr sn h) (\<lambda>(_, _, tr'). slots_ok E content cap tr')"
  unfolding assignHost_def
  by (rule triple | (auto dest!: assms intro: slots_ok_unassign; fail))+

lemma triple_HostPool_Allocate:
  assumes "pool_fits cap hp"
  shows "triple (slots_ok E content cap tr) (HostPool_Allocate E hp tr sn) (\<lambda>(_, _, tr'). slots_ok E content cap tr')"
  unfolding triple_def
proof (intro allI impI)
  fix w
  assume i: "slots_ok E content cap tr w"
  let ?Q = "\<lambda>(_, _, tr'). slots_ok E content cap tr'"
  let ?l = "k_list (kube E) (hist w) (HasLabels AssignedHost)"
  define w1 where "w1 = w\<lparr>hist := hist w @ [EvList (HasLabels AssignedHost) ?l]\<rparr>"
  have e: "fitting x (EvList (HasLabels AssignedHost) ?l)" for x by (simp add: fitting_def harmless_def)
  have i1: "slots_ok E content cap tr w1" unfolding w1_def by (rule slots_ok_event [OF i e])
  have a: "wlp (assignHost E hp tr sn h) ?Q w1" if "?l = Inr trs"
    "sel_selected (selectHost t failed (countHosts trs (\<lambda>_. 0)) (hp_hosts hp) selection0) = Some h" for trs t failed h
  proof -
    have "slots_ok E content cap tr1 w1" if "setLabel AssignedHost (h_Name h) tr = Some tr1" for tr1
      unfolding w1_def by (rule slots_ok_event [OF selected_has_room [OF i \<open>?l = Inr trs\<close> assms \<open>sel_selected _ = Some h\<close> that] e])
    then have "triple (\<lambda>v. v = w1) (assignHost E hp tr sn h) ?Q" by (intro triple_assignHost) simp
    then show ?thesis by (simp add: triple_def)
  qed
  have "wlp (waitForHost E hp tr) ?Q w1" using triple_waitForHost i1 unfolding triple_def by blast
  with a i i1 show "wlp (HostPool_Allocate E hp tr sn) ?Q w"
    unfolding HostPool_Allocate_def List_def by (auto simp: wp Let_def w1_def [symmetric] split: sum.split option.split)
qed

lemma triple_HostPool_Deallocate [triple]:
  "triple (slots_ok E content cap tr) (HostPool_Deallocate E hp x sn host) (\<lambda>_. slots_ok E content cap tr)"
proof -
  have c: "label (cleanupTask E hp x sn h) TaskTypeLabel \<noteq> []" "annotation (cleanupTask E hp x sn h) CloudInstanceId = []" for h
    by (simp_all add: cleanupTask_def cleanupLabels_def label_def annotation_def emptyTaskRun_def)
  show ?thesis
    unfolding HostPool_Deallocate_def by (rule triple c | (simp; fail))+
qed

section \<open>Cloud platforms\<close>

lemma set_hput: "x \<in> set (hput k v m) \<Longrightarrow> x = (k, v) \<or> x \<in> set m"
  by (induction k v m rule: hput.induct) (auto split: if_splits)

text \<open>What the operations of a provider do keeps the assertion; the identifiers they return are not names
  of hosts.\<close>

context naming_provider
begin

lemma triple_ops:
  "triple (slots_ok E content cap tr) (TerminateInstance impl x) (\<lambda>_. slots_ok E content cap tr)"
  "triple (slots_ok E content cap tr) (GetInstanceAddress impl x) (\<lambda>_. slots_ok E content cap tr)"
  "triple (slots_ok E content cap tr) (CountInstances impl tag) (\<lambda>_. slots_ok E content cap tr)"
  "triple (slots_ok E content cap tr) (GetState impl x) (\<lambda>_. slots_ok E content cap tr)"
  by (rule triple_doc, rule triple_quiet,
      rule ok_events [OF terminate_ok] ok_events [OF address_ok] ok_events [OF count_ok] ok_events [OF state_ok],
      assumption, simp add: terminating_def inspecting_def quiet_harmless)+

text \<open>A fact about the result can be added to the postcondition.\<close>

lemma triple_yields:
  assumes "triple P m (\<lambda>_. R)" "yields m Q"
  shows "triple P m (\<lambda>x w. R w \<and> Q x)"
  using assms unfolding triple_def yields_def by (intro allI impI wlp_conj) simp_all

lemma triple_launch:
  "triple (slots_ok E content cap tr) (LaunchInstance impl i tag tags) (\<lambda>r w. slots_ok E content cap tr w \<and> (\<forall>x. r = Inr x \<longrightarrow> cap x = None))"
proof (rule triple_doc)
  assume d: "sdk_documented E" "instance_names E (\<lambda>n. cap n = None)"
  have "ok harmless (LaunchInstance impl i tag tags) (\<lambda>_. True)"
    by (rule ok_events [OF launch_ok [OF d(1)]]) (simp add: launching_def quiet_harmless)
  from triple_yields [OF triple_quiet [OF this] launch_names [OF d(2)]]
  show "triple (slots_ok E content cap tr) (LaunchInstance impl i tag tags) (\<lambda>r w. slots_ok E content cap tr w \<and> (\<forall>x. r = Inr x \<longrightarrow> cap x = None))" .
qed

lemma triple_list:
  "triple (slots_ok E content cap tr) (ListInstances impl tag)
     (\<lambda>r w. slots_ok E content cap tr w \<and> (\<forall>vms. r = Inr vms \<longrightarrow> (\<forall>vm \<in> set vms. cap (vm_InstanceId vm) = None)))"
proof (rule triple_doc)
  assume d: "sdk_documented E" "instance_names E (\<lambda>n. cap n = None)"
  have "ok harmless (ListInstances impl tag) (\<lambda>_. True)"
    by (rule ok_events [OF list_ok [OF d(1)]]) (simp add: inspecting_def quiet_harmless)
  from triple_yields [OF triple_quiet [OF this] list_names [OF d(2)]]
  show "triple (slots_ok E content cap tr) (ListInstances impl tag)
     (\<lambda>r w. slots_ok E content cap tr w \<and> (\<forall>vms. r = Inr vms \<longrightarrow> (\<forall>vm \<in> set vms. cap (vm_InstanceId vm) = None)))" .
qed

lemma triple_abandon:
  "triple (slots_ok E content cap tr) (abandonInstance E impl r report tr) (\<lambda>tr'. slots_ok E content cap tr')"
proof -
  have t: "triple (slots_ok E content cap tr) (case terr of
            Some _ \<Rightarrow> if report
              then bnd (Event tr ''Normal'' ''TerminateFailed''
                     (''failed to terminate '' @ dr_instanceTag r @ '' instance for '' @ tr_Name tr)) (\<lambda>_. ret tr)
              else ret tr
          | None \<Rightarrow> ret (delAnnotation CloudInstanceId tr)) (\<lambda>tr'. slots_ok E content cap tr')" for terr
    by (rule triple | (auto intro: slots_ok_unassign; fail))+
  show ?thesis
    unfolding abandonInstance_def removeInstanceFromTask_def
    by (rule triple_bnd [OF triple_ops(1)] triple_bnd [OF t] triple | (auto intro: slots_ok_unassign; fail))+
qed

lemma triple_await:
  "triple (slots_ok E content cap tr) (awaitInstance E impl r tr sn) (\<lambda>(_, _, tr'). slots_ok E content cap tr')"
  unfolding awaitInstance_def
  by (rule triple_ops triple_abandon triple
      | erule slots_ok_setLabel slots_ok_setAnnotation slots_okD(11) | (simp; fail))+

lemma triple_launchFor:
  "triple (slots_ok E content cap tr) (launchFor E impl r tr) (\<lambda>(_, _, tr'). slots_ok E content cap tr')"
  unfolding launchFor_def awaitCapacity_def launchFailed_def recordInstance_def Let_def
  by (rule triple_ops triple_launch triple_pure triple
      | rule slots_ok_unassign | erule slots_ok_setLabel slots_ok_setAnnotation | (simp; fail) | simp only: prod.case)+

lemma triple_resolver_Allocate:
  "triple (slots_ok E content cap tr) (resolver_Allocate E impl r tr sn) (\<lambda>(_, _, tr'). slots_ok E content cap tr')"
proof -
  have t: "triple (slots_ok E content cap tr) (timedOut E r x) (\<lambda>_. slots_ok E content cap tr)" for x
    unfolding timedOut_def by (rule triple | (simp; fail))+
  let ?a = "ensureAnnotations tr"
  have e: "triple (slots_ok E content cap tr) m Q" if "triple (slots_ok E content cap ?a) m Q" for m :: "alloc M" and Q
    by (rule triple_pre [OF that]) (rule slots_ok_unassign)
  have a: "triple (slots_ok E content cap ?a) (bnd (abandonInstance E impl r False ?a) (\<lambda>tr1. ret (x, y, tr1))) (\<lambda>(_, _, tr'). slots_ok E content cap tr')" for x y
    by (rule triple_bnd [OF triple_abandon]) (rule triple, simp)
  show ?thesis
    unfolding resolver_Allocate_def Let_def
    by (rule triple_bnd [OF t] e [OF a] e [OF triple_await] e [OF triple_launchFor] triple | (simp; fail))+
qed

lemma triple_resolver_Deallocate:
  "triple (slots_ok E content cap tr) (resolver_Deallocate E impl r tr sn host) (\<lambda>(_, tr'). slots_ok E content cap tr')"
  unfolding resolver_Deallocate_def Let_def
  by (rule triple_bnd [OF triple_ops(1)] triple | (auto intro: slots_ok_unassign; fail))+

text \<open>A pool of instances: none of its hosts has the name of a static one.\<close>

lemma triple_isHostIdle: "triple (slots_ok E content cap tr) (isHostIdle E h) (\<lambda>_. slots_ok E content cap tr)"
  unfolding isHostIdle_def by (rule triple | (simp; fail))+

lemma triple_poolRound:
  assumes "cap (vm_InstanceId inst) = None"
  shows "triple (case acc of (hosts, old) \<Rightarrow> \<lambda>w. slots_ok E content cap tr w \<and> pool_fits cap \<lparr>hp_hosts = hosts, hp_targetPlatform = t\<rparr>)
    (poolRound E impl a inst acc) (\<lambda>(hosts, old) w. slots_ok E content cap tr w \<and> pool_fits cap \<lparr>hp_hosts = hosts, hp_targetPlatform = t\<rparr>)"
  unfolding poolRound_def
  by (rule triple_isHostIdle triple_ops(1) triple_pure triple | (use assms in \<open>auto simp: pool_fits_def poolHost_def dest!: set_hput\<close>; fail))+

lemma triple_buildHostPool:
  "triple (slots_ok E content cap tr) (buildHostPool E impl a)
     (\<lambda>r w. slots_ok E content cap tr w \<and> (\<forall>hp old. r = Inr (hp, old) \<longrightarrow> pool_fits cap hp))"
proof -
  let ?R = "\<lambda>(hosts, old :: int) w. slots_ok E content cap tr w \<and> pool_fits cap \<lparr>hp_hosts = hosts, hp_targetPlatform = dp_platform a\<rparr>"
  have "triple (?R ([], 0)) (foreach (poolRound E impl a) vms ([], 0)) ?R" if "\<forall>vm \<in> set vms. cap (vm_InstanceId vm) = None" for vms
    by (rule triple_foreach [where R = ?R], rule triple_poolRound) (use that in blast)
  then have "triple (slots_ok E content cap tr) (foreach (poolRound E impl a) vms ([], 0)) ?R"
    if "\<forall>vm \<in> set vms. cap (vm_InstanceId vm) = None" for vms
    using that by (auto simp: pool_fits_def)
  then show ?thesis
    unfolding buildHostPool_def
    by (intro triple_bnd [OF triple_list] triple_pure triple_cases(6)) (auto intro!: triple_cases(1,3) triple_bnd)
qed

lemma triple_growPool:
  "triple (slots_ok E content cap tr) (growPool E impl a old err tr) (\<lambda>(_, _, tr'). slots_ok E content cap tr')"
  unfolding growPool_def Let_def
  by (rule triple_ops(3) triple_launch triple_pure triple | (auto intro: slots_ok_unassign; fail))+

lemma triple_pool_Allocate:
  "triple (slots_ok E content cap tr) (pool_Allocate E impl a tr sn) (\<lambda>(_, _, tr'). slots_ok E content cap tr')"
  unfolding pool_Allocate_def
  by (rule triple_buildHostPool triple_pure triple_HostPool_Allocate triple_growPool triple | (simp; fail))+

lemma triple_pool_Deallocate:
  "triple (slots_ok E content cap tr) (pool_Deallocate E impl a tr sn host) (\<lambda>(_, tr'). slots_ok E content cap tr')"
  unfolding pool_Deallocate_def
  by (rule triple_buildHostPool triple_pure triple_isHostIdle triple_ops(1) triple | (simp; fail))+

end

lemma triple_Local_Allocate:
  "triple (slots_ok E content cap tr) (Local_Allocate E tr sn) (\<lambda>(_, _, tr'). slots_ok E content cap tr')"
proof (rule triple_doc)
  assume "cap ''localhost'' = None"
  then show "triple (slots_ok E content cap tr) (Local_Allocate E tr sn) (\<lambda>(_, _, tr'). slots_ok E content cap tr')"
    unfolding Local_Allocate_def Let_def
    by - (rule triple slots_ok_unassign(5) | erule slots_ok_setLabel | (simp; fail))+
qed

section \<open>The contract of a platform\<close>

text \<open>Both operations keep the assertion, from the TaskRun they are given to the one they leave, if the
  platform fits the slots.\<close>

locale bounded_platform =
  fixes E :: env and content :: "history \<Rightarrow> store" and cap :: "string \<rightharpoonup> int" and fits :: bool and impl :: platform_ops
  assumes allocate_slots: "fits \<Longrightarrow> triple (slots_ok E content cap tr) (Allocate impl tr sn) (\<lambda>(_, _, tr'). slots_ok E content cap tr')"
    and deallocate_slots: "fits \<Longrightarrow> triple (slots_ok E content cap tr) (Deallocate impl tr sn host) (\<lambda>(_, tr'). slots_ok E content cap tr')"

interpretation loc_slots: bounded_platform E content cap True "local_ops E" for E content cap
  by unfold_locales (auto simp: local_ops_def Local_Deallocate_def intro: triple_Local_Allocate triple)

interpretation static_slots: bounded_platform E content cap "pool_fits cap hp" "hostpool_ops E hp" for E content cap hp
  by unfold_locales (simp_all add: hostpool_ops_def triple_HostPool_Allocate, (rule triple | (simp; fail))+)

interpretation resolver_slots: bounded_platform E content cap True "resolver_ops E r" for E content cap r
  by unfold_locales (simp_all add: resolver_ops_def named.triple_resolver_Allocate named.triple_resolver_Deallocate)

interpretation pool_slots: bounded_platform E content cap True "pool_ops E a" for E content cap a
  by unfold_locales (simp_all add: pool_ops_def named.triple_pool_Allocate named.triple_pool_Deallocate)

interpretation plat_slots: bounded_platform E content cap "platform_fits cap pc" "platform_impl E pc" for E content cap pc
  by (cases pc) (simp_all add: platform_fits_def loc_slots.bounded_platform_axioms static_slots.bounded_platform_axioms
      resolver_slots.bounded_platform_axioms pool_slots.bounded_platform_axioms)

end
