(* ===== verification/Capacity_Reconcile.thy ===== *)
theory Capacity_Reconcile
  imports Capacity_Platforms
begin

text \<open>
  The reconciler keeps the number of user tasks on every static host within the host's slots: the
  platforms it resolves fit the slots, and every handler keeps the assertion.
\<close>

section \<open>The configured pools fit\<close>

lemma collectHosts_parsed:
  assumes "collectHosts dns data p names hosts = Inr res" "(k, h) \<in> set res"
  shows "(k, h) \<in> set hosts \<or>
    h_Name h = k \<and> (\<exists>c. ParseStaticHostConfig dns data k = Inr c \<and> h_Concurrency h = hc_Concurrency c)"
  using assms
proof (induction dns data p names hosts rule: collectHosts.induct)
  case (2 dns data p name names hosts)
  show ?case
  proof (cases "ParseStaticHostConfig dns data name")
    case (Inl e)
    with 2(3) show ?thesis by simp
  next
    case (Inr c)
    with 2 show ?thesis by (cases "hc_Platform c = p") (auto dest!: set_hput)
  qed
qed simp

lemma platform_of_fits:
  assumes "config_bounded E cap" "k_getConfigMap (kube E) h k = Inr cm" "platform_of E (cm_Data cm) p = Inr pc"
  shows "platform_fits cap pc"
proof (cases pc)
  case (PHostPool hp)
  have "\<exists>hosts. collectHosts (l_dns (lib E)) (cm_Data cm) p (hostNames (cm_Data cm)) [] = Inr hosts \<and> hp_hosts hp = hosts"
    using assms(3) unfolding PHostPool platform_of_def
    by (auto simp: Let_def ebind_Inr split: if_splits)
  then have "pool_fits cap hp"
    using assms(1,2) unfolding pool_fits_def config_bounded_def by (fastforce dest: collectHosts_parsed)
  with PHostPool show ?thesis by (simp add: platform_fits_def)
qed (simp_all add: platform_fits_def)

lemma slots_ok_cache:
  assumes "slots_ok E content cap tr w" "hist w' = hist w" "\<And>p pc. platformConfig w' p = Some pc \<Longrightarrow> platform_fits cap pc"
  shows "slots_ok E content cap tr w'"
  using assms by (simp add: slots_ok_def)

lemma slots_ok_fits: "slots_ok E content cap tr w \<Longrightarrow> platformConfig w p = Some pc \<Longrightarrow> platform_fits cap pc"
  by (simp add: slots_ok_def)

lemma slots_ok_resolves:
  assumes i: "slots_ok E content cap tr w" and r: "resolves E data p w x w'" "\<And>pc. platform_of E data p = Inr pc \<Longrightarrow> platform_fits cap pc"
  shows "slots_ok E content cap tr w'"
proof -
  from r(1) obtain es where es: "hist w' = hist w @ es" "list_all (\<lambda>e. \<exists>m l x. e = EvRegister m l x) es"
    by (auto simp: resolves_def registers_def)
  have "list_all (fitting tr) es" using es(2) by (auto simp: list_all_iff fitting_def harmless_def dest!: bspec)
  with es(1) have j: "slots_ok E content cap tr (w\<lparr>hist := hist w'\<rparr>)" by (intro slots_ok_events [OF i, of _ es]) simp_all
  show ?thesis
  proof (rule slots_ok_cache [OF j])
    fix q pc
    assume q: "platformConfig w' q = Some pc"
    with r(1) have "platformConfig w q = Some pc \<or> platform_of E data p = Inr pc"
      by (cases "q = p") (auto simp: resolves_def)
    then show "platform_fits cap pc" using slots_ok_fits [OF i] r(2) by blast
  qed simp
qed

lemma triple_getPlatformConfig:
  "triple (slots_ok E content cap tr) (getPlatformConfig E p ns)
     (\<lambda>r w. slots_ok E content cap tr w \<and> (\<forall>pc. r = Inr pc \<longrightarrow> platform_fits cap pc))"
  unfolding triple_def
proof (intro allI impI)
  fix w
  assume i: "slots_ok E content cap tr w"
  let ?Q = "\<lambda>r w. slots_ok E content cap tr w \<and> (\<forall>pc. r = Inr pc \<longrightarrow> platform_fits cap pc)"
  let ?k = "(operatorNamespace (lib E), HostConfig)"
  let ?r = "k_getConfigMap (kube E) (hist w) ?k"
  define v where "v = w\<lparr>hist := hist w @ [EvGetConfigMap ?k ?r]\<rparr>"
  have iv: "slots_ok E content cap tr v"
    unfolding v_def by (rule slots_ok_event [OF i]) (simp add: fitting_def harmless_def)
  show "wlp (getPlatformConfig E p ns) ?Q w"
  proof (cases ?r)
    case (Inl e)
    with iv show ?thesis by (simp add: getPlatformConfig_def GetConfigMap_def wp v_def)
  next
    case (Inr cm)
    define u where "u = (if configMapResourceVersion v \<noteq> cm_ResourceVersion cm
      then v\<lparr>configMapResourceVersion := cm_ResourceVersion cm, platformConfig := Map.empty\<rparr> else v)"
    have iu: "slots_ok E content cap tr u"
      by (rule slots_ok_cache [OF iv]) (auto simp: u_def dest: slots_ok_fits [OF iv] split: if_splits)
    have fit: "platform_fits cap pc" if "platform_of E (cm_Data cm) p = Inr pc" for pc
      using platform_of_fits [OF slots_okD(5) [OF i] Inr that] .
    have "wlp (resolvePlatform E (cm_Data cm) p) ?Q u"
    proof (rule wlp_mono [OF wp_imp_wlp [OF wp_resolvePlatform]])
      fix x w'
      assume "resolves E (cm_Data cm) p u x w'"
      with slots_ok_resolves [OF iu this fit] fit show "?Q x w'" by (auto simp: resolves_def)
    qed
    with iu have "wlp (case platformConfig u p of Some c \<Rightarrow> ret (Inr c) | None \<Rightarrow> resolvePlatform E (cm_Data cm) p) ?Q u"
      by (auto simp: wp split: option.split dest: slots_ok_fits)
    then show ?thesis
      unfolding getPlatformConfig_def GetConfigMap_def wp Inr sum.case v_def [symmetric, unfolded Inr] u_def [symmetric] .
  qed
qed

section \<open>The handlers\<close>

text \<open>A stored TaskRun that is read can be worked on.\<close>

lemma wlp_stored:
  assumes i: "slots_ok E content cap tr w" and c: "\<And>x. f (hist w) = Inr x \<Longrightarrow> content (hist w) (objKey x) = Some x" and e: "\<And>r. harmless (ev r)"
  shows "wlp (call f ev) (\<lambda>r w. slots_ok E content cap tr w \<and> (\<forall>x. r = Inr x \<longrightarrow> slots_ok E content cap x w)) w"
proof -
  have e: "fitting y (ev (f (hist w)))" for y by (rule harmless_fitting [OF e])
  have "slots_ok E content cap x (w\<lparr>hist := hist w @ [ev (f (hist w))]\<rparr>)" if "f (hist w) = Inr x" for x
    by (rule slots_ok_event [OF slots_ok_stored [OF i c [OF that] refl] e])
  then show ?thesis using slots_ok_event [OF i e] by (auto simp: wp)
qed

lemma triple_Get:
  "triple (slots_ok E content cap tr) (Get E k) (\<lambda>r w. slots_ok E content cap tr w \<and> (\<forall>x. r = Inr x \<longrightarrow> slots_ok E content cap x w))"
  "triple (slots_ok E content cap tr) (ApiGet E k) (\<lambda>r w. slots_ok E content cap tr w \<and> (\<forall>x. r = Inr x \<longrightarrow> slots_ok E content cap x w))"
proof -
  have "content h (objKey x) = Some x" if "k_get (kube E) h k = Inr x \<or> k_apiGet (kube E) h k = Inr x" "slots_ok E content cap tr w" for h x w
    using that documented_keys(1,2) [OF slots_okD(1) [OF that(2)], of h k x] slots_okD(3) [OF that(2)]
    unfolding reads_current_def by blast
  then show "triple (slots_ok E content cap tr) (Get E k) (\<lambda>r w. slots_ok E content cap tr w \<and> (\<forall>x. r = Inr x \<longrightarrow> slots_ok E content cap x w))"
    "triple (slots_ok E content cap tr) (ApiGet E k) (\<lambda>r w. slots_ok E content cap tr w \<and> (\<forall>x. r = Inr x \<longrightarrow> slots_ok E content cap x w))"
    unfolding triple_def Get_def ApiGet_def by (auto intro!: wlp_stored simp: harmless_def)
qed

lemma triple_handleWaitingTasks [triple]:
  assumes "foreign cap tr'"
  shows "triple (slots_ok E content cap tr) (handleWaitingTasks E p) (\<lambda>_. slots_ok E content cap tr')"
proof -
  let ?s = "MatchingLabels [(WaitingForPlatformLabel, platformLabel p)]"
  let ?Q = "\<lambda>r w. slots_ok E content cap tr w \<and> (\<forall>xs. r = Inr xs \<longrightarrow> (\<forall>x \<in> set xs. slots_ok E content cap x w))"
  have l: "triple (slots_ok E content cap tr) (List E ?s) ?Q"
    unfolding triple_def List_def wp
  proof (intro allI impI)
    fix w
    assume i: "slots_ok E content cap tr w"
    let ?e = "EvList ?s (k_list (kube E) (hist w) ?s)"
    have e: "fitting y ?e" for y by (simp add: fitting_def harmless_def)
    have "slots_ok E content cap x (w\<lparr>hist := hist w @ [?e]\<rparr>)" if "k_list (kube E) (hist w) ?s = Inr xs" "x \<in> set xs" for xs x
    proof -
      have "content (hist w) (objKey x) = Some x" using slots_okD(3) [OF i] that unfolding reads_current_def by blast
      from slots_ok_event [OF slots_ok_stored [OF i this refl] e] show ?thesis .
    qed
    with slots_ok_event [OF i e] show "?Q (k_list (kube E) (hist w) ?s) (w\<lparr>hist := hist w @ [?e]\<rparr>)" by blast
  qed
  have f: "slots_ok E content cap tr' w" if "slots_ok E content cap x w" for x w
    by (rule slots_ok_foreign [OF that assms])
  have "triple (?Q (Inr items)) (case oldestTask None items of
         None \<Rightarrow> ret (noRequeue, None)
       | Some oldest \<Rightarrow> must (setLabel FinishedWaitingLabel ''true'' oldest) (\<lambda>tr1.
           bnd (Update E tr1) (\<lambda>(err, tr2). case err of
             Some e \<Rightarrow> ret (noRequeue, Some (ErrWrap (''failed to update waiting task '' @ tr_Namespace tr2 @ ''/'' @ tr_Name tr2 @ '': '') e []))
           | None \<Rightarrow> ret (noRequeue, None)))) (\<lambda>_. slots_ok E content cap tr')" for items
    by (rule triple | (auto intro: f elim!: slots_ok_setLabel dest!: oldestTask_in; fail))+
  then show ?thesis
    unfolding handleWaitingTasks_def
    by (intro triple_bnd [OF l]) (auto intro!: triple_cases(3) f split: sum.split)
qed

text \<open>Between reconciliations there is no TaskRun at hand: the empty one stands in.\<close>

lemma slots_ok_blank: "slots_ok E content cap tr w \<Longrightarrow> slots_ok E content cap emptyTaskRun w"
  by (rule slots_ok_foreign) (auto simp: foreign_def label_def annotation_def emptyTaskRun_def dest: slots_okD(7))

lemma triple_wake:
  "triple (slots_ok E content cap tr) (bnd (handleWaitingTasks E p) (\<lambda>(result, err). case err of
      Some _ \<Rightarrow> ret (noRequeue, None) | None \<Rightarrow> ret (result, None))) (\<lambda>_. slots_ok E content cap emptyTaskRun)"
proof (rule triple_doc)
  assume "cap [] = None"
  then have "foreign cap emptyTaskRun" by (simp add: foreign_def label_def annotation_def emptyTaskRun_def)
  note w = triple_handleWaitingTasks [OF this]
  show "triple (slots_ok E content cap tr) (bnd (handleWaitingTasks E p) (\<lambda>(result, err). case err of
      Some _ \<Rightarrow> ret (noRequeue, None) | None \<Rightarrow> ret (result, None))) (\<lambda>_. slots_ok E content cap emptyTaskRun)"
    by (rule triple_bnd [OF w] triple | (simp; fail))+
qed

lemma triple_handleHostAssigned:
  "triple (slots_ok E content cap tr) (handleHostAssigned E tr sn) (\<lambda>_. slots_ok E content cap emptyTaskRun)"
  unfolding handleHostAssigned_def Let_def
  by (rule triple_wake triple_bnd [OF triple_getPlatformConfig] triple_bnd [OF plat_slots.deallocate_slots]
        triple_pure slots_ok_unassign triple
      | (auto intro: slots_ok_blank; fail))+

lemma triple_HandleMetricsNow [triple]:
  "triple (slots_ok E content cap tr) (HandleMetricsNow E p f) (\<lambda>_. slots_ok E content cap tr)"
proof -
  have r: "triple P (reads f) (\<lambda>_. P)" for P and f :: "world \<Rightarrow> PlatformMetrics option" by (simp add: triple_def wp)
  show ?thesis
    unfolding HandleMetricsNow_def by (rule triple_bnd [OF r] triple | (simp; fail))+
qed

lemma triple_if_quiet:
  assumes "triple P m (\<lambda>_. P)"
  shows "triple P (if b then m else ret ()) (\<lambda>_. P)"
  using assms by (auto intro: triple_cases(3))

lemma triple_handleHostAllocation:
  "triple (slots_ok E content cap tr) (handleHostAllocation E tr sn p) (\<lambda>(_, _, tr'). slots_ok E content cap tr')"
proof -
  have a: "triple (slots_ok E content cap tr) (Allocate (platform_impl E pc) (ensureAnnotations tr) sn) (\<lambda>(_, _, tr'). slots_ok E content cap tr')"
    if "platform_fits cap pc" for pc
    by (rule triple_pre [OF plat_slots.allocate_slots [OF that]]) (rule slots_ok_unassign)
  show ?thesis
    unfolding handleHostAllocation_def Let_def
    by (rule triple_bnd [OF triple_getPlatformConfig] triple_bnd [OF a] triple_bnd [OF triple_if_quiet [OF triple_HandleMetricsNow]]
        triple_pure triple | (simp; fail))+
qed

lemma triple_handleUserTask:
  "triple (slots_ok E content cap tr) (handleUserTask E tr) (\<lambda>_. slots_ok E content cap emptyTaskRun)"
proof -
  have a: "triple (slots_ok E content cap tr) (handleHostAllocation E tr2 sn p) (\<lambda>(_, _, tr'). slots_ok E content cap tr')"
    if "(if label (ensureLabels tr) TargetPlatformLabel = [] then setLabel TargetPlatformLabel v (ensureLabels tr) else Some (ensureLabels tr)) = Some tr2" for tr2 v sn p
    by (rule triple_pre [OF triple_handleHostAllocation]) (use that in \<open>auto split: if_splits intro: slots_ok_unassign elim!: slots_ok_setLabel\<close>)
  show ?thesis
    unfolding handleUserTask_def Let_def
    by (erule a | rule triple_handleHostAssigned triple | (auto intro: slots_ok_blank split: prod.splits; fail))+
qed

lemma triple_retentionOver [triple]:
  "triple (slots_ok E content cap tr) (retentionOver E b c) (\<lambda>_. slots_ok E content cap tr)"
  unfolding retentionOver_def by (rule triple | (simp; fail))+

lemma triple_handleCleanTask:
  "triple (slots_ok E content cap tr) (handleCleanTask E tr) (\<lambda>_. slots_ok E content cap emptyTaskRun)"
  unfolding handleCleanTask_def
  by (rule triple_bnd [OF triple_if_quiet [OF triple_calls(13)]] triple | (auto intro: slots_ok_blank; fail))+

text \<open>The TaskRun of the user is written in between; the task at hand stays covered.\<close>

lemma triple_provisionFailed [triple]:
  "triple (slots_ok E content cap tr) (provisionFailed E host key) (\<lambda>_. slots_ok E content cap emptyTaskRun)"
proof -
  have "triple (\<lambda>w. slots_ok E content cap tr w \<and> (\<forall>x. r = Inr x \<longrightarrow> slots_ok E content cap x w))
    (case r of Inl _ \<Rightarrow> ret None
      | Inr userTr0 \<Rightarrow>
          must (setAnnotation FailedHosts (failedHostsPlus (annotation (ensureAnnotations userTr0) FailedHosts) host) (ensureAnnotations userTr0)) (\<lambda>tr1.
             bnd (UpdateTaskRunWithRetry E (delLabel AssignedHost tr1)) (\<lambda>(err, _). ret err))) (\<lambda>_. slots_ok E content cap emptyTaskRun)" for r
    by (rule triple | rule slots_ok_unassign | erule slots_ok_setAnnotation | (auto intro: slots_ok_blank; fail))+
  then show ?thesis
    unfolding provisionFailed_def Let_def
    by (intro triple_cases(4) triple_bnd [OF triple_Get(1)] triple_cases(3)) (auto intro: slots_ok_blank)
qed

lemma triple_verifySecret [triple]:
  "triple (slots_ok E content cap tr) (verifySecret E key sn p) (\<lambda>_. slots_ok E content cap emptyTaskRun)"
proof -
  have "triple (\<lambda>w. slots_ok E content cap tr w \<and> (\<forall>x. r = Inr x \<longrightarrow> slots_ok E content cap x w))
    (case r of Inl e \<Rightarrow> if IsNotFound e then ret None else ret (Some e)
      | Inr userTr \<Rightarrow> bnd (createErrorSecret E 333 userTr p sn ''provision task failed to create a secret'') (\<lambda>(err, _). ret err))
      (\<lambda>_. slots_ok E content cap emptyTaskRun)" for r
    by (rule triple | (auto intro: slots_ok_blank; fail))+
  note g = triple_bnd [OF triple_Get(1) this]
  show ?thesis
    unfolding verifySecret_def by (rule g triple | (auto intro: slots_ok_blank; fail))+
qed

lemma triple_bumpPods [triple]:
  "triple (slots_ok E content cap tr) (bumpPods E key host) (\<lambda>_. slots_ok E content cap tr)"
  unfolding bumpPods_def by (rule triple triple_foreach [where R = "\<lambda>_. slots_ok E content cap tr"] | (simp; fail))+

lemma slots_ok_internal:
  assumes "slots_ok E content cap x w" "label tr TaskTypeLabel \<noteq> []" "cap (annotation tr CloudInstanceId) = None"
  shows "slots_ok E content cap tr w"
proof (rule slots_ok_other [OF assms(1,3)])
  fix k c
  assume "cap k = Some c"
  then have "int (card (users (content (hist w)) k \<union> own emptyTaskRun k)) \<le> c"
    by (rule slots_ok_card [OF slots_ok_blank [OF assms(1)]])
  moreover have "own tr k = {}" using assms(2) by (simp add: own_def user_of_def)
  moreover have "card (users (content (hist w)) k) \<le> card (users (content (hist w)) k \<union> own emptyTaskRun k)"
    using finite_users [OF slots_okD(3) [OF assms(1)]] by (intro card_mono) (auto simp: own_def)
  ultimately show "int (card (users (content (hist w)) k \<union> own tr k)) \<le> c" by simp
qed

lemma triple_processProvision:
  assumes l: "label tr TaskTypeLabel \<noteq> []"
  shows "triple (slots_ok E content cap tr) (processProvision E tr) (\<lambda>_. slots_ok E content cap emptyTaskRun)"
proof (rule triple_doc)
  assume a: "cap (annotation tr CloudInstanceId) = None"
  have int: "slots_ok E content cap tr w" if "slots_ok E content cap x w" for x w
    by (rule slots_ok_internal [OF that l a])
  let ?key = "(label tr UserTaskNamespace, label tr UserTaskName)" and ?host = "label tr AssignedHost"
  let ?p = "label tr TargetPlatformLabel"
  have first: "triple (slots_ok E content cap tr) (if \<not> succeeded tr
              then bnd (HandleMetrics ?p incProvisionFailures) (\<lambda>_.
                   bnd (Event tr ''Error'' ''ProvisioningFailed'' (provisionMessage ?host ?key ''failed'')) (\<lambda>_.
                     provisionFailed E ?host ?key))
              else bnd (Event tr ''Normal'' ''Provisioned'' (provisionMessage ?host ?key ''succeeded'')) (\<lambda>_.
                   bnd (verifySecret E ?key (secretParam tr) ?p) (\<lambda>err. case err of
                     Some e \<Rightarrow> ret (Some e)
                   | None \<Rightarrow> bnd (bumpPods E ?key ?host) (\<lambda>_. ret None)))) (\<lambda>_. slots_ok E content cap emptyTaskRun)"
    by (rule triple | (auto intro: slots_ok_blank; fail))+
  show "triple (slots_ok E content cap tr) (processProvision E tr) (\<lambda>_. slots_ok E content cap emptyTaskRun)"
    unfolding processProvision_def Let_def
    by (rule triple_bnd [OF first] triple | erule int | (auto intro: slots_ok_blank; fail))+
qed

lemma triple_handleProvisionTask:
  assumes "label tr TaskTypeLabel \<noteq> []"
  shows "triple (slots_ok E content cap tr) (handleProvisionTask E tr) (\<lambda>_. slots_ok E content cap emptyTaskRun)"
proof -
  have p: "triple (slots_ok E content cap tr) (processProvision E v) (\<lambda>_. slots_ok E content cap emptyTaskRun)"
    if "setAnnotation ProvisionTaskProcessed ''true'' (ensureAnnotations tr) = Some v" for v
    by (rule triple_pre [OF triple_processProvision])
       (use assms label_setAnnotation [OF that] in \<open>auto intro!: slots_ok_setAnnotation [OF that] slots_ok_unassign\<close>)
  show ?thesis
    unfolding handleProvisionTask_def Let_def
    by (erule p | rule triple | (auto intro: slots_ok_blank; fail))+
qed

lemma triple_Reconcile:
  "triple (slots_ok E content cap emptyTaskRun) (Reconcile E req) (\<lambda>_. slots_ok E content cap emptyTaskRun)"
proof -
  have "triple (slots_ok E content cap tr) (handleTaskRunReceived E tr) (\<lambda>_. slots_ok E content cap emptyTaskRun)" for tr
    unfolding handleTaskRunReceived_def Let_def
    by (rule triple_handleCleanTask triple_handleProvisionTask triple_handleUserTask triple | (auto intro: slots_ok_blank; fail))+
  note h = triple_pre [OF this]
  have "triple (\<lambda>w. slots_ok E content cap emptyTaskRun w \<and> (\<forall>x. r = Inr x \<longrightarrow> slots_ok E content cap x w))
      (case r of Inl e \<Rightarrow> if IsNotFound e then ret (noRequeue, None)
                else ret (noRequeue, Some (ErrWrap ''failed to get a TaskRun: '' e []))
       | Inr tr \<Rightarrow> handleTaskRunReceived E tr) (\<lambda>_. slots_ok E content cap emptyTaskRun)" for r
    by (cases r) (auto intro!: triple_cases(3) h)
  then show ?thesis
    unfolding Reconcile_def by (intro triple_bnd [OF triple_Get(2)])
qed

end
