(* ===== verification/Capacity_Props.thy ===== *)
theory Capacity_Props
  imports Capacity_Reconcile Lifecycle_Props Updates
begin

text \<open>
  Static hosts are never overbooked in the states that the process reaches by reconciling one TaskRun
  after another, with the periodic jobs in between; two allocations that overlap do overbook a host.
  The examples run against a reference API server.
\<close>

section \<open>The states of the process\<close>

text \<open>The process reconciles one TaskRun at a time; in between, the exporter of the metrics ticks, the
  update of the hosts runs and its goroutines create their tasks, and other calls are made that write
  no TaskRun but internal ones.\<close>

inductive process_run :: "env \<Rightarrow> world \<Rightarrow> bool" for E where
  start: "process_run E initial"
| reconcile: "process_run E w \<Longrightarrow> Reconcile E req w = Some (res, w') \<Longrightarrow> process_run E w'"
| tick: "process_run E w \<Longrightarrow> exporterTick E w = Some (x, w') \<Longrightarrow> process_run E w'"
| schedule: "process_run E w \<Longrightarrow> UpdateHostPools E order w = Some (x, w') \<Longrightarrow> process_run E w'"
| update: "process_run E w \<Longrightarrow> hostUpdate E delay (updateTask E name host conc) w = Some (x, w') \<Longrightarrow> process_run E w'"
| others: "process_run E w \<Longrightarrow> list_all harmless es \<Longrightarrow> process_run E (w\<lparr>hist := hist w @ es\<rparr>)"

inductive_cases process_runE: "process_run E w"

lemma harmless_jobs:
  "triple (slots_ok E content cap tr) (exporterTick E) (\<lambda>_. slots_ok E content cap tr)"
  "triple (slots_ok E content cap tr) (UpdateHostPools E order) (\<lambda>_. slots_ok E content cap tr)"
  "triple (slots_ok E content cap tr) (hostUpdate E delay (updateTask E name host conc)) (\<lambda>_. slots_ok E content cap tr)"
proof -
  have u: "label (updateTask E name host conc) TaskTypeLabel \<noteq> []" "annotation (updateTask E name host conc) CloudInstanceId = []"
    by (simp_all add: updateTask_def label_def annotation_def emptyTaskRun_def)
  have m: "triple (slots_ok E content cap tr) (modify f) (\<lambda>_. slots_ok E content cap tr)"
    if "\<And>w. hist (f w) = hist w \<and> platformConfig (f w) = platformConfig w" for f
    using that by (auto simp: triple_def wp intro: slots_ok_same)
  show "triple (slots_ok E content cap tr) (exporterTick E) (\<lambda>_. slots_ok E content cap tr)"
    unfolding exporterTick_def exportRunningTasks_def exportWaitingTasks_def
    by (rule triple_bnd [where R = "\<lambda>_. slots_ok E content cap tr"] m triple | (simp; fail))+
  have "ok harmless (foreach (startUpdate E hostsConcurrency) hosts 0) (\<lambda>_. True)" for hostsConcurrency hosts
  proof (rule ok_foreach_True)
    fix x and b :: int
    show "ok harmless (startUpdate E hostsConcurrency x b) (\<lambda>_. True)"
      by (cases x) (auto simp: harmless_def intro!: ok)
  qed
  note f = triple_quiet [OF this]
  show "triple (slots_ok E content cap tr) (UpdateHostPools E order) (\<lambda>_. slots_ok E content cap tr)"
    unfolding UpdateHostPools_def Let_def by (rule triple_bnd [OF f] triple | (simp; fail))+
  have s: "triple (slots_ok E content cap tr) (Sleep delay) (\<lambda>_. slots_ok E content cap tr)"
    by (rule triple_quiet, rule ok) (simp add: harmless_def)
  show "triple (slots_ok E content cap tr) (hostUpdate E delay (updateTask E name host conc)) (\<lambda>_. slots_ok E content cap tr)"
    unfolding hostUpdate_def by (rule triple_bnd [OF s] triple u | (simp; fail))+
qed

lemma process_run_slots:
  assumes "process_run E w" "slots_ok E content cap emptyTaskRun initial"
  shows "slots_ok E content cap emptyTaskRun w"
  using assms
proof induction
  case (others w es)
  then show ?case by - (rule slots_ok_events [of E content cap emptyTaskRun w _ es], auto simp: list_all_iff harmless_fitting)
qed (blast dest: tripleD [OF triple_Reconcile] tripleD [OF harmless_jobs(1)] tripleD [OF harmless_jobs(2)] tripleD [OF harmless_jobs(3)])+

section \<open>Never overbooked\<close>


section \<open>A reference API server\<close>

text \<open>The objects it stores after a history: an accepted update replaces the object with the same key, a
  creation adds one, a deletion removes one. It answers from what it stores.\<close>

definition serverStep :: "TaskRun list \<Rightarrow> event \<Rightarrow> TaskRun list" where
  "serverStep st e = (case e of
       EvUpdate s r \<Rightarrow> (if isl r then st else map (\<lambda>x. if objKey x = objKey s then s else x) st)
     | EvCreate s r \<Rightarrow> (if r \<noteq> None \<or> objKey s \<in> objKey ` set st then st else st @ [s])
     | EvDelete s r \<Rightarrow> (if r \<noteq> None then st else filter (\<lambda>x. objKey x \<noteq> objKey s) st)
     | _ \<Rightarrow> st)"

definition served :: "TaskRun list \<Rightarrow> history \<Rightarrow> TaskRun list" where
  "served st h = foldl serverStep st h"

definition stored :: "TaskRun list \<Rightarrow> history \<Rightarrow> store" where
  "stored st h k = find (\<lambda>x. objKey x = k) (served st h)"

definition missing :: goerror where "missing = ErrAPI NotFound ''not found''"

definition server_kube :: "TaskRun list \<Rightarrow> ConfigMap \<Rightarrow> kube_api" where
  "server_kube st cm = offline_kube\<lparr>
     k_apiGet := (\<lambda>h k. case stored st h k of None \<Rightarrow> Inl missing | Some x \<Rightarrow> Inr x),
     k_get := (\<lambda>h k. case stored st h k of None \<Rightarrow> Inl missing | Some x \<Rightarrow> Inr x),
     k_update := (\<lambda>h x. case stored st h (objKey x) of None \<Rightarrow> Inl missing | Some _ \<Rightarrow> Inr x),
     k_create := (\<lambda>h x. case stored st h (objKey x) of None \<Rightarrow> None | Some _ \<Rightarrow> Some (ErrAPI AlreadyExists ''exists'')),
     k_delete := (\<lambda>h x. case stored st h (objKey x) of None \<Rightarrow> Some missing | Some _ \<Rightarrow> None),
     k_list := (\<lambda>h s. Inr (filter (matches s) (served st h))),
     k_getSecret := (\<lambda>_ k. if fst k = ''multi-platform-controller''
       then Inr \<lparr>sec_Name = snd k, sec_Namespace = fst k, sec_Labels = Map.empty, sec_Data = Map.empty, sec_Owner = None\<rparr> else Inl missing),
     k_getConfigMap := (\<lambda>_ _. Inr cm)\<rparr>"

definition server :: "TaskRun list \<Rightarrow> ConfigMap \<Rightarrow> env" where
  "server st cm = with_kube (server_kube st cm)"

lemma serverStep_shape:
  obtains (same) "serverStep st e = st"
  | (update) s a where "e = EvUpdate s (Inr a)" "serverStep st e = map (\<lambda>x. if objKey x = objKey s then s else x) st"
  | (create) s where "e = EvCreate s None" "objKey s \<notin> objKey ` set st" "serverStep st e = st @ [s]"
  | (delete) s where "e = EvDelete s None" "serverStep st e = filter (\<lambda>x. objKey x \<noteq> objKey s) st"
proof (cases e)
  case (EvUpdate s r)
  then show thesis using same update by (cases r) (simp_all add: serverStep_def)
next
  case (EvCreate s r)
  then show thesis using same create by (cases "r \<noteq> None \<or> objKey s \<in> objKey ` set st") (auto simp: serverStep_def)
next
  case (EvDelete s r)
  then show thesis using same delete by (cases r) (simp_all add: serverStep_def)
qed (use same in \<open>simp_all add: serverStep_def\<close>)

lemma serverStep_keys:
  assumes "distinct (map objKey st)"
  shows "distinct (map objKey (serverStep st e))"
proof (cases rule: serverStep_shape [of st e])
  case (update s a)
  have "map objKey (map (\<lambda>x. if objKey x = objKey s then s else x) st) = map objKey st" by simp
  with assms update show ?thesis by (simp only: )
qed (use assms in \<open>auto simp: distinct_map_filter\<close>)

lemma served_snoc: "served st (h @ [e]) = serverStep (served st h) e"
  by (simp add: served_def)

lemma served_keys: "distinct (map objKey st) \<Longrightarrow> distinct (map objKey (served st h))"
  by (induction h rule: rev_induct) (simp_all add: served_snoc serverStep_keys del: distinct_map, simp add: served_def)

lemma stored_iff:
  assumes "distinct (map objKey st)"
  shows "stored st h k = Some x \<longleftrightarrow> x \<in> set (served st h) \<and> objKey x = k"
proof -
  have "find (\<lambda>x. objKey x = k) xs = Some x \<longleftrightarrow> x \<in> set xs \<and> objKey x = k" if "distinct (map objKey xs)" for xs
    using that by (induction xs) auto
  then show ?thesis unfolding stored_def using served_keys [OF assms] by blast
qed

lemma server_current: "distinct (map objKey st) \<Longrightarrow> reads_current (server st cm) (stored st)"
  unfolding reads_current_def
proof (intro conjI allI impI)
  fix h
  assume d: "distinct (map objKey st)"
  have "dom (stored st h) \<subseteq> objKey ` set (served st h)" unfolding dom_def stored_iff [OF d] not_None_eq by blast
  then show "finite (dom (stored st h))" by (rule finite_subset) simp
qed (auto simp: server_def server_kube_def stored_iff served_keys distinct_map_filter split: option.splits)

lemma server_accounted:
  assumes "distinct (map objKey st)"
  shows "writes_accounted (stored st) cap"
  unfolding writes_accounted_def
proof (intro allI impI)
  fix h e k x
  assume "stored st (h @ [e]) k = Some x"
  then have x: "x \<in> set (serverStep (served st h) e)" "objKey x = k" by (simp_all add: stored_iff [OF assms] served_snoc)
  from x(1) have "x \<in> set (served st h) \<or> (\<exists>s a. e = EvUpdate s (Inr a) \<and> x = s) \<or> (\<exists>s. e = EvCreate s None \<and> x = s)"
    by (cases rule: serverStep_shape [of "served st h" e]) (auto split: if_splits)
  with x(2) show "(\<exists>y. stored st h k = Some y \<and> marks y = marks x) \<or> foreign cap x \<or>
        (\<exists>s a. e = EvUpdate s (Inr a) \<and> objKey s = k \<and> marks x = marks s) \<or> (\<exists>s. e = EvCreate s None \<and> marks x = marks s)"
    unfolding stored_iff [OF assms] by blast
qed

lemma server_documented:
  assumes "distinct (map objKey st)"
  shows "documented (server st cm)" "sdk_documented (server st cm)" "instance_names (server st cm) D"
proof -
  show "documented (server st cm)"
    unfolding documented_def list_documented_def objects_documented_def
    by (auto simp: server_def server_kube_def stored_iff [OF assms] list_all_iff std_libs_documented
        split: option.splits if_splits) (simp add: std_libs_def)
  show "sdk_documented (server st cm)" "instance_names (server st cm) D"
    by (simp_all add: sdk_documented_def ec2_documented_def vpc_documented_def power_documented_def instance_names_def
        server_def with_kube_def fixture_defs)
qed

text \<open>Together with a configuration that has one host with two slots.\<close>

definition twoSlots :: "string \<rightharpoonup> int" where
  "twoSlots = [''a'' \<mapsto> 2]"

lemma hostConfig_parsed:
  "ParseStaticHostConfig (\<lambda>_. []) (cm_Data (hostConfig ''a'')) ''a'' = Inr hc \<Longrightarrow> hc_Concurrency hc = 2"
proof -
  have "(case ParseStaticHostConfig (\<lambda>_. []) (cm_Data (hostConfig ''a'')) ''a'' of Inl _ \<Rightarrow> True | Inr c \<Rightarrow> hc_Concurrency c = 2)"
    by code_simp
  then show "ParseStaticHostConfig (\<lambda>_. []) (cm_Data (hostConfig ''a'')) ''a'' = Inr hc \<Longrightarrow> hc_Concurrency hc = 2" by simp
qed

lemma server_capacity:
  assumes "distinct (map objKey st)"
  shows "capacity_documented (server st (hostConfig ''a'')) (stored st) twoSlots"
proof -
  have "config_bounded (server st (hostConfig ''a'')) twoSlots"
    using hostConfig_parsed
    by (auto simp: config_bounded_def server_def server_kube_def std_libs_def twoSlots_def split: if_splits)
  with server_documented [OF assms] server_current [OF assms] server_accounted [OF assms] show ?thesis
    by (simp add: capacity_documented_def twoSlots_def)
qed


section \<open>Overlapping allocations\<close>

text \<open>Allocation from a pool after the list of assigned tasks was read.\<close>

definition HostPool_decide :: "env \<Rightarrow> HostPool \<Rightarrow> TaskRun \<Rightarrow> string \<Rightarrow> goerror + TaskRun list \<Rightarrow> alloc M" where
  "HostPool_decide E hp tr secretName r = (case r of
       Inl e \<Rightarrow> ret (noRequeue, Some e, tr)
     | Inr taskList \<Rightarrow>
         let failedString = annotation tr FailedHosts;
             s = selectHost (hp_targetPlatform hp) (Split (CHR '','') failedString) (countHosts taskList (\<lambda>_. 0)) (hp_hosts hp) selection0
         in if \<not> sel_platformHostsExists s
            then ret (noRequeue, Some (ErrNew (''no hosts configured for platform '' @ hp_targetPlatform hp)), tr)
            else if sel_allPlatformHostsFailed s
            then ret (noRequeue, Some (ErrWrap [] ErrAllHostsFailed ('': '' @ failedString)), tr)
            else (case sel_selected s of
                None \<Rightarrow> waitForHost E hp tr
              | Some selected \<Rightarrow> assignHost E hp tr secretName selected))"

lemma HostPool_Allocate_two_steps:
  "hp_hosts hp \<noteq> [] \<Longrightarrow> HostPool_Allocate E hp tr sn = bnd (List E (HasLabels AssignedHost)) (HostPool_decide E hp tr sn)"
  by (simp add: HostPool_Allocate_def HostPool_decide_def [abs_def] Let_def)

text \<open>Two workers of the controller: the first one reads the list, the second one allocates for its task
  from start to end, the first one goes on with what it read.\<close>

definition overlapped :: "env \<Rightarrow> HostPool \<Rightarrow> TaskRun \<Rightarrow> TaskRun \<Rightarrow> string \<Rightarrow> alloc M" where
  "overlapped E hp tr1 tr2 secretName =
     bnd (List E (HasLabels AssignedHost)) (\<lambda>r.
     bnd (HostPool_Allocate E hp tr2 secretName) (\<lambda>_.
       HostPool_decide E hp tr1 secretName r))"

lemma server_update:
  assumes "stored st (hist w) (objKey tr) \<noteq> None"
  shows "wp (UpdateTaskRunWithRetry (server st cm) tr) Q w = Q (None, tr) (w\<lparr>hist := hist w @ [EvUpdate tr (Inr tr)]\<rparr>)"
  using assms by (auto simp: UpdateTaskRunWithRetry_def Update_def UpdateObj_def wp server_def server_kube_def)

lemma served_create: "set (served st h) \<subseteq> set (served st (h @ [EvGetSecret a b, EvGetConfigMap c d, EvCreate p r]))"
  by (cases r) (auto simp: served_def serverStep_def)

lemma server_launch:
  "wp (launchProvisioningTask (server st cm) tr sn ss a u p sc) (\<lambda>r w'. r = (None, tr) \<and> set (served st (hist w)) \<subseteq> set (served st (hist w'))) w"
  using served_create
  by (auto simp: launchProvisioningTask_def GetSecret_def GetConfigMap_def Create_def wp Let_def server_def server_kube_def std_libs_def
      IsAlreadyExists_def split: option.split)

text \<open>What is stored after a host was assigned on the reference server: the task with its host, and all the
  other objects.\<close>

lemma server_assign:
  assumes "stored st (hist w) (objKey tr) \<noteq> None" "tr_Labels tr = Some m" "distinct (map objKey st)"
  shows "wp (assignHost (server st cm) hp tr sn h) (\<lambda>_ w'.
    (\<exists>x \<in> set (served st (hist w')). objKey x = objKey tr \<and> label x AssignedHost = h_Name h \<and> label x TaskTypeLabel = label tr TaskTypeLabel) \<and>
    (\<forall>x \<in> set (served st (hist w)). objKey x \<noteq> objKey tr \<longrightarrow> x \<in> set (served st (hist w')))) w"
proof -
  let ?E = "server st cm"
  obtain tr1 where t1: "setLabel AssignedHost (h_Name h) tr = Some tr1" using assms(2) by (auto simp: setLabel_Some)
  define tr2 where "tr2 = snd (AddFinalizer ?E (delLabel WaitingForPlatformLabel tr1) PipelineFinalizer)"
  have k: "objKey tr2 = objKey tr" by (simp add: tr2_def objKey_set(1) [OF t1])
  have l: "label tr2 AssignedHost = h_Name h" "label tr2 TaskTypeLabel = label tr TaskTypeLabel"
    by (simp_all add: tr2_def label_setLabel [OF t1])
  let ?w = "w\<lparr>hist := hist w @ [EvUpdate tr2 (Inr tr2)]\<rparr>"
  from assms(1) obtain y where "y \<in> set (served st (hist w))" "objKey y = objKey tr2"
    using stored_iff [OF assms(3)] k by auto
  then have "tr2 \<in> set (served st (hist ?w))" by (force simp: served_snoc serverStep_def)
  moreover have "x \<in> set (served st (hist ?w))" if "x \<in> set (served st (hist w))" "objKey x \<noteq> objKey tr" for x
    using that k by (force simp: served_snoc serverStep_def)
  ultimately show ?thesis
    unfolding assignHost_def t1 must_def option.case Let_def tr2_def [symmetric]
    using k l assms(1)
    by (auto simp: wp server_update split: option.split intro!: wp_mono [OF server_launch]; blast)
qed

definition waitingUser :: "string \<Rightarrow> TaskRun" where
  "waitingUser n = userTask\<lparr>tr_Name := n\<rparr>"

definition busyCluster :: "TaskRun list" where
  "busyCluster = [assignedTask ''a'', waitingUser ''one'', waitingUser ''two'']"

definition onePool :: HostPool where
  "onePool = \<lparr>hp_hosts = [(''a'', \<lparr>h_Address = ''10.0.0.1'', h_Name = ''a'', h_User = [], h_Concurrency = 2, h_Platform = ''linux/arm64'',
     h_Secret = [], h_StartTime = None\<rparr>)], hp_targetPlatform = ''linux/arm64''\<rparr>"

lemma decide_assigns:
  "HostPool_decide E onePool (waitingUser n) sn (Inr [assignedTask ''a'']) = assignHost E onePool (waitingUser n) sn (snd (hd (hp_hosts onePool)))"
proof -
  have f: "Split (CHR '','') (annotation (waitingUser n) FailedHosts) = [[]]" by (simp add: annotation_def waitingUser_def userTask_def)
  show ?thesis
    unfolding HostPool_decide_def Let_def sum.case f
    by (simp add: onePool_def selection0_def Let_def assignedTask_def userTask_def emptyTaskRun_def label_def)
qed

lemma busy_simps:
  "objKey (assignedTask ''a'') = (''team'', ''other'')" "objKey (waitingUser n) = (''team'', n)"
  "label (assignedTask ''a'') AssignedHost = ''a''" "label (assignedTask ''a'') TaskTypeLabel = []"
  "label (waitingUser n) k = []" "tr_Labels (waitingUser n) = Some Map.empty"
  by (simp_all add: objKey_def label_def assignedTask_def waitingUser_def userTask_def emptyTaskRun_def)

lemma busy_distinct: "distinct (map objKey busyCluster)"
  by (simp add: busyCluster_def busy_simps)

text \<open>The tasks of the example that are stored, and those that are users of the host.\<close>

definition busyKey :: "string \<Rightarrow> history \<Rightarrow> bool" where
  "busyKey n h \<longleftrightarrow> (\<exists>x \<in> set (served busyCluster h). objKey x = (''team'', n))"

definition busyUser :: "string \<Rightarrow> history \<Rightarrow> bool" where
  "busyUser n h \<longleftrightarrow> (\<exists>x \<in> set (served busyCluster h). objKey x = (''team'', n) \<and> user_of ''a'' x)"

lemma decide_makes_user:
  assumes "busyKey n (hist w)"
  shows "wp (HostPool_decide (server busyCluster cm) onePool (waitingUser n) sn (Inr [assignedTask ''a'']))
    (\<lambda>_ w'. busyUser n (hist w') \<and>
      (\<forall>k. k \<noteq> n \<longrightarrow> (busyUser k (hist w) \<longrightarrow> busyUser k (hist w')) \<and> (busyKey k (hist w) \<longrightarrow> busyKey k (hist w')))) w"
proof -
  have "stored busyCluster (hist w) (objKey (waitingUser n)) \<noteq> None"
    using assms stored_iff [OF busy_distinct, of "hist w" "(''team'', n)"] by (auto simp: busy_simps busyKey_def)
  from server_assign [OF this busy_simps(6) busy_distinct, of cm onePool sn "snd (hd (hp_hosts onePool))"]
  show ?thesis
    unfolding decide_assigns
    by (rule wp_mono) (auto simp: busyUser_def busyKey_def user_of_def busy_simps onePool_def)
qed

lemma overlapped_users:
  "wp (overlapped (server busyCluster (hostConfig ''a'')) onePool (waitingUser ''one'') (waitingUser ''two'') ''s'')
     (\<lambda>_ w'. busyUser ''one'' (hist w') \<and> busyUser ''two'' (hist w') \<and> busyUser ''other'' (hist w')) initial"
proof -
  let ?E = "server busyCluster (hostConfig ''a'')" and ?ev = "EvList (HasLabels AssignedHost) (Inr [assignedTask ''a''])"
  have list: "k_list (kube ?E) [] (HasLabels AssignedHost) = Inr [assignedTask ''a'']"
    "k_list (kube ?E) [EvList x y] (HasLabels AssignedHost) = Inr [assignedTask ''a'']" for x y
    by (simp_all add: server_def server_kube_def served_def serverStep_def busyCluster_def assignedTask_def waitingUser_def userTask_def)
  define w2 where "w2 = initial\<lparr>hist := [?ev, ?ev]\<rparr>"
  have start: "busyUser ''other'' (hist w2)" "busyKey ''one'' (hist w2)" "busyKey ''two'' (hist w2)"
    by (simp_all add: busyUser_def busyKey_def w2_def served_def serverStep_def busyCluster_def busy_simps user_of_def)
  have "wp (HostPool_decide ?E onePool (waitingUser ''two'') ''s'' (Inr [assignedTask ''a'']))
      (\<lambda>_. wp (HostPool_decide ?E onePool (waitingUser ''one'') ''s'' (Inr [assignedTask ''a'']))
        (\<lambda>_ w'. busyUser ''one'' (hist w') \<and> busyUser ''two'' (hist w') \<and> busyUser ''other'' (hist w'))) w2"
    by (rule wp_mono [OF decide_makes_user [OF start(3)]], rule wp_mono [OF decide_makes_user]) (use start in auto)
  moreover have "hp_hosts onePool \<noteq> []" by (simp add: onePool_def)
  ultimately show ?thesis
    unfolding overlapped_def by (simp add: HostPool_Allocate_two_steps List_def wp list initial_def w2_def)
qed


end
