(* ===== verification/Manager.thy ===== *)
theory Manager
  imports Updates Metrics Reconcile_Props
begin

text \<open>
  The start of the controller process: \<open>main\<close> of \<open>cmd/controller\<close>, \<open>NewManager\<close> of \<open>pkg/controller\<close>, the
  set-up of the reconciler and the runnable that exports the metrics. What \<open>controller-runtime\<close> and the
  other libraries do is a parameter that answers from the calls made so far; logging is left out.
\<close>

section \<open>Options\<close>

text \<open>The objects that the manager's cache holds, each kind with the label that an object must have.\<close>

datatype cached_kind = CachedTaskRun | CachedSecret | CachedConfigMap | CachedPod

type_synonym cache_options = "(cached_kind \<times> string option) list"

record ManagerOptions =
  mo_HealthProbeBindAddress :: string
  mo_LeaderElection :: bool
  mo_LeaderElectionID :: string
  mo_BindAddress :: string
  mo_SecureServing :: bool
  mo_FilterProvider :: string
  mo_Scheme :: "string list"
  mo_Cache :: cache_options

text \<open>The flags of the command line, as \<open>flag.Parse\<close> leaves them, and their defaults.\<close>

record Flags =
  fl_metricsAddr :: string
  fl_secureMetrics :: bool
  fl_probeAddr :: string
  fl_abAPIExportName :: string
  fl_enableLeaderElection :: bool
  fl_concurrentReconciles :: int

definition defaultFlags :: Flags where
  "defaultFlags = \<lparr>fl_metricsAddr = '':8080'', fl_secureMetrics = True, fl_probeAddr = '':8081'',
     fl_abAPIExportName = ''jvm-build-service'', fl_enableLeaderElection = False, fl_concurrentReconciles = 10\<rparr>"

section \<open>The libraries\<close>

datatype update_job = EveryDay | AfterStart

datatype boot =
    BootGetCRD string "goerror option"
  | BootWait int
  | BootManager ManagerOptions "goerror option"
  | BootController int "goerror option"
  | BootGo update_job
  | BootAdd "goerror option"
  | BootHealthz "goerror option"
  | BootReadyz "goerror option"
  | BootStart "goerror option"

type_synonym 'a boots = "(boot list, 'a) go"

text \<open>The calls: reading a custom resource definition, \<open>wait.PollUntilContextTimeout\<close> (interval, timeout,
  immediate, condition), \<open>AddToScheme\<close> of an API, \<open>labels.NewRequirement\<close> that a label exists,
  \<open>ctrl.NewManager\<close>, the builder's \<open>Complete\<close> with the number of workers, and the methods of the manager.\<close>

record manager_api =
  g_getCRD :: "boot list \<Rightarrow> string \<Rightarrow> goerror option"
  g_poll :: "int \<Rightarrow> int \<Rightarrow> bool \<Rightarrow> (goerror + bool) boots \<Rightarrow> goerror option boots"
  g_scheme :: "string \<Rightarrow> goerror option"
  g_requirement :: "string \<Rightarrow> goerror option"
  g_newManager :: "boot list \<Rightarrow> ManagerOptions \<Rightarrow> goerror option"
  g_complete :: "boot list \<Rightarrow> int \<Rightarrow> goerror option"
  g_add :: "boot list \<Rightarrow> goerror option"
  g_healthz :: "boot list \<Rightarrow> goerror option"
  g_readyz :: "boot list \<Rightarrow> goerror option"
  g_start :: "boot list \<Rightarrow> goerror option"

definition bcall :: "(boot list \<Rightarrow> 'r) \<Rightarrow> ('r \<Rightarrow> boot) \<Rightarrow> 'r boots" where
  "bcall f ev = (\<lambda>h. Some (f h, h @ [ev (f h)]))"

section \<open>controller.go\<close>

definition TaskRunLabel :: string where "TaskRunLabel = ''tekton.dev/taskRun''"

definition ConfigMapLabel :: string where "ConfigMapLabel = ''build.appstudio.redhat.com/multi-platform-config''"

text \<open>The condition that is polled: the definition of the TaskRun resource can be read. It never fails.\<close>

definition crdReady :: "manager_api \<Rightarrow> (goerror + bool) boots" where
  "crdReady T =
     bnd (bcall (\<lambda>h. g_getCRD T h ''taskruns.tekton.dev'') (BootGetCRD ''taskruns.tekton.dev'')) (\<lambda>err. case err of
       Some _ \<Rightarrow> ret (Inr False)
     | None \<Rightarrow> ret (Inr True))"

definition cacheOptions :: cache_options where
  "cacheOptions = [(CachedTaskRun, None), (CachedSecret, Some MultiPlatformSecretLabel),
     (CachedConfigMap, Some ConfigMapLabel), (CachedPod, Some TaskRunLabel)]"

definition SetupNewReconcilerWithManager :: "manager_api \<Rightarrow> int \<Rightarrow> goerror option boots" where
  "SetupNewReconcilerWithManager T maxConcurrentReconciles =
     bcall (\<lambda>h. g_complete T h maxConcurrentReconciles) (BootController maxConcurrentReconciles)"

definition AddTaskRunMetricsExporter :: "manager_api \<Rightarrow> goerror option boots" where
  "AddTaskRunMetricsExporter T = bcall (g_add T) BootAdd"

text \<open>The first error of some calls that only compute.\<close>

fun firstError :: "goerror option list \<Rightarrow> goerror option" where
  "firstError [] = None"
| "firstError (r # rs) = (case r of Some e \<Rightarrow> Some e | None \<Rightarrow> firstError rs)"

text \<open>\<open>NewManager\<close> once the definition of the resource is there, and from the start.\<close>

definition buildManager :: "manager_api \<Rightarrow> ManagerOptions \<Rightarrow> int \<Rightarrow> goerror option boots" where
  "buildManager T managerOptions maxConcurrentReconciles =
     (case firstError [g_scheme T ''k8s'', g_scheme T ''tekton'', g_requirement T ConfigMapLabel,
             g_requirement T MultiPlatformSecretLabel, g_requirement T TaskRunLabel] of
        Some e \<Rightarrow> ret (Some e)
      | None \<Rightarrow>
          let options = managerOptions\<lparr>mo_Scheme := [''k8s'', ''tekton''], mo_Cache := cacheOptions\<rparr>
          in bnd (bcall (\<lambda>h. g_newManager T h options) (BootManager options)) (\<lambda>err. case err of
               Some e \<Rightarrow> ret (Some e)
             | None \<Rightarrow> bnd (SetupNewReconcilerWithManager T maxConcurrentReconciles) (\<lambda>err. case err of
                 Some e \<Rightarrow> ret (Some e)
               | None \<Rightarrow>
                   bnd (bcall (\<lambda>_. ()) (\<lambda>_. BootGo EveryDay)) (\<lambda>_.
                   bnd (bcall (\<lambda>_. ()) (\<lambda>_. BootGo AfterStart)) (\<lambda>_.
                     AddTaskRunMetricsExporter T)))))"

definition NewManager :: "manager_api \<Rightarrow> ManagerOptions \<Rightarrow> int \<Rightarrow> goerror option boots" where
  "NewManager T managerOptions maxConcurrentReconciles =
     bnd (g_poll T (Second * 5) (Minute * 5) True (crdReady T)) (\<lambda>err. case err of
       Some e \<Rightarrow> ret (Some e)
     | None \<Rightarrow> buildManager T managerOptions maxConcurrentReconciles)"

text \<open>The two goroutines: the hosts are updated a minute after the start, and every day; of the second one
  the first \<open>n\<close> rounds. Waiting for the timer or the next tick is recorded as a sleep of its period.\<close>

definition updateAfterStart :: "env \<Rightarrow> ((string \<times> Host) list \<Rightarrow> (string \<times> Host) list) \<Rightarrow> unit M" where
  "updateAfterStart E order = bnd (Sleep Minute) (\<lambda>_. UpdateHostPools E order)"

fun updateEveryDay :: "env \<Rightarrow> (nat \<Rightarrow> (string \<times> Host) list \<Rightarrow> (string \<times> Host) list) \<Rightarrow> nat \<Rightarrow> unit M" where
  "updateEveryDay E order 0 = ret ()"
| "updateEveryDay E order (Suc n) =
     bnd (Sleep (Hour * 24)) (\<lambda>_. bnd (UpdateHostPools E (order n)) (\<lambda>_. updateEveryDay E order n))"

section \<open>The exporter\<close>

text \<open>The runnable that is added to the manager, for a run of \<open>n\<close> ticks until its context is done. The errors
  of the two registrations are dropped.\<close>

fun exporterTicks :: "env \<Rightarrow> nat \<Rightarrow> unit M" where
  "exporterTicks E 0 = ret ()"
| "exporterTicks E (Suc n) = bnd (Sleep (15 * Second)) (\<lambda>_. bnd (exporterTick E) (\<lambda>_. exporterTicks E n))"

definition exporterRun :: "env \<Rightarrow> bool \<Rightarrow> nat \<Rightarrow> goerror option M" where
  "exporterRun E cacheSynced n =
     (if \<not> cacheSynced then ret (Some (ErrExt ''context canceled''))
      else bnd (Register E ''running_tasks'' []) (\<lambda>_.
           bnd (Register E ''waiting_tasks'' []) (\<lambda>_.
           bnd (exporterTicks E n) (\<lambda>_. ret None))))"

section \<open>main.go\<close>

definition managerOptions :: "Flags \<Rightarrow> ManagerOptions" where
  "managerOptions f = \<lparr>mo_HealthProbeBindAddress = fl_probeAddr f, mo_LeaderElection = fl_enableLeaderElection f,
     mo_LeaderElectionID = ''5483be8f.redhat.com'', mo_BindAddress = fl_metricsAddr f, mo_SecureServing = fl_secureMetrics f,
     mo_FilterProvider = ''filters.WithAuthenticationAndAuthorization'', mo_Scheme = [], mo_Cache = []\<rparr>"

text \<open>\<open>main\<close> with the exit code of the process: 1 where it calls \<open>os.Exit(1)\<close>, 0 when it returns.\<close>

definition controller_main :: "manager_api \<Rightarrow> Flags \<Rightarrow> int boots" where
  "controller_main T f =
     bnd (NewManager T (managerOptions f) (fl_concurrentReconciles f)) (\<lambda>err. case err of
       Some _ \<Rightarrow> ret 1
     | None \<Rightarrow> bnd (bcall (g_healthz T) BootHealthz) (\<lambda>err. case err of
         Some _ \<Rightarrow> ret 1
       | None \<Rightarrow> bnd (bcall (g_readyz T) BootReadyz) (\<lambda>err. case err of
           Some _ \<Rightarrow> ret 1
         | None \<Rightarrow> bnd (bcall (g_start T) BootStart) (\<lambda>err. case err of
             Some _ \<Rightarrow> ret 1
           | None \<Rightarrow> ret 0))))"

section \<open>Polling\<close>

text \<open>\<open>wait.PollUntilContextTimeout\<close> as documented, with immediate set: the condition is run at once and then
  after every interval, until it holds or fails; after some number of attempts the timeout is over.\<close>

fun poll_rounds :: "nat \<Rightarrow> int \<Rightarrow> (goerror + bool) boots \<Rightarrow> goerror option boots" where
  "poll_rounds 0 interval cond = ret (Some (ErrExt ''context deadline exceeded''))"
| "poll_rounds (Suc n) interval cond = bnd cond (\<lambda>r. case r of
       Inl e \<Rightarrow> ret (Some e)
     | Inr True \<Rightarrow> ret None
     | Inr False \<Rightarrow> bnd (bcall (\<lambda>_. ()) (\<lambda>_. BootWait interval)) (\<lambda>_. poll_rounds n interval cond))"

definition poll_documented :: "manager_api \<Rightarrow> bool" where
  "poll_documented T \<longleftrightarrow> (\<forall>interval timeout cond h. 0 < interval \<longrightarrow>
     (\<exists>n. 1 \<le> n \<and> n \<le> nat (timeout div interval) + 1 \<and> g_poll T interval timeout True cond h = poll_rounds n interval cond h))"

section \<open>The start-up sequence\<close>

fun is_poll :: "boot \<Rightarrow> bool" where
  "is_poll (BootGetCRD _ _) = True"
| "is_poll (BootWait _) = True"
| "is_poll _ = False"

lemma wp_bcall [wp]: "wp (bcall f ev) Q h = Q (f h) (h @ [ev (f h)])"
  by (simp add: bcall_def wp_def)

text \<open>What polling leaves: attempts and waits only, at most as many attempts as allowed, and a success is the
  last attempt's.\<close>

definition polled :: "nat \<Rightarrow> boot list \<Rightarrow> goerror option \<Rightarrow> boot list \<Rightarrow> bool" where
  "polled n h err h' \<longleftrightarrow> (\<exists>ps. h' = h @ ps \<and> list_all is_poll ps \<and>
     length (filter (\<lambda>e. \<not> (\<exists>d. e = BootWait d)) ps) \<le> n \<and>
     (err = None \<longrightarrow> ps \<noteq> [] \<and> last ps = BootGetCRD ''taskruns.tekton.dev'' None))"

lemma polled_more:
  assumes "polled n (h @ [BootGetCRD c r, BootWait d]) err h'"
  shows "polled (Suc n) h err h'"
proof -
  from assms obtain ps where "h' = h @ [BootGetCRD c r, BootWait d] @ ps" "list_all is_poll ps"
    "length (filter (\<lambda>e. \<not> (\<exists>d. e = BootWait d)) ps) \<le> n"
    "err = None \<longrightarrow> ps \<noteq> [] \<and> last ps = BootGetCRD ''taskruns.tekton.dev'' None" by (auto simp: polled_def)
  then show ?thesis unfolding polled_def by (intro exI [of _ "[BootGetCRD c r, BootWait d] @ ps"]) simp
qed

lemma wp_crdReady [wp]:
  "wp (crdReady T) Q h = Q (Inr (g_getCRD T h ''taskruns.tekton.dev'' = None))
     (h @ [BootGetCRD ''taskruns.tekton.dev'' (g_getCRD T h ''taskruns.tekton.dev'')])"
  by (auto simp: crdReady_def wp split: option.split)

lemma poll_rounds_polled: "wp (poll_rounds n d (crdReady T)) (polled n h) h"
proof (induction n arbitrary: h)
  case 0
  then show ?case by (simp add: wp polled_def)
next
  case (Suc n)
  have "wp (poll_rounds n d (crdReady T)) (polled (Suc n) h) (h @ [BootGetCRD ''taskruns.tekton.dev'' r, BootWait d])" for r
    by (rule wp_mono [OF Suc.IH]) (rule polled_more)
  moreover have "polled (Suc n) h None (h @ [BootGetCRD ''taskruns.tekton.dev'' None])" by (simp add: polled_def)
  ultimately show ?case by (auto simp: wp split: bool.split)
qed

lemma poll_polled:
  assumes "poll_documented T"
  shows "wp (g_poll T (Second * 5) (Minute * 5) True (crdReady T)) (polled 61 h) h"
proof -
  have "nat (Minute * 5 div (Second * 5)) + 1 = 61" "0 < Second * 5" by (simp_all add: Minute_def Second_def)
  with assms obtain m where m: "m \<le> 61" "g_poll T (Second * 5) (Minute * 5) True (crdReady T) h = poll_rounds m (Second * 5) (crdReady T) h"
    unfolding poll_documented_def by metis
  have "polled 61 h err h'" if "polled m h err h'" for err h' using that m(1) unfolding polled_def by (blast intro: order_trans)
  then show ?thesis
    using poll_rounds_polled [of m "Second * 5" T h] m(2) by (auto simp: wp_def split: option.splits)
qed

text \<open>The steps after the poll: the events up to the first failure.\<close>

definition built :: "int \<Rightarrow> ManagerOptions \<Rightarrow> goerror option \<Rightarrow> boot list \<Rightarrow> bool" where
  "built n options err rs \<longleftrightarrow>
     (case err of
        None \<Rightarrow> rs = [BootManager options None, BootController n None, BootGo EveryDay, BootGo AfterStart, BootAdd None]
      | Some e \<Rightarrow> rs = [] \<or> rs = [BootManager options (Some e)] \<or> rs = [BootManager options None, BootController n (Some e)] \<or>
          rs = [BootManager options None, BootController n None, BootGo EveryDay, BootGo AfterStart, BootAdd (Some e)])"

lemma wp_buildManager:
  "wp (buildManager T o1 n)
     (\<lambda>err h'. \<exists>rs. h' = h @ rs \<and> built n (o1\<lparr>mo_Scheme := [''k8s'', ''tekton''], mo_Cache := cacheOptions\<rparr>) err rs) h"
  by (auto simp: buildManager_def SetupNewReconcilerWithManager_def AddTaskRunMetricsExporter_def Let_def wp built_def
      simp del: firstError.simps split: option.split)

text \<open>The whole of it, from the history \<open>h\<close> to \<open>h'\<close>.\<close>

definition manager_built :: "int \<Rightarrow> ManagerOptions \<Rightarrow> goerror option \<Rightarrow> boot list \<Rightarrow> boot list \<Rightarrow> bool" where
  "manager_built n options err h h' \<longleftrightarrow> (\<exists>ps rs. h' = h @ ps @ rs \<and> list_all is_poll ps \<and>
     length (filter (\<lambda>e. \<not> (\<exists>d. e = BootWait d)) ps) \<le> 61 \<and>
     (rs \<noteq> [] \<longrightarrow> ps \<noteq> [] \<and> last ps = BootGetCRD ''taskruns.tekton.dev'' None) \<and> built n options err rs)"

lemma wp_NewManager:
  assumes "poll_documented T"
  shows "wp (NewManager T o1 n) (\<lambda>err h'. manager_built n (o1\<lparr>mo_Scheme := [''k8s'', ''tekton''], mo_Cache := cacheOptions\<rparr>) err h h') h"
  unfolding NewManager_def wp_bnd
proof (rule wp_mono [OF poll_polled [OF assms]])
  fix err h'
  assume "polled 61 h err h'"
  then obtain ps where ps: "h' = h @ ps" "list_all is_poll ps" "length (filter (\<lambda>e. \<not> (\<exists>d. e = BootWait d)) ps) \<le> 61"
    "err = None \<Longrightarrow> ps \<noteq> [] \<and> last ps = BootGetCRD ''taskruns.tekton.dev'' None" unfolding polled_def by blast
  let ?o = "o1\<lparr>mo_Scheme := [''k8s'', ''tekton''], mo_Cache := cacheOptions\<rparr>"
  show "wp (case err of Some e \<Rightarrow> ret (Some e) | None \<Rightarrow> buildManager T o1 n) (\<lambda>err h'. manager_built n ?o err h h') h'"
  proof (cases err)
    case None
    have "wp (buildManager T o1 n) (\<lambda>err h'. manager_built n ?o err h h') h'"
      by (rule wp_mono [OF wp_buildManager]) (use ps None in \<open>auto simp: manager_built_def\<close>)
    with None show ?thesis by simp
  next
    case (Some e)
    with ps have "manager_built n ?o (Some e) h h'"
      unfolding manager_built_def by (intro exI [of _ ps] exI [of _ "[]"]) (simp add: built_def)
    with Some show ?thesis by (simp add: wp)
  qed
qed

text \<open>After the manager is built: the health checks and the run, up to the first failure, and the exit code.\<close>

definition main_tail :: "goerror option \<Rightarrow> int \<Rightarrow> boot list \<Rightarrow> bool" where
  "main_tail err code fin \<longleftrightarrow>
     (case err of
        Some _ \<Rightarrow> fin = [] \<and> code = 1
      | None \<Rightarrow> (\<exists>e. fin = [BootHealthz (Some e)] \<and> code = 1) \<or> (\<exists>e. fin = [BootHealthz None, BootReadyz (Some e)] \<and> code = 1) \<or>
          (\<exists>r. fin = [BootHealthz None, BootReadyz None, BootStart r] \<and> code = (if r = None then 0 else 1)))"

text \<open>C39: the start of the process always comes to a decision. It waits for the definition of TaskRuns with
  at most 61 attempts; only after it was seen is a manager made, with a cache that holds all TaskRuns
  but only labelled secrets, configuration maps and pods; the daily update and the one after the start
  are only started once the reconciler is registered, with the number of workers of the flag; the
  manager is only run with both health checks in place; and the exit code is 0 exactly if every step
  including that run succeeded.\<close>

theorem controller_main_starts_in_order:
  assumes "poll_documented T"
  shows "\<exists>code err mid fin. controller_main T f h = Some (code, mid @ fin) \<and> main_tail err code fin \<and>
    manager_built (fl_concurrentReconciles f)
      ((managerOptions f)\<lparr>mo_Scheme := [''k8s'', ''tekton''], mo_Cache := cacheOptions\<rparr>) err h mid"
proof -
  let ?n = "fl_concurrentReconciles f"
  let ?o = "(managerOptions f)\<lparr>mo_Scheme := [''k8s'', ''tekton''], mo_Cache := cacheOptions\<rparr>"
  from wp_NewManager [OF assms, of "managerOptions f" ?n h] obtain err mid where
    m: "NewManager T (managerOptions f) ?n h = Some (err, mid)" "manager_built ?n ?o err h mid" by (auto simp: wp_iff_Some)
  let ?main = "\<lambda>err. case err of Some _ \<Rightarrow> ret 1
     | None \<Rightarrow> bnd (bcall (g_healthz T) BootHealthz) (\<lambda>err. case err of Some _ \<Rightarrow> ret 1
       | None \<Rightarrow> bnd (bcall (g_readyz T) BootReadyz) (\<lambda>err. case err of Some _ \<Rightarrow> ret 1
         | None \<Rightarrow> bnd (bcall (g_start T) BootStart) (\<lambda>err. case err of Some _ \<Rightarrow> ret 1 | None \<Rightarrow> ret 0)))"
  have "wp (?main err) (\<lambda>code h'. \<exists>fin. h' = mid @ fin \<and> main_tail err code fin) mid"
    by (auto simp: wp main_tail_def split: option.split)
  then obtain code fin where c: "?main err mid = Some (code, mid @ fin)" "main_tail err code fin" by (auto simp: wp_iff_Some)
  with m(1) have "controller_main T f h = Some (code, mid @ fin)"
    by (simp add: controller_main_def bnd_def [of "NewManager T (managerOptions f) ?n"])
  with c(2) m(2) show ?thesis by blast
qed

text \<open>Example: the definition is there at the third attempt, and everything else succeeds.\<close>

definition lateCRD :: manager_api where
  "lateCRD = \<lparr>g_getCRD = (\<lambda>h _. if length h < 4 then Some (ErrAPI NotFound ''no CRD'') else None),
     g_poll = (\<lambda>i t _ c. poll_rounds (nat (t div i) + 1) i c), g_scheme = (\<lambda>_. None), g_requirement = (\<lambda>_. None),
     g_newManager = (\<lambda>_ _. None), g_complete = (\<lambda>_ _. None), g_add = (\<lambda>_. None), g_healthz = (\<lambda>_. None),
     g_readyz = (\<lambda>_. None), g_start = (\<lambda>_. None)\<rparr>"

theorem controller_main_starts_in_order_witness:
  "\<exists>mid fin. controller_main lateCRD defaultFlags [] = Some (0, mid @ fin) \<and>
    BootController 10 None \<in> set mid \<and> fin = [BootHealthz None, BootReadyz None, BootStart None]"
proof -
  have "poll_documented lateCRD" by (auto simp: poll_documented_def lateCRD_def intro!: exI [of _ "nat (t div i) + 1" for t i])
  from controller_main_starts_in_order [OF this, of defaultFlags "[]"] obtain code err mid fin where
    r: "controller_main lateCRD defaultFlags [] = Some (code, mid @ fin)" "main_tail err code fin"
    "manager_built 10 ((managerOptions defaultFlags)\<lparr>mo_Scheme := [''k8s'', ''tekton''], mo_Cache := cacheOptions\<rparr>) err [] mid"
    by (auto simp: defaultFlags_def)
  have "map_option fst (controller_main lateCRD defaultFlags []) = Some 0" by code_simp
  with r(1) have "code = 0" by simp
  with r show ?thesis
    by (auto simp: main_tail_def manager_built_def built_def split: option.splits if_splits)
qed

section \<open>The cache and the reconciler\<close>

text \<open>Does a cache with the given options hold an object with the given labels?\<close>

definition holds_object :: "cache_options \<Rightarrow> cached_kind \<Rightarrow> strmap \<Rightarrow> bool" where
  "holds_object options kind lbls \<longleftrightarrow>
     (case map_of options kind of None \<Rightarrow> True | Some None \<Rightarrow> True | Some (Some l) \<Rightarrow> lbls l \<noteq> None)"

lemma task_event_secret:
  "task_event E tr (EvCreateSecret s r) \<Longrightarrow> sec_Labels s MultiPlatformSecretLabel = Some ''true''"
  by (auto simp: task_event_def clean_event_def provision_event_def user_event_def permitted_def Let_def split: if_splits)

text \<open>C40: the client of the reconciler reads secrets from the manager's cache, which only holds secrets with
  the label of the controller. Every secret that a reconciliation writes has it, so that a later
  reconciliation of the task sees the secret and neither allocates again nor forgets to delete it.\<close>

theorem Reconcile_secrets_are_cached:
  assumes "documented E" "sdk_documented E" "Reconcile E req w = Some (res, w')"
    and "hist w' = hist w @ es" "EvCreateSecret s r \<in> set es"
  shows "holds_object cacheOptions CachedSecret (sec_Labels s)"
proof -
  have "sec_Labels s MultiPlatformSecretLabel = Some ''true''"
  proof (cases "k_apiGet (kube E) (hist w) req")
    case (Inl e)
    with assms(3-5) show ?thesis by (auto simp: Reconcile_def ApiGet_def bnd_def call_def ret_def split: if_splits)
  next
    case (Inr tr)
    let ?v = "w\<lparr>hist := hist w @ [EvApiGet req (Inr tr)]\<rparr>"
    from Inr assms(3) have "handleTaskRunReceived E tr ?v = Some (res, w')"
      by (simp add: Reconcile_def ApiGet_def bnd_def call_def)
    with safeD [OF safe_handleTaskRunReceived [OF assms(1,2)], of tr ?v] obtain fs where
      "hist w' = hist ?v @ fs" "list_all (task_event E tr) fs" by auto
    with assms(4,5) show ?thesis by (auto simp: list_all_iff dest: task_event_secret)
  qed
  then show ?thesis by (simp add: holds_object_def cacheOptions_def)
qed

text \<open>Example: a task that asks for an invalid platform gets an error secret.\<close>

definition badTask :: TaskRun where
  "badTask = userTask\<lparr>tr_Params := Some [(''PLATFORM'', ''nowhere'')], tr_Finalizers := [PipelineFinalizer]\<rparr>"

theorem Reconcile_secrets_are_cached_witness:
  "\<exists>res w' s r. Reconcile (oneTask badTask) (''team'', ''build'') initial = Some (res, w') \<and>
    EvCreateSecret s r \<in> set (hist w') \<and> holds_object cacheOptions CachedSecret (sec_Labels s)"
proof -
  let ?E = "oneTask badTask"
  have k: "k_apiGet (kube ?E) h (''team'', ''build'') = Inr badTask" "l_dns (lib ?E) = (\<lambda>_. [])" for h
    by (simp_all add: oneTask_def std_libs_def badTask_def userTask_def emptyTaskRun_def objKey_def)
  have t: "label badTask TaskTypeLabel = []" "label badTask AssignedHost = []" "isUserTask badTask"
    "tr_CompletionTime badTask = None" "tr_DeletionTimestamp badTask = None"
    by (simp_all add: badTask_def userTask_def emptyTaskRun_def label_def isUserTask_def hasMultiPlatformSecret_def SecretPrefix_def PlatformParam_def)
  have "isl (ValidatePlatform (\<lambda>_. []) badTask)" by code_simp
  then obtain e where v: "ValidatePlatform (\<lambda>_. []) badTask = Inl e" by (cases "ValidatePlatform (\<lambda>_. []) badTask") auto
  have a: "AddFinalizer ?E badTask PipelineFinalizer = (False, badTask)"
    by (simp add: AddFinalizer_def oneTask_def std_libs_def badTask_def)
  have "wp (Reconcile ?E (''team'', ''build'')) (\<lambda>_ w'. \<exists>s r. EvCreateSecret s r \<in> set (hist w')) initial"
    by (auto simp: Reconcile_def ApiGet_def handleTaskRunReceived_def handleUserTask_def createErrorSecret_def CreateSecret_def
        Let_def wp k t v a split: sum.split option.split) (simp add: oneTask_def std_libs_def)
  then obtain res w' s r where run: "Reconcile ?E (''team'', ''build'') initial = Some (res, w')" and s: "EvCreateSecret s r \<in> set (hist w')"
    by (auto simp: wp_iff_Some)
  have "hist w' = hist initial @ hist w'" by (simp add: initial_def)
  from Reconcile_secrets_are_cached [OF oneTask_documented run this s] run s show ?thesis by blast
qed

end
