(* ===== verification/Spec2Isabelle.thy ===== *)
theory Spec2Isabelle
  imports Reconcile Metrics Config_Props Dynamic_Props Pool_Props Provider_Props Provider_Loops OTP Retry Updates Lifecycle_Props Devsetup_Props
    Capacity_Props Manager
begin

text \<open>
  Verification of the multi-platform controller.

  \<^bold>\<open>The program.\<close> The controller watches Tekton TaskRuns. A TaskRun that asks for a secret
  \<open>multi-platform-ssh-...\<close> waits until the controller has found a machine of the right platform for
  it: a host of a static pool, a cloud instance started for this task, a cloud instance of a shared
  pool, or the local cluster. The controller then creates a provisioning TaskRun, which prepares a
  user on the machine and hands over a key by way of the one-time password server; when the user's
  task is finished the machine is released by a cleanup TaskRun or by terminating the instance, and
  the oldest waiting task of the platform is woken. The parts are the reconciler and the kinds of
  platform (\<open>pkg/reconciler/taskrun\<close>), the parsers of the configuration (\<open>pkg/config\<close>), the cloud
  providers (\<open>pkg/cloud\<close>, \<open>pkg/aws\<close>, \<open>pkg/ibm\<close>), metrics (\<open>pkg/metrics\<close>), the retrying API client
  (\<open>pkg/util\<close>), the password server (\<open>cmd/otp\<close>) and a development tool (\<open>cmd/devsetup\<close>).

  \<^bold>\<open>How the code is modelled.\<close> A Go function with effects is a function in the type \<open>go\<close> of
  \<open>MPC_Prelude\<close>: from a state to a result and a state, \<open>None\<close> being a panic (a nil pointer, a write to
  a nil map, a call of a nil function, an index out of range). Errors are values of \<open>goerror\<close> with
  the wrapping of \<open>%w\<close>; a function that returns \<open>(T, error)\<close> returns a sum. An object that a function
  changes through a pointer is returned with the result. Maps that the code ranges over are
  association lists in the order of the iteration, and the theorems hold for every order. \<open>int\<close>,
  \<open>int32\<close> and \<open>int64\<close> are integers, wrapped around by \<open>i64\<close> where the code adds values that nothing
  bounds; times are nanoseconds.

  Whatever is not in the repository (the API server, the cloud SDKs, clock, random source, network,
  library functions) is the parameter \<open>E\<close> of \<open>Environment\<close>: a function for each call, from the
  history of all calls so far and the arguments to the answer. Each call adds an event with its
  arguments and its answer to the history, so that theorems can say what was done, in which order,
  and on which answers it was based. They hold for every environment; where one needs a documented
  behaviour, a predicate with a name ending in \<open>documented\<close> states it as a hypothesis
  (\<open>documented\<close>: retries, finalizers and objects of the API; \<open>sdk_documented\<close>: which fields the cloud
  SDKs fill in; \<open>versions_documented\<close>: a resource version identifies a content; \<open>clock_documented\<close>;
  \<open>onError_documented\<close>; \<open>rng_documented\<close>; \<open>s3_documented\<close>; \<open>capacity_documented\<close>: reads of the API server
  are current and others leave the assignment of static hosts alone; \<open>poll_documented\<close>;
  \<open>execute_documented\<close>), and a witness has an instance of it.

  \<^bold>\<open>The theories.\<close>

  \<^item> \<open>MPC_Prelude\<close>: values, errors, effects, the calculus of weakest preconditions, the collections
    \<open>wp\<close>, \<open>emits\<close>, \<open>ok\<close>. \<open>Go_Strings\<close>, \<open>Go_Digest\<close>, \<open>Go_Net\<close>: the functions of Go's library that the
    code calls, all executable (splitting, trimming, decimal numbers, hexadecimal, MD5, base64, IP
    addresses), with their round trips.
  \<^item> \<open>Kube_Objects\<close>, \<open>Cloud_Types\<close>, \<open>Environment\<close>, \<open>Calls\<close>: TaskRuns, secrets and pods with the fields
    the controller uses; labels and annotations of \<open>constant.go\<close> and \<open>taskrun.go\<close>; the data of the
    SDKs; state, events and calls. The state is the record \<open>world\<close>: the history, the configuration
    cache of \<open>ReconcileTaskRun\<close>, and the metrics. \<open>Fixtures\<close>: an environment for examples.
  \<^item> \<open>Config\<close> (\<open>config.go\<close>, \<open>validation.go\<close>) and \<open>Config_Props\<close>: all parsers and validators; what they
    accept, and that what they return is well formed and within the bounds that the rest relies on.
  \<^item> \<open>Cloud\<close>, \<open>Provider_Interface\<close> (\<open>cloud.go\<close>), \<open>AWS\<close> (\<open>ec2.go\<close>, \<open>ec2_helpers.go\<close>), \<open>IBMZ\<close>
    (\<open>ibmz.go\<close>, \<open>ibmz_helpers.go\<close>), \<open>IBMP\<close> (\<open>ibmp.go\<close>, \<open>ibmp_helpers.go\<close>, \<open>ibmp_client.go\<close>), \<open>Providers\<close>:
    the Go interface is the record \<open>provider_ops\<close> and its contract the locale \<open>cloud_provider\<close> (an
    operation returns, and does nothing but what its kind may do), interpreted for the three
    providers and for the value that a configuration selects. \<open>Provider_Props\<close>: the tags of EC2
    instances, the names of IBM instances. \<open>Provider_Loops\<close>: the goroutines of the IBM providers.
  \<^item> \<open>TaskRun_Core\<close> (the helpers of \<open>taskrun.go\<close>): the update with conflict resolution, error and user
    secrets, provisioning tasks. \<open>HostPool\<close> (\<open>hostpool.go\<close>), \<open>Dynamic\<close> (\<open>dynamic.go\<close>), \<open>DynamicPool\<close>
    (\<open>dynamicpool.go\<close>, \<open>local.go\<close>): allocation and release for each kind of platform. The Go interface
    \<open>PlatformConfig\<close> is the record \<open>platform_ops\<close>, its contract the locale \<open>platform_config\<close>, whose
    interpretations rest on that of the providers. \<open>Dynamic_Props\<close>, \<open>Pool_Props\<close>: capacity, no lost
    instance, termination of idle old instances only, timeouts and bounds on failed launches.
  \<^item> \<open>Platforms\<close> (\<open>getPlatformConfig\<close> and what it calls): resolution of a platform, with the cache.
    \<open>Metrics\<close> (\<open>platform.go\<close>, \<open>taskrun_exporter.go\<close>). \<open>Reconcile\<close>: \<open>Reconcile\<close> and all handlers of
    \<open>taskrun.go\<close>. \<open>Reconcile_Props\<close>: the reconciler never panics and its writes are confined to what
    the task in hand allows; the release of a host; the wake-up of the oldest task. \<open>Lifecycle_Props\<close>:
    failed hosts are not tried again, retention, error reports; the reachable states of a sequence
    of reconciliations, for which the cache cannot be noticed (a refinement of resolution without a
    cache), and an interleaving of two reconciliations for which it can.
  \<^item> \<open>Updates\<close> (\<open>updates.go\<close>): the periodic update of the static hosts. \<open>Retry\<close> (\<open>pkg/util\<close>): the
    retrying client over an arbitrary client. \<open>OTP\<close> (\<open>cmd/otp\<close>): the password server, with its own
    state, and its refinement of a store in which each key is handed out once.
  \<^item> \<open>Instance_Names\<close>, \<open>Capacity\<close>, \<open>Capacity_Platforms\<close>, \<open>Capacity_Reconcile\<close>, \<open>Capacity_Props\<close>: the slots of
    the static hosts over the whole program. \<open>Instance_Names\<close> extends the contract of the providers (the
    locale \<open>naming_provider\<close>: which names instances have), \<open>Capacity\<close> states the invariant of the stored
    TaskRuns and the cache with a calculus of triples, \<open>Capacity_Platforms\<close> gives each kind of platform
    the contract \<open>bounded_platform\<close>, \<open>Capacity_Reconcile\<close> goes through the handlers. \<open>Capacity_Props\<close>: in
    all states of a process that reconciles one task after another no static host has more users than
    slots; two allocations that overlap break this. Both run on a reference API server.
  \<^item> \<open>Manager\<close> (\<open>cmd/controller/main.go\<close>, \<open>pkg/controller/controller.go\<close>, \<open>taskrun/controller.go\<close>, the runnable
    of \<open>taskrun_exporter.go\<close>): the start of the process over a \<open>controller-runtime\<close> that is a parameter;
    the order of its steps, and that the cache of the manager holds the secrets that are written.
  \<^item> \<open>Devsetup\<close> (\<open>cmd/devsetup/main.go\<close>): the commands and their dispatch, over a file system that is
    part of the state and an environment of their own. \<open>Devsetup_Overlay\<close>: what a deployment writes
    to files. \<open>Devsetup_Props\<close>: command lines without credentials, the deletion of logs, and that the
    cleanup of instances looks for what the EC2 provider starts.

  \<^bold>\<open>Loops and fuel.\<close> Loops over collections are structural recursions. The loops that end because of the
  outside world have fuel, and theorems say how much is enough. The goroutines of the IBM providers
  sleep ten seconds in each round and give up after ten minutes: with a clock that runs, 62 rounds
  are enough (60 sleeps, the round in which the deadline is noticed, and one because the comparison
  is strict); the one loop that ignores the deadline in one case is shown not to end. Listing S3
  objects needs as many rounds as the service has pages. \<open>retry.RetryOnConflict\<close> makes at most five
  attempts and the retrying client four, the steps of the default back-offs. The wait for the resource
  definition makes at most 61 attempts, one at once and then one in each of 60 intervals of five
  seconds. The tickers of the exporter and of the daily update run until the process ends; they are
  given a number of rounds, and what they do is one of the steps of \<open>process_run\<close> for any number.

  \<^bold>\<open>Not modelled.\<close> Logging, what the tools print and their help texts, the parsing of command lines,
  contexts and their deadlines (the limit of 300 seconds on a reconciliation), signals, TLS and the
  listener of \<open>cmd/otp/main.go\<close> beyond their parameters, the injected clients that only tests use, and the
  blank imports of \<open>coverage_init.go\<close> and \<open>pkg/dependencymagnet\<close>. Overlapping reconciliations are modelled
  for the cache and for the allocation from a static pool; between any two calls of a reconciliation
  the environment may answer as if others had acted in the meantime.
\<close>

end
